(* ===== verification/Prelude.thy ===== *)
theory Prelude
  imports Main "HOL-Library.Word" "HOL-Library.AList" "HOL-Library.Sublist"
begin

text \<open>
  Shared vocabulary of the development: the results of Go functions (value, error or
  panic), operations over a state that end early with an error or a panic, Go maps with the
  nil map kept apart, the locale \<open>step_invariant\<close> for invariants of step relations, and
  the lemmas about them that the component theories rely on. A Go string is a sequence of
  bytes, and so is a HOL \<open>string\<close> (a \<open>char\<close> is one byte).
\<close>

section \<open>Collections of rewrite rules\<close>

named_theorems res_simps \<open>unfolding rules for results and the calls that propagate them\<close>
named_theorems gomap_simps \<open>lookup after an update of a Go map\<close>

section \<open>Results of Go functions\<close>

text \<open>
  A Go function returns its values and an \<open>error\<close>, or it panics; \<open>logrus.Fatal\<close> ends
  the process. The errors of the Kubernetes client carry a status reason, which the code
  inspects with \<open>IsNotFound\<close> and \<open>IsAlreadyExists\<close>; an error built with
  \<open>fmt.Errorf\<close> carries only its text, so wrapping an error forgets the reason.
\<close>

datatype status_reason = AlreadyExists | NotFound | OtherReason

datatype gerror =
    StatusError status_reason string
  | Errorf string

datatype gpanic = IndexOutOfRange | NilDereference | NilMapWrite | TypeAssertion | Raised gerror | Exit string

datatype 'a res = Ok 'a | Err gerror | Panic gpanic

fun err_text :: "gerror \<Rightarrow> string" where
  "err_text (StatusError _ msg) = msg"
| "err_text (Errorf msg) = msg"

fun IsNotFound :: "gerror \<Rightarrow> bool" where
  "IsNotFound (StatusError NotFound _) = True"
| "IsNotFound _ = False"

fun IsAlreadyExists :: "gerror \<Rightarrow> bool" where
  "IsAlreadyExists (StatusError AlreadyExists _) = True"
| "IsAlreadyExists _ = False"

fun bind_res :: "'a res \<Rightarrow> ('a \<Rightarrow> 'b res) \<Rightarrow> 'b res" where
  "bind_res (Ok x) f = f x"
| "bind_res (Err e) f = Err e"
| "bind_res (Panic p) f = Panic p"

fun map_res :: "('a \<Rightarrow> 'b) \<Rightarrow> 'a res \<Rightarrow> 'b res" where
  "map_res f (Ok x) = Ok (f x)"
| "map_res f (Err e) = Err e"
| "map_res f (Panic p) = Panic p"

fun is_ok :: "'a res \<Rightarrow> bool" where
  "is_ok (Ok _) = True"
| "is_ok (Err _) = False"
| "is_ok (Panic _) = False"

text \<open>The error text a caller sees after \<open>fmt.Errorf("prefix%v", err)\<close>.\<close>

fun wrap_err :: "string \<Rightarrow> 'a res \<Rightarrow> 'a res" where
  "wrap_err pre (Ok x) = Ok x"
| "wrap_err pre (Err e) = Err (Errorf (pre @ err_text e))"
| "wrap_err pre (Panic p) = Panic p"

lemma bind_res_Ok_iff [res_simps]: "bind_res r f = Ok y \<longleftrightarrow> (\<exists>x. r = Ok x \<and> f x = Ok y)"
  by (cases r) auto

lemma map_res_Ok_iff [res_simps]: "map_res f r = Ok y \<longleftrightarrow> (\<exists>x. r = Ok x \<and> f x = y)"
  by (cases r) auto

lemma is_ok_iff: "is_ok r \<longleftrightarrow> (\<exists>x. r = Ok x)"
  by (cases r) auto

lemma wrap_err_Ok_iff [simp]: "wrap_err pre r = Ok y \<longleftrightarrow> r = Ok y"
  by (cases r) auto

lemma bind_res_assoc: "bind_res (bind_res r f) g = bind_res r (\<lambda>x. bind_res (f x) g)"
  by (cases r) auto

lemma bind_res_cong [fundef_cong]:
  "r = r' \<Longrightarrow> (\<And>x. r' = Ok x \<Longrightarrow> f x = f' x) \<Longrightarrow> bind_res r f = bind_res r' f'"
  by (cases r') auto

text \<open>A value and its error, as a result.\<close>

fun lift_sum :: "gerror + 'a \<Rightarrow> 'a res" where
  "lift_sum (Inl e) = Err e"
| "lift_sum (Inr x) = Ok x"

lemma lift_sum_Ok_iff [res_simps]: "lift_sum r = Ok x \<longleftrightarrow> r = Inr x"
  by (cases r) auto

text \<open>
  The same for a call that also changes a state: a server, a file system, the output of a
  command. An error or a panic leaves the state it found.
\<close>

fun bind_st :: "'a res \<times> 's \<Rightarrow> ('a \<Rightarrow> 's \<Rightarrow> 'b res \<times> 's) \<Rightarrow> 'b res \<times> 's" where
  "bind_st (Ok x, s) f = f x s"
| "bind_st (Err e, s) f = (Err e, s)"
| "bind_st (Panic p, s) f = (Panic p, s)"

lemma bind_st_Ok_iff [res_simps]: "bind_st r f = (Ok y, s') \<longleftrightarrow> (\<exists>x s. r = (Ok x, s) \<and> f x s = (Ok y, s'))"
  by (cases "(r, f)" rule: bind_st.cases) auto

lemma bind_st_assoc: "bind_st (bind_st r f) g = bind_st r (\<lambda>x s. bind_st (f x s) g)"
  by (cases "(r, f)" rule: bind_st.cases) auto

lemma bind_st_cong [fundef_cong]:
  "r = r' \<Longrightarrow> (\<And>x s. r' = (Ok x, s) \<Longrightarrow> f x s = f' x s) \<Longrightarrow> bind_st r f = bind_st r' f'"
  by (cases "(r', f')" rule: bind_st.cases) auto

lemma bind_st_rule:
  assumes "\<And>x s. r = (Ok x, s) \<Longrightarrow> Q (f x s)" and "\<And>e s. r = (Err e, s) \<Longrightarrow> Q (Err e, s)"
    and "\<And>p s. r = (Panic p, s) \<Longrightarrow> Q (Panic p, s)"
  shows "Q (bind_st r f)"
  using assms by (cases "(r, f)" rule: bind_st.cases) auto

text \<open>\<open>fmt.Errorf\<close> around the error of such a call.\<close>

definition wrap_st :: "string \<Rightarrow> 'a res \<times> 's \<Rightarrow> 'a res \<times> 's" where
  "wrap_st pre r = (wrap_err pre (fst r), snd r)"

lemma wrap_st_simps [simp]:
  "wrap_st pre (Ok x, s) = (Ok x, s)" "wrap_st pre (Err e, s) = (Err (Errorf (pre @ err_text e)), s)"
  "wrap_st pre (Panic p, s) = (Panic p, s)"
  by (simp_all add: wrap_st_def)

lemma wrap_st_Ok_iff [simp]: "wrap_st pre r = (Ok x, s) \<longleftrightarrow> r = (Ok x, s)"
  by (cases r) (auto simp: wrap_st_def)

lemma snd_wrap_st [simp]: "snd (wrap_st pre r) = snd r"
  by (simp add: wrap_st_def)

text \<open>A command that ends the process with \<open>Fatal\<close> on an error.\<close>

fun fatal_err :: "'a res \<times> 's \<Rightarrow> 'a res \<times> 's" where
  "fatal_err (Ok x, s) = (Ok x, s)"
| "fatal_err (Err e, s) = (Panic (Exit (err_text e)), s)"
| "fatal_err (Panic p, s) = (Panic p, s)"

lemma fatal_err_Ok_iff [res_simps]: "fatal_err r = (Ok x, s) \<longleftrightarrow> r = (Ok x, s)"
  by (cases r rule: fatal_err.cases) auto

text \<open>Indexing a slice panics outside its bounds.\<close>

definition index :: "'a list \<Rightarrow> nat \<Rightarrow> 'a res" where
  "index xs i = (if i < length xs then Ok (xs ! i) else Panic IndexOutOfRange)"

lemma index_Ok [simp]: "i < length xs \<Longrightarrow> index xs i = Ok (xs ! i)"
  by (simp add: index_def)

lemma index_Panic [simp]: "length xs \<le> i \<Longrightarrow> index xs i = Panic IndexOutOfRange"
  by (simp add: index_def)

text \<open>So does assigning to an element.\<close>

definition assign :: "'a list \<Rightarrow> nat \<Rightarrow> 'a \<Rightarrow> 'a list res" where
  "assign xs i x = (if i < length xs then Ok (xs[i := x]) else Panic IndexOutOfRange)"

section \<open>Go maps from strings to strings\<close>

text \<open>
  A Go map is nil or holds entries. The entries are an association list; the order of the
  list stands for the order in which a \<open>range\<close> statement happens to visit them, which Go
  leaves open, so a statement about every list covers every order. Reading a missing key
  gives the zero value, and so does reading the nil map; writing to the nil map panics.
\<close>

type_synonym gomap = "(string \<times> string) list option"

definition gm_entries :: "gomap \<Rightarrow> (string \<times> string) list" where
  "gm_entries m = (case m of None \<Rightarrow> [] | Some al \<Rightarrow> al)"

definition gm_find :: "gomap \<Rightarrow> string \<Rightarrow> string option" where
  "gm_find m k = map_of (gm_entries m) k"

definition gm_get :: "gomap \<Rightarrow> string \<Rightarrow> string" where
  "gm_get m k = (case gm_find m k of None \<Rightarrow> [] | Some v \<Rightarrow> v)"

definition gm_len :: "gomap \<Rightarrow> nat" where
  "gm_len m = length (gm_entries m)"

definition gm_put :: "gomap \<Rightarrow> string \<Rightarrow> string \<Rightarrow> gomap res" where
  "gm_put m k v = (case m of None \<Rightarrow> Panic NilMapWrite | Some al \<Rightarrow> Ok (Some (AList.update k v al)))"

text \<open>The same write on a map that is known not to be nil.\<close>

definition gm_set :: "gomap \<Rightarrow> string \<Rightarrow> string \<Rightarrow> gomap" where
  "gm_set m k v = Some (AList.update k v (gm_entries m))"

definition wf_gomap :: "gomap \<Rightarrow> bool" where
  "wf_gomap m \<longleftrightarrow> distinct (map fst (gm_entries m))"

lemma gm_entries_simps [simp]: "gm_entries None = []" "gm_entries (Some al) = al"
  by (simp_all add: gm_entries_def)

lemma gm_find_set [gomap_simps]: "gm_find (gm_set m k v) k' = (if k' = k then Some v else gm_find m k')"
  by (simp add: gm_find_def gm_set_def update_conv')

lemma gm_find_update [gomap_simps]:
  "gm_find (Some (AList.update k v al)) k' = (if k' = k then Some v else gm_find (Some al) k')"
  by (simp add: gm_find_def update_conv')

lemma gm_get_set [gomap_simps]: "gm_get (gm_set m k v) k' = (if k' = k then v else gm_get m k')"
  by (simp add: gm_get_def gomap_simps)

lemma gm_put_eq: "m \<noteq> None \<Longrightarrow> gm_put m k v = Ok (gm_set m k v)"
  by (auto simp: gm_put_def gm_set_def)

lemma gm_set_not_nil [simp]: "gm_set m k v \<noteq> None"
  by (simp add: gm_set_def)

lemma wf_gm_set [simp]: "wf_gomap m \<Longrightarrow> wf_gomap (gm_set m k v)"
  by (simp add: wf_gomap_def gm_set_def distinct_update)

lemma gm_len_0_iff: "gm_len m = 0 \<longleftrightarrow> gm_entries m = []"
  by (simp add: gm_len_def)

text \<open>Writing every entry of a list, in order: the \<open>for k, v := range src\<close> loops.\<close>

fun gm_set_all :: "gomap \<Rightarrow> (string \<times> string) list \<Rightarrow> gomap" where
  "gm_set_all m [] = m"
| "gm_set_all m ((k, v) # kvs) = gm_set_all (gm_set m k v) kvs"

lemma gm_find_set_all [gomap_simps]:
  "gm_find (gm_set_all m kvs) k = (case map_of (rev kvs) k of Some v \<Rightarrow> Some v | None \<Rightarrow> gm_find m k)"
  by (induction m kvs rule: gm_set_all.induct)
     (auto simp: gomap_simps map_add_def split: option.splits)

lemma wf_gm_set_all [simp]: "wf_gomap m \<Longrightarrow> wf_gomap (gm_set_all m kvs)"
  by (induction m kvs rule: gm_set_all.induct) auto

lemma map_of_rev_distinct:
  assumes "distinct (map fst kvs)"
  shows "map_of (rev kvs) = map_of kvs"
proof -
  have "inj_on fst (set kvs)" and "distinct kvs"
    using assms by (auto simp: distinct_map)
  then show ?thesis
    using assms by (intro map_of_eqI) (auto simp: rev_map [symmetric])
qed

section \<open>Invariants of a step relation\<close>

text \<open>What every step preserves holds in every state that can be reached.\<close>

locale step_invariant =
  fixes step :: "'w \<Rightarrow> 'w \<Rightarrow> bool"
    and holds :: "'w \<Rightarrow> bool"
  assumes preserved: "holds w \<Longrightarrow> step w w' \<Longrightarrow> holds w'"
begin

lemma reachable:
  assumes "step\<^sup>*\<^sup>* w w'" and "holds w"
  shows "holds w'"
  using assms by (induction rule: rtranclp_induct) (auto intro: preserved)

end

end
