(* ===== verification/GoLib.thy ===== *)
theory GoLib
  imports Prelude
begin

text \<open>
  The functions of Go's standard library that the sources call, as executable definitions:
  \<open>strings\<close> (Contains, HasSuffix, HasPrefix, Split, Join, Replace, IndexAny, ToUpper),
  \<open>strconv\<close> (Itoa, Atoi, ParseInt), \<open>path\<close> (Clean, Join) and \<open>encoding/hex\<close>, with the lemmas
  the component theories use: what a split can be joined back to, that printing and parsing
  an integer are inverse, and what joining a plain name to a directory gives.
\<close>

section \<open>Package strings\<close>

fun contains :: "string \<Rightarrow> string \<Rightarrow> bool" where
  "contains [] sub = (sub = [])"
| "contains (c # cs) sub = (prefix sub (c # cs) \<or> contains cs sub)"

definition has_suffix :: "string \<Rightarrow> string \<Rightarrow> bool" where
  "has_suffix s suf = suffix suf s"

fun split_char :: "char \<Rightarrow> string \<Rightarrow> string list" where
  "split_char c [] = [[]]"
| "split_char c (x # xs) =
     (if x = c then [] # split_char c xs
      else case split_char c xs of [] \<Rightarrow> [[x]] | p # ps \<Rightarrow> (x # p) # ps)"

fun join_str :: "string \<Rightarrow> string list \<Rightarrow> string" where
  "join_str sep [] = []"
| "join_str sep [x] = x"
| "join_str sep (x # y # ys) = x @ sep @ join_str sep (y # ys)"

text \<open>\<open>strings.Replace(s, old, new, -1)\<close> for a non-empty \<open>old\<close>.\<close>

function replace_all :: "string \<Rightarrow> string \<Rightarrow> string \<Rightarrow> string" where
  "replace_all old new [] = []"
| "replace_all old new (c # cs) =
     (if old \<noteq> [] \<and> prefix old (c # cs)
      then new @ replace_all old new (drop (length old) (c # cs))
      else c # replace_all old new cs)"
  by pat_completeness auto
termination
  by (relation "measure (\<lambda>(old, new, s). length s)") auto

text \<open>Byte-wise upper case: exact on ASCII, which is all the sources apply it to.\<close>

definition to_upper_char :: "char \<Rightarrow> char" where
  "to_upper_char c =
     (if 97 \<le> (of_char c :: nat) \<and> (of_char c :: nat) \<le> 122 then char_of (of_char c - 32 :: nat) else c)"

definition to_upper :: "string \<Rightarrow> string" where
  "to_upper s = map to_upper_char s"

text \<open>\<open>strings.IndexAny\<close>, with \<open>None\<close> for -1.\<close>

definition IndexAny :: "string \<Rightarrow> string \<Rightarrow> nat option" where
  "IndexAny s chars =
     (let n = length (takeWhile (\<lambda>c. c \<notin> set chars) s) in if n < length s then Some n else None)"

lemma IndexAny_at:
  assumes "set a \<inter> set chars = {}" and "c \<in> set chars"
  shows "IndexAny (a @ c # b) chars = Some (length a)"
  using assms by (auto simp: IndexAny_def Let_def takeWhile_append)

lemma contains_iff: "contains s sub \<longleftrightarrow> (\<exists>a b. s = a @ sub @ b)"
proof (induction s)
  case Nil
  then show ?case by simp
next
  case (Cons c cs)
  show ?case
  proof
    assume "contains (c # cs) sub"
    then consider "prefix sub (c # cs)" | "contains cs sub" by auto
    then show "\<exists>a b. c # cs = a @ sub @ b"
    proof cases
      case 1
      then obtain b where "c # cs = [] @ sub @ b" by (auto simp: prefix_def)
      then show ?thesis by blast
    next
      case 2
      with Cons.IH obtain a b where "c # cs = (c # a) @ sub @ b" by auto
      then show ?thesis by blast
    qed
  next
    assume "\<exists>a b. c # cs = a @ sub @ b"
    then obtain a b where *: "c # cs = a @ sub @ b" by blast
    show "contains (c # cs) sub"
    proof (cases a)
      case Nil
      with * have "prefix sub (c # cs)" by (simp add: prefix_def)
      then show ?thesis by simp
    next
      case (Cons x a')
      with * have "cs = a' @ sub @ b" by simp
      with Cons.IH show ?thesis by auto
    qed
  qed
qed

lemma contains_append_right: "contains s sub \<Longrightarrow> contains (s @ t) sub"
  by (fastforce simp: contains_iff)

lemma contains_append_left: "contains t sub \<Longrightarrow> contains (s @ t) sub"
  by (metis append.assoc contains_iff)

lemma has_suffix_iff: "has_suffix s suf \<longleftrightarrow> (\<exists>a. s = a @ suf)"
  by (simp add: has_suffix_def suffix_def)

lemma split_char_not_Nil [simp]: "split_char c s \<noteq> []"
  by (cases s) (auto split: list.splits)

lemma split_char_no_sep: "\<forall>p \<in> set (split_char c s). c \<notin> set p"
proof (induction s)
  case Nil
  then show ?case by simp
next
  case (Cons x xs)
  then show ?case
    by (cases "split_char c xs") auto
qed

lemma split_char_absent: "c \<notin> set s \<Longrightarrow> split_char c s = [s]"
  by (induction s) auto

lemma split_char_append: "c \<notin> set a \<Longrightarrow> split_char c (a @ c # b) = a # split_char c b"
  by (induction a) auto

lemma join_split_char: "join_str [c] (split_char c s) = s"
proof (induction s)
  case Nil
  then show ?case by simp
next
  case (Cons x xs)
  obtain p ps where ps: "split_char c xs = p # ps"
    by (cases "split_char c xs") auto
  with Cons show ?case
    by (cases ps) auto
qed

lemma split_char_length: "length (split_char c s) = Suc (length (filter (\<lambda>x. x = c) s))"
  by (induction s) (auto split: list.splits)

text \<open>A split into exactly two parts is the split at the only separator.\<close>

lemma split_char_two_iff:
  "split_char c s = [a, b] \<longleftrightarrow> s = a @ c # b \<and> c \<notin> set a \<and> c \<notin> set b"
proof
  assume s: "split_char c s = [a, b]"
  have "s = a @ c # b"
    using join_split_char [of c s] by (simp add: s)
  with split_char_no_sep [of c s] s show "s = a @ c # b \<and> c \<notin> set a \<and> c \<notin> set b"
    by simp
next
  assume "s = a @ c # b \<and> c \<notin> set a \<and> c \<notin> set b"
  then show "split_char c s = [a, b]"
    by (simp add: split_char_append split_char_absent)
qed

lemma hd_split_char: "hd (split_char c s) = takeWhile (\<lambda>x. x \<noteq> c) s"
  by (induction s) (auto split: list.splits)

lemma join_str_Cons: "xs \<noteq> [] \<Longrightarrow> join_str sep (x # xs) = x @ sep @ join_str sep xs"
  by (cases xs) auto

lemma join_str_append:
  "xs \<noteq> [] \<Longrightarrow> ys \<noteq> [] \<Longrightarrow> join_str sep (xs @ ys) = join_str sep xs @ sep @ join_str sep ys"
proof (induction xs)
  case (Cons x xs)
  then show ?case
    by (cases "xs = []") (simp_all add: join_str_Cons)
qed simp

section \<open>Package strconv\<close>

definition digit :: "nat \<Rightarrow> char" where
  "digit n = ''0123456789'' ! n"

definition digit_val :: "char \<Rightarrow> nat option" where
  "digit_val c = (if 48 \<le> (of_char c :: nat) \<and> (of_char c :: nat) \<le> 57 then Some (of_char c - 48) else None)"

fun show_nat :: "nat \<Rightarrow> string" where
  "show_nat n = (if n < 10 then [digit n] else show_nat (n div 10) @ [digit (n mod 10)])"

declare show_nat.simps [simp del]

definition Itoa :: "int \<Rightarrow> string" where
  "Itoa i = (if i < 0 then ''-'' @ show_nat (nat (- i)) else show_nat (nat i))"

fun read_digits :: "nat \<Rightarrow> string \<Rightarrow> nat option" where
  "read_digits n [] = Some n"
| "read_digits n (c # cs) =
     (case digit_val c of None \<Rightarrow> None | Some d \<Rightarrow> read_digits (10 * n + d) cs)"

definition max_int :: int where "max_int = 2 ^ 63 - 1"
definition min_int :: int where "min_int = - (2 ^ 63)"

text \<open>
  \<open>strconv.Atoi\<close> on a 64-bit platform: the value and whether it came with an error. A
  syntax error yields 0, a value out of range yields the nearest bound.
\<close>

definition atoi_syntax :: "string \<Rightarrow> int option" where
  "atoi_syntax s =
     (case s of
        [] \<Rightarrow> None
      | c # cs \<Rightarrow>
          if c = CHR ''-'' \<or> c = CHR ''+'' then
            (if cs = [] then None
             else map_option (\<lambda>n. if c = CHR ''-'' then - int n else int n) (read_digits 0 cs))
          else map_option int (read_digits 0 s))"

definition Atoi :: "string \<Rightarrow> int \<times> gerror option" where
  "Atoi s =
     (case atoi_syntax s of
        None \<Rightarrow> (0, Some (Errorf (''strconv.Atoi: parsing '' @ s @ '': invalid syntax'')))
      | Some i \<Rightarrow>
          if i > max_int then (max_int, Some (Errorf (''strconv.Atoi: parsing '' @ s @ '': value out of range'')))
          else if i < min_int then (min_int, Some (Errorf (''strconv.Atoi: parsing '' @ s @ '': value out of range'')))
          else (i, None))"

lemma digit_val_digit [simp]:
  assumes "n < 10"
  shows "digit_val (digit n) = Some n"
proof -
  from assms have "n \<in> {0, 1, 2, 3, 4, 5, 6, 7, 8, 9}" by auto
  then show ?thesis by (elim insertE emptyE) (simp_all add: digit_def digit_val_def)
qed

lemma read_digits_append:
  "read_digits n (xs @ ys) = (case read_digits n xs of None \<Rightarrow> None | Some m \<Rightarrow> read_digits m ys)"
  by (induction n xs rule: read_digits.induct) (auto split: option.splits)

lemma read_show_nat [simp]: "read_digits 0 (show_nat n) = Some n"
proof (induction n rule: show_nat.induct)
  case (1 n)
  show ?case
  proof (cases "n < 10")
    case True
    then show ?thesis by (simp add: show_nat.simps [of n])
  next
    case False
    with 1 have "read_digits 0 (show_nat (n div 10)) = Some (n div 10)" by simp
    with False show ?thesis
      by (simp add: show_nat.simps [of n] read_digits_append)
  qed
qed

lemma show_nat_not_Nil [simp]: "show_nat n \<noteq> []"
  by (simp add: show_nat.simps [of n])

lemma digit_not_sign:
  assumes "n < 10"
  shows "digit n \<noteq> CHR ''-'' \<and> digit n \<noteq> CHR ''+''"
proof -
  from assms have "n \<in> {0, 1, 2, 3, 4, 5, 6, 7, 8, 9}" by auto
  then show ?thesis by (elim insertE emptyE) (simp_all add: digit_def)
qed

lemma hd_show_nat: "hd (show_nat n) \<noteq> CHR ''-'' \<and> hd (show_nat n) \<noteq> CHR ''+''"
proof (induction n rule: show_nat.induct)
  case (1 n)
  then show ?case
    by (cases "n < 10") (simp_all add: show_nat.simps [of n] digit_not_sign hd_append)
qed

lemma atoi_syntax_Itoa: "atoi_syntax (Itoa i) = Some i"
proof (cases "i < 0")
  case True
  then show ?thesis by (simp add: Itoa_def atoi_syntax_def)
next
  case False
  obtain c cs where s: "show_nat (nat i) = c # cs"
    by (cases "show_nat (nat i)") auto
  have "c \<noteq> CHR ''-''" "c \<noteq> CHR ''+''"
    using hd_show_nat [of "nat i"] by (simp_all add: s)
  moreover have "read_digits 0 (c # cs) = Some (nat i)"
    using read_show_nat [of "nat i"] by (simp only: s)
  ultimately show ?thesis
    using False by (simp only: Itoa_def atoi_syntax_def s) simp
qed

text \<open>Printing an \<open>int\<close> and parsing it back gives the same value and no error.\<close>

lemma Atoi_Itoa: "min_int \<le> i \<Longrightarrow> i \<le> max_int \<Longrightarrow> Atoi (Itoa i) = (i, None)"
  by (simp add: Atoi_def atoi_syntax_Itoa)

text \<open>\<open>ParseInt\<close> in base 10 for integers of a given width.\<close>

definition ParseInt :: "string \<Rightarrow> nat \<Rightarrow> gerror + int" where
  "ParseInt s bits =
     (case atoi_syntax s of
        None \<Rightarrow> Inl (Errorf (''strconv.ParseInt: parsing '' @ s @ '': invalid syntax''))
      | Some i \<Rightarrow>
          if i < - (2 ^ (bits - 1)) \<or> i \<ge> 2 ^ (bits - 1)
          then Inl (Errorf (''strconv.ParseInt: parsing '' @ s @ '': value out of range''))
          else Inr i)"

lemma ParseInt_Itoa: "- (2 ^ (bits - 1)) \<le> i \<Longrightarrow> i < 2 ^ (bits - 1) \<Longrightarrow> ParseInt (Itoa i) bits = Inr i"
  by (simp add: ParseInt_def atoi_syntax_Itoa)

lemma ParseInt_range:
  "ParseInt s bits = Inr i \<Longrightarrow> - (2 ^ (bits - 1)) \<le> i \<and> i < 2 ^ (bits - 1)"
  by (auto simp: ParseInt_def split: option.splits if_splits)

section \<open>Package encoding/hex\<close>

definition hex_digit :: "nat \<Rightarrow> char" where
  "hex_digit n = ''0123456789abcdef'' ! n"

definition hex_encode :: "string \<Rightarrow> string" where
  "hex_encode bs = concat (map (\<lambda>b. [hex_digit (of_char b div 16), hex_digit (of_char b mod 16)]) bs)"

lemma length_hex_encode [simp]: "length (hex_encode bs) = 2 * length bs"
  by (induction bs) (auto simp: hex_encode_def)

section \<open>Package path\<close>

text \<open>
  \<open>path.Clean\<close> works on the elements between slashes: empty elements and \<open>.\<close> vanish,
  \<open>..\<close> removes the element before it, or, where there is none, vanishes in a rooted path
  and stays in a relative one. The accumulator is the list of kept elements, last first.
\<close>

fun clean_elems :: "bool \<Rightarrow> string list \<Rightarrow> string list \<Rightarrow> string list" where
  "clean_elems rooted acc [] = rev acc"
| "clean_elems rooted acc (e # es) =
     (if e = [] \<or> e = ''.'' then clean_elems rooted acc es
      else if e = ''..'' then
        (case acc of
           [] \<Rightarrow> clean_elems rooted (if rooted then [] else [e]) es
         | a # acc' \<Rightarrow> clean_elems rooted (if a = ''..'' then e # acc else acc') es)
      else clean_elems rooted (e # acc) es)"

definition Clean :: "string \<Rightarrow> string" where
  "Clean p =
     (let rooted = (prefix ''/'' p);
          s = join_str ''/'' (clean_elems rooted [] (split_char (CHR ''/'') p))
      in if rooted then ''/'' @ s else if s = [] then ''.'' else s)"

definition path_join :: "string list \<Rightarrow> string" where
  "path_join elems =
     (let es = filter (\<lambda>e. e \<noteq> []) elems in if es = [] then [] else Clean (join_str ''/'' es))"

lemma clean_elems_plain:
  assumes "\<forall>e \<in> set es. e \<noteq> [] \<and> e \<noteq> ''.'' \<and> e \<noteq> ''..''"
  shows "clean_elems rooted acc es = rev acc @ es"
  using assms by (induction es arbitrary: acc) auto

text \<open>A plain file name is joined to a rooted, clean directory by one slash.\<close>

definition plain_name :: "string \<Rightarrow> bool" where
  "plain_name e \<longleftrightarrow> e \<noteq> [] \<and> e \<noteq> ''.'' \<and> e \<noteq> ''..'' \<and> CHR ''/'' \<notin> set e"

lemma path_join_plain:
  assumes "plain_name d" and "plain_name e"
  shows "path_join [''/'' @ d, e] = ''/'' @ d @ ''/'' @ e"
proof -
  have "split_char (CHR ''/'') (''/'' @ d @ ''/'' @ e) = [[], d, e]"
    using assms by (simp add: plain_name_def split_char_append split_char_absent)
  then have "clean_elems True [] (split_char (CHR ''/'') (''/'' @ d @ ''/'' @ e)) = [d, e]"
    using assms by (simp add: plain_name_def)
  with assms show ?thesis
    by (simp add: path_join_def Clean_def plain_name_def)
qed

text \<open>Joined to any directory, a plain file name becomes the last element of the path.\<close>

lemma split_char_append_sep: "split_char c (a @ c # b) = split_char c a @ split_char c b"
proof (induction a)
  case (Cons x a)
  then show ?case by (cases "split_char c a") auto
qed simp

lemma clean_elems_snoc:
  assumes "plain_name e"
  shows "clean_elems rooted acc (es @ [e]) = clean_elems rooted acc es @ [e]"
  using assms by (induction rooted acc es rule: clean_elems.induct) (auto simp: plain_name_def split: list.splits)

lemma path_join_snoc: "\<exists>pre. \<forall>e. plain_name e \<longrightarrow> path_join [dir, e] = pre @ e"
proof (cases "dir = []")
  case True
  then have "path_join [dir, e] = [] @ e" if "plain_name e" for e
    using that clean_elems_snoc [of e False "[]" "[]"]
    by (auto simp: path_join_def Clean_def plain_name_def split_char_absent prefix_def)
  then show ?thesis by blast
next
  case False
  define rooted where "rooted = prefix ''/'' dir"
  define es where "es = clean_elems rooted [] (split_char (CHR ''/'') dir)"
  define pre where "pre = (if rooted then ''/'' else []) @ (if es = [] then [] else join_str ''/'' es @ ''/'')"
  have "path_join [dir, e] = pre @ e" if e: "plain_name e" for e
  proof -
    have r: "prefix ''/'' (dir @ CHR ''/'' # e) = rooted"
      using False by (cases dir) (auto simp: rooted_def)
    have c: "clean_elems rooted [] (split_char (CHR ''/'') (dir @ CHR ''/'' # e)) = es @ [e]"
      using e clean_elems_snoc [OF e] by (simp add: split_char_append_sep split_char_absent plain_name_def es_def)
    have "path_join [dir, e] = Clean (dir @ CHR ''/'' # e)"
      using e False by (simp add: path_join_def plain_name_def)
    also have "\<dots> = pre @ e"
      unfolding Clean_def Let_def r c
      using e join_str_append [of es "[e]" "''/''"] by (auto simp: pre_def plain_name_def)
    finally show ?thesis .
  qed
  then show ?thesis by blast
qed

lemma path_join_inj: "plain_name e \<Longrightarrow> plain_name e' \<Longrightarrow> path_join [dir, e] = path_join [dir, e'] \<longleftrightarrow> e = e'"
  using path_join_snoc [of dir] by auto

lemma hex_digit_not_slash: "n < 16 \<Longrightarrow> hex_digit n \<in> set ''0123456789abcdef''"
  unfolding hex_digit_def by (intro nth_mem) simp

lemma set_hex_encode: "set (hex_encode bs) \<subseteq> set ''0123456789abcdef''"
proof -
  have "hex_digit (of_char b div 16) \<in> set ''0123456789abcdef''" "hex_digit (of_char b mod 16) \<in> set ''0123456789abcdef''" for b
    using nat_of_char_less_256 [of b] by (intro hex_digit_not_slash less_mult_imp_div_less; simp)+
  then show ?thesis unfolding hex_encode_def by (induction bs) auto
qed

lemma plain_hex_encode: "bs \<noteq> [] \<Longrightarrow> plain_name (hex_encode bs)"
  using set_hex_encode [of bs] length_hex_encode [of bs]
  by (cases "hex_encode bs") (auto simp: plain_name_def)

end
