(* ===== verification/KubeTypes.thy ===== *)
theory KubeTypes
  imports GoLib
begin

text \<open>
  The data the program works on: the Function custom resource of
  \<open>pkg/apis/kubeless/v1beta1\<close> and the Kubernetes objects it is turned into, as records
  with the fields the sources read or write. A Go zero value is a constant \<open>zero_...\<close>.
  Every Kubernetes API group is reached through a typed client, a record of calls over an
  abstract server state, so that a definition that talks to the API server takes the server
  as an argument and a theorem about it holds for every server, also one that other clients
  change between two calls. \<open>logged_client\<close> records the calls that go through a client.
\<close>

section \<open>Object metadata\<close>

type_synonym int32 = "32 word"
type_synonym int64 = "64 word"

text \<open>
  A timestamp is a pointer: its address, which is what \<open>!=\<close> on two pointers compares, and
  the instant it points to.
\<close>

datatype time_ptr = TimePtr (ptr_addr: nat) (ptr_time: int)

record owner_reference =
  or_Kind :: string
  or_APIVersion :: string
  or_Name :: string
  or_UID :: string

record object_meta =
  om_Name :: string
  om_Namespace :: string
  om_UID :: string
  om_ResourceVersion :: string
  om_Labels :: gomap
  om_Annotations :: gomap
  om_OwnerReferences :: "owner_reference list"
  om_Finalizers :: "string list"
  om_DeletionTimestamp :: "time_ptr option"

definition zero_meta :: object_meta where
  "zero_meta = \<lparr>om_Name = [], om_Namespace = [], om_UID = [], om_ResourceVersion = [],
     om_Labels = None, om_Annotations = None, om_OwnerReferences = [], om_Finalizers = [],
     om_DeletionTimestamp = None\<rparr>"

section \<open>Pods\<close>

record env_var =
  ev_Name :: string
  ev_Value :: string

record volume_mount =
  vm_Name :: string
  vm_ReadOnly :: bool
  vm_MountPath :: string

datatype volume_source = EmptyDirVolume | ConfigMapVolume string | SecretVolume string | OtherVolume string

record volume =
  vol_Name :: string
  vol_Source :: volume_source

text \<open>
  A resource quantity is represented by its canonical text; the zero quantity prints as
  \<open>0\<close>, which is also what \<open>Memory()\<close> gives for a list without a memory entry.
\<close>

type_synonym resource_list = "(string \<times> string) list"

record resource_requirements =
  rr_Limits :: resource_list
  rr_Requests :: resource_list

definition zero_resources :: resource_requirements where
  "zero_resources = \<lparr>rr_Limits = [], rr_Requests = []\<rparr>"

definition memory_string :: "resource_list \<Rightarrow> string" where
  "memory_string rl = (case map_of rl ''memory'' of None \<Rightarrow> ''0'' | Some q \<Rightarrow> q)"

datatype int_or_string = IntVal int32 | StrVal string

definition IntValue :: "int_or_string \<Rightarrow> int" where
  "IntValue v = (case v of IntVal i \<Rightarrow> sint i | StrVal s \<Rightarrow> fst (Atoi s))"

record probe =
  pr_InitialDelaySeconds :: int32
  pr_PeriodSeconds :: int32
  pr_HTTPGet :: "(string \<times> int_or_string) option"

record container =
  c_Name :: string
  c_Image :: string
  c_Command :: "string list"
  c_Args :: "string list"
  c_WorkingDir :: string
  c_Ports :: "int32 list"
  c_Env :: "env_var list"
  c_Resources :: resource_requirements
  c_VolumeMounts :: "volume_mount list"
  c_LivenessProbe :: "probe option"
  c_ImagePullPolicy :: string

definition zero_container :: container where
  "zero_container = \<lparr>c_Name = [], c_Image = [], c_Command = [], c_Args = [], c_WorkingDir = [],
     c_Ports = [], c_Env = [], c_Resources = zero_resources, c_VolumeMounts = [],
     c_LivenessProbe = None, c_ImagePullPolicy = []\<rparr>"

record pod_security_context =
  sc_RunAsUser :: "int64 option"
  sc_FSGroup :: "int64 option"

record pod_affinity_term =
  pa_Weight :: int32
  pa_MatchLabels :: gomap
  pa_TopologyKey :: string

type_synonym affinity = "pod_affinity_term list"

record pod_spec =
  ps_Volumes :: "volume list"
  ps_InitContainers :: "container list"
  ps_Containers :: "container list"
  ps_RestartPolicy :: string
  ps_ServiceAccountName :: string
  ps_NodeSelector :: gomap
  ps_SecurityContext :: "pod_security_context option"
  ps_ImagePullSecrets :: "string list"
  ps_Affinity :: "affinity option"

definition zero_pod_spec :: pod_spec where
  "zero_pod_spec = \<lparr>ps_Volumes = [], ps_InitContainers = [], ps_Containers = [],
     ps_RestartPolicy = [], ps_ServiceAccountName = [], ps_NodeSelector = None,
     ps_SecurityContext = None, ps_ImagePullSecrets = [], ps_Affinity = None\<rparr>"

section \<open>Workloads, services and configuration\<close>

record pod_template =
  pt_Labels :: gomap
  pt_Annotations :: gomap
  pt_Spec :: pod_spec

text \<open>
  The selector is a pointer to a label selector, of which the sources use the map
  \<open>MatchLabels\<close>; the strategy is absent or a rolling update with a bound on unavailable pods.
\<close>

record deployment_spec =
  ds_Replicas :: "int32 option"
  ds_Selector :: "gomap option"
  ds_Template :: pod_template
  ds_MaxUnavailable :: "int_or_string option"

record deployment =
  d_Meta :: object_meta
  d_Spec :: deployment_spec
  d_ReadyReplicas :: int32
  d_StatusReplicas :: int32

definition zero_deployment :: deployment where
  "zero_deployment =
     \<lparr>d_Meta = zero_meta,
      d_Spec = \<lparr>ds_Replicas = None, ds_Selector = None,
        ds_Template = \<lparr>pt_Labels = None, pt_Annotations = None, pt_Spec = zero_pod_spec\<rparr>,
        ds_MaxUnavailable = None\<rparr>,
      d_ReadyReplicas = 0, d_StatusReplicas = 0\<rparr>"

abbreviation d_PodSpec :: "deployment \<Rightarrow> pod_spec" where
  "d_PodSpec d \<equiv> pt_Spec (ds_Template (d_Spec d))"

definition upd_template :: "(pod_template \<Rightarrow> pod_template) \<Rightarrow> deployment \<Rightarrow> deployment" where
  "upd_template f d = d\<lparr>d_Spec := (d_Spec d)\<lparr>ds_Template := f (ds_Template (d_Spec d))\<rparr>\<rparr>"

definition upd_pod :: "(pod_spec \<Rightarrow> pod_spec) \<Rightarrow> deployment \<Rightarrow> deployment" where
  "upd_pod f = upd_template (\<lambda>t. t\<lparr>pt_Spec := f (pt_Spec t)\<rparr>)"

text \<open>Writing through \<open>Containers[0]\<close>; the callers have made sure the slice is not empty.\<close>

definition upd_c0 :: "(container \<Rightarrow> container) \<Rightarrow> pod_spec \<Rightarrow> pod_spec" where
  "upd_c0 f p =
     p\<lparr>ps_Containers := (case ps_Containers p of [] \<Rightarrow> [] | c # cs \<Rightarrow> f c # cs)\<rparr>"

record service_port =
  sp_Name :: string
  sp_Protocol :: string
  sp_Port :: int32
  sp_TargetPort :: int_or_string
  sp_NodePort :: int32

record service_spec =
  ss_Ports :: "service_port list"
  ss_Selector :: gomap
  ss_Type :: string
  ss_ClusterIP :: string

definition zero_service_spec :: service_spec where
  "zero_service_spec = \<lparr>ss_Ports = [], ss_Selector = None, ss_Type = [], ss_ClusterIP = []\<rparr>"

record service =
  svc_Meta :: object_meta
  svc_Spec :: service_spec

record configmap =
  cm_Meta :: object_meta
  cm_Data :: gomap

record secret =
  sec_Name :: string
  sec_Data :: "(string \<times> string) list"

record job =
  j_Meta :: object_meta
  j_PodSpec :: pod_spec

record service_monitor =
  sm_Meta :: object_meta
  sm_MatchLabels :: gomap
  sm_Endpoints :: "string list"

text \<open>
  The metric of an autoscaling rule: a resource with its target utilization, which may be
  absent, an object metric (its name, target value, and the kind and name of its target), or
  another type.
\<close>

datatype metric_source =
    ResourceMetric string "int32 option"
  | ObjectMetric string string string string
  | OtherMetric string

definition metric_type :: "metric_source \<Rightarrow> string" where
  "metric_type m = (case m of ResourceMetric _ _ \<Rightarrow> ''Resource'' | ObjectMetric _ _ _ _ \<Rightarrow> ''Object'' | OtherMetric t \<Rightarrow> t)"

record hpa =
  hpa_APIVersion :: string
  hpa_Kind :: string
  hpa_Meta :: object_meta
  hpa_TargetAPIVersion :: string
  hpa_TargetKind :: string
  hpa_TargetName :: string
  hpa_MinReplicas :: "int32 option"
  hpa_MaxReplicas :: int32
  hpa_Metrics :: "metric_source list"

definition zero_hpa :: hpa where
  "zero_hpa = \<lparr>hpa_APIVersion = [], hpa_Kind = [], hpa_Meta = zero_meta, hpa_TargetAPIVersion = [], hpa_TargetKind = [],
     hpa_TargetName = [], hpa_MinReplicas = None, hpa_MaxReplicas = 0, hpa_Metrics = []\<rparr>"

section \<open>The Function custom resource\<close>

record function_spec =
  fs_Handler :: string
  fs_Function :: string
  fs_FunctionContentType :: string
  fs_Checksum :: string
  fs_Runtime :: string
  fs_Timeout :: string
  fs_Deps :: string
  fs_Deployment :: deployment
  fs_ServiceSpec :: service_spec
  fs_HorizontalPodAutoscaler :: hpa

record kfunction =
  f_Kind :: string
  f_APIVersion :: string
  f_Meta :: object_meta
  f_Spec :: function_spec

definition zero_function :: kfunction where
  "zero_function = \<lparr>f_Kind = [], f_APIVersion = [], f_Meta = zero_meta,
     f_Spec = \<lparr>fs_Handler = [], fs_Function = [], fs_FunctionContentType = [], fs_Checksum = [],
       fs_Runtime = [], fs_Timeout = [], fs_Deps = [], fs_Deployment = zero_deployment,
       fs_ServiceSpec = zero_service_spec, fs_HorizontalPodAutoscaler = zero_hpa\<rparr>\<rparr>"

abbreviation f_Name :: "kfunction \<Rightarrow> string" where
  "f_Name f \<equiv> om_Name (f_Meta f)"

abbreviation f_Namespace :: "kfunction \<Rightarrow> string" where
  "f_Namespace f \<equiv> om_Namespace (f_Meta f)"

abbreviation f_Labels :: "kfunction \<Rightarrow> gomap" where
  "f_Labels f \<equiv> om_Labels (f_Meta f)"

definition set_f_Labels :: "gomap \<Rightarrow> kfunction \<Rightarrow> kfunction" where
  "set_f_Labels ls f = f\<lparr>f_Meta := (f_Meta f)\<lparr>om_Labels := ls\<rparr>\<rparr>"

lemma set_f_Labels_simps [simp]:
  "f_Labels (set_f_Labels ls f) = ls"
  "f_Name (set_f_Labels ls f) = f_Name f"
  "f_Namespace (set_f_Labels ls f) = f_Namespace f"
  "om_UID (f_Meta (set_f_Labels ls f)) = om_UID (f_Meta f)"
  "om_Annotations (f_Meta (set_f_Labels ls f)) = om_Annotations (f_Meta f)"
  "om_Finalizers (f_Meta (set_f_Labels ls f)) = om_Finalizers (f_Meta f)"
  "f_Spec (set_f_Labels ls f) = f_Spec f"
  "set_f_Labels ls (set_f_Labels ls' f) = set_f_Labels ls f"
  "set_f_Labels (f_Labels f) f = f"
  by (simp_all add: set_f_Labels_def)

section \<open>Clients of the API server\<close>

type_synonym ('s, 'a) api = "'s \<Rightarrow> (gerror + 'a) \<times> 's"

record ('s, 'o) client =
  cl_get :: "string \<Rightarrow> string \<Rightarrow> ('s, 'o) api"
  cl_list :: "string \<Rightarrow> string \<Rightarrow> ('s, 'o list) api"
  cl_create :: "string \<Rightarrow> 'o \<Rightarrow> ('s, 'o) api"
  cl_update :: "string \<Rightarrow> 'o \<Rightarrow> ('s, 'o) api"
  cl_patch :: "string \<Rightarrow> string \<Rightarrow> 'o \<Rightarrow> ('s, 'o) api"
  cl_delete :: "string \<Rightarrow> string \<Rightarrow> ('s, unit) api"
  cl_delete_collection :: "string \<Rightarrow> string \<Rightarrow> ('s, unit) api"

text \<open>
  The clientsets of the controller: one client for each kind of object.
\<close>

record 's clientset =
  ConfigMaps :: "('s, configmap) client"
  Services :: "('s, service) client"
  Deployments :: "('s, deployment) client"
  Jobs :: "('s, job) client"
  Secrets :: "('s, secret) client"
  HPAs :: "('s, hpa) client"
  Functions :: "('s, kfunction) client"

datatype 'o call =
    CGet string string "gerror + 'o"
  | CList string string "gerror + 'o list"
  | CCreate string 'o "gerror + 'o"
  | CUpdate string 'o "gerror + 'o"
  | CPatch string string 'o "gerror + 'o"
  | CDelete string string "gerror + unit"
  | CDeleteCollection string string "gerror + unit"

definition log_call :: "('s, 'a) api \<Rightarrow> ((gerror + 'a) \<Rightarrow> 'e) \<Rightarrow> ('s \<times> 'e list, 'a) api" where
  "log_call m ev = (\<lambda>(s, l). (fst (m s), (snd (m s), l @ [ev (fst (m s))])))"

definition logged_client :: "('o call \<Rightarrow> 'e) \<Rightarrow> ('s, 'o) client \<Rightarrow> ('s \<times> 'e list, 'o) client" where
  "logged_client mk c =
     \<lparr>cl_get = (\<lambda>ns n. log_call (cl_get c ns n) (\<lambda>r. mk (CGet ns n r))),
      cl_list = (\<lambda>ns sel. log_call (cl_list c ns sel) (\<lambda>r. mk (CList ns sel r))),
      cl_create = (\<lambda>ns o'. log_call (cl_create c ns o') (\<lambda>r. mk (CCreate ns o' r))),
      cl_update = (\<lambda>ns o'. log_call (cl_update c ns o') (\<lambda>r. mk (CUpdate ns o' r))),
      cl_patch = (\<lambda>ns n o'. log_call (cl_patch c ns n o') (\<lambda>r. mk (CPatch ns n o' r))),
      cl_delete = (\<lambda>ns n. log_call (cl_delete c ns n) (\<lambda>r. mk (CDelete ns n r))),
      cl_delete_collection =
        (\<lambda>ns sel. log_call (cl_delete_collection c ns sel) (\<lambda>r. mk (CDeleteCollection ns sel r)))\<rparr>"

datatype event =
    EvConfigMap "configmap call"
  | EvService "service call"
  | EvDeployment "deployment call"
  | EvJob "job call"
  | EvSecret "secret call"
  | EvHPA "hpa call"
  | EvFunction "kfunction call"
  | EvServiceMonitor "service_monitor call"

definition logged_clientset :: "'s clientset \<Rightarrow> ('s \<times> event list) clientset" where
  "logged_clientset k =
     \<lparr>ConfigMaps = logged_client EvConfigMap (ConfigMaps k),
      Services = logged_client EvService (Services k),
      Deployments = logged_client EvDeployment (Deployments k),
      Jobs = logged_client EvJob (Jobs k),
      Secrets = logged_client EvSecret (Secrets k),
      HPAs = logged_client EvHPA (HPAs k),
      Functions = logged_client EvFunction (Functions k)\<rparr>"

named_theorems log_simps \<open>what a logged call returns and adds to the log\<close>

lemma log_call_apply [log_simps]:
  "log_call m ev (s, l) = (fst (m s), (snd (m s), l @ [ev (fst (m s))]))"
  by (simp add: log_call_def)

declare logged_client_def [log_simps] logged_clientset_def [log_simps]

text \<open>The same call by call, without unfolding a client that is passed on.\<close>

named_theorems call_simps \<open>one call of a logged client\<close>

lemma logged_clientset_sel [call_simps]:
  "ConfigMaps (logged_clientset k) = logged_client EvConfigMap (ConfigMaps k)"
  "Services (logged_clientset k) = logged_client EvService (Services k)"
  "Deployments (logged_clientset k) = logged_client EvDeployment (Deployments k)"
  "Jobs (logged_clientset k) = logged_client EvJob (Jobs k)"
  "Secrets (logged_clientset k) = logged_client EvSecret (Secrets k)"
  "HPAs (logged_clientset k) = logged_client EvHPA (HPAs k)"
  "Functions (logged_clientset k) = logged_client EvFunction (Functions k)"
  by (simp_all add: logged_clientset_def)

lemma logged_client_call [call_simps]:
  "cl_get (logged_client mk c) ns n (s, l) =
     (fst (cl_get c ns n s), (snd (cl_get c ns n s), l @ [mk (CGet ns n (fst (cl_get c ns n s)))]))"
  "cl_create (logged_client mk c) ns x (s, l) =
     (fst (cl_create c ns x s), (snd (cl_create c ns x s), l @ [mk (CCreate ns x (fst (cl_create c ns x s)))]))"
  "cl_update (logged_client mk c) ns x (s, l) =
     (fst (cl_update c ns x s), (snd (cl_update c ns x s), l @ [mk (CUpdate ns x (fst (cl_update c ns x s)))]))"
  "cl_patch (logged_client mk c) ns n x (s, l) =
     (fst (cl_patch c ns n x s), (snd (cl_patch c ns n x s), l @ [mk (CPatch ns n x (fst (cl_patch c ns n x s)))]))"
  "cl_delete (logged_client mk c) ns n (s, l) =
     (fst (cl_delete c ns n s), (snd (cl_delete c ns n s), l @ [mk (CDelete ns n (fst (cl_delete c ns n s)))]))"
  "cl_delete_collection (logged_client mk c) ns n (s, l) =
     (fst (cl_delete_collection c ns n s),
      (snd (cl_delete_collection c ns n s), l @ [mk (CDeleteCollection ns n (fst (cl_delete_collection c ns n s)))]))"
  by (simp_all add: logged_client_def log_call_def)

end
