(* ===== verification/Langruntime.thy ===== *)
theory Langruntime
  imports KubeTypes
begin

text \<open>
  The runtime registry, \<open>pkg/langruntime/langruntime.go\<close>: which runtimes and versions the
  configuration offers, and the init containers, images, secrets and probes it implies for
  a function. The two regular expressions that take a runtime name apart are anchored
  character classes, so they are a longest prefix and a longest suffix of the name. The
  YAML decoder and the process environment are parameters.
\<close>

section \<open>Configuration data\<close>

record image =
  img_Phase :: string
  img_Image :: string
  img_Command :: string
  img_Env :: gomap
  img_Secrets :: "string list"

record runtime_version =
  rv_Name :: string
  rv_Version :: string
  rv_Images :: "image list"
  rv_ImagePullSecrets :: "string list"

record runtime_info =
  ri_ID :: string
  ri_Versions :: "runtime_version list"
  ri_LivenessProbeInfo :: "probe option"
  ri_DepName :: string
  ri_FileNameSuffix :: string

record langruntimes =
  lr_kubelessConfig :: configmap
  lr_AvailableRuntimes :: "runtime_info list"

definition PhaseInstallation :: string where "PhaseInstallation = ''installation''"
definition PhaseCompilation :: string where "PhaseCompilation = ''compilation''"
definition PhaseRuntime :: string where "PhaseRuntime = ''runtime''"

section \<open>Reading the configuration\<close>

definition New :: "configmap \<Rightarrow> langruntimes" where
  "New config = \<lparr>lr_kubelessConfig = config, lr_AvailableRuntimes = []\<rparr>"

text \<open>
  The decoder gets the text and the slice it decodes into. A text that does not decode
  ends the process.
\<close>

definition ReadConfigMap ::
  "(string \<Rightarrow> runtime_info list \<Rightarrow> gerror + runtime_info list) \<Rightarrow> langruntimes \<Rightarrow> langruntimes res" where
  "ReadConfigMap unmarshal l =
     (case gm_find (cm_Data (lr_kubelessConfig l)) ''runtime-images'' of
        None \<Rightarrow> Ok l
      | Some runtimeImages \<Rightarrow>
          (case unmarshal runtimeImages (lr_AvailableRuntimes l) of
             Inl e \<Rightarrow> Panic (Exit (''Unable to get the runtime images: '' @ err_text e))
           | Inr rs \<Rightarrow> Ok (l\<lparr>lr_AvailableRuntimes := rs\<rparr>)))"

definition GetRuntimes :: "langruntimes \<Rightarrow> string list" where
  "GetRuntimes l = concat (map (\<lambda>ri. map (\<lambda>rv. ri_ID ri @ rv_Version rv) (ri_Versions ri)) (lr_AvailableRuntimes l))"

definition IsValidRuntime :: "langruntimes \<Rightarrow> string \<Rightarrow> bool" where
  "IsValidRuntime l r = list_ex (\<lambda>v. r = v) (GetRuntimes l)"

section \<open>Taking a runtime name apart\<close>

definition is_letter :: "char \<Rightarrow> bool" where
  "is_letter c \<longleftrightarrow>
     (65 \<le> (of_char c :: nat) \<and> (of_char c :: nat) \<le> 90) \<or> (97 \<le> (of_char c :: nat) \<and> (of_char c :: nat) \<le> 122)"

definition is_id_char :: "char \<Rightarrow> bool" where
  "is_id_char c \<longleftrightarrow> is_letter c \<or> c = CHR ''_'' \<or> c = CHR ''-''"

definition is_version_char :: "char \<Rightarrow> bool" where
  "is_version_char c \<longleftrightarrow> (48 \<le> (of_char c :: nat) \<and> (of_char c :: nat) \<le> 57) \<or> c = CHR ''.''"

definition getVersionFromRuntime :: "string \<Rightarrow> string" where
  "getVersionFromRuntime r = rev (takeWhile is_version_char (rev r))"

definition GetRuntimeInfo :: "langruntimes \<Rightarrow> string \<Rightarrow> runtime_info res" where
  "GetRuntimeInfo l r =
     (case find (\<lambda>ri. ri_ID ri = takeWhile is_id_char r) (lr_AvailableRuntimes l) of
        Some ri \<Rightarrow> Ok ri
      | None \<Rightarrow> Err (Errorf (''Unable to find '' @ r @ '' as runtime'')))"

definition FromInt :: "int \<Rightarrow> int_or_string" where
  "FromInt i = IntVal (word_of_int i)"

definition GetLivenessProbeInfo :: "langruntimes \<Rightarrow> string \<Rightarrow> int \<Rightarrow> probe" where
  "GetLivenessProbeInfo l r port =
     (let livenessProbe =
            \<lparr>pr_InitialDelaySeconds = 3, pr_PeriodSeconds = 30,
             pr_HTTPGet = Some (''/healthz'', FromInt port)\<rparr>
      in case find (\<lambda>ri. ri_ID ri = takeWhile is_letter r) (lr_AvailableRuntimes l) of
           None \<Rightarrow> livenessProbe
         | Some ri \<Rightarrow> (case ri_LivenessProbeInfo ri of Some p \<Rightarrow> p | None \<Rightarrow> livenessProbe))"

definition findRuntimeVersion :: "langruntimes \<Rightarrow> string \<Rightarrow> runtime_version res" where
  "findRuntimeVersion l r =
     bind_res (GetRuntimeInfo l r) (\<lambda>ri.
       case find (\<lambda>rv. rv_Version rv = getVersionFromRuntime r) (ri_Versions ri) of
         Some rv \<Rightarrow> Ok rv
       | None \<Rightarrow> Err (Errorf (''The given runtime and version '' @ r @ '' is not valid'')))"

definition findImage :: "string \<Rightarrow> runtime_version \<Rightarrow> image option" where
  "findImage phase rv = find (\<lambda>i. img_Phase i = phase) (rv_Images rv)"

definition getAvailableRuntimesPerTrigger :: "langruntimes \<Rightarrow> string \<Rightarrow> string list" where
  "getAvailableRuntimesPerTrigger l imageType =
     concat (map (\<lambda>ri. map (\<lambda>rv. ri_ID ri @ rv_Version rv)
       (filter (\<lambda>rv. findImage PhaseRuntime rv \<noteq> None) (ri_Versions ri))) (lr_AvailableRuntimes l))"

section \<open>Images and secrets\<close>

text \<open>
  The error for a version without a runtime image is built but never returned: the last
  statement of the Go function is \<open>return imageName, nil\<close>.
\<close>

definition GetFunctionImage :: "(string \<Rightarrow> string) \<Rightarrow> langruntimes \<Rightarrow> string \<Rightarrow> string res" where
  "GetFunctionImage getenv l r =
     bind_res (GetRuntimeInfo l r) (\<lambda>ri.
       let imageName = getenv (to_upper (ri_ID ri) @ getVersionFromRuntime r @ ''_RUNTIME'')
       in if imageName = [] then
            bind_res (findRuntimeVersion l r) (\<lambda>rv.
              case findImage PhaseRuntime rv of
                None \<Rightarrow> Ok imageName
              | Some i \<Rightarrow> Ok (img_Image i))
          else Ok imageName)"

definition GetImageSecrets :: "langruntimes \<Rightarrow> string \<Rightarrow> string list res" where
  "GetImageSecrets l r = bind_res (findRuntimeVersion l r) (\<lambda>rv. Ok (rv_ImagePullSecrets rv))"

definition name2phase :: "string \<Rightarrow> string" where
  "name2phase n =
     (if n = ''compile'' then PhaseCompilation else if n = ''install'' then PhaseInstallation else n)"

definition GetInitContainerSecrets :: "langruntimes \<Rightarrow> string \<Rightarrow> string \<Rightarrow> string list res" where
  "GetInitContainerSecrets l r n =
     bind_res (findRuntimeVersion l r) (\<lambda>rv.
       case find (\<lambda>i. img_Phase i = name2phase n) (rv_Images rv) of
         None \<Rightarrow> Ok []
       | Some i \<Rightarrow> Ok (img_Secrets i))"

section \<open>Containers\<close>

definition appendToCommand :: "string \<Rightarrow> string list \<Rightarrow> string" where
  "appendToCommand orig command =
     (if length orig > 0 then orig @ '' && '' @ join_str '' && '' command else join_str '' && '' command)"

definition parseEnv :: "gomap \<Rightarrow> env_var list" where
  "parseEnv env = map (\<lambda>(k, v). \<lparr>ev_Name = k, ev_Value = v\<rparr>) (gm_entries env)"

definition GetBuildContainer ::
  "langruntimes \<Rightarrow> string \<Rightarrow> string \<Rightarrow> env_var list \<Rightarrow> volume_mount \<Rightarrow> resource_requirements \<Rightarrow> container res" where
  "GetBuildContainer l r depsChecksum env installVolume resources =
     bind_res (GetRuntimeInfo l r) (\<lambda>ri.
       let depsFile = path_join [vm_MountPath installVolume, ri_DepName ri] in
       bind_res (findRuntimeVersion l r) (\<lambda>rv.
         case findImage PhaseInstallation rv of
           None \<Rightarrow> Ok zero_container
         | Some i \<Rightarrow>
             let shaFile = ''/tmp/deps.sha256'';
                 command =
                   (if depsChecksum \<noteq> [] then
                      appendToCommand []
                        [''echo '' @ [CHR 0x27] @ depsChecksum @ ''  '' @ depsFile @ [CHR 0x27] @ '' > '' @ shaFile,
                         ''sha256sum -c '' @ shaFile,
                         img_Command i]
                    else appendToCommand [] [img_Command i])
             in Ok \<lparr>c_Name = ''install'', c_Image = img_Image i, c_Command = [''sh'', ''-c''],
                    c_Args = [command], c_WorkingDir = vm_MountPath installVolume, c_Ports = [],
                    c_Env = env
                      @ [\<lparr>ev_Name = ''KUBELESS_INSTALL_VOLUME'', ev_Value = vm_MountPath installVolume\<rparr>,
                         \<lparr>ev_Name = ''KUBELESS_DEPS_FILE'', ev_Value = depsFile\<rparr>]
                      @ parseEnv (img_Env i),
                    c_Resources = resources, c_VolumeMounts = [installVolume],
                    c_LivenessProbe = None, c_ImagePullPolicy = ''IfNotPresent''\<rparr>))"

definition UpdateDeployment :: "langruntimes \<Rightarrow> deployment \<Rightarrow> string \<Rightarrow> string \<Rightarrow> deployment res" where
  "UpdateDeployment l dpm volPath r =
     (case findRuntimeVersion l r of
        Ok rv \<Rightarrow>
          if ps_Containers (d_PodSpec dpm) = [] then Panic IndexOutOfRange
          else
            let dpm1 = upd_pod (upd_c0 (\<lambda>c. c\<lparr>c_Env := c_Env c @
                  [\<lparr>ev_Name = ''KUBELESS_INSTALL_VOLUME'', ev_Value = volPath\<rparr>]\<rparr>)) dpm
            in (case findImage PhaseRuntime rv of
                  None \<Rightarrow> Ok dpm1
                | Some i \<Rightarrow> Ok (upd_pod (upd_c0 (\<lambda>c. c\<lparr>c_Env := c_Env c @ parseEnv (img_Env i)\<rparr>)) dpm1))
      | Err e \<Rightarrow> Ok dpm
      | Panic p \<Rightarrow> Panic p)"

definition GetCompilationContainer ::
  "langruntimes \<Rightarrow> string \<Rightarrow> string \<Rightarrow> env_var list \<Rightarrow> volume_mount \<Rightarrow> resource_requirements \<Rightarrow> container option res" where
  "GetCompilationContainer l r funcName env installVolume resources =
     bind_res (findRuntimeVersion l r) (\<lambda>rv.
       case findImage PhaseCompilation rv of
         None \<Rightarrow> Ok None
       | Some i \<Rightarrow>
           Ok (Some \<lparr>c_Name = ''compile'', c_Image = img_Image i, c_Command = [''sh'', ''-c''],
                c_Args = [img_Command i], c_WorkingDir = vm_MountPath installVolume, c_Ports = [],
                c_Env = env
                  @ [\<lparr>ev_Name = ''KUBELESS_INSTALL_VOLUME'', ev_Value = vm_MountPath installVolume\<rparr>,
                     \<lparr>ev_Name = ''KUBELESS_FUNC_NAME'', ev_Value = funcName\<rparr>]
                  @ parseEnv (img_Env i),
                c_Resources = resources, c_VolumeMounts = [installVolume],
                c_LivenessProbe = None, c_ImagePullPolicy = ''IfNotPresent''\<rparr>))"

section \<open>Well-formed configurations\<close>

text \<open>
  What the documentation asks of a runtime configuration: identifiers made of letters,
  underscores and dashes, one entry per identifier, versions made of digits and dots, one
  entry per version.
\<close>

definition wf_runtime_info :: "runtime_info \<Rightarrow> bool" where
  "wf_runtime_info ri \<longleftrightarrow>
     ri_ID ri \<noteq> [] \<and> list_all is_id_char (ri_ID ri) \<and>
     list_all (\<lambda>rv. list_all is_version_char (rv_Version rv)) (ri_Versions ri) \<and>
     distinct (map rv_Version (ri_Versions ri))"

definition wf_langruntimes :: "langruntimes \<Rightarrow> bool" where
  "wf_langruntimes l \<longleftrightarrow>
     list_all wf_runtime_info (lr_AvailableRuntimes l) \<and>
     distinct (map ri_ID (lr_AvailableRuntimes l))"

section \<open>Lemmas\<close>

lemma id_version_disjoint: "is_id_char c \<Longrightarrow> \<not> is_version_char c"
  by (auto simp: is_id_char_def is_version_char_def is_letter_def)

lemma takeWhile_id_prefix:
  assumes "list_all is_id_char i" and "list_all is_version_char v"
  shows "takeWhile is_id_char (i @ v) = i"
  using assms id_version_disjoint by (cases v) (auto simp: list_all_iff takeWhile_append)

lemma getVersionFromRuntime_append:
  assumes "list_all is_id_char i" and "list_all is_version_char v"
  shows "getVersionFromRuntime (i @ v) = v"
proof -
  have "takeWhile is_version_char (rev v @ rev i) = rev v"
    using assms id_version_disjoint
    by (cases "rev i") (auto simp: list_all_iff takeWhile_append simp flip: set_rev [of i])
  then show ?thesis by (simp add: getVersionFromRuntime_def)
qed

lemma find_distinct:
  assumes "distinct (map f xs)" and "x \<in> set xs"
  shows "find (\<lambda>y. f y = f x) xs = Some x"
  using assms by (induction xs) (auto simp: image_iff)

lemma find_SomeD: "find P xs = Some x \<Longrightarrow> x \<in> set xs \<and> P x"
  by (induction xs) (auto split: if_splits)

lemma GetRuntimes_iff:
  "r \<in> set (GetRuntimes l) \<longleftrightarrow>
     (\<exists>ri \<in> set (lr_AvailableRuntimes l). \<exists>rv \<in> set (ri_Versions ri). r = ri_ID ri @ rv_Version rv)"
  by (auto simp: GetRuntimes_def)

lemma IsValidRuntime_iff: "IsValidRuntime l r \<longleftrightarrow> r \<in> set (GetRuntimes l)"
  by (simp add: IsValidRuntime_def list_ex_iff)

lemma GetRuntimeInfo_wf:
  assumes "wf_langruntimes l" and "ri \<in> set (lr_AvailableRuntimes l)" and "list_all is_version_char v"
  shows "GetRuntimeInfo l (ri_ID ri @ v) = Ok ri"
proof -
  have "list_all is_id_char (ri_ID ri)" and d: "distinct (map ri_ID (lr_AvailableRuntimes l))"
    using assms by (auto simp: wf_langruntimes_def wf_runtime_info_def list_all_iff)
  then have "takeWhile is_id_char (ri_ID ri @ v) = ri_ID ri"
    using assms(3) by (simp add: takeWhile_id_prefix)
  with find_distinct [OF d assms(2)] show ?thesis
    by (simp add: GetRuntimeInfo_def)
qed

lemma findRuntimeVersion_wf:
  assumes "wf_langruntimes l" and "ri \<in> set (lr_AvailableRuntimes l)" and "rv \<in> set (ri_Versions ri)"
  shows "findRuntimeVersion l (ri_ID ri @ rv_Version rv) = Ok rv"
proof -
  have ri: "wf_runtime_info ri"
    using assms by (auto simp: wf_langruntimes_def list_all_iff)
  then have v: "list_all is_version_char (rv_Version rv)" and i: "list_all is_id_char (ri_ID ri)"
    and d: "distinct (map rv_Version (ri_Versions ri))"
    using assms(3) by (auto simp: wf_runtime_info_def list_all_iff)
  show ?thesis
    using GetRuntimeInfo_wf [OF assms(1,2) v] find_distinct [OF d assms(3)]
    by (simp add: findRuntimeVersion_def getVersionFromRuntime_append [OF i v])
qed

lemma GetRuntimeInfo_not_Panic [simp]: "GetRuntimeInfo l r \<noteq> Panic p"
  by (simp add: GetRuntimeInfo_def split: option.splits)

lemma findRuntimeVersion_not_Panic [simp]: "findRuntimeVersion l r \<noteq> Panic p"
  by (cases "GetRuntimeInfo l r") (auto simp: findRuntimeVersion_def split: option.splits)

lemma findRuntimeVersion_OkD:
  assumes "findRuntimeVersion l r = Ok rv"
  shows "\<exists>ri. GetRuntimeInfo l r = Ok ri \<and> ri \<in> set (lr_AvailableRuntimes l) \<and>
    rv \<in> set (ri_Versions ri) \<and> ri_ID ri = takeWhile is_id_char r \<and>
    rv_Version rv = getVersionFromRuntime r"
proof -
  obtain ri where ri: "GetRuntimeInfo l r = Ok ri"
    using assms by (auto simp: findRuntimeVersion_def res_simps)
  then have "ri \<in> set (lr_AvailableRuntimes l) \<and> ri_ID ri = takeWhile is_id_char r"
    by (auto simp: GetRuntimeInfo_def split: option.splits dest: find_SomeD)
  moreover have "rv \<in> set (ri_Versions ri) \<and> rv_Version rv = getVersionFromRuntime r"
    using assms ri by (auto simp: findRuntimeVersion_def split: option.splits dest: find_SomeD)
  ultimately show ?thesis using ri by blast
qed

lemma appendToCommand_chain:
  "cs \<noteq> [] \<Longrightarrow> ds \<noteq> [] \<Longrightarrow> join_str '' && '' cs \<noteq> [] \<Longrightarrow>
   appendToCommand (appendToCommand [] cs) ds = join_str '' && '' (cs @ ds)"
  by (simp add: appendToCommand_def join_str_append)

section \<open>The registry as an interface\<close>

text \<open>
  What the code that prepares pods relies on: a lookup never panics, and a version that is
  found belongs to the runtime that is found for the same name.
\<close>

locale runtime_registry =
  fixes info :: "string \<Rightarrow> runtime_info res"
    and version :: "string \<Rightarrow> runtime_version res"
    and image_secrets :: "string \<Rightarrow> string list res"
    and container_secrets :: "string \<Rightarrow> string \<Rightarrow> string list res"
  assumes info_not_Panic: "info r \<noteq> Panic p"
    and version_info: "version r = Ok rv \<Longrightarrow> \<exists>ri. info r = Ok ri \<and> rv \<in> set (ri_Versions ri)"
    and version_not_Panic: "version r \<noteq> Panic p"
    and image_secrets_ok: "version r = Ok rv \<Longrightarrow> image_secrets r = Ok (rv_ImagePullSecrets rv)"
    and container_secrets_ok: "version r = Ok rv \<Longrightarrow> is_ok (container_secrets r n)"
begin

lemma registered_everything_ok:
  assumes "is_ok (version r)"
  shows "is_ok (info r) \<and> is_ok (image_secrets r) \<and> is_ok (container_secrets r n)"
proof -
  obtain rv where rv: "version r = Ok rv" using assms by (auto simp: is_ok_iff)
  then have "is_ok (info r)" using version_info by (auto simp: is_ok_iff)
  moreover have "is_ok (image_secrets r)" using rv image_secrets_ok by simp
  ultimately show ?thesis using rv container_secrets_ok by blast
qed

lemma unknown_runtime:
  assumes "info r = Err e"
  shows "\<exists>e'. version r = Err e'"
  using assms version_info version_not_Panic by (cases "version r") fastforce+

end

interpretation lr: runtime_registry "GetRuntimeInfo l" "findRuntimeVersion l" "GetImageSecrets l"
  "GetInitContainerSecrets l" for l
proof unfold_locales
  fix r rv
  assume "findRuntimeVersion l r = Ok rv"
  then show "\<exists>ri. GetRuntimeInfo l r = Ok ri \<and> rv \<in> set (ri_Versions ri)"
    using findRuntimeVersion_OkD by blast
qed (simp_all add: GetImageSecrets_def GetInitContainerSecrets_def split: option.splits)

section \<open>What a configured runtime gives\<close>

text \<open>
  In a well-formed configuration, a runtime is valid exactly when it is the name and
  version of a configured entry, and then its lookup, its pull secrets and the secrets of
  its init containers are all found: a runtime that passes validation never fails later for
  being unknown.
\<close>

theorem IsValidRuntime_resolves:
  assumes "wf_langruntimes l" and "IsValidRuntime l r"
  shows "\<exists>ri rv. ri \<in> set (lr_AvailableRuntimes l) \<and> rv \<in> set (ri_Versions ri) \<and>
    r = ri_ID ri @ rv_Version rv \<and> GetRuntimeInfo l r = Ok ri \<and> findRuntimeVersion l r = Ok rv \<and>
    GetImageSecrets l r = Ok (rv_ImagePullSecrets rv) \<and> is_ok (GetInitContainerSecrets l r n) \<and>
    is_ok (GetFunctionImage getenv l r)"
proof -
  obtain ri rv where ri: "ri \<in> set (lr_AvailableRuntimes l)" and rv: "rv \<in> set (ri_Versions ri)"
    and r: "r = ri_ID ri @ rv_Version rv"
    using assms(2) by (auto simp: IsValidRuntime_iff GetRuntimes_iff)
  have v: "list_all is_version_char (rv_Version rv)"
    using assms(1) ri rv by (auto simp: wf_langruntimes_def wf_runtime_info_def list_all_iff)
  have i: "GetRuntimeInfo l r = Ok ri" and f: "findRuntimeVersion l r = Ok rv"
    using GetRuntimeInfo_wf [OF assms(1) ri v] findRuntimeVersion_wf [OF assms(1) ri rv] r by simp_all
  have "is_ok (GetImageSecrets l r)" "is_ok (GetInitContainerSecrets l r n)"
    using lr.registered_everything_ok [of l r n] f by simp_all
  moreover have "is_ok (GetFunctionImage getenv l r)"
    using i f by (auto simp: GetFunctionImage_def Let_def split: option.splits)
  ultimately show ?thesis
    using ri rv r i f lr.image_secrets_ok [OF f] by blast
qed

text \<open>
  A runtime version without a runtime image, and without an override in the environment,
  is not an error: the image name comes back empty.
\<close>

theorem GetFunctionImage_missing:
  assumes "GetRuntimeInfo l r = Ok ri" and "findRuntimeVersion l r = Ok rv"
  shows "GetFunctionImage getenv l r = Ok [] \<longleftrightarrow>
    getenv (to_upper (ri_ID ri) @ getVersionFromRuntime r @ ''_RUNTIME'') = [] \<and>
    (findImage PhaseRuntime rv = None \<or> (\<exists>i. findImage PhaseRuntime rv = Some i \<and> img_Image i = []))"
  using assms by (auto simp: GetFunctionImage_def Let_def split: option.splits)

text \<open>
  The liveness probe of a runtime whose identifier contains an underscore or a dash is
  always the default one, whatever its configuration says: the probe is looked up under the
  leading letters of the name only, while every other lookup also takes underscores and
  dashes.
\<close>

theorem GetLivenessProbeInfo_special:
  assumes "wf_langruntimes l" and "ri \<in> set (lr_AvailableRuntimes l)" and "rv \<in> set (ri_Versions ri)"
    and "CHR ''_'' \<in> set (ri_ID ri) \<or> CHR ''-'' \<in> set (ri_ID ri)"
    and "takeWhile is_letter (ri_ID ri) \<notin> ri_ID ` set (lr_AvailableRuntimes l)"
  shows "GetRuntimeInfo l (ri_ID ri @ rv_Version rv) = Ok ri \<and>
    GetLivenessProbeInfo l (ri_ID ri @ rv_Version rv) port =
      \<lparr>pr_InitialDelaySeconds = 3, pr_PeriodSeconds = 30, pr_HTTPGet = Some (''/healthz'', FromInt port)\<rparr>"
proof -
  have v: "list_all is_version_char (rv_Version rv)"
    using assms(1-3) by (auto simp: wf_langruntimes_def wf_runtime_info_def list_all_iff)
  have "\<not> is_letter (CHR ''_'')" "\<not> is_letter (CHR ''-'')"
    by (simp_all add: is_letter_def)
  then have "\<not> (\<forall>c \<in> set (ri_ID ri). is_letter c)"
    using assms(4) by blast
  then have "takeWhile is_letter (ri_ID ri @ rv_Version rv) = takeWhile is_letter (ri_ID ri)"
    by (auto simp: takeWhile_append1)
  then have "find (\<lambda>x. ri_ID x = takeWhile is_letter (ri_ID ri @ rv_Version rv)) (lr_AvailableRuntimes l) = None"
    using assms(5) by (auto simp: find_None_iff image_iff)
  then show ?thesis
    using GetRuntimeInfo_wf [OF assms(1,2) v] by (simp add: GetLivenessProbeInfo_def)
qed

end
