(* ===== verification/Sha256.thy ===== *)
theory Sha256
  imports Prelude
begin

text \<open>
  \<open>crypto/sha256\<close>, which the sources use for function checksums, image tags and layer
  digests: the padding, message schedule and compression of FIPS 180-4 over 32-bit words.
  A digest always has 32 bytes, so its hexadecimal form has 64 characters.
\<close>

unbundle bit_operations_syntax

type_synonym u32 = "32 word"

section \<open>Constants\<close>

text \<open>
  The constants are the first 32 bits of the fractional parts of roots of the first primes:
  cube roots for the rounds, square roots for the initial state. \<open>root_bits\<close> finds an integer
  root bit by bit; the root of \<open>p * 2 ^ (32 * k)\<close> is the root of \<open>p\<close> with 32 binary places,
  of which a 32-bit word keeps the fractional part.
\<close>

fun root_bits :: "nat \<Rightarrow> nat \<Rightarrow> nat \<Rightarrow> nat \<Rightarrow> nat" where
  "root_bits k n 0 r = r"
| "root_bits k n (Suc b) r = root_bits k n b (if (r + 2 ^ b) ^ k \<le> n then r + 2 ^ b else r)"

definition root_fraction :: "nat \<Rightarrow> nat \<Rightarrow> u32" where
  "root_fraction k p = word_of_nat (root_bits k (p * 2 ^ (32 * k)) 37 0)"

definition primes_below :: "nat \<Rightarrow> nat list" where
  "primes_below m = filter (\<lambda>p. list_all (\<lambda>d. p mod d \<noteq> 0) [2..<p]) [2..<m]"

definition round_constants :: "u32 list" where
  "round_constants = map (root_fraction 3) (primes_below 312)"

type_synonym hash_state = "u32 \<times> u32 \<times> u32 \<times> u32 \<times> u32 \<times> u32 \<times> u32 \<times> u32"

definition initial_hash :: hash_state where
  "initial_hash =
     (root_fraction 2 2, root_fraction 2 3, root_fraction 2 5, root_fraction 2 7,
      root_fraction 2 11, root_fraction 2 13, root_fraction 2 17, root_fraction 2 19)"

lemma root_bits_floor:
  assumes "r ^ k \<le> n" and "n < (r + 2 ^ b) ^ k"
  shows "root_bits k n b r ^ k \<le> n \<and> n < (root_bits k n b r + 1) ^ k"
  using assms by (induction k n b r rule: root_bits.induct) (auto simp: mult_2 add.assoc)

section \<open>Padding and words\<close>

definition byte_of_nat :: "nat \<Rightarrow> char" where
  "byte_of_nat n = char_of (n mod 256)"

fun be_bytes :: "nat \<Rightarrow> nat \<Rightarrow> string" where
  "be_bytes 0 n = []"
| "be_bytes (Suc k) n = be_bytes k (n div 256) @ [byte_of_nat n]"

definition pad :: "string \<Rightarrow> string" where
  "pad m =
     (let n = length m; z = (119 - n mod 64) mod 64
      in m @ [byte_of_nat 128] @ replicate z (byte_of_nat 0) @ be_bytes 8 (8 * n))"

fun words_of :: "string \<Rightarrow> u32 list" where
  "words_of (a # b # c # d # rest) =
     word_of_nat (((of_char a * 256 + of_char b) * 256 + of_char c) * 256 + of_char d) # words_of rest"
| "words_of _ = []"

fun blocks_of :: "nat \<Rightarrow> u32 list \<Rightarrow> u32 list list" where
  "blocks_of 0 ws = []"
| "blocks_of (Suc n) ws = take 16 ws # blocks_of n (drop 16 ws)"

section \<open>Compression\<close>

definition small_sigma0 :: "u32 \<Rightarrow> u32" where
  "small_sigma0 x = word_rotr 7 x XOR word_rotr 18 x XOR drop_bit 3 x"

definition small_sigma1 :: "u32 \<Rightarrow> u32" where
  "small_sigma1 x = word_rotr 17 x XOR word_rotr 19 x XOR drop_bit 10 x"

fun extend :: "nat \<Rightarrow> u32 list \<Rightarrow> u32 list" where
  "extend 0 ws = ws"
| "extend (Suc k) ws =
     extend k (ws @ [small_sigma1 (ws ! (length ws - 2)) + ws ! (length ws - 7)
       + small_sigma0 (ws ! (length ws - 15)) + ws ! (length ws - 16)])"

fun sha_round :: "hash_state \<Rightarrow> u32 \<times> u32 \<Rightarrow> hash_state" where
  "sha_round (a, b, c, d, e, f, g, h) (k, w) =
     (let s1 = word_rotr 6 e XOR word_rotr 11 e XOR word_rotr 25 e;
          ch = (e AND f) XOR (NOT e AND g);
          t1 = h + s1 + ch + k + w;
          s0 = word_rotr 2 a XOR word_rotr 13 a XOR word_rotr 22 a;
          maj = (a AND b) XOR (a AND c) XOR (b AND c);
          t2 = s0 + maj
      in (t1 + t2, a, b, c, d + t1, e, f, g))"

fun add_state :: "hash_state \<Rightarrow> hash_state \<Rightarrow> hash_state" where
  "add_state (a, b, c, d, e, f, g, h) (a', b', c', d', e', f', g', h') =
     (a + a', b + b', c + c', d + d', e + e', f + f', g + g', h + h')"

definition compress :: "hash_state \<Rightarrow> u32 list \<Rightarrow> hash_state" where
  "compress st blk = add_state st (foldl sha_round st (zip round_constants (extend 48 blk)))"

fun digest_bytes :: "hash_state \<Rightarrow> string" where
  "digest_bytes (a, b, c, d, e, f, g, h) =
     concat (map (\<lambda>w. be_bytes 4 (unat w)) [a, b, c, d, e, f, g, h])"

definition sha256 :: "string \<Rightarrow> string" where
  "sha256 m =
     (let p = pad m
      in digest_bytes (foldl compress initial_hash (blocks_of (length p div 64) (words_of p))))"

section \<open>Lengths\<close>

lemma length_be_bytes [simp]: "length (be_bytes k n) = k"
  by (induction k n rule: be_bytes.induct) auto

lemma length_digest_bytes [simp]: "length (digest_bytes st) = 32"
  by (induction st rule: digest_bytes.induct) simp

lemma length_sha256 [simp]: "length (sha256 m) = 32"
  by (simp add: sha256_def Let_def)

end
