(* ===== verification/Provision.thy ===== *)
theory Provision
  imports Langruntime Sha256
begin

text \<open>
  Preparing the pod of a function, the first part of \<open>pkg/utils/kubelessutil.go\<close>: labels,
  handler and file names, and the shell command of the init container that fetches,
  verifies and unpacks the function. \<open>getProvisionContainer\<close> is split at the points where
  the source separates its stages by comments.
\<close>

section \<open>Labels and handlers\<close>

definition addDefaultLabel :: "gomap \<Rightarrow> gomap" where
  "addDefaultLabel labels = gm_set labels ''created-by'' ''kubeless''"

text \<open>
  \<open>addDefaultLabel\<close> writes into the map it is given unless that map is nil, so this is what
  the caller's own map holds after the call.
\<close>

definition addDefaultLabel_arg :: "gomap \<Rightarrow> gomap" where
  "addDefaultLabel_arg labels = (case labels of None \<Rightarrow> None | Some _ \<Rightarrow> addDefaultLabel labels)"

definition hasDefaultLabel :: "gomap \<Rightarrow> bool" where
  "hasDefaultLabel labels \<longleftrightarrow> labels \<noteq> None \<and> gm_get labels ''created-by'' = ''kubeless''"

definition splitHandler :: "string \<Rightarrow> (string \<times> string) res" where
  "splitHandler handler =
     (let str = split_char (CHR ''.'') handler
      in if length str \<noteq> 2
         then Err (Errorf ''failed: incorrect handler format. It should be module_name.handler_name'')
         else Ok (str ! 0, str ! 1))"

definition getFileName :: "langruntimes \<Rightarrow> string \<Rightarrow> string \<Rightarrow> string \<Rightarrow> string res" where
  "getFileName l handler funcContentType runtime =
     bind_res (splitHandler handler) (\<lambda>(modName, _).
       if funcContentType = ''text'' \<or> funcContentType = [] \<or> funcContentType = ''url'' \<or> funcContentType = ''base64''
       then (case GetRuntimeInfo l runtime of
               Ok ri \<Rightarrow> Ok (modName @ ri_FileNameSuffix ri)
             | Err _ \<Rightarrow> Ok modName
             | Panic p \<Rightarrow> Panic p)
       else Ok modName)"

definition getRuntimeVolumeMount :: "string \<Rightarrow> volume_mount" where
  "getRuntimeVolumeMount name = \<lparr>vm_Name = name, vm_ReadOnly = False, vm_MountPath = ''/kubeless''\<rparr>"

definition getChecksum :: "string \<Rightarrow> string" where
  "getChecksum content = hex_encode (sha256 content)"

section \<open>The command of the prepare container\<close>

definition quote :: "string \<Rightarrow> string" where
  "quote s = [CHR 0x27] @ s @ [CHR 0x27]"

text \<open>Stage 1: bring the function file where the later stages find it.\<close>

definition provision_fetch :: "string \<Rightarrow> string \<Rightarrow> string \<Rightarrow> (string \<times> string) res" where
  "provision_fetch function contentType originFile =
     (if contains contentType ''base64'' then
        let decodedFile = ''/tmp/func.decoded''
        in Ok (appendToCommand [] [''base64 -d < '' @ originFile @ '' > '' @ decodedFile], decodedFile)
      else if contains contentType ''url'' then
        let fromURLFile = ''/tmp/func.fromurl''
        in Ok (appendToCommand [] [''curl '' @ quote function @ '' -L --silent --output '' @ fromURLFile], fromURLFile)
      else if contains contentType ''text'' \<or> contentType = [] then Ok ([], originFile)
      else Err (Errorf (''Unable to prepare function of type '' @ contentType @ '': Unknown format'')))"

text \<open>
  Stage 2: verify the checksum. The part after the colon is read with an index expression,
  which panics for a checksum \<open>sha256\<close> without a colon.
\<close>

definition provision_verify :: "string \<Rightarrow> string \<Rightarrow> string \<Rightarrow> string res" where
  "provision_verify prepareCommand checksum originFile =
     (if checksum = [] then Ok prepareCommand
      else
        let checksumInfo = split_char (CHR '':'') checksum;
            shaFile = ''/tmp/func.sha256''
        in if checksumInfo ! 0 = ''sha256'' then
             bind_res (index checksumInfo 1) (\<lambda>sum.
               Ok (appendToCommand prepareCommand
                     [''echo '' @ quote (sum @ ''  '' @ originFile) @ '' > '' @ shaFile,
                      ''sha256sum -c '' @ shaFile]))
           else Err (Errorf (''Unable to verify checksum '' @ checksum @ '': Unknown format'')))"

text \<open>Stage 3: unpack an archive or copy the single file.\<close>

definition provision_unpack ::
  "langruntimes \<Rightarrow> string \<Rightarrow> string \<Rightarrow> string \<Rightarrow> string \<Rightarrow> string \<Rightarrow> volume_mount \<Rightarrow> string res" where
  "provision_unpack l prepareCommand originFile handler contentType runtime runtimeVolume =
     (if contains contentType ''zip'' then
        Ok (appendToCommand prepareCommand [''unzip -o '' @ originFile @ '' -d '' @ vm_MountPath runtimeVolume])
      else if contains contentType ''compressedtar'' then
        Ok (appendToCommand prepareCommand [''tar xf '' @ originFile @ '' -C '' @ vm_MountPath runtimeVolume])
      else
        bind_res (getFileName l handler contentType runtime) (\<lambda>destFileName.
          let dest = path_join [vm_MountPath runtimeVolume, destFileName]
          in Ok (appendToCommand prepareCommand [''cp '' @ originFile @ '' '' @ dest])))"

text \<open>Stage 4: copy the dependencies file.\<close>

definition provision_deps :: "langruntimes \<Rightarrow> string \<Rightarrow> string \<Rightarrow> string \<Rightarrow> volume_mount \<Rightarrow> volume_mount \<Rightarrow> string" where
  "provision_deps l prepareCommand contentType runtime runtimeVolume depsVolume =
     (case GetRuntimeInfo l runtime of
        Ok ri \<Rightarrow>
          if ri_DepName ri \<noteq> [] \<and> \<not> contains contentType ''deps'' then
            appendToCommand prepareCommand
              [''cp '' @ path_join [vm_MountPath depsVolume, ri_DepName ri] @ '' '' @ vm_MountPath runtimeVolume]
          else prepareCommand
      | _ \<Rightarrow> prepareCommand)"

definition getProvisionContainer ::
  "langruntimes \<Rightarrow> string \<Rightarrow> string \<Rightarrow> string \<Rightarrow> string \<Rightarrow> string \<Rightarrow> string \<Rightarrow> string
   \<Rightarrow> volume_mount \<Rightarrow> volume_mount \<Rightarrow> resource_requirements \<Rightarrow> container res" where
  "getProvisionContainer l function checksum fileName handler contentType runtime prepareImage
     runtimeVolume depsVolume resources =
     bind_res (provision_fetch function contentType (path_join [vm_MountPath depsVolume, fileName]))
       (\<lambda>(cmd1, originFile).
     bind_res (provision_verify cmd1 checksum originFile) (\<lambda>cmd2.
     bind_res (provision_unpack l cmd2 originFile handler contentType runtime runtimeVolume) (\<lambda>cmd3.
       Ok (zero_container\<lparr>c_Name := ''prepare'', c_Image := prepareImage,
             c_Command := [''sh'', ''-c''],
             c_Args := [provision_deps l cmd3 contentType runtime runtimeVolume depsVolume],
             c_VolumeMounts := [runtimeVolume, depsVolume],
             c_ImagePullPolicy := ''IfNotPresent'', c_Resources := resources\<rparr>))))"

section \<open>Handlers and labels\<close>

lemma splitHandler_Ok_iff:
  "splitHandler h = Ok (m, fn) \<longleftrightarrow> h = m @ ''.'' @ fn \<and> CHR ''.'' \<notin> set m \<and> CHR ''.'' \<notin> set fn"
proof -
  have "splitHandler h = Ok (m, fn) \<longleftrightarrow> split_char (CHR ''.'') h = [m, fn]"
    by (auto simp: splitHandler_def Let_def length_Suc_conv numeral_2_eq_2)
  then show ?thesis by (simp add: split_char_two_iff)
qed

lemma splitHandler_not_Panic [simp]: "splitHandler h \<noteq> Panic q"
  by (simp add: splitHandler_def Let_def)

text \<open>
  A handler is accepted exactly when it has one dot, and the module and function names
  are the parts around it: splitting inverts joining them with a dot.
\<close>

theorem splitHandler_roundtrip:
  "splitHandler h = Ok (m, fn) \<longleftrightarrow>
     h = m @ ''.'' @ fn \<and> length (filter (\<lambda>c. c = CHR ''.'') h) = 1 \<and> CHR ''.'' \<notin> set m"
proof -
  have "length (filter (\<lambda>c. c = CHR ''.'') (m @ ''.'' @ fn)) = 1 \<longleftrightarrow>
    CHR ''.'' \<notin> set m \<and> CHR ''.'' \<notin> set fn"
    by (auto simp: filter_empty_conv)
  then show ?thesis by (auto simp: splitHandler_Ok_iff)
qed

lemma hasDefaultLabel_add [simp]: "hasDefaultLabel (addDefaultLabel ls)"
  by (simp add: hasDefaultLabel_def addDefaultLabel_def gomap_simps)

lemma addDefaultLabel_not_nil [simp]: "addDefaultLabel ls \<noteq> None"
  by (simp add: addDefaultLabel_def)

lemma addDefaultLabel_other: "k \<noteq> ''created-by'' \<Longrightarrow> gm_find (addDefaultLabel ls) k = gm_find ls k"
  by (simp add: addDefaultLabel_def gomap_simps)

lemma addDefaultLabel_arg_simps [simp]:
  "addDefaultLabel_arg None = None"
  "ls \<noteq> None \<Longrightarrow> addDefaultLabel_arg ls = addDefaultLabel ls"
  by (auto simp: addDefaultLabel_arg_def)

lemma getFileName_not_Panic [simp]: "getFileName l h ct r \<noteq> Panic q"
  by (cases "splitHandler h"; cases "GetRuntimeInfo l r")
     (auto simp: getFileName_def split: if_splits)

lemma length_getChecksum [simp]: "length (getChecksum c) = 64"
  by (simp add: getChecksum_def)

section \<open>What the prepare command does\<close>

text \<open>
  The command as a list of steps, the abstract view of the string the code assembles: each
  step runs only when the one before it succeeded.
\<close>

datatype step =
    DecodeFile string string
  | DownloadFile string string
  | WriteChecksum string string
  | CheckChecksum
  | UnzipFile string string
  | UntarFile string string
  | CopyFile string string

fun render :: "step \<Rightarrow> string" where
  "render (DecodeFile src dst) = ''base64 -d < '' @ src @ '' > '' @ dst"
| "render (DownloadFile url dst) = ''curl '' @ quote url @ '' -L --silent --output '' @ dst"
| "render (WriteChecksum h file) = ''echo '' @ quote (h @ ''  '' @ file) @ '' > /tmp/func.sha256''"
| "render CheckChecksum = ''sha256sum -c /tmp/func.sha256''"
| "render (UnzipFile src dir) = ''unzip -o '' @ src @ '' -d '' @ dir"
| "render (UntarFile src dir) = ''tar xf '' @ src @ '' -C '' @ dir"
| "render (CopyFile src dst) = ''cp '' @ src @ '' '' @ dst"

definition render_all :: "step list \<Rightarrow> string" where
  "render_all steps = join_str '' && '' (map render steps)"

definition fetch_steps :: "string \<Rightarrow> string \<Rightarrow> string \<Rightarrow> step list \<times> string" where
  "fetch_steps function contentType originFile =
     (if contains contentType ''base64'' then ([DecodeFile originFile ''/tmp/func.decoded''], ''/tmp/func.decoded'')
      else if contains contentType ''url'' then ([DownloadFile function ''/tmp/func.fromurl''], ''/tmp/func.fromurl'')
      else ([], originFile))"

definition known_content_type :: "string \<Rightarrow> bool" where
  "known_content_type ct \<longleftrightarrow>
     ct = [] \<or> contains ct ''base64'' \<or> contains ct ''url'' \<or> contains ct ''text''"

definition verify_steps :: "string \<Rightarrow> string \<Rightarrow> step list" where
  "verify_steps checksum file =
     (if checksum = [] then [] else [WriteChecksum (split_char (CHR '':'') checksum ! 1) file, CheckChecksum])"

definition unpack_step :: "string \<Rightarrow> string \<Rightarrow> string \<Rightarrow> string \<Rightarrow> step" where
  "unpack_step contentType file dir destName =
     (if contains contentType ''zip'' then UnzipFile file dir
      else if contains contentType ''compressedtar'' then UntarFile file dir
      else CopyFile file (path_join [dir, destName]))"

definition deps_steps :: "langruntimes \<Rightarrow> string \<Rightarrow> string \<Rightarrow> string \<Rightarrow> string \<Rightarrow> step list" where
  "deps_steps l contentType runtime depsDir dir =
     (case GetRuntimeInfo l runtime of
        Ok ri \<Rightarrow>
          if ri_DepName ri \<noteq> [] \<and> \<not> contains contentType ''deps''
          then [CopyFile (path_join [depsDir, ri_DepName ri]) dir] else []
      | _ \<Rightarrow> [])"

lemma render_not_Nil [simp]: "render st \<noteq> []"
  by (cases st) auto

lemma render_all_Nil_iff [simp]: "render_all steps = [] \<longleftrightarrow> steps = []"
proof (cases steps)
  case (Cons st sts)
  then show ?thesis
    by (cases sts) (simp_all add: render_all_def)
qed (simp add: render_all_def)

lemma appendToCommand_render:
  "sts \<noteq> [] \<Longrightarrow> appendToCommand (render_all steps) (map render sts) = render_all (steps @ sts)"
  using render_all_Nil_iff [of steps]
  by (cases "steps = []") (simp_all add: appendToCommand_def render_all_def join_str_append)

lemma provision_fetch_eq:
  "provision_fetch fn ct orig =
     (if known_content_type ct
      then Ok (render_all (fst (fetch_steps fn ct orig)), snd (fetch_steps fn ct orig))
      else Err (Errorf (''Unable to prepare function of type '' @ ct @ '': Unknown format'')))"
  by (auto simp: provision_fetch_def known_content_type_def fetch_steps_def render_all_def
      appendToCommand_def Let_def)

definition good_checksum :: "string \<Rightarrow> bool" where
  "good_checksum checksum \<longleftrightarrow>
     checksum = [] \<or> (\<exists>rest. checksum = ''sha256:'' @ rest)"

lemma good_checksum_split:
  "checksum \<noteq> [] \<Longrightarrow> good_checksum checksum \<longleftrightarrow>
     split_char (CHR '':'') checksum ! 0 = ''sha256'' \<and> 1 < length (split_char (CHR '':'') checksum)"
proof -
  assume ne: "checksum \<noteq> []"
  let ?ps = "split_char (CHR '':'') checksum"
  show ?thesis
  proof
    assume "good_checksum checksum"
    then obtain rest where "checksum = ''sha256'' @ CHR '':'' # rest"
      using ne by (auto simp: good_checksum_def)
    then have "?ps = ''sha256'' # split_char (CHR '':'') rest"
      using split_char_append [of "CHR '':''" "''sha256''" rest] by simp
    then show "?ps ! 0 = ''sha256'' \<and> 1 < length ?ps"
      by simp
  next
    assume *: "?ps ! 0 = ''sha256'' \<and> 1 < length ?ps"
    then obtain q qs where "?ps = ''sha256'' # q # qs"
      by (cases ?ps; cases "tl ?ps") auto
    then have "checksum = ''sha256'' @ '':'' @ join_str '':'' (q # qs)"
      using join_split_char [of "CHR '':''" checksum] by simp
    then show "good_checksum checksum"
      by (auto simp: good_checksum_def)
  qed
qed

lemma provision_verify_Ok_iff:
  "provision_verify (render_all steps) checksum file = Ok cmd \<longleftrightarrow>
     good_checksum checksum \<and> cmd = render_all (steps @ verify_steps checksum file)"
proof (cases "checksum = []")
  case True
  then show ?thesis
    by (auto simp: provision_verify_def verify_steps_def good_checksum_def)
next
  case False
  let ?ps = "split_char (CHR '':'') checksum"
  have "appendToCommand (render_all steps)
      [''echo '' @ quote (?ps ! 1 @ ''  '' @ file) @ '' > /tmp/func.sha256'', ''sha256sum -c /tmp/func.sha256'']
    = render_all (steps @ verify_steps checksum file)"
    using False appendToCommand_render [of "verify_steps checksum file" steps]
    by (simp add: verify_steps_def)
  then show ?thesis
    using False good_checksum_split [OF False]
    by (auto simp: provision_verify_def Let_def index_def)
qed

lemma provision_unpack_eq:
  assumes "getFileName l h ct r = Ok destName"
  shows "provision_unpack l (render_all steps) file h ct r vm =
    Ok (render_all (steps @ [unpack_step ct file (vm_MountPath vm) destName]))"
  using assms appendToCommand_render [of "[unpack_step ct file (vm_MountPath vm) destName]" steps]
  by (auto simp: provision_unpack_def unpack_step_def Let_def split: if_splits)

lemma provision_deps_eq:
  "provision_deps l (render_all steps) ct r vm dvm =
     render_all (steps @ deps_steps l ct r (vm_MountPath dvm) (vm_MountPath vm))"
  using appendToCommand_render [of "deps_steps l ct r (vm_MountPath dvm) (vm_MountPath vm)" steps]
  by (auto simp: provision_deps_def deps_steps_def split: res.splits)

lemma getProvisionContainer_Ok_iff:
  assumes "getFileName l handler contentType runtime = Ok destName"
  shows "getProvisionContainer l function checksum fileName handler contentType runtime img vm dvm res = Ok c \<longleftrightarrow>
    known_content_type contentType \<and> good_checksum checksum \<and>
    (let (fetch, file) = fetch_steps function contentType (path_join [vm_MountPath dvm, fileName])
     in c = zero_container\<lparr>c_Name := ''prepare'', c_Image := img, c_Command := [''sh'', ''-c''],
          c_Args := [render_all (fetch @ verify_steps checksum file @
             [unpack_step contentType file (vm_MountPath vm) destName] @
             deps_steps l contentType runtime (vm_MountPath dvm) (vm_MountPath vm))],
          c_VolumeMounts := [vm, dvm], c_ImagePullPolicy := ''IfNotPresent'', c_Resources := res\<rparr>)"
proof -
  obtain fetch orig where ff:
    "fetch_steps function contentType (path_join [vm_MountPath dvm, fileName]) = (fetch, orig)"
    by fastforce
  show ?thesis
    by (auto simp: getProvisionContainer_def provision_fetch_eq ff res_simps provision_verify_Ok_iff
        provision_unpack_eq [OF assms] provision_deps_eq)
qed

lemma getProvisionContainer_Ok:
  assumes "getFileName l handler contentType runtime = Ok destName"
    and "known_content_type contentType" and "good_checksum checksum"
  shows "\<exists>c. getProvisionContainer l function checksum fileName handler contentType runtime img vm dvm res = Ok c"
proof -
  obtain fetch orig where
    "fetch_steps function contentType (path_join [vm_MountPath dvm, fileName]) = (fetch, orig)"
    by fastforce
  with assms(2,3) show ?thesis by (simp add: getProvisionContainer_Ok_iff [OF assms(1)])
qed


text \<open>
  The prepare container panics, with an index out of range, exactly when the content
  type is known and the checksum is the word \<open>sha256\<close> without a colon; every other
  malformed checksum is reported as an error.
\<close>

theorem getProvisionContainer_panics:
  "getProvisionContainer l function checksum fileName handler contentType runtime img vm dvm res = Panic p \<longleftrightarrow>
    p = IndexOutOfRange \<and> known_content_type contentType \<and> checksum = ''sha256''"
proof -
  obtain fetch orig where ff:
    "fetch_steps function contentType (path_join [vm_MountPath dvm, fileName]) = (fetch, orig)"
    by fastforce
  have v: "provision_verify cmd checksum orig = Panic p \<longleftrightarrow> p = IndexOutOfRange \<and> checksum = ''sha256''" for cmd
  proof (cases "1 < length (split_char (CHR '':'') checksum)")
    case True
    then have "checksum \<noteq> ''sha256''" by auto
    with True show ?thesis by (auto simp: provision_verify_def Let_def)
  next
    case False
    then have "split_char (CHR '':'') checksum = [checksum]"
      using join_split_char [of "CHR '':''" checksum] split_char_not_Nil [of "CHR '':''" checksum]
      by (cases "split_char (CHR '':'') checksum") auto
    then show ?thesis by (auto simp: provision_verify_def Let_def)
  qed
  have u: "provision_unpack l cmd orig handler contentType runtime vm \<noteq> Panic p" for cmd
    by (cases "getFileName l handler contentType runtime") (auto simp: provision_unpack_def Let_def)
  show ?thesis
  proof (cases "provision_verify (render_all fetch) checksum orig")
    case (Ok cmd)
    then show ?thesis
      using v [of "render_all fetch"] u [of cmd]
      by (cases "provision_unpack l cmd orig handler contentType runtime vm")
         (auto simp: getProvisionContainer_def provision_fetch_eq ff)
  qed (use v [of "render_all fetch"] in \<open>auto simp: getProvisionContainer_def provision_fetch_eq ff\<close>)
qed

end
