(* ===== verification/PodSpec.thy ===== *)
theory PodSpec
  imports Provision
begin

text \<open>
  \<open>populatePodSpec\<close> of \<open>pkg/utils/kubelessutil.go\<close>, which adds the volumes and the init
  containers of a function to a pod, one definition per stage of the source. The lemmas
  show which containers a pod gets and in which order, that the pod keeps what it had, and
  that every volume mount of an init container has its volume.
\<close>

section \<open>The pod of a function\<close>

definition secretsMountPath :: string where
  "secretsMountPath = ''/var/run/secrets/kubeless.io''"

text \<open>The pull secrets and the two volumes every function pod has.\<close>

definition pod_volumes :: "kfunction \<Rightarrow> volume_mount \<Rightarrow> string list \<Rightarrow> pod_spec \<Rightarrow> pod_spec" where
  "pod_volumes f runtimeVolumeMount imagePullSecrets p =
     p\<lparr>ps_ImagePullSecrets := (if imagePullSecrets \<noteq> [] then imagePullSecrets else ps_ImagePullSecrets p),
       ps_Volumes := ps_Volumes p @
         [\<lparr>vol_Name = vm_Name runtimeVolumeMount, vol_Source = EmptyDirVolume\<rparr>,
          \<lparr>vol_Name = f_Name f @ ''-deps'', vol_Source = ConfigMapVolume (f_Name f)\<rparr>]\<rparr>"

definition init_resources :: "kfunction \<Rightarrow> resource_requirements" where
  "init_resources f =
     (case ps_InitContainers (d_PodSpec (fs_Deployment (f_Spec f))) of
        [] \<Rightarrow> zero_resources
      | c # _ \<Rightarrow> c_Resources c)"

text \<open>The init container that provides the function, when there is a function.\<close>

definition pod_prepare ::
  "langruntimes \<Rightarrow> kfunction \<Rightarrow> volume_mount \<Rightarrow> string \<Rightarrow> pod_spec \<Rightarrow> pod_spec res" where
  "pod_prepare l f runtimeVolumeMount provisionImage p =
     (let sp = f_Spec f in
      if fs_Function sp \<noteq> [] then
        bind_res (getFileName l (fs_Handler sp) (fs_FunctionContentType sp) (fs_Runtime sp)) (\<lambda>fileName.
        bind_res (getProvisionContainer l (fs_Function sp) (fs_Checksum sp) fileName (fs_Handler sp)
                    (fs_FunctionContentType sp) (fs_Runtime sp) provisionImage runtimeVolumeMount
                    \<lparr>vm_Name = f_Name f @ ''-deps'', vm_ReadOnly = False, vm_MountPath = ''/src''\<rparr>
                    (init_resources f)) (\<lambda>c.
          Ok (p\<lparr>ps_InitContainers := [c]\<rparr>)))
      else Ok p)"

text \<open>The secrets for pulling the images of the runtime.\<close>

definition pod_pull_secrets :: "langruntimes \<Rightarrow> kfunction \<Rightarrow> pod_spec \<Rightarrow> pod_spec res" where
  "pod_pull_secrets l f p =
     (if fs_Runtime (f_Spec f) \<noteq> [] then
        bind_res (wrap_err ''Unable to fetch ImagePullSecrets, '' (GetImageSecrets l (fs_Runtime (f_Spec f))))
          (\<lambda>ss. Ok (p\<lparr>ps_ImagePullSecrets := ps_ImagePullSecrets p @ ss\<rparr>))
      else Ok p)"

definition c0_env :: "pod_spec \<Rightarrow> env_var list" where
  "c0_env p = (case ps_Containers p of [] \<Rightarrow> [] | c # _ \<Rightarrow> c_Env c)"

definition has_deps :: "kfunction \<Rightarrow> bool" where
  "has_deps f \<longleftrightarrow> fs_Deps (f_Spec f) \<noteq> [] \<or> contains (fs_FunctionContentType (f_Spec f)) ''deps''"

text \<open>The init container that installs dependencies.\<close>

definition pod_install :: "langruntimes \<Rightarrow> kfunction \<Rightarrow> volume_mount \<Rightarrow> pod_spec \<Rightarrow> pod_spec res" where
  "pod_install l f runtimeVolumeMount p =
     (let sp = f_Spec f in
      if \<not> has_deps f then Ok p
      else if \<not> is_ok (GetRuntimeInfo l (fs_Runtime sp)) then
        Err (Errorf (''Unable to install dependencies for the runtime '' @ fs_Runtime sp))
      else
        let depsChecksum = (if fs_Deps sp \<noteq> [] then getChecksum (fs_Deps sp) else []) in
        bind_res (GetBuildContainer l (fs_Runtime sp) depsChecksum (c0_env p) runtimeVolumeMount (init_resources f))
          (\<lambda>c. Ok (if c_Name c \<noteq> [] then p\<lparr>ps_InitContainers := ps_InitContainers p @ [c]\<rparr> else p)))"

text \<open>The init container that compiles the function.\<close>

definition handler_func :: "string \<Rightarrow> string" where
  "handler_func handler = (case splitHandler handler of Ok (_, fn) \<Rightarrow> fn | _ \<Rightarrow> [])"

definition pod_compile :: "langruntimes \<Rightarrow> kfunction \<Rightarrow> volume_mount \<Rightarrow> pod_spec \<Rightarrow> pod_spec res" where
  "pod_compile l f runtimeVolumeMount p =
     bind_res (GetCompilationContainer l (fs_Runtime (f_Spec f)) (handler_func (fs_Handler (f_Spec f)))
                 (c0_env p) runtimeVolumeMount (init_resources f))
       (\<lambda>co. case co of
          None \<Rightarrow> Ok p
        | Some c \<Rightarrow> Ok (p\<lparr>ps_InitContainers := ps_InitContainers p @ [c]\<rparr>))"

text \<open>
  The secrets of an init container: a volume for each secret that has none yet, and a
  read-only mount. A volume of that name with another source is an error, whose text in
  the source also dumps the volume.
\<close>

fun secret_volume_found :: "string \<Rightarrow> volume list \<Rightarrow> bool res" where
  "secret_volume_found s [] = Ok False"
| "secret_volume_found s (v # vs) =
     (if vol_Name v = s \<and> vol_Source v \<noteq> SecretVolume s
      then Err (Errorf (''Unable to add volume for secret '' @ s @ '', volume already defined''))
      else if vol_Name v = s then Ok True
      else secret_volume_found s vs)"

fun mount_secrets :: "string list \<Rightarrow> volume list \<Rightarrow> container \<Rightarrow> (volume list \<times> container) res" where
  "mount_secrets [] vols c = Ok (vols, c)"
| "mount_secrets (s # ss) vols c =
     bind_res (secret_volume_found s vols) (\<lambda>found.
       mount_secrets ss
         (if found then vols else vols @ [\<lparr>vol_Name = s, vol_Source = SecretVolume s\<rparr>])
         (c\<lparr>c_VolumeMounts := c_VolumeMounts c @
            [\<lparr>vm_Name = s, vm_ReadOnly = True, vm_MountPath = path_join [secretsMountPath, s]\<rparr>]\<rparr>))"

fun mount_container_secrets ::
  "langruntimes \<Rightarrow> string \<Rightarrow> container list \<Rightarrow> volume list \<Rightarrow> (volume list \<times> container list) res" where
  "mount_container_secrets l runtime [] vols = Ok (vols, [])"
| "mount_container_secrets l runtime (c # cs) vols =
     bind_res (wrap_err (''Unable to fetch init container secrets for runtime '' @ runtime @ '' at phase '' @ c_Name c @ '': '')
                (GetInitContainerSecrets l runtime (c_Name c))) (\<lambda>ss.
     bind_res (mount_secrets ss vols c) (\<lambda>(vols', c').
     bind_res (mount_container_secrets l runtime cs vols') (\<lambda>(vols'', cs').
       Ok (vols'', c' # cs'))))"

definition pod_secrets :: "langruntimes \<Rightarrow> kfunction \<Rightarrow> pod_spec \<Rightarrow> pod_spec res" where
  "pod_secrets l f p =
     bind_res (mount_container_secrets l (fs_Runtime (f_Spec f)) (ps_InitContainers p) (ps_Volumes p))
       (\<lambda>(vols, cs). Ok (p\<lparr>ps_Volumes := vols, ps_InitContainers := cs\<rparr>))"

text \<open>
  The stages in the order of the source. The registry is read again before the secrets are
  mounted; the second component of the result is the registry the caller is left with.
\<close>

type_synonym yaml_runtimes = "string \<Rightarrow> runtime_info list \<Rightarrow> gerror + runtime_info list"

definition pod_containers ::
  "langruntimes \<Rightarrow> kfunction \<Rightarrow> pod_spec \<Rightarrow> volume_mount \<Rightarrow> string \<Rightarrow> string list \<Rightarrow> pod_spec res" where
  "pod_containers l f p runtimeVolumeMount provisionImage imagePullSecrets =
     bind_res (pod_prepare l f runtimeVolumeMount provisionImage
                 (pod_volumes f runtimeVolumeMount imagePullSecrets p)) (\<lambda>p1.
     bind_res (pod_pull_secrets l f p1) (\<lambda>p2.
     bind_res (pod_install l f runtimeVolumeMount p2) (\<lambda>p3.
       pod_compile l f runtimeVolumeMount p3)))"

definition populatePodSpec ::
  "yaml_runtimes \<Rightarrow> kfunction \<Rightarrow> langruntimes \<Rightarrow> pod_spec \<Rightarrow> volume_mount \<Rightarrow> string \<Rightarrow> string list
   \<Rightarrow> pod_spec res \<times> langruntimes" where
  "populatePodSpec unmarshal f l p runtimeVolumeMount provisionImage imagePullSecrets =
     (case pod_containers l f p runtimeVolumeMount provisionImage imagePullSecrets of
        Ok p4 \<Rightarrow>
          (case ReadConfigMap unmarshal l of
             Ok l' \<Rightarrow> (pod_secrets l' f p4, l')
           | Err e \<Rightarrow> (Err e, l)
           | Panic q \<Rightarrow> (Panic q, l))
      | Err e \<Rightarrow> (Err e, l)
      | Panic q \<Rightarrow> (Panic q, l))"


section \<open>What each stage keeps\<close>

text \<open>Every volume that an init container mounts is a volume of the pod.\<close>

definition mounts_ok :: "string set \<Rightarrow> container \<Rightarrow> bool" where
  "mounts_ok ns c \<longleftrightarrow> (\<forall>m \<in> set (c_VolumeMounts c). vm_Name m \<in> ns)"

definition volume_names :: "pod_spec \<Rightarrow> string set" where
  "volume_names p = vol_Name ` set (ps_Volumes p)"

definition mounts_resolved :: "pod_spec \<Rightarrow> bool" where
  "mounts_resolved p \<longleftrightarrow> (\<forall>c \<in> set (ps_InitContainers p). mounts_ok (volume_names p) c)"

lemma mounts_ok_mono: "mounts_ok ns c \<Longrightarrow> ns \<subseteq> ns' \<Longrightarrow> mounts_ok ns' c"
  by (auto simp: mounts_ok_def)

lemma getProvisionContainer_OkD:
  assumes "getProvisionContainer l fn chk fileName h ct r img vm dvm rs = Ok c"
  shows "c_Name c = ''prepare'' \<and> c_VolumeMounts c = [vm, dvm] \<and> c_Image c = img \<and> c_Resources c = rs"
  using assms by (auto simp: getProvisionContainer_def res_simps)

lemma GetBuildContainer_OkD:
  assumes "GetBuildContainer l r chk env vm rs = Ok c"
  shows "\<exists>rv. findRuntimeVersion l r = Ok rv \<and>
    (case findImage PhaseInstallation rv of
       None \<Rightarrow> c = zero_container
     | Some i \<Rightarrow> c_Name c = ''install'' \<and> c_VolumeMounts c = [vm])"
  using assms
  by (cases "findRuntimeVersion l r"; cases "GetRuntimeInfo l r")
     (auto simp: GetBuildContainer_def Let_def split: option.splits)

lemma GetCompilationContainer_OkD:
  assumes "GetCompilationContainer l r fn env vm rs = Ok co"
  shows "\<exists>rv. findRuntimeVersion l r = Ok rv \<and>
    (case findImage PhaseCompilation rv of
       None \<Rightarrow> co = None
     | Some i \<Rightarrow> \<exists>c. co = Some c \<and> c_Name c = ''compile'' \<and> c_VolumeMounts c = [vm])"
  using assms
  by (cases "findRuntimeVersion l r") (auto simp: GetCompilationContainer_def split: option.splits)

text \<open>The volumes and the init containers after each stage.\<close>

lemma pod_volumes_simps [simp]:
  "ps_InitContainers (pod_volumes f vm ips p) = ps_InitContainers p"
  "ps_Containers (pod_volumes f vm ips p) = ps_Containers p"
  "ps_Volumes (pod_volumes f vm ips p) = ps_Volumes p @
     [\<lparr>vol_Name = vm_Name vm, vol_Source = EmptyDirVolume\<rparr>,
      \<lparr>vol_Name = f_Name f @ ''-deps'', vol_Source = ConfigMapVolume (f_Name f)\<rparr>]"
  by (simp_all add: pod_volumes_def)

lemma pod_prepare_OkD:
  assumes "pod_prepare l f vm img p = Ok p'"
  shows "ps_Volumes p' = ps_Volumes p \<and> ps_Containers p' = ps_Containers p \<and>
    (if fs_Function (f_Spec f) = [] then ps_InitContainers p' = ps_InitContainers p
     else \<exists>c. ps_InitContainers p' = [c] \<and> c_Name c = ''prepare'' \<and>
       map vm_Name (c_VolumeMounts c) = [vm_Name vm, f_Name f @ ''-deps''])"
  using assms
  by (auto simp: pod_prepare_def Let_def res_simps split: if_splits dest!: getProvisionContainer_OkD)

lemma pod_pull_secrets_OkD:
  assumes "pod_pull_secrets l f p = Ok p'"
  shows "ps_Volumes p' = ps_Volumes p \<and> ps_Containers p' = ps_Containers p \<and>
    ps_InitContainers p' = ps_InitContainers p"
  using assms by (auto simp: pod_pull_secrets_def res_simps split: if_splits)

lemma pod_install_OkD:
  assumes "pod_install l f vm p = Ok p'"
  shows "ps_Volumes p' = ps_Volumes p \<and> ps_Containers p' = ps_Containers p \<and>
    (\<exists>cs. ps_InitContainers p' = ps_InitContainers p @ cs \<and>
       (\<forall>c \<in> set cs. c_VolumeMounts c = [vm]) \<and>
       (\<forall>rv. findRuntimeVersion l (fs_Runtime (f_Spec f)) = Ok rv \<longrightarrow>
          map c_Name cs = (if has_deps f \<and> findImage PhaseInstallation rv \<noteq> None then [''install''] else [])))"
proof (cases "has_deps f")
  case True
  let ?sp = "f_Spec f"
  obtain c where c: "GetBuildContainer l (fs_Runtime ?sp)
      (if fs_Deps ?sp \<noteq> [] then getChecksum (fs_Deps ?sp) else []) (c0_env p) vm (init_resources f) = Ok c"
    and p': "p' = (if c_Name c \<noteq> [] then p\<lparr>ps_InitContainers := ps_InitContainers p @ [c]\<rparr> else p)"
    using assms True by (auto simp: pod_install_def Let_def res_simps split: if_splits)
  obtain rv where rv: "findRuntimeVersion l (fs_Runtime ?sp) = Ok rv"
    and c': "case findImage PhaseInstallation rv of None \<Rightarrow> c = zero_container
       | Some i \<Rightarrow> c_Name c = ''install'' \<and> c_VolumeMounts c = [vm]"
    using GetBuildContainer_OkD [OF c] by blast
  show ?thesis
  proof (cases "findImage PhaseInstallation rv")
    case None
    then show ?thesis using c' p' rv True by (auto simp: zero_container_def)
  next
    case (Some i)
    then show ?thesis using c' p' rv True by (auto intro!: exI [of _ "[c]"])
  qed
next
  case False
  then show ?thesis using assms by (simp add: pod_install_def Let_def)
qed

lemma pod_compile_OkD:
  assumes "pod_compile l f vm p = Ok p'"
  shows "ps_Volumes p' = ps_Volumes p \<and> ps_Containers p' = ps_Containers p \<and>
    (\<exists>rv cs. findRuntimeVersion l (fs_Runtime (f_Spec f)) = Ok rv \<and>
       ps_InitContainers p' = ps_InitContainers p @ cs \<and>
       (\<forall>c \<in> set cs. c_VolumeMounts c = [vm]) \<and>
       map c_Name cs = (if findImage PhaseCompilation rv \<noteq> None then [''compile''] else []))"
proof -
  obtain co where co: "GetCompilationContainer l (fs_Runtime (f_Spec f))
      (handler_func (fs_Handler (f_Spec f))) (c0_env p) vm (init_resources f) = Ok co"
    and p': "p' = (case co of None \<Rightarrow> p | Some c \<Rightarrow> p\<lparr>ps_InitContainers := ps_InitContainers p @ [c]\<rparr>)"
    using assms by (auto simp: pod_compile_def res_simps split: option.splits)
  show ?thesis
    using GetCompilationContainer_OkD [OF co] p'
    by (cases co) (auto split: option.splits)
qed

section \<open>Secrets of the init containers\<close>

definition secret_mount :: "string \<Rightarrow> volume_mount" where
  "secret_mount s = \<lparr>vm_Name = s, vm_ReadOnly = True, vm_MountPath = path_join [secretsMountPath, s]\<rparr>"

lemma secret_volume_found_True:
  "secret_volume_found s vols = Ok True \<Longrightarrow> \<lparr>vol_Name = s, vol_Source = SecretVolume s\<rparr> \<in> set vols"
  by (induction s vols rule: secret_volume_found.induct) (auto split: if_splits)

lemma mount_secrets_OkD:
  assumes "mount_secrets ss vols c = Ok (vols', c')"
  shows "prefix vols vols' \<and> set ss \<subseteq> vol_Name ` set vols' \<and>
    c' = c\<lparr>c_VolumeMounts := c_VolumeMounts c @ map secret_mount ss\<rparr>"
  using assms
proof (induction ss vols c rule: mount_secrets.induct)
  case (1 vols c)
  then show ?case by simp
next
  case (2 s ss vols c)
  let ?v = "\<lparr>vol_Name = s, vol_Source = SecretVolume s\<rparr>"
  let ?c = "c\<lparr>c_VolumeMounts := c_VolumeMounts c @ [secret_mount s]\<rparr>"
  obtain found where found: "secret_volume_found s vols = Ok found"
    and rec: "mount_secrets ss (if found then vols else vols @ [?v]) ?c = Ok (vols', c')"
    using "2.prems" by (auto simp: res_simps secret_mount_def)
  have IH: "prefix (if found then vols else vols @ [?v]) vols' \<and> set ss \<subseteq> vol_Name ` set vols' \<and>
    c' = ?c\<lparr>c_VolumeMounts := c_VolumeMounts ?c @ map secret_mount ss\<rparr>"
    using "2.IH" [OF found] rec by (simp add: secret_mount_def)
  have "?v \<in> set (if found then vols else vols @ [?v])"
    using found secret_volume_found_True by auto
  then have "?v \<in> set vols'"
    using IH set_mono_prefix by blast
  then have "s \<in> vol_Name ` set vols'"
    by (auto intro: rev_image_eqI)
  moreover have "prefix vols vols'"
    using IH by (auto split: if_splits dest: append_prefixD)
  ultimately show ?case
    using IH by simp
qed

lemma mounts_ok_append_secrets:
  "mounts_ok ns (c\<lparr>c_VolumeMounts := c_VolumeMounts c @ map secret_mount ss\<rparr>) \<longleftrightarrow>
     mounts_ok ns c \<and> set ss \<subseteq> ns"
  by (auto simp: mounts_ok_def secret_mount_def ball_Un)

lemma mount_container_secrets_OkD:
  assumes "mount_container_secrets l r cs vols = Ok (vols', cs')"
  shows "prefix vols vols' \<and> map c_Name cs' = map c_Name cs \<and>
    ((\<forall>c \<in> set cs. mounts_ok (vol_Name ` set vols) c) \<longrightarrow>
     (\<forall>c \<in> set cs'. mounts_ok (vol_Name ` set vols') c)) \<and>
    list_all2 (\<lambda>c c'. \<exists>ss. GetInitContainerSecrets l r (c_Name c) = Ok ss \<and>
       c_VolumeMounts c' = c_VolumeMounts c @ map secret_mount ss) cs cs'"
  using assms
proof (induction l r cs vols arbitrary: vols' cs' rule: mount_container_secrets.induct)
  case (1 l r vols)
  then show ?case by simp
next
  case (2 l r c cs vols)
  obtain ss vols1 c1 cs1 where ss: "GetInitContainerSecrets l r (c_Name c) = Ok ss"
    and m: "mount_secrets ss vols c = Ok (vols1, c1)"
    and rec: "mount_container_secrets l r cs vols1 = Ok (vols', cs1)" and cs': "cs' = c1 # cs1"
    using "2.prems" by (auto simp: res_simps)
  have IH: "prefix vols1 vols' \<and> map c_Name cs1 = map c_Name cs \<and>
    ((\<forall>c \<in> set cs. mounts_ok (vol_Name ` set vols1) c) \<longrightarrow>
     (\<forall>c \<in> set cs1. mounts_ok (vol_Name ` set vols') c)) \<and>
    list_all2 (\<lambda>c c'. \<exists>ss. GetInitContainerSecrets l r (c_Name c) = Ok ss \<and>
       c_VolumeMounts c' = c_VolumeMounts c @ map secret_mount ss) cs cs1"
    using "2.IH" [of ss "(vols1, c1)"] ss m rec by simp
  note m' = mount_secrets_OkD [OF m]
  have sub: "vol_Name ` set vols \<subseteq> vol_Name ` set vols1" "vol_Name ` set vols1 \<subseteq> vol_Name ` set vols'"
    using m' IH by (auto dest!: set_mono_prefix)
  have "mounts_ok (vol_Name ` set vols') c1" if "mounts_ok (vol_Name ` set vols) c"
    using m' mounts_ok_mono [OF that order_trans [OF sub]] order_trans [OF _ sub(2), of "set ss"]
    by (simp add: mounts_ok_append_secrets)
  then show ?case
    using IH m' cs' ss sub by (auto intro: mounts_ok_mono prefix_order.trans)
qed

lemma pod_secrets_OkD:
  assumes "pod_secrets l f p = Ok p'"
  shows "ps_Containers p' = ps_Containers p \<and> prefix (ps_Volumes p) (ps_Volumes p') \<and>
    map c_Name (ps_InitContainers p') = map c_Name (ps_InitContainers p) \<and>
    (mounts_resolved p \<longrightarrow> mounts_resolved p')"
  using assms mount_container_secrets_OkD
  by (fastforce simp: pod_secrets_def res_simps mounts_resolved_def volume_names_def)

section \<open>The populated pod\<close>

lemma pod_containers_OkD:
  assumes "pod_containers l f p vm img ips = Ok p'"
  shows "ps_Containers p' = ps_Containers p \<and>
    ps_Volumes p' = ps_Volumes (pod_volumes f vm ips p) \<and>
    (mounts_resolved p \<longrightarrow> mounts_resolved p') \<and>
    (\<exists>rv. findRuntimeVersion l (fs_Runtime (f_Spec f)) = Ok rv \<and>
       map c_Name (ps_InitContainers p') =
         (if fs_Function (f_Spec f) = [] then map c_Name (ps_InitContainers p) else [''prepare'']) @
         (if has_deps f \<and> findImage PhaseInstallation rv \<noteq> None then [''install''] else []) @
         (if findImage PhaseCompilation rv \<noteq> None then [''compile''] else []))"
proof -
  let ?p0 = "pod_volumes f vm ips p"
  obtain p1 p2 p3 where p1: "pod_prepare l f vm img ?p0 = Ok p1" and p2: "pod_pull_secrets l f p1 = Ok p2"
    and p3: "pod_install l f vm p2 = Ok p3" and p4: "pod_compile l f vm p3 = Ok p'"
    using assms by (auto simp: pod_containers_def res_simps)
  note d = pod_prepare_OkD [OF p1] pod_pull_secrets_OkD [OF p2] pod_install_OkD [OF p3] pod_compile_OkD [OF p4]
  obtain rv cs where rv: "findRuntimeVersion l (fs_Runtime (f_Spec f)) = Ok rv"
    and i4: "ps_InitContainers p' = ps_InitContainers p3 @ cs"
    and cs: "\<forall>c \<in> set cs. c_VolumeMounts c = [vm]"
    and n4: "map c_Name cs = (if findImage PhaseCompilation rv \<noteq> None then [''compile''] else [])"
    using d(4) by blast
  obtain ds where i3: "ps_InitContainers p3 = ps_InitContainers p2 @ ds"
    and ds: "\<forall>c \<in> set ds. c_VolumeMounts c = [vm]"
    and n3: "map c_Name ds = (if has_deps f \<and> findImage PhaseInstallation rv \<noteq> None then [''install''] else [])"
    using d(3) rv by blast
  have vols: "ps_Volumes p' = ps_Volumes ?p0" and conts: "ps_Containers p' = ps_Containers p"
    using d by simp_all
  have i2: "ps_InitContainers p2 = ps_InitContainers p1" using d(2) by simp
  have names: "map c_Name (ps_InitContainers p1) =
      (if fs_Function (f_Spec f) = [] then map c_Name (ps_InitContainers p) else [''prepare''])"
    using d(1) by (auto split: if_splits)
  have vn: "vm_Name vm \<in> volume_names p'" "f_Name f @ ''-deps'' \<in> volume_names p'"
    "volume_names p \<subseteq> volume_names p'"
    using vols by (auto simp: volume_names_def)
  have "\<forall>c \<in> set (ps_InitContainers p1). mounts_ok (volume_names p') c" if "mounts_resolved p"
  proof (cases "fs_Function (f_Spec f) = []")
    case True
    then show ?thesis
      using d(1) that vn(3) by (auto simp: mounts_resolved_def intro: mounts_ok_mono)
  next
    case False
    then obtain c where c: "ps_InitContainers p1 = [c]"
      and mc: "map vm_Name (c_VolumeMounts c) = [vm_Name vm, f_Name f @ ''-deps'']"
      using d(1) by auto
    from mc have "vm_Name ` set (c_VolumeMounts c) \<subseteq> volume_names p'"
      using vn by (simp flip: set_map)
    with c show ?thesis by (auto simp: mounts_ok_def)
  qed
  then have "mounts_resolved p \<longrightarrow> mounts_resolved p'"
    using i4 i3 i2 cs ds vn(1) by (auto simp: mounts_resolved_def mounts_ok_def)
  then show ?thesis
    using vols conts rv i4 i3 i2 names n3 n4 by simp
qed

lemma populatePodSpec_OkD:
  assumes "populatePodSpec um f l p vm img ips = (Ok p', l')"
  shows "\<exists>p4. pod_containers l f p vm img ips = Ok p4 \<and> ReadConfigMap um l = Ok l' \<and> pod_secrets l' f p4 = Ok p'"
  using assms by (auto simp: populatePodSpec_def split: res.splits)

text \<open>
  C39: Populating a pod never leaves a dangling mount: if every init container of the given
  pod mounts only volumes of that pod, then so does every init container of the result,
  including the mounts of runtime secrets.
\<close>

theorem populatePodSpec_mounts_resolved:
  assumes "populatePodSpec um f l p vm img ips = (Ok p', l')" and "mounts_resolved p"
  shows "mounts_resolved p'"
proof -
  obtain p4 where "pod_containers l f p vm img ips = Ok p4" and "pod_secrets l' f p4 = Ok p'"
    using populatePodSpec_OkD [OF assms(1)] by blast
  with assms(2) show ?thesis
    using pod_containers_OkD pod_secrets_OkD by blast
qed

text \<open>
  The init containers of a populated pod run in the order prepare, install, compile:
  prepare when there is function code, install when there are dependencies and the runtime
  version has an installation image, compile when it has a compilation image. The runtime
  version must be a registered one.
\<close>

theorem populatePodSpec_init_containers:
  assumes "populatePodSpec um f l p vm img ips = (Ok p', l')" and "fs_Function (f_Spec f) \<noteq> []"
  shows "\<exists>rv. findRuntimeVersion l (fs_Runtime (f_Spec f)) = Ok rv \<and>
    map c_Name (ps_InitContainers p') =
      [''prepare''] @
      (if has_deps f \<and> findImage PhaseInstallation rv \<noteq> None then [''install''] else []) @
      (if findImage PhaseCompilation rv \<noteq> None then [''compile''] else [])"
proof -
  obtain p4 where p4: "pod_containers l f p vm img ips = Ok p4" and p': "pod_secrets l' f p4 = Ok p'"
    using populatePodSpec_OkD [OF assms(1)] by blast
  show ?thesis
    using pod_containers_OkD [OF p4] pod_secrets_OkD [OF p'] assms(2) by simp
qed

text \<open>
  Populating a pod keeps its containers and its volumes; the runtime volume and the
  volume of the function's config map follow the old volumes, and secret volumes come last.
\<close>

theorem populatePodSpec_frame:
  assumes "populatePodSpec um f l p vm img ips = (Ok p', l')"
  shows "ps_Containers p' = ps_Containers p \<and>
    (\<exists>extra. ps_Volumes p' = ps_Volumes p @
       [\<lparr>vol_Name = vm_Name vm, vol_Source = EmptyDirVolume\<rparr>,
        \<lparr>vol_Name = f_Name f @ ''-deps'', vol_Source = ConfigMapVolume (f_Name f)\<rparr>] @ extra)"
proof -
  obtain p4 where p4: "pod_containers l f p vm img ips = Ok p4" and p': "pod_secrets l' f p4 = Ok p'"
    using populatePodSpec_OkD [OF assms(1)] by blast
  show ?thesis
    using pod_containers_OkD [OF p4] pod_secrets_OkD [OF p'] by (auto simp: prefix_def)
qed

end
