(* ===== verification/ApiLaws.thy ===== *)
theory ApiLaws
  imports KubeTypes
begin

text \<open>
  What the code relies on from the API server, as a named hypothesis \<open>store_laws\<close>: a
  client behaves like a store of named objects per namespace, up to a normalisation
  \<open>norm\<close> that stands for the defaulting the server does when it accepts an object. A
  server that keeps its objects in memory satisfies the laws. For servers about which
  nothing is known, the log of calls is enough to say which objects were written after
  which answers: \<open>owned_writes\<close>.
\<close>

section \<open>Stores\<close>

type_synonym 'o store = "string \<Rightarrow> string \<Rightarrow> 'o option"

definition put_obj :: "'o store \<Rightarrow> string \<Rightarrow> string \<Rightarrow> 'o \<Rightarrow> 'o store" where
  "put_obj st ns n x = st(ns := (st ns)(n \<mapsto> x))"

definition del_obj :: "'o store \<Rightarrow> string \<Rightarrow> string \<Rightarrow> 'o store" where
  "del_obj st ns n = st(ns := (st ns)(n := None))"

lemma put_obj_apply [simp]:
  "put_obj st ns n x ns' n' = (if ns' = ns \<and> n' = n then Some x else st ns' n')"
  by (simp add: put_obj_def)

lemma del_obj_apply [simp]:
  "del_obj st ns n ns' n' = (if ns' = ns \<and> n' = n then None else st ns' n')"
  by (simp add: del_obj_def)

definition get_law :: "('s, 'o) client \<Rightarrow> ('s \<Rightarrow> 'o store) \<Rightarrow> bool" where
  "get_law c look \<longleftrightarrow>
     (\<forall>ns n s. look (snd (cl_get c ns n s)) = look s \<and>
        (case look s ns n of
           Some x \<Rightarrow> fst (cl_get c ns n s) = Inr x
         | None \<Rightarrow> (\<exists>e. fst (cl_get c ns n s) = Inl e \<and> IsNotFound e)))"

definition create_law ::
  "('s, 'o) client \<Rightarrow> ('o \<Rightarrow> string) \<Rightarrow> (string \<Rightarrow> 'o \<Rightarrow> 'o) \<Rightarrow> ('s \<Rightarrow> 'o store) \<Rightarrow> bool" where
  "create_law c nm norm look \<longleftrightarrow>
     (\<forall>ns x s.
        (case look s ns (nm x) of
           Some _ \<Rightarrow> look (snd (cl_create c ns x s)) = look s \<and>
             (\<exists>e. fst (cl_create c ns x s) = Inl e \<and> IsAlreadyExists e)
         | None \<Rightarrow> look (snd (cl_create c ns x s)) = put_obj (look s) ns (nm x) (norm ns x) \<and>
             fst (cl_create c ns x s) = Inr (norm ns x)))"

definition update_law ::
  "('s, 'o) client \<Rightarrow> ('o \<Rightarrow> string) \<Rightarrow> (string \<Rightarrow> 'o \<Rightarrow> 'o) \<Rightarrow> ('s \<Rightarrow> 'o store) \<Rightarrow> bool" where
  "update_law c nm norm look \<longleftrightarrow>
     (\<forall>ns x s.
        (case look s ns (nm x) of
           None \<Rightarrow> look (snd (cl_update c ns x s)) = look s \<and>
             (\<exists>e. fst (cl_update c ns x s) = Inl e \<and> IsNotFound e)
         | Some _ \<Rightarrow> look (snd (cl_update c ns x s)) = put_obj (look s) ns (nm x) (norm ns x) \<and>
             fst (cl_update c ns x s) = Inr (norm ns x)))"

definition delete_law :: "('s, 'o) client \<Rightarrow> ('s \<Rightarrow> 'o store) \<Rightarrow> bool" where
  "delete_law c look \<longleftrightarrow>
     (\<forall>ns n s. look (snd (cl_delete c ns n s)) = del_obj (look s) ns n \<and>
        (case look s ns n of
           Some _ \<Rightarrow> fst (cl_delete c ns n s) = Inr ()
         | None \<Rightarrow> (\<exists>e. fst (cl_delete c ns n s) = Inl e \<and> IsNotFound e)))"

definition store_laws ::
  "('s, 'o) client \<Rightarrow> ('o \<Rightarrow> string) \<Rightarrow> (string \<Rightarrow> 'o \<Rightarrow> 'o) \<Rightarrow> ('s \<Rightarrow> 'o store) \<Rightarrow> bool" where
  "store_laws c nm norm look \<longleftrightarrow>
     get_law c look \<and> create_law c nm norm look \<and> update_law c nm norm look \<and> delete_law c look"

lemmas get_lawD = get_law_def [THEN iffD1, rule_format]
lemmas create_lawD = create_law_def [THEN iffD1, rule_format]
lemmas update_lawD = update_law_def [THEN iffD1, rule_format]
lemmas delete_lawD = delete_law_def [THEN iffD1, rule_format]

lemma get_law_Some: "get_law c look \<Longrightarrow> look s ns n = Some x \<Longrightarrow> fst (cl_get c ns n s) = Inr x"
  using get_lawD [of c look ns n s] by simp

lemma get_law_None:
  "get_law c look \<Longrightarrow> look s ns n = None \<Longrightarrow> \<exists>e. fst (cl_get c ns n s) = Inl e \<and> IsNotFound e"
  using get_lawD [of c look ns n s] by simp

lemma get_law_state [simp]: "get_law c look \<Longrightarrow> look (snd (cl_get c ns n s)) = look s"
  using get_lawD [of c look ns n s] by simp

lemma create_law_fresh:
  assumes "create_law c nm norm look" and "look s ns (nm x) = None"
  shows "fst (cl_create c ns x s) = Inr (norm ns x) \<and>
    look (snd (cl_create c ns x s)) = put_obj (look s) ns (nm x) (norm ns x)"
  using create_lawD [OF assms(1), of ns x s] assms(2) by simp

lemma create_law_exists:
  assumes "create_law c nm norm look" and "look s ns (nm x) = Some y"
  shows "(\<exists>e. fst (cl_create c ns x s) = Inl e \<and> IsAlreadyExists e) \<and>
    look (snd (cl_create c ns x s)) = look s"
  using create_lawD [OF assms(1), of ns x s] assms(2) by simp

lemma update_law_exists:
  assumes "update_law c nm norm look" and "look s ns (nm x) = Some y"
  shows "fst (cl_update c ns x s) = Inr (norm ns x) \<and>
    look (snd (cl_update c ns x s)) = put_obj (look s) ns (nm x) (norm ns x)"
  using update_lawD [OF assms(1), of ns x s] assms(2) by simp

lemma delete_law_result:
  assumes "delete_law c look"
  shows "look (snd (cl_delete c ns n s)) = del_obj (look s) ns n \<and>
    (fst (cl_delete c ns n s) = Inr () \<or> (\<exists>e. fst (cl_delete c ns n s) = Inl e \<and> IsNotFound e))"
  using delete_lawD [OF assms, of ns n s] by (cases "look s ns n") auto

section \<open>A server that keeps its objects in memory\<close>

definition not_found :: gerror where
  "not_found = StatusError NotFound ''not found''"

definition already_exists :: gerror where
  "already_exists = StatusError AlreadyExists ''already exists''"

definition mem_client ::
  "('o \<Rightarrow> string) \<Rightarrow> ('s \<Rightarrow> 'o store) \<Rightarrow> ('o store \<Rightarrow> 's \<Rightarrow> 's) \<Rightarrow> ('s, 'o) client" where
  "mem_client nm look put =
     \<lparr>cl_get = (\<lambda>ns n s. (case look s ns n of Some x \<Rightarrow> Inr x | None \<Rightarrow> Inl not_found, s)),
      cl_list = (\<lambda>ns sel s. (Inr [], s)),
      cl_create = (\<lambda>ns x s. (case look s ns (nm x) of
         Some _ \<Rightarrow> (Inl already_exists, s)
       | None \<Rightarrow> (Inr x, put (put_obj (look s) ns (nm x) x) s))),
      cl_update = (\<lambda>ns x s. (case look s ns (nm x) of
         None \<Rightarrow> (Inl not_found, s)
       | Some _ \<Rightarrow> (Inr x, put (put_obj (look s) ns (nm x) x) s))),
      cl_patch = (\<lambda>ns n x s. (case look s ns n of
         None \<Rightarrow> (Inl not_found, s)
       | Some _ \<Rightarrow> (Inr x, put (put_obj (look s) ns n x) s))),
      cl_delete = (\<lambda>ns n s. (case look s ns n of
         None \<Rightarrow> (Inl not_found, s)
       | Some _ \<Rightarrow> (Inr (), put (del_obj (look s) ns n) s))),
      cl_delete_collection = (\<lambda>ns sel s. (Inr (), s))\<rparr>"

lemma del_obj_absent: "st ns n = None \<Longrightarrow> del_obj st ns n = st"
  by (auto simp: del_obj_def fun_eq_iff)

lemma mem_client_store:
  assumes "\<And>st s. look (put st s) = st"
  shows "store_laws (mem_client nm look put) nm (\<lambda>ns x. x) look"
  using assms
  by (auto simp: store_laws_def get_law_def create_law_def update_law_def delete_law_def
      mem_client_def not_found_def already_exists_def del_obj_absent split: option.splits)

section \<open>Writes that follow a look at the object\<close>

text \<open>
  The label test and the write it guards: a config map or a service is updated, or a
  deployment patched, only right after the server returned that object with the label
  \<open>created-by: kubeless\<close>.
\<close>

definition kubeless_label :: "object_meta \<Rightarrow> bool" where
  "kubeless_label m \<longleftrightarrow> gm_find (om_Labels m) ''created-by'' = Some ''kubeless''"

definition configmap_write_ok :: "event option \<Rightarrow> string \<Rightarrow> configmap \<Rightarrow> bool" where
  "configmap_write_ok prev ns x =
     (case prev of
        Some (EvConfigMap (CGet ns' n (Inr cm))) \<Rightarrow>
          ns' = ns \<and> kubeless_label (cm_Meta cm) \<and> om_Name (cm_Meta x) = om_Name (cm_Meta cm)
      | _ \<Rightarrow> False)"

definition service_write_ok :: "event option \<Rightarrow> string \<Rightarrow> service \<Rightarrow> bool" where
  "service_write_ok prev ns x =
     (case prev of
        Some (EvService (CGet ns' n (Inr svc))) \<Rightarrow>
          ns' = ns \<and> kubeless_label (svc_Meta svc) \<and> om_Name (svc_Meta x) = om_Name (svc_Meta svc)
      | _ \<Rightarrow> False)"

definition deployment_write_ok :: "event option \<Rightarrow> string \<Rightarrow> string \<Rightarrow> deployment \<Rightarrow> bool" where
  "deployment_write_ok prev ns n x =
     (case prev of
        Some (EvDeployment (CGet ns' n' (Inr d))) \<Rightarrow>
          ns' = ns \<and> kubeless_label (d_Meta d) \<and> n = om_Name (d_Meta d) \<and>
          ds_Selector (d_Spec x) = ds_Selector (d_Spec d)
      | _ \<Rightarrow> False)"

definition owned_write :: "event option \<Rightarrow> event \<Rightarrow> bool" where
  "owned_write prev ev =
     (case ev of
        EvConfigMap c \<Rightarrow> (case c of CUpdate ns x r \<Rightarrow> configmap_write_ok prev ns x | _ \<Rightarrow> True)
      | EvService c \<Rightarrow> (case c of CUpdate ns x r \<Rightarrow> service_write_ok prev ns x | _ \<Rightarrow> True)
      | EvDeployment c \<Rightarrow> (case c of CPatch ns n x r \<Rightarrow> deployment_write_ok prev ns n x | _ \<Rightarrow> True)
      | _ \<Rightarrow> True)"

lemma owned_write_simps [simp]:
  "owned_write prev (EvConfigMap (CGet ns n rc))"
  "owned_write prev (EvConfigMap (CCreate ns c rc))"
  "owned_write prev (EvService (CGet ns n rs))"
  "owned_write prev (EvService (CCreate ns sv rs))"
  "owned_write prev (EvDeployment (CGet ns n rd))"
  "owned_write prev (EvDeployment (CCreate ns d rd))"
  "owned_write prev (EvDeployment (CDelete ns n ru))"
  "owned_write prev (EvService (CDelete ns n ru))"
  "owned_write prev (EvConfigMap (CDelete ns n ru))"
  "owned_write prev (EvJob j)" "owned_write prev (EvSecret sc)" "owned_write prev (EvHPA h)"
  "owned_write prev (EvFunction fn)" "owned_write prev (EvServiceMonitor sm)"
  "owned_write (Some (EvConfigMap (CGet ns n (Inr cm)))) (EvConfigMap (CUpdate ns c rc)) \<longleftrightarrow>
     kubeless_label (cm_Meta cm) \<and> om_Name (cm_Meta c) = om_Name (cm_Meta cm)"
  "owned_write (Some (EvService (CGet ns n (Inr svc)))) (EvService (CUpdate ns sv rs)) \<longleftrightarrow>
     kubeless_label (svc_Meta svc) \<and> om_Name (svc_Meta sv) = om_Name (svc_Meta svc)"
  "owned_write (Some (EvDeployment (CGet ns n (Inr old)))) (EvDeployment (CPatch ns n' d rd)) \<longleftrightarrow>
     kubeless_label (d_Meta old) \<and> n' = om_Name (d_Meta old) \<and> ds_Selector (d_Spec d) = ds_Selector (d_Spec old)"
  by (simp_all add: owned_write_def configmap_write_ok_def service_write_ok_def deployment_write_ok_def)

fun owned_from :: "event option \<Rightarrow> event list \<Rightarrow> bool" where
  "owned_from prev [] = True"
| "owned_from prev (ev # evs) = (owned_write prev ev \<and> owned_from (Some ev) evs)"

abbreviation owned_writes :: "event list \<Rightarrow> bool" where
  "owned_writes evs \<equiv> owned_from None evs"

lemma owned_write_None: "owned_write None ev \<Longrightarrow> owned_write prev ev"
  by (auto simp: owned_write_def configmap_write_ok_def service_write_ok_def deployment_write_ok_def
      split: event.splits call.splits)

lemma owned_from_None: "owned_from None evs \<Longrightarrow> owned_from prev evs"
  by (cases evs) (auto intro: owned_write_None)

lemma owned_from_append: "owned_from prev xs \<Longrightarrow> owned_from None ys \<Longrightarrow> owned_from prev (xs @ ys)"
  by (induction prev xs rule: owned_from.induct) (auto intro: owned_from_None)

text \<open>The log only grows, and what is added has only owned writes.\<close>

definition owned_growth :: "event list \<Rightarrow> event list \<Rightarrow> bool" where
  "owned_growth l l' \<longleftrightarrow> (\<exists>evs. l' = l @ evs \<and> owned_writes evs)"

lemma owned_growth_refl [simp, intro]: "owned_growth l l"
  by (simp add: owned_growth_def)

lemma owned_growth_trans [trans]: "owned_growth l l' \<Longrightarrow> owned_growth l' l'' \<Longrightarrow> owned_growth l l''"
  by (auto simp: owned_growth_def intro: owned_from_append)

lemma owned_growthI [intro]: "owned_writes evs \<Longrightarrow> owned_growth l (l @ evs)"
  by (auto simp: owned_growth_def)

lemma owned_growth_start: "owned_growth [] l \<Longrightarrow> owned_writes l"
  by (simp add: owned_growth_def)

end
