(* ===== verification/Ensure.thy ===== *)
theory Ensure
  imports PodSpec ApiLaws
begin

text \<open>
  Creating and updating the Kubernetes objects of a function: \<open>EnsureFuncConfigMap\<close>,
  \<open>EnsureFuncService\<close>, \<open>EnsureFuncImage\<close>, \<open>EnsureFuncDeployment\<close> and
  \<open>CreateServiceMonitor\<close> of \<open>pkg/utils/kubelessutil.go\<close>, and the small functions they
  use. Each takes the clientset and the server state and returns its result, the objects it
  changed in place (the function, whose label map \<open>addDefaultLabel\<close> writes to, or the
  registry, which is read again) and the new server state.
\<close>

section \<open>Owner references, ports and maps\<close>

definition GetOwnerReference :: "string \<Rightarrow> string \<Rightarrow> string \<Rightarrow> string \<Rightarrow> owner_reference list res" where
  "GetOwnerReference kind apiVersion name uid =
     (if name = [] then Err (Errorf (''name can'' @ [CHR 0x27] @ ''t be empty''))
      else if uid = [] then Err (Errorf (''uid can'' @ [CHR 0x27] @ ''t be empty''))
      else Ok [\<lparr>or_Kind = kind, or_APIVersion = apiVersion, or_Name = name, or_UID = uid\<rparr>])"

definition svcTargetPort :: "kfunction \<Rightarrow> int32" where
  "svcTargetPort f =
     (case ss_Ports (fs_ServiceSpec (f_Spec f)) of
        [] \<Rightarrow> 8080
      | p # _ \<Rightarrow> word_of_int (IntValue (sp_TargetPort p)))"

definition mergeMap :: "gomap \<Rightarrow> gomap \<Rightarrow> gomap" where
  "mergeMap dst src = gm_set_all (if gm_len dst = 0 then Some [] else dst) (gm_entries src)"

definition serviceSpec :: "kfunction \<Rightarrow> service_spec" where
  "serviceSpec f =
     (if ss_Ports (fs_ServiceSpec (f_Spec f)) = [] then
        \<lparr>ss_Ports = [\<lparr>sp_Name = ''http-function-port'', sp_Protocol = ''TCP'', sp_Port = 8080,
                     sp_TargetPort = FromInt 8080, sp_NodePort = 0\<rparr>],
         ss_Selector = f_Labels f, ss_Type = ''ClusterIP'', ss_ClusterIP = []\<rparr>
      else fs_ServiceSpec (f_Spec f))"

section \<open>The config map\<close>

definition configmap_data :: "langruntimes \<Rightarrow> kfunction \<Rightarrow> gomap res" where
  "configmap_data l f =
     (let sp = f_Spec f in
      if fs_Handler sp \<noteq> [] then
        bind_res (getFileName l (fs_Handler sp) (fs_FunctionContentType sp) (fs_Runtime sp)) (\<lambda>fileName.
          let d = gm_set (Some [(''handler'', fs_Handler sp)]) fileName (fs_Function sp)
          in case GetRuntimeInfo l (fs_Runtime sp) of
               Ok ri \<Rightarrow> Ok (if ri_DepName ri \<noteq> [] then gm_set d (ri_DepName ri) (fs_Deps sp) else d)
             | Err _ \<Rightarrow> Ok d
             | Panic p \<Rightarrow> Panic p)
      else Ok (Some []))"

definition labelled_function :: "kfunction \<Rightarrow> kfunction" where
  "labelled_function f = set_f_Labels (addDefaultLabel_arg (f_Labels f)) f"

definition new_configmap :: "kfunction \<Rightarrow> owner_reference list \<Rightarrow> gomap \<Rightarrow> configmap" where
  "new_configmap f ors dat =
     \<lparr>cm_Meta = zero_meta\<lparr>om_Name := f_Name f, om_Labels := addDefaultLabel (f_Labels f),
        om_OwnerReferences := ors\<rparr>, cm_Data = dat\<rparr>"

definition revised_configmap :: "kfunction \<Rightarrow> owner_reference list \<Rightarrow> gomap \<Rightarrow> configmap \<Rightarrow> configmap" where
  "revised_configmap f ors dat cm =
     cm\<lparr>cm_Meta := (cm_Meta cm)\<lparr>om_Labels := f_Labels f, om_OwnerReferences := ors\<rparr>, cm_Data := dat\<rparr>"

definition conflict_error :: "string \<Rightarrow> kfunction \<Rightarrow> gerror" where
  "conflict_error what f =
     Errorf (''Found a conflicting '' @ what @ '' object '' @ f_Namespace f @ ''/'' @ f_Name f @ ''. Aborting'')"

definition EnsureFuncConfigMap ::
  "'s clientset \<Rightarrow> kfunction \<Rightarrow> owner_reference list \<Rightarrow> langruntimes \<Rightarrow> 's \<Rightarrow> unit res \<times> kfunction \<times> 's" where
  "EnsureFuncConfigMap k f ors l s =
     (case configmap_data l f of
        Err e \<Rightarrow> (Err e, f, s)
      | Panic p \<Rightarrow> (Panic p, f, s)
      | Ok dat \<Rightarrow>
          let f' = labelled_function f; ns = f_Namespace f in
          (case cl_create (ConfigMaps k) ns (new_configmap f ors dat) s of
             (Inr _, s1) \<Rightarrow> (Ok (), f', s1)
           | (Inl e, s1) \<Rightarrow>
               if \<not> IsAlreadyExists e then (Err e, f', s1)
               else
                 (case cl_get (ConfigMaps k) ns (f_Name f) s1 of
                    (Inl e, s2) \<Rightarrow> (Err e, f', s2)
                  | (Inr cm, s2) \<Rightarrow>
                      if \<not> hasDefaultLabel (om_Labels (cm_Meta cm)) then (Err (conflict_error ''configmap'' f), f', s2)
                      else
                        (case cl_update (ConfigMaps k) ns (revised_configmap f' ors dat cm) s2 of
                           (Inr _, s3) \<Rightarrow> (Ok (), f', s3)
                         | (Inl e, s3) \<Rightarrow> (if IsAlreadyExists e then Ok () else Err e, f', s3)))))"

section \<open>The service\<close>

definition new_service :: "kfunction \<Rightarrow> owner_reference list \<Rightarrow> service" where
  "new_service f ors =
     \<lparr>svc_Meta = zero_meta\<lparr>om_Name := f_Name f, om_Labels := addDefaultLabel (f_Labels f),
        om_OwnerReferences := ors\<rparr>, svc_Spec = serviceSpec (labelled_function f)\<rparr>"

definition revised_service :: "kfunction \<Rightarrow> owner_reference list \<Rightarrow> service \<Rightarrow> service" where
  "revised_service f ors svc =
     svc\<lparr>svc_Meta := (svc_Meta svc)\<lparr>om_Labels := f_Labels f, om_OwnerReferences := ors\<rparr>,
         svc_Spec := (svc_Spec svc)\<lparr>ss_Ports := ss_Ports (serviceSpec f)\<rparr>\<rparr>"

definition EnsureFuncService ::
  "'s clientset \<Rightarrow> kfunction \<Rightarrow> owner_reference list \<Rightarrow> 's \<Rightarrow> unit res \<times> kfunction \<times> 's" where
  "EnsureFuncService k f ors s =
     (let f' = labelled_function f; ns = f_Namespace f in
      case cl_create (Services k) ns (new_service f ors) s of
        (Inr _, s1) \<Rightarrow> (Ok (), f', s1)
      | (Inl e, s1) \<Rightarrow>
          if \<not> IsAlreadyExists e then (Err e, f', s1)
          else
            (case cl_get (Services k) ns (f_Name f) s1 of
               (Inl e, s2) \<Rightarrow> (Err e, f', s2)
             | (Inr svc, s2) \<Rightarrow>
                 if \<not> hasDefaultLabel (om_Labels (svc_Meta svc)) then (Err (conflict_error ''service'' f), f', s2)
                 else
                   (case cl_update (Services k) ns (revised_service f' ors svc) s2 of
                      (Inr _, s3) \<Rightarrow> (Ok (), f', s3)
                    | (Inl e, s3) \<Rightarrow> (if IsAlreadyExists e then Ok () else Err e, f', s3))))"

section \<open>The image build job\<close>

definition prepare_container :: "container list \<Rightarrow> container" where
  "prepare_container cs = foldl (\<lambda>acc c. if c_Name c = ''prepare'' then c else acc) zero_container cs"

definition bundle_container :: "pod_spec \<Rightarrow> volume_mount \<Rightarrow> string \<Rightarrow> container" where
  "bundle_container p vm provisionImage =
     zero_container\<lparr>c_Name := ''bundle'', c_Command := [''sh'', ''-c''],
       c_Args := [''tar cvf '' @ vm_MountPath vm @ ''/bundle.tar '' @ vm_MountPath vm @ ''/*''],
       c_VolumeMounts := c_VolumeMounts (prepare_container (ps_InitContainers p)),
       c_Image := provisionImage\<rparr>"

definition build_args :: "bool \<Rightarrow> string \<Rightarrow> string \<Rightarrow> string \<Rightarrow> string \<Rightarrow> string \<Rightarrow> string list" where
  "build_args tlsEnabled baseImage registryHost imageName tag bundleDir =
     [''/imbuilder'', ''add-layer''] @ (if \<not> tlsEnabled then [''--insecure''] else []) @
     [''--src'', ''docker://'' @ baseImage,
      ''--dst'', ''docker://'' @ registryHost @ ''/'' @ imageName @ '':'' @ tag,
      bundleDir @ ''/bundle.tar'']"

text \<open>
  The path of the bundle is read from the first mount of the first init container, with two
  index expressions.
\<close>

definition first_mount_path :: "pod_spec \<Rightarrow> string res" where
  "first_mount_path p =
     bind_res (index (ps_InitContainers p) 0) (\<lambda>c.
     bind_res (index (c_VolumeMounts c) 0) (\<lambda>m. Ok (vm_MountPath m)))"

definition build_job ::
  "kfunction \<Rightarrow> owner_reference list \<Rightarrow> string \<Rightarrow> pod_spec \<Rightarrow> container \<Rightarrow> string \<Rightarrow> string \<Rightarrow> string list \<Rightarrow> job" where
  "build_job f ors jobName p prepare builderImage dockerSecretName args =
     \<lparr>j_Meta = zero_meta\<lparr>om_Name := jobName, om_Namespace := f_Namespace f, om_OwnerReferences := ors,
        om_Labels := addDefaultLabel (Some [(''function'', f_Name f)])\<rparr>,
      j_PodSpec = p\<lparr>ps_Volumes := ps_Volumes p @
          [\<lparr>vol_Name = dockerSecretName, vol_Source = SecretVolume dockerSecretName\<rparr>],
        ps_Containers := [zero_container\<lparr>c_Name := ''build'', c_Image := builderImage,
          c_VolumeMounts := c_VolumeMounts prepare @
            [\<lparr>vm_Name = dockerSecretName, vm_ReadOnly = False, vm_MountPath = ''/docker''\<rparr>],
          c_Env := [\<lparr>ev_Name = ''DOCKER_CONFIG_FOLDER'', ev_Value = ''/docker''\<rparr>],
          c_Args := args\<rparr>]\<rparr>\<rparr>"

definition EnsureFuncImage ::
  "yaml_runtimes \<Rightarrow> (string \<Rightarrow> string) \<Rightarrow> 's clientset \<Rightarrow> kfunction \<Rightarrow> langruntimes \<Rightarrow> owner_reference list
   \<Rightarrow> string \<Rightarrow> string \<Rightarrow> string \<Rightarrow> string \<Rightarrow> string \<Rightarrow> string \<Rightarrow> bool \<Rightarrow> string list \<Rightarrow> 's
   \<Rightarrow> unit res \<times> langruntimes \<times> 's" where
  "EnsureFuncImage um getenv k f l ors imageName tag builderImage registryHost dockerSecretName
     provisionImage registryTLSEnabled imagePullSecrets s =
     (if length tag < 64 then (Err (Errorf ''Expecting sha256 as image tag''), l, s)
      else
        let jobName = ''build-'' @ f_Name f @ ''-'' @ take 10 tag; ns = f_Namespace f in
        (case cl_get (Jobs k) ns jobName s of
           (Inr _, s1) \<Rightarrow> (Ok (), l, s1)
         | (Inl _, s1) \<Rightarrow>
             let vm = getRuntimeVolumeMount (f_Name f) in
             (case populatePodSpec um f l (zero_pod_spec\<lparr>ps_RestartPolicy := ''OnFailure''\<rparr>) vm
                     provisionImage imagePullSecrets of
                (Err e, l') \<Rightarrow> (Err e, l', s1)
              | (Panic p, l') \<Rightarrow> (Panic p, l', s1)
              | (Ok p, l') \<Rightarrow>
                  let p' = p\<lparr>ps_InitContainers := ps_InitContainers p @ [bundle_container p vm provisionImage]\<rparr> in
                  (case bind_res (GetFunctionImage getenv l' (fs_Runtime (f_Spec f))) (\<lambda>baseImage.
                          bind_res (first_mount_path p') (\<lambda>dir.
                            Ok (build_args registryTLSEnabled baseImage registryHost imageName tag dir))) of
                     Err e \<Rightarrow> (Err e, l', s1)
                   | Panic q \<Rightarrow> (Panic q, l', s1)
                   | Ok args \<Rightarrow>
                       (case cl_create (Jobs k) ns
                               (build_job f ors jobName p' (prepare_container (ps_InitContainers p))
                                  builderImage dockerSecretName args) s1 of
                          (Inr _, s2) \<Rightarrow> (Ok (), l', s2)
                        | (Inl e, s2) \<Rightarrow> (Err e, l', s2))))))"

section \<open>The deployment\<close>

definition defaultTimeout :: string where
  "defaultTimeout = ''180''"

definition podAnnotations :: "kfunction \<Rightarrow> gomap" where
  "podAnnotations f = Some [(''prometheus.io/scrape'', ''true''), (''prometheus.io/path'', ''/metrics''),
     (''prometheus.io/port'', Itoa (sint (svcTargetPort f)))]"

text \<open>Names, labels, annotations and at least one container.\<close>

definition dpm_base :: "kfunction \<Rightarrow> owner_reference list \<Rightarrow> deployment" where
  "dpm_base f ors =
     (let d = fs_Deployment (f_Spec f); m = d_Meta d; sp = d_Spec d; t = ds_Template sp; p = pt_Spec t
      in d\<lparr>d_Meta := m\<lparr>om_OwnerReferences := ors, om_Name := f_Name f,
             om_Labels := addDefaultLabel (mergeMap (om_Labels m) (f_Labels f)),
             om_Annotations := mergeMap (om_Annotations m) (om_Annotations (f_Meta f))\<rparr>,
           d_Spec := sp\<lparr>
             ds_Selector := Some (Some [(''created-by'', gm_get (f_Labels f) ''created-by''),
                                        (''function'', gm_get (f_Labels f) ''function'')]),
             ds_MaxUnavailable := Some (FromInt 0),
             ds_Template := t\<lparr>
               pt_Labels := mergeMap (pt_Labels t) (f_Labels f),
               pt_Annotations := mergeMap (mergeMap (pt_Annotations t) (om_Annotations (f_Meta f))) (podAnnotations f),
               pt_Spec := p\<lparr>ps_Containers := (if ps_Containers p = [] then [zero_container] else ps_Containers p)\<rparr>\<rparr>\<rparr>\<rparr>)"

definition func_env :: "kfunction \<Rightarrow> string \<Rightarrow> string \<Rightarrow> resource_requirements \<Rightarrow> env_var list" where
  "func_env f modName handlerName rs =
     [\<lparr>ev_Name = ''FUNC_HANDLER'', ev_Value = handlerName\<rparr>,
      \<lparr>ev_Name = ''MOD_NAME'', ev_Value = modName\<rparr>,
      \<lparr>ev_Name = ''FUNC_TIMEOUT'',
       ev_Value = (if fs_Timeout (f_Spec f) = [] then defaultTimeout else fs_Timeout (f_Spec f))\<rparr>,
      \<lparr>ev_Name = ''FUNC_RUNTIME'', ev_Value = fs_Runtime (f_Spec f)\<rparr>,
      \<lparr>ev_Name = ''FUNC_MEMORY_LIMIT'', ev_Value = memory_string (rr_Limits rs)\<rparr>]"

text \<open>The image and the environment of the function container.\<close>

definition dpm_image ::
  "yaml_runtimes \<Rightarrow> (string \<Rightarrow> string) \<Rightarrow> kfunction \<Rightarrow> langruntimes \<Rightarrow> string \<Rightarrow> string \<Rightarrow> string list
   \<Rightarrow> pod_spec \<Rightarrow> pod_spec res \<times> langruntimes" where
  "dpm_image um getenv f l prebuiltRuntimeImage provisionImage imagePullSecrets p =
     (let vm = getRuntimeVolumeMount (f_Name f) in
      if c_Image (hd (ps_Containers p)) = [] \<and> prebuiltRuntimeImage = [] then
        (case populatePodSpec um f l p vm provisionImage imagePullSecrets of
           (Ok p', l') \<Rightarrow>
             (bind_res (GetFunctionImage getenv l' (fs_Runtime (f_Spec f))) (\<lambda>imageName.
                Ok (upd_c0 (\<lambda>c. c\<lparr>c_Image := imageName, c_VolumeMounts := c_VolumeMounts c @ [vm]\<rparr>) p')), l')
         | (Err e, l') \<Rightarrow> (Err e, l')
         | (Panic q, l') \<Rightarrow> (Panic q, l'))
      else
        (Ok ((upd_c0 (\<lambda>c. if c_Image c = [] then c\<lparr>c_Image := prebuiltRuntimeImage\<rparr> else c) p)
               \<lparr>ps_ImagePullSecrets := imagePullSecrets\<rparr>), l))"

definition dpm_runtime ::
  "yaml_runtimes \<Rightarrow> (string \<Rightarrow> string) \<Rightarrow> kfunction \<Rightarrow> langruntimes \<Rightarrow> string \<Rightarrow> string \<Rightarrow> string list
   \<Rightarrow> pod_spec \<Rightarrow> pod_spec res \<times> langruntimes" where
  "dpm_runtime um getenv f l prebuiltRuntimeImage provisionImage imagePullSecrets p =
     (if fs_Handler (f_Spec f) \<noteq> [] \<and> fs_Function (f_Spec f) \<noteq> [] then
        (case splitHandler (fs_Handler (f_Spec f)) of
           Err e \<Rightarrow> (Err e, l)
         | Panic q \<Rightarrow> (Panic q, l)
         | Ok (modName, handlerName) \<Rightarrow>
             (case dpm_image um getenv f l prebuiltRuntimeImage provisionImage imagePullSecrets p of
                (r, l') \<Rightarrow>
                  (bind_res r (\<lambda>p'.
                     Ok (upd_c0 (\<lambda>c. c\<lparr>c_Env := c_Env c @ func_env f modName handlerName (c_Resources c)\<rparr>) p')), l')))
      else (Ok p, l))"

definition default_security :: pod_security_context where
  "default_security = \<lparr>sc_RunAsUser = Some 1000, sc_FSGroup = Some 1000\<rparr>"

definition default_affinity :: "kfunction \<Rightarrow> affinity" where
  "default_affinity f =
     [\<lparr>pa_Weight = 100,
       pa_MatchLabels = Some [(''created-by'', ''kubeless''), (''function'', f_Name f)],
       pa_TopologyKey = ''kubernetes.io/hostname''\<rparr>]"

text \<open>Port, probe, security context and affinity.\<close>

definition dpm_port :: "kfunction \<Rightarrow> pod_spec \<Rightarrow> pod_spec" where
  "dpm_port f = upd_c0 (\<lambda>c. c\<lparr>
     c_Env := c_Env c @ [\<lparr>ev_Name = ''FUNC_PORT'', ev_Value = Itoa (sint (svcTargetPort f))\<rparr>],
     c_Name := f_Name f, c_Ports := c_Ports c @ [svcTargetPort f]\<rparr>)"

definition dpm_defaults :: "kfunction \<Rightarrow> langruntimes \<Rightarrow> pod_spec \<Rightarrow> pod_spec" where
  "dpm_defaults f l p =
     (upd_c0 (\<lambda>c. c\<lparr>c_LivenessProbe := (case c_LivenessProbe c of
         None \<Rightarrow> Some (GetLivenessProbeInfo l (fs_Runtime (f_Spec f)) (sint (svcTargetPort f)))
       | Some q \<Rightarrow> Some q)\<rparr>) p)
     \<lparr>ps_SecurityContext := (case ps_SecurityContext p of None \<Rightarrow> Some default_security | Some sc \<Rightarrow> Some sc),
      ps_Affinity := (case ps_Affinity p of None \<Rightarrow> Some (default_affinity f) | Some a \<Rightarrow> Some a)\<rparr>"

definition desired_deployment ::
  "yaml_runtimes \<Rightarrow> (string \<Rightarrow> string) \<Rightarrow> kfunction \<Rightarrow> owner_reference list \<Rightarrow> langruntimes \<Rightarrow> string \<Rightarrow> string
   \<Rightarrow> string list \<Rightarrow> deployment res \<times> langruntimes" where
  "desired_deployment um getenv f ors l prebuiltRuntimeImage provisionImage imagePullSecrets =
     (let d = dpm_base f ors in
      case dpm_runtime um getenv f l prebuiltRuntimeImage provisionImage imagePullSecrets (d_PodSpec d) of
        (r, l') \<Rightarrow>
          (bind_res r (\<lambda>p.
           bind_res (UpdateDeployment l' (upd_pod (\<lambda>_. dpm_port f p) d) ''/kubeless'' (fs_Runtime (f_Spec f))) (\<lambda>d'.
             Ok (upd_pod (dpm_defaults f l') d'))), l'))"

definition revised_deployment :: "kfunction \<Rightarrow> owner_reference list \<Rightarrow> deployment \<Rightarrow> deployment \<Rightarrow> deployment" where
  "revised_deployment f ors dpm old =
     old\<lparr>d_Meta := (d_Meta old)\<lparr>om_Labels := f_Labels f,
           om_Annotations := om_Annotations (d_Meta (fs_Deployment (f_Spec f))), om_OwnerReferences := ors\<rparr>,
         d_Spec := (d_Spec dpm)\<lparr>ds_Selector := ds_Selector (d_Spec old)\<rparr>\<rparr>"

definition EnsureFuncDeployment ::
  "yaml_runtimes \<Rightarrow> (string \<Rightarrow> string) \<Rightarrow> 's clientset \<Rightarrow> kfunction \<Rightarrow> owner_reference list \<Rightarrow> langruntimes
   \<Rightarrow> string \<Rightarrow> string \<Rightarrow> string list \<Rightarrow> 's \<Rightarrow> unit res \<times> langruntimes \<times> 's" where
  "EnsureFuncDeployment um getenv k f ors l prebuiltRuntimeImage provisionImage imagePullSecrets s =
     (case desired_deployment um getenv f ors l prebuiltRuntimeImage provisionImage imagePullSecrets of
        (Err e, l') \<Rightarrow> (Err e, l', s)
      | (Panic q, l') \<Rightarrow> (Panic q, l', s)
      | (Ok dpm, l') \<Rightarrow>
          let ns = f_Namespace f in
          (case cl_create (Deployments k) ns dpm s of
             (Inr _, s1) \<Rightarrow> (Ok (), l', s1)
           | (Inl e, s1) \<Rightarrow>
               if \<not> IsAlreadyExists e then (Err e, l', s1)
               else
                 (case cl_get (Deployments k) ns (f_Name f) s1 of
                    (Inl e, s2) \<Rightarrow> (Err e, l', s2)
                  | (Inr old, s2) \<Rightarrow>
                      if \<not> hasDefaultLabel (om_Labels (d_Meta old)) then (Err (conflict_error ''deployment'' f), l', s2)
                      else
                        (case cl_patch (Deployments k) ns (om_Name (d_Meta old)) (revised_deployment f ors dpm old) s2 of
                           (Inr _, s3) \<Rightarrow> (Ok (), l', s3)
                         | (Inl e, s3) \<Rightarrow> (Err e, l', s3)))))"

section \<open>The service monitor\<close>

definition new_service_monitor :: "kfunction \<Rightarrow> string \<Rightarrow> owner_reference list \<Rightarrow> service_monitor" where
  "new_service_monitor f ns ors =
     \<lparr>sm_Meta = zero_meta\<lparr>om_Name := f_Name f, om_Namespace := ns,
        om_Labels := addDefaultLabel (Some [(''service-monitor'', ''function'')]), om_OwnerReferences := ors\<rparr>,
      sm_MatchLabels = Some [(''function'', f_Name f)], sm_Endpoints = [''http-function-port'']\<rparr>"

text \<open>
  An error of the lookup other than "not found" is dropped, and a monitor that exists is
  an error.
\<close>

definition CreateServiceMonitor ::
  "('s, service_monitor) client \<Rightarrow> kfunction \<Rightarrow> string \<Rightarrow> owner_reference list \<Rightarrow> 's \<Rightarrow> unit res \<times> 's" where
  "CreateServiceMonitor smclient f ns ors s =
     (case cl_get smclient ns (f_Name f) s of
        (Inr _, s1) \<Rightarrow> (Err (Errorf ''service monitor has already existed''), s1)
      | (Inl e, s1) \<Rightarrow>
          if IsNotFound e then
            (case cl_create smclient ns (new_service_monitor f ns ors) s1 of
               (Inr _, s2) \<Rightarrow> (Ok (), s2)
             | (Inl e, s2) \<Rightarrow> (Err e, s2))
          else (Ok (), s1))"

section \<open>The contract the three functions share\<close>

text \<open>
  Create the object; if it exists already, get it, refuse it unless it carries the default
  label, and otherwise overwrite it. \<open>ready\<close> says that the desired object could be
  computed at all.
\<close>

locale ensure_object =
  fixes ready :: bool
    and ensure :: "'s \<Rightarrow> unit res \<times> 's"
    and create :: "('s, 'o) api"
    and get :: "('s, 'o) api"
    and overwrite :: "'o \<Rightarrow> ('s, 'o) api"
    and meta :: "'o \<Rightarrow> object_meta"
  assumes created: "ready \<Longrightarrow> create s = (Inr x, s1) \<Longrightarrow> ensure s = (Ok (), s1)"
    and create_failed: "ready \<Longrightarrow> create s = (Inl e, s1) \<Longrightarrow> \<not> IsAlreadyExists e \<Longrightarrow> ensure s = (Err e, s1)"
    and get_failed: "ready \<Longrightarrow> create s = (Inl e, s1) \<Longrightarrow> IsAlreadyExists e \<Longrightarrow> get s1 = (Inl e', s2) \<Longrightarrow>
      ensure s = (Err e', s2)"
    and foreign: "ready \<Longrightarrow> create s = (Inl e, s1) \<Longrightarrow> IsAlreadyExists e \<Longrightarrow> get s1 = (Inr x, s2) \<Longrightarrow>
      \<not> hasDefaultLabel (om_Labels (meta x)) \<Longrightarrow> \<exists>msg. ensure s = (Err (Errorf msg), s2)"
    and owned: "ready \<Longrightarrow> create s = (Inl e, s1) \<Longrightarrow> IsAlreadyExists e \<Longrightarrow> get s1 = (Inr x, s2) \<Longrightarrow>
      hasDefaultLabel (om_Labels (meta x)) \<Longrightarrow> overwrite x s2 = (Inr y, s3) \<Longrightarrow> ensure s = (Ok (), s3)"
begin

text \<open>On a server that is a store, a foreign object of the same name is left alone.\<close>

lemma foreign_object_kept:
  assumes "ready" and "stored s = Some x" and "\<not> hasDefaultLabel (om_Labels (meta x))"
    and create: "\<exists>e. fst (create s) = Inl e \<and> IsAlreadyExists e" "stored (snd (create s)) = stored s"
    and get: "\<And>s. stored s = Some x \<Longrightarrow> fst (get s) = Inr x" "\<And>s. stored (snd (get s)) = stored s"
  shows "\<exists>msg. fst (ensure s) = Err (Errorf msg) \<and> stored (snd (ensure s)) = Some x"
proof -
  obtain e s1 where c: "create s = (Inl e, s1)" "IsAlreadyExists e"
    using create(1) by (metis prod.collapse)
  then have s1: "stored s1 = Some x"
    using create(2) assms(2) by simp
  obtain s2 where g: "get s1 = (Inr x, s2)"
    using get(1) [OF s1] by (metis prod.collapse)
  then have "stored s2 = Some x"
    using get(2) [of s1] s1 by simp
  with foreign [OF assms(1) c g assms(3)] show ?thesis by auto
qed

text \<open>An object of ours is overwritten, and the call succeeds when the write does.\<close>

lemma owned_object_overwritten:
  assumes "ready" and "stored s = Some x" and "hasDefaultLabel (om_Labels (meta x))"
    and create: "\<exists>e. fst (create s) = Inl e \<and> IsAlreadyExists e" "stored (snd (create s)) = stored s"
    and get: "\<And>s. stored s = Some x \<Longrightarrow> fst (get s) = Inr x" "\<And>s. stored (snd (get s)) = stored s"
    and overwrite: "\<And>s. stored s = Some x \<Longrightarrow> fst (overwrite x s) = Inr y \<and> stored (snd (overwrite x s)) = Some y"
  shows "fst (ensure s) = Ok () \<and> stored (snd (ensure s)) = Some y"
proof -
  obtain e s1 where c: "create s = (Inl e, s1)" "IsAlreadyExists e"
    using create(1) by (metis prod.collapse)
  then have s1: "stored s1 = Some x"
    using create(2) assms(2) by simp
  obtain s2 where g: "get s1 = (Inr x, s2)"
    using get(1) [OF s1] by (metis prod.collapse)
  then have s2: "stored s2 = Some x"
    using get(2) [of s1] s1 by simp
  obtain s3 where w: "overwrite x s2 = (Inr y, s3)"
    using overwrite [OF s2] by (metis prod.collapse)
  with overwrite [OF s2] owned [OF assms(1) c g assms(3) w] show ?thesis by simp
qed

end

abbreviation res_state :: "'a \<times> 'b \<times> 's \<Rightarrow> 'a \<times> 's" where
  "res_state r \<equiv> (fst r, snd (snd r))"

definition desired_data :: "langruntimes \<Rightarrow> kfunction \<Rightarrow> gomap" where
  "desired_data l f = (case configmap_data l f of Ok d \<Rightarrow> d | _ \<Rightarrow> None)"

interpretation cm: ensure_object "is_ok (configmap_data l f)"
  "\<lambda>s. res_state (EnsureFuncConfigMap k f ors l s)"
  "cl_create (ConfigMaps k) (f_Namespace f) (new_configmap f ors (desired_data l f))"
  "cl_get (ConfigMaps k) (f_Namespace f) (f_Name f)"
  "\<lambda>cm. cl_update (ConfigMaps k) (f_Namespace f) (revised_configmap (labelled_function f) ors (desired_data l f) cm)"
  cm_Meta for k f ors l
  by unfold_locales
     (auto simp: EnsureFuncConfigMap_def is_ok_iff Let_def desired_data_def conflict_error_def)

interpretation svc: ensure_object True
  "\<lambda>s. res_state (EnsureFuncService k f ors s)"
  "cl_create (Services k) (f_Namespace f) (new_service f ors)"
  "cl_get (Services k) (f_Namespace f) (f_Name f)"
  "\<lambda>svc. cl_update (Services k) (f_Namespace f) (revised_service (labelled_function f) ors svc)"
  svc_Meta for k f ors
  by unfold_locales (auto simp: EnsureFuncService_def Let_def conflict_error_def)

definition dpm_or_zero :: "deployment res \<Rightarrow> deployment" where
  "dpm_or_zero r = (case r of Ok d \<Rightarrow> d | _ \<Rightarrow> zero_deployment)"

interpretation dpm: ensure_object "is_ok (fst (desired_deployment um env f ors l pre prov ips))"
  "\<lambda>s. res_state (EnsureFuncDeployment um env k f ors l pre prov ips s)"
  "cl_create (Deployments k) (f_Namespace f)
     (dpm_or_zero (fst (desired_deployment um env f ors l pre prov ips)))"
  "cl_get (Deployments k) (f_Namespace f) (f_Name f)"
  "\<lambda>old. cl_patch (Deployments k) (f_Namespace f) (om_Name (d_Meta old))
     (revised_deployment f ors (dpm_or_zero (fst (desired_deployment um env f ors l pre prov ips))) old)"
  d_Meta for um env k f ors l pre prov ips
  by unfold_locales
     (auto simp: EnsureFuncDeployment_def is_ok_iff Let_def dpm_or_zero_def conflict_error_def
       split: prod.splits)

section \<open>Convergence on a store\<close>

lemma hasDefaultLabel_iff: "hasDefaultLabel (om_Labels m) \<longleftrightarrow> kubeless_label m"
  by (cases "om_Labels m")
     (auto simp: hasDefaultLabel_def kubeless_label_def gm_get_def gm_find_def split: option.splits)

lemma labelled_function_labels:
  "f_Labels f \<noteq> None \<Longrightarrow> f_Labels (labelled_function f) = addDefaultLabel (f_Labels f)"
  by (simp add: labelled_function_def)

lemma configmap_data_not_Panic [simp]: "configmap_data l f \<noteq> Panic p"
  by (cases "getFileName l (fs_Handler (f_Spec f)) (fs_FunctionContentType (f_Spec f)) (fs_Runtime (f_Spec f))")
     (auto simp: configmap_data_def Let_def split: res.splits)

text \<open>What the stored config map of a function has to look like.\<close>

definition configmap_for :: "langruntimes \<Rightarrow> kfunction \<Rightarrow> owner_reference list \<Rightarrow> configmap \<Rightarrow> bool" where
  "configmap_for l f ors cm \<longleftrightarrow>
     configmap_data l f = Ok (cm_Data cm) \<and> om_OwnerReferences (cm_Meta cm) = ors \<and>
     om_Labels (cm_Meta cm) = addDefaultLabel (f_Labels f) \<and> om_Name (cm_Meta cm) = f_Name f"

text \<open>The defaulting of the server leaves alone what the program sets.\<close>

definition keeps_configmap :: "(string \<Rightarrow> configmap \<Rightarrow> configmap) \<Rightarrow> bool" where
  "keeps_configmap norm \<longleftrightarrow>
     (\<forall>ns cm. cm_Data (norm ns cm) = cm_Data cm \<and> om_Name (cm_Meta (norm ns cm)) = om_Name (cm_Meta cm) \<and>
        om_Labels (cm_Meta (norm ns cm)) = om_Labels (cm_Meta cm) \<and>
        om_OwnerReferences (cm_Meta (norm ns cm)) = om_OwnerReferences (cm_Meta cm))"

text \<open>A store holds each object under its own name.\<close>

definition well_named :: "('o \<Rightarrow> string) \<Rightarrow> 'o store \<Rightarrow> bool" where
  "well_named nm st \<longleftrightarrow> (\<forall>ns n x. st ns n = Some x \<longrightarrow> nm x = n)"


section \<open>Calls on an arbitrary server\<close>

text \<open>
  Whatever the server answers, the calls the functions below make keep to the rule that
  only objects with the default label are overwritten.
\<close>

lemma EnsureFuncConfigMap_log:
  "owned_growth lg (snd (snd (snd (EnsureFuncConfigMap (logged_clientset k) f ors l (s, lg)))))"
  by (auto simp: EnsureFuncConfigMap_def Let_def log_simps hasDefaultLabel_iff revised_configmap_def
      owned_growth_def split: res.splits sum.splits prod.splits)

lemma EnsureFuncService_log:
  "owned_growth lg (snd (snd (snd (EnsureFuncService (logged_clientset k) f ors (s, lg)))))"
  by (auto simp: EnsureFuncService_def Let_def log_simps hasDefaultLabel_iff revised_service_def
      owned_growth_def split: res.splits sum.splits prod.splits)

lemma EnsureFuncDeployment_log:
  "owned_growth lg (snd (snd (snd (EnsureFuncDeployment um env (logged_clientset k) f ors l pre prov ips (s, lg)))))"
  by (auto simp: EnsureFuncDeployment_def Let_def log_simps hasDefaultLabel_iff revised_deployment_def
      owned_growth_def split: res.splits sum.splits prod.splits)

lemma EnsureFuncImage_log:
  "owned_growth lg (snd (snd (snd (EnsureFuncImage um env (logged_clientset k) f l ors img tag bi rh ds prov tls ips (s, lg)))))"
  by (auto simp: EnsureFuncImage_def Let_def log_simps owned_growth_def split: res.splits sum.splits prod.splits)

lemma CreateServiceMonitor_log:
  "owned_growth lg (snd (snd (CreateServiceMonitor (logged_client EvServiceMonitor c) f ns ors (s, lg))))"
  by (auto simp: CreateServiceMonitor_def log_simps owned_growth_def split: res.splits sum.splits prod.splits)

section \<open>The container of the function\<close>

lemma upd_c0_simps [simp]:
  "ps_Containers p = c # cs \<Longrightarrow> ps_Containers (upd_c0 g p) = g c # cs"
  "ps_Volumes (upd_c0 g p) = ps_Volumes p"
  "ps_InitContainers (upd_c0 g p) = ps_InitContainers p"
  "ps_SecurityContext (upd_c0 g p) = ps_SecurityContext p"
  "ps_Affinity (upd_c0 g p) = ps_Affinity p"
  "ps_Containers (upd_c0 g p) = [] \<longleftrightarrow> ps_Containers p = []"
  by (auto simp: upd_c0_def split: list.splits)

lemma upd_pod_simps [simp]:
  "d_PodSpec (upd_pod g d) = g (d_PodSpec d)"
  "d_Meta (upd_pod g d) = d_Meta d"
  "ds_Selector (d_Spec (upd_pod g d)) = ds_Selector (d_Spec d)"
  by (simp_all add: upd_pod_def upd_template_def)

lemma dpm_base_containers: "\<exists>c cs. ps_Containers (d_PodSpec (dpm_base f ors)) = c # cs"
  by (cases "ps_Containers (d_PodSpec (fs_Deployment (f_Spec f)))") (simp_all add: dpm_base_def Let_def)

lemma dpm_image_containers:
  assumes "dpm_image um env f l pre prov ips p = (Ok p', l')" and "ps_Containers p = c # cs"
  shows "\<exists>c'. ps_Containers p' = c' # cs \<and> c_Env c' = c_Env c \<and> c_Resources c' = c_Resources c \<and>
    c_LivenessProbe c' = c_LivenessProbe c \<and> c_Ports c' = c_Ports c"
proof (cases "c_Image c = [] \<and> pre = []")
  case True
  then obtain q img where "populatePodSpec um f l p (getRuntimeVolumeMount (f_Name f)) prov ips = (Ok q, l')"
    and p': "p' = upd_c0 (\<lambda>c. c\<lparr>c_Image := img, c_VolumeMounts := c_VolumeMounts c @ [getRuntimeVolumeMount (f_Name f)]\<rparr>) q"
    using assms by (auto simp: dpm_image_def Let_def res_simps split: res.splits prod.splits)
  then obtain p4 where p4: "pod_containers l f p (getRuntimeVolumeMount (f_Name f)) prov ips = Ok p4"
    and q: "pod_secrets l' f p4 = Ok q"
    using populatePodSpec_OkD by blast
  then have "ps_Containers q = c # cs"
    using pod_containers_OkD [OF p4] pod_secrets_OkD [OF q] assms(2) by simp
  with p' show ?thesis by simp
next
  case False
  then have "p' = (upd_c0 (\<lambda>c. if c_Image c = [] then c\<lparr>c_Image := pre\<rparr> else c) p)\<lparr>ps_ImagePullSecrets := ips\<rparr>"
    using assms by (auto simp: dpm_image_def Let_def)
  with assms(2) show ?thesis by simp
qed

lemma dpm_runtime_containers:
  assumes "dpm_runtime um env f l pre prov ips p = (Ok p', l')" and "ps_Containers p = c # cs"
    and "fs_Handler (f_Spec f) = m @ ''.'' @ h" "CHR ''.'' \<notin> set m" "CHR ''.'' \<notin> set h" "fs_Function (f_Spec f) \<noteq> []"
  shows "\<exists>c'. ps_Containers p' = c' # cs \<and> c_Env c' = c_Env c @ func_env f m h (c_Resources c) \<and>
    c_LivenessProbe c' = c_LivenessProbe c \<and> c_Ports c' = c_Ports c"
proof -
  have sh: "splitHandler (fs_Handler (f_Spec f)) = Ok (m, h)"
    using assms(3-5) by (simp add: splitHandler_Ok_iff)
  obtain q where q: "dpm_image um env f l pre prov ips p = (Ok q, l')"
    and p': "p' = upd_c0 (\<lambda>c. c\<lparr>c_Env := c_Env c @ func_env f m h (c_Resources c)\<rparr>) q"
    using assms(1,3,6) sh by (auto simp: dpm_runtime_def res_simps split: prod.splits)
  from dpm_image_containers [OF q assms(2)] p' show ?thesis by auto
qed

lemma UpdateDeployment_containers:
  assumes "UpdateDeployment l d vol r = Ok d'" and "ps_Containers (d_PodSpec d) = c # cs"
  shows "\<exists>c' env. ps_Containers (d_PodSpec d') = c' # cs \<and> c_Env c' = c_Env c @ env \<and>
    c_Name c' = c_Name c \<and> c_LivenessProbe c' = c_LivenessProbe c \<and> c_Ports c' = c_Ports c \<and>
    d_Meta d' = d_Meta d \<and> ds_Selector (d_Spec d') = ds_Selector (d_Spec d)"
  using assms by (auto simp: UpdateDeployment_def Let_def split: res.splits option.splits)

text \<open>Once the pod could be prepared, the rest of the deployment cannot fail.\<close>

lemma UpdateDeployment_ok: "ps_Containers (d_PodSpec d) \<noteq> [] \<Longrightarrow> is_ok (UpdateDeployment l d vol r)"
  by (cases "findRuntimeVersion l r") (auto simp: UpdateDeployment_def Let_def split: option.splits)

lemma dpm_runtime_not_empty:
  assumes "dpm_runtime um env f l pre prov ips p = (Ok p', l')" and "ps_Containers p \<noteq> []"
  shows "ps_Containers p' \<noteq> []"
proof -
  obtain c cs where c: "ps_Containers p = c # cs" using assms(2) by (auto simp: neq_Nil_conv)
  show ?thesis
    using assms c dpm_image_containers [OF _ c]
    by (fastforce simp: dpm_runtime_def res_simps split: if_splits res.splits prod.splits)
qed

lemma desired_deployment_ok_iff:
  "is_ok (fst (desired_deployment um env f ors l pre prov ips)) \<longleftrightarrow>
     is_ok (fst (dpm_runtime um env f l pre prov ips (d_PodSpec (dpm_base f ors))))"
proof (cases "dpm_runtime um env f l pre prov ips (d_PodSpec (dpm_base f ors))")
  case (Pair r l')
  show ?thesis
  proof (cases r)
    case (Ok p)
    have "ps_Containers p \<noteq> []"
      using dpm_runtime_not_empty [OF Pair [unfolded Ok]] dpm_base_containers [of f ors] by auto
    then have "is_ok (UpdateDeployment l' (upd_pod (\<lambda>_. dpm_port f p) (dpm_base f ors)) ''/kubeless'' (fs_Runtime (f_Spec f)))"
      by (intro UpdateDeployment_ok) (simp add: dpm_port_def)
    then show ?thesis
      using Pair Ok by (auto simp: desired_deployment_def Let_def is_ok_iff)
  qed (use Pair in \<open>auto simp: desired_deployment_def Let_def\<close>)
qed

text \<open>
  The deployment computed for a function with a well-formed handler and with code has
  a first container, named after the function, whose environment tells the runtime the
  module, the handler, the timeout (180 seconds when none is given), the runtime and the
  port; it exposes that port, it always has a liveness probe, and the pod always has a
  security context and an affinity.
\<close>

theorem desired_deployment_container:
  assumes "desired_deployment um env f ors l pre prov ips = (Ok d, l')"
    and "fs_Handler (f_Spec f) = m @ ''.'' @ h" "CHR ''.'' \<notin> set m" "CHR ''.'' \<notin> set h"
    and "fs_Function (f_Spec f) \<noteq> []"
  shows "\<exists>c cs. ps_Containers (d_PodSpec d) = c # cs \<and> c_Name c = f_Name f \<and>
    {\<lparr>ev_Name = ''FUNC_HANDLER'', ev_Value = h\<rparr>, \<lparr>ev_Name = ''MOD_NAME'', ev_Value = m\<rparr>,
     \<lparr>ev_Name = ''FUNC_TIMEOUT'', ev_Value = (if fs_Timeout (f_Spec f) = [] then ''180'' else fs_Timeout (f_Spec f))\<rparr>,
     \<lparr>ev_Name = ''FUNC_RUNTIME'', ev_Value = fs_Runtime (f_Spec f)\<rparr>,
     \<lparr>ev_Name = ''FUNC_PORT'', ev_Value = Itoa (sint (svcTargetPort f))\<rparr>} \<subseteq> set (c_Env c) \<and>
    svcTargetPort f \<in> set (c_Ports c) \<and> c_LivenessProbe c \<noteq> None \<and>
    ps_SecurityContext (d_PodSpec d) \<noteq> None \<and> ps_Affinity (d_PodSpec d) \<noteq> None"
proof -
  let ?b = "dpm_base f ors"
  obtain c0 cs where c0: "ps_Containers (d_PodSpec ?b) = c0 # cs"
    using dpm_base_containers by blast
  obtain p d1 where p: "dpm_runtime um env f l pre prov ips (d_PodSpec ?b) = (Ok p, l')"
    and d1: "UpdateDeployment l' (upd_pod (\<lambda>_. dpm_port f p) ?b) ''/kubeless'' (fs_Runtime (f_Spec f)) = Ok d1"
    and d: "d = upd_pod (dpm_defaults f l') d1"
    using assms(1) by (auto simp: desired_deployment_def Let_def res_simps split: prod.splits)
  obtain c1 where c1: "ps_Containers p = c1 # cs" "c_Env c1 = c_Env c0 @ func_env f m h (c_Resources c0)"
    using dpm_runtime_containers [OF p c0 assms(2-5)] by blast
  let ?c2 = "c1\<lparr>c_Env := c_Env c1 @ [\<lparr>ev_Name = ''FUNC_PORT'', ev_Value = Itoa (sint (svcTargetPort f))\<rparr>],
     c_Name := f_Name f, c_Ports := c_Ports c1 @ [svcTargetPort f]\<rparr>"
  have c2: "ps_Containers (d_PodSpec (upd_pod (\<lambda>_. dpm_port f p) ?b)) = ?c2 # cs"
    using c1(1) by (simp add: dpm_port_def)
  obtain c3 e where "ps_Containers (d_PodSpec d1) = c3 # cs" "c_Env c3 = c_Env ?c2 @ e"
    "c_Name c3 = f_Name f" "c_Ports c3 = c_Ports ?c2"
    using UpdateDeployment_containers [OF d1 c2] by auto
  then show ?thesis
    using c1(2) by (auto simp: d dpm_defaults_def func_env_def defaultTimeout_def split: option.splits)
qed

end
