(* ===== verification/K8sUtil.thy ===== *)
theory K8sUtil
  imports Ensure
begin

text \<open>
  \<open>pkg/utils/k8sutil.go\<close> without the constructors of API clients: access to the Function
  resources, finalizers, autoscaling rules, ready pods, and the merge of a function's
  deployment with the one of the configuration. The merge library is a parameter: \<open>merge\<close>
  stands for \<open>mergo.Merge\<close> on deployments and \<open>merge_append\<close> for \<open>mergo.Merge\<close> with
  \<open>WithAppendSlice\<close> on containers; each returns its error and the destination.
\<close>

section \<open>Function resources\<close>

definition unit_result :: "(gerror + 'a) \<times> 's \<Rightarrow> unit res \<times> 's" where
  "unit_result r = (case fst r of Inl e \<Rightarrow> Err e | Inr _ \<Rightarrow> Ok (), snd r)"

definition CreateFunctionCustomResource :: "('s, kfunction) client \<Rightarrow> kfunction \<Rightarrow> 's \<Rightarrow> unit res \<times> 's" where
  "CreateFunctionCustomResource c f s = unit_result (cl_create c (f_Namespace f) f s)"

definition UpdateFunctionCustomResource :: "('s, kfunction) client \<Rightarrow> kfunction \<Rightarrow> 's \<Rightarrow> unit res \<times> 's" where
  "UpdateFunctionCustomResource c f s = unit_result (cl_update c (f_Namespace f) f s)"

definition PatchFunctionCustomResource :: "('s, kfunction) client \<Rightarrow> kfunction \<Rightarrow> 's \<Rightarrow> unit res \<times> 's" where
  "PatchFunctionCustomResource c f s = unit_result (cl_patch c (f_Namespace f) (f_Name f) f s)"

definition DeleteFunctionCustomResource :: "('s, kfunction) client \<Rightarrow> string \<Rightarrow> string \<Rightarrow> 's \<Rightarrow> unit res \<times> 's" where
  "DeleteFunctionCustomResource c funcName ns s = unit_result (cl_delete c ns funcName s)"

definition GetFunctionCustomResource :: "('s, kfunction) client \<Rightarrow> string \<Rightarrow> string \<Rightarrow> 's \<Rightarrow> kfunction res \<times> 's" where
  "GetFunctionCustomResource c funcName ns s =
     (case cl_get c ns funcName s of (Inl e, s') \<Rightarrow> (Err e, s') | (Inr f, s') \<Rightarrow> (Ok f, s'))"

text \<open>
  A function that is not found ends the process of the command line client. The first
  argument is what the construction of the client gave.
\<close>

definition GetFunction :: "gerror + ('s, kfunction) client \<Rightarrow> string \<Rightarrow> string \<Rightarrow> 's \<Rightarrow> kfunction res \<times> 's" where
  "GetFunction kubelessClient funcName ns s =
     (case kubelessClient of
        Inl e \<Rightarrow> (Err e, s)
      | Inr c \<Rightarrow>
          (case cl_get c ns funcName s of
             (Inr f, s') \<Rightarrow> (Ok f, s')
           | (Inl e, s') \<Rightarrow>
               (if IsNotFound e then Panic (Exit (''Function '' @ funcName @ '' is not found'')) else Err e, s')))"

section \<open>Finalizers\<close>

definition set_Finalizers :: "string list \<Rightarrow> kfunction \<Rightarrow> kfunction" where
  "set_Finalizers fs f = f\<lparr>f_Meta := (f_Meta f)\<lparr>om_Finalizers := fs\<rparr>\<rparr>"

definition FunctionObjAddFinalizer :: "('s, kfunction) client \<Rightarrow> kfunction \<Rightarrow> string \<Rightarrow> 's \<Rightarrow> unit res \<times> 's" where
  "FunctionObjAddFinalizer c f finalizer s =
     UpdateFunctionCustomResource c (set_Finalizers (om_Finalizers (f_Meta f) @ [finalizer]) f) s"

definition FunctionObjHasFinalizer :: "kfunction \<Rightarrow> string \<Rightarrow> bool" where
  "FunctionObjHasFinalizer f finalizer = list_ex (\<lambda>x. x = finalizer) (om_Finalizers (f_Meta f))"

definition without_finalizer :: "kfunction \<Rightarrow> string \<Rightarrow> kfunction" where
  "without_finalizer f finalizer = set_Finalizers (filter (\<lambda>x. x \<noteq> finalizer) (om_Finalizers (f_Meta f))) f"

definition FunctionObjRemoveFinalizer :: "('s, kfunction) client \<Rightarrow> kfunction \<Rightarrow> string \<Rightarrow> 's \<Rightarrow> unit res \<times> 's" where
  "FunctionObjRemoveFinalizer c f finalizer s = UpdateFunctionCustomResource c (without_finalizer f finalizer) s"

section \<open>Pods, secrets and autoscaling\<close>

text \<open>A pod with the readiness of its containers.\<close>

record pod =
  pod_Name :: string
  pod_Ready :: "bool list"

definition GetReadyPod :: "pod list \<Rightarrow> pod res" where
  "GetReadyPod pods =
     (case find (\<lambda>p. list_all (\<lambda>r. r) (pod_Ready p)) pods of
        Some p \<Rightarrow> Ok p
      | None \<Rightarrow> Err (Errorf ''there is no pod ready''))"

definition GetPodsByLabel :: "('s, pod) client \<Rightarrow> string \<Rightarrow> string \<Rightarrow> string \<Rightarrow> 's \<Rightarrow> pod list res \<times> 's" where
  "GetPodsByLabel c ns k v s =
     (case cl_list c ns (k @ ''='' @ v) s of (Inl e, s') \<Rightarrow> (Err e, s') | (Inr ps, s') \<Rightarrow> (Ok ps, s'))"

definition GetSecretsAsLocalObjectReference :: "string list \<Rightarrow> string list" where
  "GetSecretsAsLocalObjectReference secrets = filter (\<lambda>s. s \<noteq> []) secrets"

definition CreateAutoscale :: "('s, hpa) client \<Rightarrow> hpa \<Rightarrow> 's \<Rightarrow> unit res \<times> 's" where
  "CreateAutoscale c h s = unit_result (cl_create c (om_Namespace (hpa_Meta h)) h s)"

definition UpdateAutoscale :: "('s, hpa) client \<Rightarrow> hpa \<Rightarrow> 's \<Rightarrow> unit res \<times> 's" where
  "UpdateAutoscale c h s = unit_result (cl_update c (om_Namespace (hpa_Meta h)) h s)"

definition ignore_not_found :: "(gerror + 'a) \<times> 's \<Rightarrow> unit res \<times> 's" where
  "ignore_not_found r =
     (case fst r of Inl e \<Rightarrow> if IsNotFound e then Ok () else Err e | Inr _ \<Rightarrow> Ok (), snd r)"

definition DeleteAutoscale :: "('s, hpa) client \<Rightarrow> string \<Rightarrow> string \<Rightarrow> 's \<Rightarrow> unit res \<times> 's" where
  "DeleteAutoscale c name ns s = ignore_not_found (cl_delete c ns name s)"

definition DeleteServiceMonitor :: "('s, service_monitor) client \<Rightarrow> string \<Rightarrow> string \<Rightarrow> 's \<Rightarrow> unit res \<times> 's" where
  "DeleteServiceMonitor c name ns s = ignore_not_found (cl_delete c ns name s)"

section \<open>Merging deployments\<close>

definition or_empty :: "gomap \<Rightarrow> gomap" where
  "or_empty m = (case m of None \<Rightarrow> Some [] | Some _ \<Rightarrow> m)"

text \<open>
  The third test looks at the match labels of the selector, but its branch replaces the
  labels of the deployment.
\<close>

definition initializeEmptyMapsInDeployment :: "deployment \<Rightarrow> deployment" where
  "initializeEmptyMapsInDeployment d =
     (let m = d_Meta d; sp = d_Spec d; t = ds_Template sp; p = pt_Spec t;
          m1 = m\<lparr>om_Annotations := or_empty (om_Annotations m), om_Labels := or_empty (om_Labels m)\<rparr>;
          m2 = (if ds_Selector sp = Some None then m1\<lparr>om_Labels := Some []\<rparr> else m1)
      in d\<lparr>d_Meta := m2,
           d_Spec := sp\<lparr>ds_Template := t\<lparr>pt_Annotations := or_empty (pt_Annotations t),
             pt_Labels := or_empty (pt_Labels t),
             pt_Spec := p\<lparr>ps_NodeSelector := or_empty (ps_NodeSelector p)\<rparr>\<rparr>\<rparr>\<rparr>)"

text \<open>
  The loop over the source containers. Beyond the end of the destination slice the source
  assigns to the element of that index, which panics.
\<close>

fun merge_containers ::
  "(container \<Rightarrow> container \<Rightarrow> gerror option \<times> container) \<Rightarrow> nat \<Rightarrow> container list \<Rightarrow> container list
   \<Rightarrow> unit res \<times> container list" where
  "merge_containers merge_append i [] dst = (Ok (), dst)"
| "merge_containers merge_append i (srcContainer # src) dst =
     (if i \<ge> length dst then
        (case assign dst i srcContainer of
           Ok dst' \<Rightarrow> merge_containers merge_append (Suc i) src dst'
         | Err e \<Rightarrow> (Err e, dst)
         | Panic p \<Rightarrow> (Panic p, dst))
      else
        (case merge_append (dst ! i) srcContainer of
           (Some e, _) \<Rightarrow> (Err e, dst)
         | (None, c) \<Rightarrow> merge_containers merge_append (Suc i) src (dst[i := c])))"

definition MergeDeployments ::
  "(deployment \<Rightarrow> deployment \<Rightarrow> gerror option \<times> deployment)
   \<Rightarrow> (container \<Rightarrow> container \<Rightarrow> gerror option \<times> container)
   \<Rightarrow> deployment \<Rightarrow> deployment \<Rightarrow> unit res \<times> deployment" where
  "MergeDeployments merge merge_append dst src =
     (let dst0 = initializeEmptyMapsInDeployment dst; src0 = initializeEmptyMapsInDeployment src in
      case merge dst0 src0 of
        (Some e, dst1) \<Rightarrow> (Err e, dst1)
      | (None, dst1) \<Rightarrow>
          let srcContainers = ps_Containers (d_PodSpec src0) in
          if srcContainers = [] then (Ok (), dst1)
          else
            (case merge_containers merge_append 0 srcContainers (ps_Containers (d_PodSpec dst1)) of
               (r, cs) \<Rightarrow> (r, upd_pod (\<lambda>p. p\<lparr>ps_Containers := cs\<rparr>) dst1)))"

section \<open>Lemmas\<close>

lemma unit_result_fst: "fst (unit_result r) = Ok () \<longleftrightarrow> (\<exists>x. fst r = Inr x)"
  by (auto simp: unit_result_def split: sum.splits)

lemma unit_result_snd [simp]: "snd (unit_result r) = snd r"
  by (simp add: unit_result_def)

lemma ignore_not_found_snd [simp]: "snd (ignore_not_found r) = snd r"
  by (simp add: ignore_not_found_def)

lemma set_Finalizers_simps [simp]:
  "om_Finalizers (f_Meta (set_Finalizers fs f)) = fs"
  "f_Name (set_Finalizers fs f) = f_Name f" "f_Namespace (set_Finalizers fs f) = f_Namespace f"
  "f_Spec (set_Finalizers fs f) = f_Spec f"
  by (simp_all add: set_Finalizers_def)

lemma has_finalizer_iff: "FunctionObjHasFinalizer f fin \<longleftrightarrow> fin \<in> set (om_Finalizers (f_Meta f))"
  by (simp add: FunctionObjHasFinalizer_def list_ex_iff)

lemma initializeEmptyMaps_containers [simp]:
  "ps_Containers (d_PodSpec (initializeEmptyMapsInDeployment d)) = ps_Containers (d_PodSpec d)"
  by (simp add: initializeEmptyMapsInDeployment_def Let_def)

lemma merge_containers_state:
  "length (snd (merge_containers m i src dst)) = length dst"
  by (induction m i src dst rule: merge_containers.induct)
     (auto simp: assign_def split: prod.splits option.splits)

lemma merge_containers_ok:
  assumes "\<forall>a b. fst (m a b) = None" and "i + length src \<le> length dst"
  shows "merge_containers m i src dst =
    (Ok (), take i dst @ map2 (\<lambda>a b. snd (m a b)) (take (length src) (drop i dst)) src @ drop (i + length src) dst)"
  using assms
proof (induction m i src dst rule: merge_containers.induct)
  case (1 m i dst)
  then show ?case by simp
next
  case (2 m i c src dst)
  obtain c' where c': "m (dst ! i) c = (None, c')" using "2.prems"(1) by (metis prod.collapse)
  have i: "i < length dst" using "2.prems"(2) by simp
  have "merge_containers m (Suc i) src (dst[i := c']) =
    (Ok (), take (Suc i) (dst[i := c']) @
      map2 (\<lambda>a b. snd (m a b)) (take (length src) (drop (Suc i) (dst[i := c']))) src @
      drop (Suc i + length src) (dst[i := c']))"
    using "2.IH"(2) [OF _ c' [symmetric]] "2.prems" i by simp
  then show ?case
    using i c' by (simp add: take_Suc_conv_app_nth Cons_nth_drop_Suc [symmetric] drop_update_cancel)
qed

lemma merge_containers_short:
  assumes "\<forall>a b. fst (m a b) = None" and "i \<le> length dst" and "length dst < i + length src"
  shows "fst (merge_containers m i src dst) = Panic IndexOutOfRange"
  using assms
proof (induction m i src dst rule: merge_containers.induct)
  case (1 m i dst)
  then show ?case by simp
next
  case (2 m i c src dst)
  obtain c' where c': "m (dst ! i) c = (None, c')" using "2.prems"(1) by (metis prod.collapse)
  show ?case
  proof (cases "i < length dst")
    case True
    then show ?thesis using "2.IH"(2) [OF _ c' [symmetric]] "2.prems" c' by simp
  next
    case False
    then show ?thesis by (simp add: assign_def)
  qed
qed

text \<open>
  Removing a finalizer sends an object that differs from the function only in its
  finalizers: the given one is gone, the others stay in their order; and removing undoes
  adding.
\<close>

lemma finalizer_round:
  "\<not> FunctionObjHasFinalizer (without_finalizer f fin) fin \<and>
   om_Finalizers (f_Meta (without_finalizer f fin)) = filter (\<lambda>x. x \<noteq> fin) (om_Finalizers (f_Meta f)) \<and>
   (\<exists>fs. without_finalizer f fin = set_Finalizers fs f) \<and>
   FunctionObjHasFinalizer (set_Finalizers (om_Finalizers (f_Meta f) @ [fin]) f) fin \<and>
   without_finalizer (set_Finalizers (om_Finalizers (f_Meta f) @ [fin]) f) fin = without_finalizer f fin"
  by (auto simp: has_finalizer_iff without_finalizer_def set_Finalizers_def)

text \<open>What the merge library promises for containers: a non-empty slice is kept.\<close>

definition keeps_containers :: "(deployment \<Rightarrow> deployment \<Rightarrow> gerror option \<times> deployment) \<Rightarrow> bool" where
  "keeps_containers merge \<longleftrightarrow>
     (\<forall>a b. fst (merge a b) = None \<and>
        ps_Containers (d_PodSpec (snd (merge a b))) =
          (if ps_Containers (d_PodSpec a) = [] then ps_Containers (d_PodSpec b) else ps_Containers (d_PodSpec a)))"

text \<open>
  Merging the configured deployment into a function's deployment works container by
  container as long as the configuration has no more containers than the function; if it
  has more, and the function has at least one, the merge panics with an index out of range
  instead of adding the container.
\<close>

theorem MergeDeployments_containers:
  assumes "keeps_containers merge" and "\<forall>a b. fst (merge_append a b) = None"
    and "ps_Containers (d_PodSpec dst) = d # ds" and "ps_Containers (d_PodSpec src) = s # ss"
  shows "(length ss \<le> length ds \<longrightarrow>
      fst (MergeDeployments merge merge_append dst src) = Ok () \<and>
      ps_Containers (d_PodSpec (snd (MergeDeployments merge merge_append dst src))) =
        map2 (\<lambda>a b. snd (merge_append a b)) (take (Suc (length ss)) (d # ds)) (s # ss) @ drop (length ss) ds) \<and>
    (length ds < length ss \<longrightarrow> fst (MergeDeployments merge merge_append dst src) = Panic IndexOutOfRange)"
proof -
  let ?dst0 = "initializeEmptyMapsInDeployment dst" and ?src0 = "initializeEmptyMapsInDeployment src"
  obtain d1 where d1: "merge ?dst0 ?src0 = (None, d1)" and cs: "ps_Containers (d_PodSpec d1) = d # ds"
    using assms(1,3) by (metis keeps_containers_def initializeEmptyMaps_containers list.distinct(1) prod.collapse)
  have "MergeDeployments merge merge_append dst src =
    (case merge_containers merge_append 0 (s # ss) (d # ds) of
       (r, cs) \<Rightarrow> (r, upd_pod (\<lambda>p. p\<lparr>ps_Containers := cs\<rparr>) d1))"
    using d1 cs assms(4) by (simp add: MergeDeployments_def Let_def del: merge_containers.simps)
  then show ?thesis
    using merge_containers_ok [OF assms(2), of 0 "s # ss" "d # ds"]
      merge_containers_short [OF assms(2), of 0 "d # ds" "s # ss"]
    by (auto split: prod.splits)
qed

text \<open>
  A deployment whose selector has no match labels loses its own labels when empty maps
  are initialised: the labels end up empty, although they were present.
\<close>

theorem initializeEmptyMaps_labels:
  "om_Labels (d_Meta (initializeEmptyMapsInDeployment d)) =
     (if ds_Selector (d_Spec d) = Some None then Some [] else or_empty (om_Labels (d_Meta d)))"
  by (simp add: initializeEmptyMapsInDeployment_def Let_def)

end
