(* ===== verification/Registry.thy ===== *)
theory Registry
  imports KubeTypes
begin

text \<open>
  The client of the Docker registry, \<open>pkg/registry/registry.go\<close>: reading the credentials,
  taking the registry URL apart, and asking whether a tag of an image exists, with the
  token exchange a registry may ask for. The two regular expressions are written out as
  leftmost, greedy matches. The JSON decoders and HTTP are parameters: a GET takes the URL
  and the value of the \<open>Authorization\<close> header, if any, and answers over a state, so that two
  requests for the same URL may be answered differently.
\<close>

section \<open>Data\<close>

record credentials =
  cr_Username :: string
  cr_Password :: string
  cr_Email :: string
  cr_Auth :: string

record registry =
  reg_Endpoint :: string
  reg_Version :: string
  reg_Creds :: credentials

record tagv1 =
  t1_Layer :: string
  t1_Name :: string

record tagListV2 =
  t2_Name :: string
  t2_Tags :: "string list"

record registry_json =
  rj_cfg :: "string \<Rightarrow> gerror + (string \<times> credentials) list"
  rj_v1 :: "string \<Rightarrow> gerror + tagv1 list"
  rj_v2 :: "string \<Rightarrow> gerror + tagListV2"
  rj_auth :: "string \<Rightarrow> gerror + string"

record http_response =
  hr_StatusCode :: int
  hr_Header :: gomap
  hr_Body :: "gerror + string"

type_synonym 's http_client = "string \<Rightarrow> string option \<Rightarrow> ('s, http_response) api"

section \<open>The registry URL\<close>

definition is_digit :: "char \<Rightarrow> bool" where
  "is_digit c \<longleftrightarrow> 48 \<le> (of_char c :: nat) \<and> (of_char c :: nat) \<le> 57"

text \<open>The part \<open>/(v[0-9]+)\<close> of the expression at the start of a string.\<close>

fun version_at :: "string \<Rightarrow> string option" where
  "version_at (c # v # ds) =
     (if c = CHR ''/'' \<and> v = CHR ''v'' \<and> takeWhile is_digit ds \<noteq> []
      then Some (v # takeWhile is_digit ds) else None)"
| "version_at _ = None"

text \<open>\<open>.*\<close> is greedy and stops at a line break: the last place where a version follows.\<close>

fun last_version :: "string \<Rightarrow> (string \<times> string) option" where
  "last_version [] = None"
| "last_version (c # cs) =
     (if c = CHR 0x0A then None
      else
        case last_version cs of
          Some (pre, v) \<Rightarrow> Some (c # pre, v)
        | None \<Rightarrow> map_option (\<lambda>v. ([], v)) (version_at (c # cs)))"

definition match_url :: "string \<Rightarrow> (string \<times> string) option" where
  "match_url s =
     (if prefix ''https://'' s then map_option (\<lambda>(pre, v). (''https://'' @ pre, v)) (last_version (drop 8 s))
      else if prefix ''http://'' s then map_option (\<lambda>(pre, v). (''http://'' @ pre, v)) (last_version (drop 7 s))
      else None)"

fun find_url :: "string \<Rightarrow> (string \<times> string) option" where
  "find_url [] = None"
| "find_url (c # cs) = (case match_url (c # cs) of Some m \<Rightarrow> Some m | None \<Rightarrow> find_url cs)"

text \<open>The text of \<open>%q\<close> on a list of strings without characters that need an escape.\<close>

definition quoted_list :: "string list \<Rightarrow> string" where
  "quoted_list ks = ''['' @ join_str '' '' (map (\<lambda>k. [CHR 0x22] @ k @ [CHR 0x22]) ks) @ '']''"

definition alist_get :: "(string \<times> 'a) list \<Rightarrow> 'a \<Rightarrow> string \<Rightarrow> 'a" where
  "alist_get al z k = (case map_of al k of None \<Rightarrow> z | Some v \<Rightarrow> v)"

definition zero_credentials :: credentials where
  "zero_credentials = \<lparr>cr_Username = [], cr_Password = [], cr_Email = [], cr_Auth = []\<rparr>"

definition NewRegistry :: "registry_json \<Rightarrow> secret \<Rightarrow> registry res" where
  "NewRegistry js config =
     (case rj_cfg js (alist_get (sec_Data config) [] ''.dockerconfigjson'') of
        Inl e \<Rightarrow> Err e
      | Inr auths \<Rightarrow>
          let regs = map fst auths in
          if length regs > 1 then
            Err (Errorf (''Found several registries: '' @ quoted_list regs @ '', unable to decide which one to use''))
          else
            bind_res (index regs 0) (\<lambda>registryURL.
              case find_url registryURL of
                None \<Rightarrow> Err (Errorf (''Unable to parse registry URL '' @ registryURL))
              | Some (endpoint, version) \<Rightarrow>
                  Ok \<lparr>reg_Endpoint = endpoint, reg_Version = version,
                      reg_Creds = alist_get auths zero_credentials registryURL\<rparr>))"

section \<open>Tags\<close>

definition getTags :: "registry_json \<Rightarrow> registry \<Rightarrow> string \<Rightarrow> string list res" where
  "getTags js r body =
     (if reg_Version r = ''v1'' then map_res (map t1_Name) (lift_sum (rj_v1 js body))
      else if reg_Version r = ''v2'' then map_res t2_Tags (lift_sum (rj_v2 js body))
      else Err (Errorf (''API version '' @ reg_Version r @ '' not supported'')))"

definition tagURL :: "registry \<Rightarrow> string \<Rightarrow> string res" where
  "tagURL r img =
     (if reg_Version r = ''v1'' then
        Ok (reg_Endpoint r @ ''/'' @ reg_Version r @ ''/repositories/'' @ img @ ''/tags'')
      else if reg_Version r = ''v2'' then
        Ok (reg_Endpoint r @ ''/'' @ reg_Version r @ ''/'' @ img @ ''/tags/list'')
      else Err (Errorf (''API version '' @ reg_Version r @ '' not supported'')))"

section \<open>Requests\<close>

text \<open>The first match of \<open>property="([^"]*)"\<close>, for a property without special characters.\<close>

fun match_property :: "string \<Rightarrow> string \<Rightarrow> string option" where
  "match_property [] key = None"
| "match_property (c # cs) key =
     (if prefix key (c # cs) \<and> CHR 0x22 \<in> set (drop (length key) (c # cs))
      then Some (takeWhile (\<lambda>x. x \<noteq> CHR 0x22) (drop (length key) (c # cs)))
      else match_property cs key)"

definition findProperty :: "string \<Rightarrow> string \<Rightarrow> string res" where
  "findProperty src property =
     (case match_property src (property @ [CHR ''='', CHR 0x22]) of
        Some v \<Rightarrow> Ok v
      | None \<Rightarrow> Err (Errorf (''Unable to find the property '' @ property @ '' in '' @ src)))"

definition auth_url :: "string \<Rightarrow> string res" where
  "auth_url authInfo =
     wrap_err ''Unable to extract auth info: ''
       (bind_res (findProperty authInfo ''Bearer realm'') (\<lambda>bearer.
        bind_res (findProperty authInfo ''service'') (\<lambda>service.
        bind_res (findProperty authInfo ''scope'') (\<lambda>scope.
          Ok (bearer @ ''?service='' @ service @ ''&scope='' @ scope)))))"

definition doRequestWithAuth ::
  "registry_json \<Rightarrow> 's http_client \<Rightarrow> string \<Rightarrow> string \<Rightarrow> 's \<Rightarrow> string res \<times> 's" where
  "doRequestWithAuth js http authInfo url s =
     (case auth_url authInfo of
        Err e \<Rightarrow> (Err e, s)
      | Panic p \<Rightarrow> (Panic p, s)
      | Ok tokenURL \<Rightarrow>
          (case http tokenURL None s of
             (Inl e, s1) \<Rightarrow> (Err (Errorf (''Unable to obtain auth token: '' @ err_text e)), s1)
           | (Inr authResp, s1) \<Rightarrow>
               (case hr_Body authResp of
                  Inl e \<Rightarrow> (Err e, s1)
                | Inr authb \<Rightarrow>
                    (case rj_auth js authb of
                       Inl e \<Rightarrow> (Err (Errorf (''Unable to parse auth token: '' @ err_text e)), s1)
                     | Inr token \<Rightarrow>
                         (case http url (Some (''Bearer '' @ token)) s1 of
                            (Inl e, s2) \<Rightarrow> (Err e, s2)
                          | (Inr respWithAuth, s2) \<Rightarrow> (lift_sum (hr_Body respWithAuth), s2))))))"

text \<open>A byte slice printed with \<open>%v\<close>.\<close>

definition show_bytes :: "string \<Rightarrow> string" where
  "show_bytes body = ''['' @ join_str '' '' (map (\<lambda>b. show_nat (of_char b)) body) @ '']''"

definition doRequest :: "registry_json \<Rightarrow> 's http_client \<Rightarrow> string \<Rightarrow> 's \<Rightarrow> string res \<times> 's" where
  "doRequest js http url s =
     (case http url None s of
        (Inl e, s1) \<Rightarrow> (Err e, s1)
      | (Inr resp, s1) \<Rightarrow>
          (case hr_Body resp of
             Inl e \<Rightarrow> (Err e, s1)
           | Inr body \<Rightarrow>
               if hr_StatusCode resp = 401 then
                 let authInfo = gm_get (hr_Header resp) ''Www-Authenticate'' in
                 if authInfo = [] then
                   (Err (Errorf (''Failed to authenticate: unknown authentication format: '' @ show_bytes body)), s1)
                 else doRequestWithAuth js http authInfo url s1
               else (Ok body, s1)))"

definition ImageExists ::
  "registry_json \<Rightarrow> 's http_client \<Rightarrow> registry \<Rightarrow> string \<Rightarrow> string \<Rightarrow> 's \<Rightarrow> bool res \<times> 's" where
  "ImageExists js http r id' tag s =
     (case tagURL r id' of
        Err e \<Rightarrow> (Err e, s)
      | Panic p \<Rightarrow> (Panic p, s)
      | Ok url \<Rightarrow>
          (case doRequest js http url s of
             (Err e, s1) \<Rightarrow> (Err e, s1)
           | (Panic p, s1) \<Rightarrow> (Panic p, s1)
           | (Ok body, s1) \<Rightarrow>
               if contains body ''Resource not found'' then (Ok False, s1)
               else (map_res (\<lambda>tags. list_ex (\<lambda>t. t = tag) tags) (getTags js r body), s1)))"

section \<open>Parsing the registry URL\<close>

lemma takeWhile_split: "\<exists>b. xs = takeWhile P xs @ b"
  by (metis takeWhile_dropWhile_id)

lemma version_at_sound: "version_at s = Some v \<Longrightarrow> \<exists>b. s = ''/'' @ v @ b \<and> (\<exists>ds. v = CHR ''v'' # ds \<and> ds \<noteq> [] \<and> list_all is_digit ds)"
  by (cases s rule: version_at.cases)
     (auto split: if_splits simp: list_all_iff dest: set_takeWhileD intro: takeWhile_split)

lemma last_version_sound:
  "last_version s = Some (pre, v) \<Longrightarrow> \<exists>b. s = pre @ ''/'' @ v @ b \<and> (\<exists>ds. v = CHR ''v'' # ds \<and> ds \<noteq> [] \<and> list_all is_digit ds)"
proof (induction s arbitrary: pre)
  case (Cons c cs)
  show ?case
  proof (cases "last_version cs")
    case None
    with Cons.prems show ?thesis
      by (auto split: if_splits dest!: version_at_sound)
  next
    case (Some pv)
    with Cons.prems obtain pre' where "pre = c # pre'" "last_version cs = Some (pre', v)"
      by (cases pv) (auto split: if_splits)
    with Cons.IH show ?thesis by fastforce
  qed
qed simp

lemma last_version_digits:
  assumes "list_all is_digit ds" and "t = [] \<or> t = ''/''"
  shows "last_version (ds @ t) = None"
  using assms
proof (induction ds)
  case (Cons d ds)
  moreover have "version_at (d # ds @ t) = None"
    using Cons.prems by (cases "ds @ t") (auto simp: is_digit_def)
  ultimately show ?case by (simp add: is_digit_def)
qed auto

lemma last_version_complete:
  assumes "CHR 0x0A \<notin> set pre" and "ds \<noteq> []" and "list_all is_digit ds" and "t = [] \<or> t = ''/''"
  shows "last_version (pre @ ''/v'' @ ds @ t) = Some (pre, ''v'' @ ds)"
  using assms(1)
proof (induction pre)
  case Nil
  have v: "last_version (CHR ''v'' # ds @ t) = None"
    using last_version_digits [OF assms(3,4)] assms(2)
    by (cases "ds @ t") auto
  have "takeWhile is_digit (ds @ t) = ds"
    using assms(3,4) by (auto simp: takeWhile_append list_all_iff is_digit_def)
  then show ?case using v assms(2) by simp
qed auto

lemma find_url_sound:
  "find_url s = Some (e, v) \<Longrightarrow>
   \<exists>a b. s = a @ e @ ''/'' @ v @ b \<and> (prefix ''http://'' e \<or> prefix ''https://'' e) \<and>
     (\<exists>ds. v = CHR ''v'' # ds \<and> ds \<noteq> [] \<and> list_all is_digit ds)"
proof (induction s)
  case (Cons c cs)
  show ?case
  proof (cases "match_url (c # cs)")
    case None
    with Cons obtain a b where "cs = a @ e @ ''/'' @ v @ b"
      "prefix ''http://'' e \<or> prefix ''https://'' e" "\<exists>ds. v = CHR ''v'' # ds \<and> ds \<noteq> [] \<and> list_all is_digit ds"
      by auto
    then have "c # cs = (c # a) @ e @ ''/'' @ v @ b" by simp
    with \<open>prefix ''http://'' e \<or> prefix ''https://'' e\<close> \<open>\<exists>ds. _\<close> show ?thesis by blast
  next
    case (Some m)
    then have m: "match_url (c # cs) = Some (e, v)" using Cons.prems by simp
    consider pre where "prefix ''https://'' (c # cs)" "last_version (drop 8 (c # cs)) = Some (pre, v)" "e = ''https://'' @ pre"
      | pre where "prefix ''http://'' (c # cs)" "last_version (drop 7 (c # cs)) = Some (pre, v)" "e = ''http://'' @ pre"
      using m by (auto simp: match_url_def split: if_splits)
    then show ?thesis
    proof cases
      case 1
      then obtain b where "drop 8 (c # cs) = pre @ ''/'' @ v @ b" "\<exists>ds. v = CHR ''v'' # ds \<and> ds \<noteq> [] \<and> list_all is_digit ds"
        using last_version_sound by blast
      moreover from this(1) 1(1) have "c # cs = [] @ ''https://'' @ pre @ ''/'' @ v @ b"
        by (auto simp: prefix_def)
      ultimately show ?thesis
        using 1(3) by (intro exI [of _ "[]"] exI [of _ b]) simp
    next
      case 2
      then obtain b where "drop 7 (c # cs) = pre @ ''/'' @ v @ b" "\<exists>ds. v = CHR ''v'' # ds \<and> ds \<noteq> [] \<and> list_all is_digit ds"
        using last_version_sound by blast
      moreover from this(1) 2(1) have "c # cs = [] @ ''http://'' @ pre @ ''/'' @ v @ b"
        by (auto simp: prefix_def)
      ultimately show ?thesis
        using 2(3) by (intro exI [of _ "[]"] exI [of _ b]) simp
    qed
  qed
qed simp

lemma find_url_complete:
  assumes "CHR 0x0A \<notin> set host" and "ds \<noteq> []" and "list_all is_digit ds" and "t = [] \<or> t = ''/''"
    and "scheme = ''http://'' \<or> scheme = ''https://''"
  shows "find_url (scheme @ host @ ''/v'' @ ds @ t) = Some (scheme @ host, ''v'' @ ds)"
  using assms(5) last_version_complete [OF assms(1-4)]
  by (elim disjE) (simp_all add: match_url_def)

text \<open>
  Reading the credentials of a registry whose URL is a scheme, an address and an API
  version, with or without a final slash, gives back exactly the address, the version and
  the stored credentials; the address may itself contain version-like segments.
\<close>

theorem NewRegistry_roundtrip:
  assumes "rj_cfg js (alist_get (sec_Data config) [] ''.dockerconfigjson'') =
      Inr [(scheme @ host @ ''/v'' @ ds @ t, creds)]"
    and "scheme = ''http://'' \<or> scheme = ''https://''" and "CHR 0x0A \<notin> set host"
    and "ds \<noteq> []" and "list_all is_digit ds" and "t = [] \<or> t = ''/''"
  shows "NewRegistry js config =
    Ok \<lparr>reg_Endpoint = scheme @ host, reg_Version = ''v'' @ ds, reg_Creds = creds\<rparr>"
  using assms(1) find_url_complete [OF assms(3-6,2)]
  by (simp add: NewRegistry_def alist_get_def)

text \<open>A secret with one registry, and decoders and a token server to go with it.\<close>

definition sample_creds :: credentials where
  "sample_creds = \<lparr>cr_Username = ''user'', cr_Password = ''pass'', cr_Email = [], cr_Auth = []\<rparr>"

definition sample_json :: registry_json where
  "sample_json =
     \<lparr>rj_cfg = (\<lambda>txt. Inr [(''https://reg:5000/v2/'', sample_creds)]), rj_v1 = (\<lambda>txt. Inr []),
      rj_v2 = (\<lambda>txt. Inr \<lparr>t2_Name = ''user/get'', t2_Tags = [txt]\<rparr>), rj_auth = (\<lambda>txt. Inr txt)\<rparr>"

definition sample_registry :: registry where
  "sample_registry = \<lparr>reg_Endpoint = ''https://reg:5000'', reg_Version = ''v2'', reg_Creds = sample_creds\<rparr>"

theorem NewRegistry_roundtrip_witness:
  "NewRegistry sample_json \<lparr>sec_Name = ''creds'', sec_Data = []\<rparr> = Ok sample_registry"
  using NewRegistry_roundtrip [of sample_json "\<lparr>sec_Name = ''creds'', sec_Data = []\<rparr>" "''https://''" "''reg:5000''"
      "''2''" "''/''" sample_creds]
  by (simp add: sample_json_def sample_registry_def alist_get_def is_digit_def)

text \<open>
  Reading the credentials panics, with an index out of range, exactly when the secret
  decodes but lists no registry; it succeeds exactly when the secret lists one registry
  and its URL has an API version. Several registries are an error.
\<close>

theorem NewRegistry_count:
  "(NewRegistry js config = Panic p \<longleftrightarrow>
      p = IndexOutOfRange \<and> rj_cfg js (alist_get (sec_Data config) [] ''.dockerconfigjson'') = Inr []) \<and>
   (is_ok (NewRegistry js config) \<longleftrightarrow>
      (\<exists>url creds. rj_cfg js (alist_get (sec_Data config) [] ''.dockerconfigjson'') = Inr [(url, creds)] \<and>
         find_url url \<noteq> None))"
proof (cases "rj_cfg js (alist_get (sec_Data config) [] ''.dockerconfigjson'')")
  case (Inr auths)
  then show ?thesis
    by (cases auths rule: remdups_adj.cases) (auto simp: NewRegistry_def Let_def split: option.splits)
qed (simp add: NewRegistry_def)

section \<open>Properties of the authentication header\<close>

lemma split_char_append_gen:
  "split_char q (a @ q # b) = split_char q a @ split_char q b"
  by (induction a) (auto split: list.splits)

lemma last_split_char_suffix: "q \<notin> set k \<Longrightarrow> suffix k (last (split_char q (a @ k)))"
proof (induction a)
  case Nil
  then show ?case by (simp add: split_char_absent)
next
  case (Cons x a)
  then obtain p ps where ps: "split_char q (a @ k) = p # ps" "suffix k (last (p # ps))"
    by (cases "split_char q (a @ k)") auto
  then show ?case by (cases ps) (auto intro: suffix_ConsI)
qed

lemma contains_key_segment:
  assumes "contains s (k @ [q])" and "q \<notin> set k"
  shows "\<exists>p \<in> set (butlast (split_char q s)). suffix k p"
proof -
  obtain a b where s: "s = (a @ k) @ q # b"
    using assms(1) by (auto simp: contains_iff)
  have "split_char q s = split_char q (a @ k) @ split_char q b"
    unfolding s by (rule split_char_append_gen)
  then have "set (split_char q (a @ k)) \<subseteq> set (butlast (split_char q s))"
    by (auto simp: butlast_append)
  then have "last (split_char q (a @ k)) \<in> set (butlast (split_char q s))"
    using last_in_set [of "split_char q (a @ k)"] by auto
  with last_split_char_suffix [OF assms(2)] show ?thesis by blast
qed

lemma no_key_segment:
  assumes "split_char q s = ps" and "q \<notin> set k" and "\<forall>p \<in> set (butlast ps). \<not> suffix k p"
  shows "\<not> contains s (k @ [q])"
  using contains_key_segment [OF _ assms(2), of s] assms(1,3) by blast

lemma match_property_skip:
  assumes "\<not> contains (a @ butlast key) key" and "key \<noteq> []"
  shows "match_property (a @ key @ rest) key = match_property (key @ rest) key"
  using assms(1)
proof (induction a)
  case (Cons c a)
  have "\<not> prefix key (c # a @ key @ rest)"
  proof
    assume "prefix key (c # a @ key @ rest)"
    moreover have "key @ rest = butlast key @ last key # rest"
      using assms(2) by (metis append_butlast_last_id append.assoc append_Cons append_Nil)
    ultimately have "prefix key ((c # a) @ butlast key @ (last key # rest))"
      by simp
    then have "prefix key ((c # a) @ butlast key)"
      by (rule prefix_length_prefix) (use assms(2) in \<open>simp_all add: prefix_def\<close>)
    then have "contains ((c # a) @ butlast key) key"
      by simp
    with Cons.prems show False by simp
  qed
  with Cons show ?case by simp
qed simp

lemma match_property_here:
  "key \<noteq> [] \<Longrightarrow> CHR 0x22 \<in> set rest \<Longrightarrow>
   match_property (key @ rest) key = Some (takeWhile (\<lambda>x. x \<noteq> CHR 0x22) rest)"
  by (cases key) auto

lemma findProperty_leftmost:
  assumes "\<not> contains (a @ prop @ ''='') (prop @ [CHR ''='', CHR 0x22])" and "CHR 0x22 \<notin> set v"
  shows "findProperty (a @ prop @ [CHR ''='', CHR 0x22] @ v @ CHR 0x22 # b) prop = Ok v"
proof -
  let ?key = "prop @ [CHR ''='', CHR 0x22]"
  have "match_property (a @ ?key @ v @ CHR 0x22 # b) ?key = match_property (?key @ v @ CHR 0x22 # b) ?key"
    using assms(1) by (intro match_property_skip) (simp_all add: butlast_append)
  also have "\<dots> = Some v"
    using assms(2) match_property_here [of ?key "v @ CHR 0x22 # b"] by (auto simp: takeWhile_append)
  finally show ?thesis by (simp add: findProperty_def)
qed

text \<open>The challenge of a token server, as the registry protocol writes it.\<close>

definition challenge :: "string \<Rightarrow> string \<Rightarrow> string \<Rightarrow> string" where
  "challenge realm service scope =
     ''Bearer realm='' @ [CHR 0x22] @ realm @ [CHR 0x22] @
     '',service='' @ [CHR 0x22] @ service @ [CHR 0x22] @
     '',scope='' @ [CHR 0x22] @ scope @ [CHR 0x22]"

definition plain_value :: "string \<Rightarrow> bool" where
  "plain_value v \<longleftrightarrow> CHR 0x22 \<notin> set v \<and> \<not> suffix ''='' v"

lemma suffix_eq_sign: "suffix (k @ ''='') v \<Longrightarrow> suffix ''='' v"
  by (auto simp: suffix_def)

lemma split_char_parts:
  "q \<notin> set a \<Longrightarrow> q \<notin> set b \<Longrightarrow> q \<notin> set c \<Longrightarrow> split_char q (a @ [q] @ b @ [q] @ c) = [a, b, c]"
  "q \<notin> set a \<Longrightarrow> q \<notin> set b \<Longrightarrow> q \<notin> set c \<Longrightarrow> q \<notin> set d \<Longrightarrow> q \<notin> set e \<Longrightarrow>
   split_char q (a @ [q] @ b @ [q] @ c @ [q] @ d @ [q] @ e) = [a, b, c, d, e]"
  by (simp_all add: split_char_append split_char_absent)

lemma auth_url_challenge:
  assumes "plain_value realm" and "plain_value service" and "plain_value scope"
  shows "auth_url (challenge realm service scope) = Ok (realm @ ''?service='' @ service @ ''&scope='' @ scope)"
proof -
  let ?q = "CHR 0x22"
  have q: "?q \<notin> set realm" "?q \<notin> set service" "?q \<notin> set scope"
    and e: "\<not> suffix ''='' realm" "\<not> suffix ''='' service"
    using assms by (auto simp: plain_value_def)
  have seg: "\<not> suffix ''service='' ''Bearer realm=''" "\<not> suffix ''service='' realm"
    "\<not> suffix ''scope='' ''Bearer realm=''" "\<not> suffix ''scope='' realm"
    "\<not> suffix ''scope='' '',service=''" "\<not> suffix ''scope='' service"
    using e suffix_eq_sign [of "''service''"] suffix_eq_sign [of "''scope''"]
    by (auto simp: suffix_to_prefix)
  have r: "findProperty (challenge realm service scope) ''Bearer realm'' = Ok realm"
    using findProperty_leftmost [of "[]" "''Bearer realm''" realm] q(1) by (simp add: challenge_def)
  have s1: "split_char ?q (''Bearer realm='' @ [?q] @ realm @ [?q] @ '',service='')
      = [''Bearer realm='', realm, '',service='']"
    by (rule split_char_parts) (use q in simp_all)
  have n1: "\<not> contains (''Bearer realm='' @ [?q] @ realm @ [?q] @ '',service='') (''service='' @ [?q])"
    by (rule no_key_segment [OF s1]) (use seg in \<open>simp_all\<close>)
  have s: "findProperty (challenge realm service scope) ''service'' = Ok service"
    using findProperty_leftmost [of "''Bearer realm='' @ [?q] @ realm @ [?q] @ '',''" "''service''" service] n1 q(2)
    by (simp add: challenge_def)
  have s2: "split_char ?q (''Bearer realm='' @ [?q] @ realm @ [?q] @ '',service='' @ [?q] @ service @ [?q] @ '',scope='')
      = [''Bearer realm='', realm, '',service='', service, '',scope='']"
    by (rule split_char_parts) (use q in simp_all)
  have n2: "\<not> contains (''Bearer realm='' @ [?q] @ realm @ [?q] @ '',service='' @ [?q] @ service @ [?q] @ '',scope='')
      (''scope='' @ [?q])"
    by (rule no_key_segment [OF s2]) (use seg in \<open>simp_all\<close>)
  have c: "findProperty (challenge realm service scope) ''scope'' = Ok scope"
    using findProperty_leftmost [of "''Bearer realm='' @ [?q] @ realm @ [?q] @ '',service='' @ [?q] @ service @ [?q] @ '',''"
        "''scope''" scope] n2 q(3)
    by (simp add: challenge_def)
  from r s c show ?thesis by (simp add: auth_url_def)
qed

text \<open>
  A server that answers each request by a fixed function, with the requests it got.
\<close>

definition recording :: "(string \<Rightarrow> string option \<Rightarrow> http_response) \<Rightarrow> (string \<times> string option) list http_client" where
  "recording answer url auth log = (Inr (answer url auth), log @ [(url, auth)])"

text \<open>
  C40: Asking a registry of API version 2 that demands a token takes three requests: the tag
  list without credentials, the token at the realm, service and scope of the challenge, and
  the tag list again with that token. The answer is whether the tag is in the list that the
  authenticated request returned; an image the registry does not know has no tags.
\<close>

theorem ImageExists_token_flow:
  assumes "reg_Version r = ''v2''"
    and url: "url = reg_Endpoint r @ ''/v2/'' @ img @ ''/tags/list''"
    and "plain_value realm" "plain_value service" "plain_value scope"
    and "hr_StatusCode (answer url None) = 401" and "hr_Body (answer url None) = Inr body0"
    and "gm_get (hr_Header (answer url None)) ''Www-Authenticate'' = challenge realm service scope"
    and token_url: "token_url = realm @ ''?service='' @ service @ ''&scope='' @ scope"
    and "hr_Body (answer token_url None) = Inr token_body" and "rj_auth js token_body = Inr token"
    and "hr_Body (answer url (Some (''Bearer '' @ token))) = Inr body"
    and "rj_v2 js body = Inr tags"
  shows "ImageExists js (recording answer) r img tag log =
    (Ok (\<not> contains body ''Resource not found'' \<and> tag \<in> set (t2_Tags tags)),
     log @ [(url, None), (token_url, None), (url, Some (''Bearer '' @ token))])"
proof -
  have "challenge realm service scope \<noteq> []" by (simp add: challenge_def)
  moreover have "tagURL r img = Ok url"
    using assms(1) url by (simp add: tagURL_def)
  ultimately show ?thesis
    using assms auth_url_challenge [OF assms(3-5)]
    by (simp add: ImageExists_def doRequest_def doRequestWithAuth_def recording_def getTags_def
        list_ex_iff del: contains.simps)
qed

definition sample_answer :: "string \<Rightarrow> string option \<Rightarrow> http_response" where
  "sample_answer url auth =
     (case auth of
        Some _ \<Rightarrow> \<lparr>hr_StatusCode = 200, hr_Header = None, hr_Body = Inr ''latest''\<rparr>
      | None \<Rightarrow> \<lparr>hr_StatusCode = 401, hr_Header = Some [(''Www-Authenticate'', challenge ''https://auth'' ''reg'' ''pull'')],
                 hr_Body = Inr ''token''\<rparr>)"

theorem ImageExists_token_flow_witness:
  "ImageExists sample_json (recording sample_answer) sample_registry ''user/get'' ''latest'' [] =
     (Ok True,
      [(''https://reg:5000/v2/user/get/tags/list'', None), (''https://auth?service=reg&scope=pull'', None),
       (''https://reg:5000/v2/user/get/tags/list'', Some ''Bearer token'')])"
  using ImageExists_token_flow [of sample_registry "''https://reg:5000/v2/user/get/tags/list''" "''user/get''"
      "''https://auth''" "''reg''" "''pull''" sample_answer "''token''" "''https://auth?service=reg&scope=pull''" "''token''"
      sample_json "''token''" "''latest''" "\<lparr>t2_Name = ''user/get'', t2_Tags = [''latest'']\<rparr>" "''latest''" "[]"]
  by (simp add: sample_registry_def sample_answer_def sample_json_def plain_value_def suffix_to_prefix
      gm_get_def gm_find_def)

end
