(* ===== verification/Controller.thy ===== *)
theory Controller
  imports K8sUtil Registry
begin

text \<open>
  The function controller, \<open>pkg/controller/function_controller.go\<close>: the informer's event
  handlers, the work queue loop with its bounded retries, and the processing of one key,
  which creates, updates or deletes the Kubernetes objects of a function. The functions of
  other packages that the controller calls are those of the theories above; the informer
  cache, the queue, the YAML and JSON decoders, HTTP, \<open>net/url\<close> and the merge library are
  parameters.
\<close>

section \<open>The controller and its state\<close>

text \<open>Code outside the repository, as one record.\<close>

record 's externals =
  ex_runtimes :: yaml_runtimes
  ex_getenv :: "string \<Rightarrow> string"
  ex_deployment :: "string \<Rightarrow> gerror + deployment"
  ex_merge :: "deployment \<Rightarrow> deployment \<Rightarrow> gerror option \<times> deployment"
  ex_merge_append :: "container \<Rightarrow> container \<Rightarrow> gerror option \<times> container"
  ex_json :: registry_json
  ex_http :: "'s http_client"
  ex_url_host :: "string \<Rightarrow> gerror + string"
  ex_split_key :: "string \<Rightarrow> gerror + string \<times> string"

record 's controller =
  fc_clientset :: "'s clientset"
  fc_smclient :: "('s, service_monitor) client option"
  fc_config :: configmap
  fc_imagePullSecrets :: "string list"

text \<open>
  What a controller changes: the objects in the informer cache, which it writes to in
  place, the runtime registry, and the server.
\<close>

record 's ctl_state =
  st_cache :: "string \<Rightarrow> gerror + kfunction option"
  st_langRuntime :: langruntimes
  st_server :: 's

definition maxRetries :: nat where "maxRetries = 5"
definition funcKind :: string where "funcKind = ''Function''"
definition funcAPIVersion :: string where "funcAPIVersion = ''kubeless.io/v1beta1''"
definition functionFinalizer :: string where "functionFinalizer = ''kubeless.io/function''"

text \<open>The pull secrets that \<open>NewFunctionController\<close> computes from the configuration.\<close>

definition controller_pull_secrets :: "configmap \<Rightarrow> string list" where
  "controller_pull_secrets config =
     GetSecretsAsLocalObjectReference
       [gm_get (cm_Data config) ''provision-image-secret'', gm_get (cm_Data config) ''builder-image-secret''] @
     (if gm_get (cm_Data config) ''enable-build-step'' = ''true''
      then GetSecretsAsLocalObjectReference [''kubeless-registry-credentials''] else [])"

definition NewFunctionController ::
  "yaml_runtimes \<Rightarrow> 's clientset \<Rightarrow> ('s, service_monitor) client option \<Rightarrow> configmap
   \<Rightarrow> ('s controller \<times> langruntimes) res" where
  "NewFunctionController um k sm config =
     map_res (\<lambda>l. (\<lparr>fc_clientset = k, fc_smclient = sm, fc_config = config,
                    fc_imagePullSecrets = controller_pull_secrets config\<rparr>, l))
       (ReadConfigMap um (New config))"

section \<open>Detecting a change\<close>

text \<open>
  \<open>DeepEqual\<close> on the three structured fields is a parameter. Two deletion timestamps are
  compared as pointers.
\<close>

record deep_equal =
  de_deployment :: "deployment \<Rightarrow> deployment \<Rightarrow> bool"
  de_hpa :: "hpa \<Rightarrow> hpa \<Rightarrow> bool"
  de_service :: "service_spec \<Rightarrow> service_spec \<Rightarrow> bool"

definition functionObjChanged :: "deep_equal \<Rightarrow> kfunction \<Rightarrow> kfunction \<Rightarrow> bool" where
  "functionObjChanged de oldFunctionObj newFunctionObj =
     (if map_option ptr_addr (om_DeletionTimestamp (f_Meta oldFunctionObj)) \<noteq>
         map_option ptr_addr (om_DeletionTimestamp (f_Meta newFunctionObj)) then True
      else if om_ResourceVersion (f_Meta oldFunctionObj) = om_ResourceVersion (f_Meta newFunctionObj) then False
      else
        let newSpec = f_Spec oldFunctionObj; oldSpec = f_Spec newFunctionObj in
        if fs_Function newSpec \<noteq> fs_Function oldSpec \<or> fs_Checksum newSpec \<noteq> fs_Checksum oldSpec \<or>
           fs_Handler newSpec \<noteq> fs_Handler oldSpec \<or>
           fs_FunctionContentType newSpec \<noteq> fs_FunctionContentType oldSpec \<or>
           fs_Deps newSpec \<noteq> fs_Deps oldSpec \<or> fs_Timeout newSpec \<noteq> fs_Timeout oldSpec then True
        else if \<not> de_deployment de (fs_Deployment newSpec) (fs_Deployment oldSpec) \<or>
           \<not> de_hpa de (fs_HorizontalPodAutoscaler newSpec) (fs_HorizontalPodAutoscaler oldSpec) \<or>
           \<not> de_service de (fs_ServiceSpec newSpec) (fs_ServiceSpec oldSpec) then True
        else False)"

section \<open>Deleting the objects of a function\<close>

definition deleteAutoscale :: "'s controller \<Rightarrow> string \<Rightarrow> string \<Rightarrow> 's \<Rightarrow> unit res \<times> 's" where
  "deleteAutoscale c ns name s =
     (case (case fc_smclient c of
              None \<Rightarrow> (Ok (), s)
            | Some sm \<Rightarrow>
                (case DeleteServiceMonitor sm name ns s of
                   (Err e, s1) \<Rightarrow> (if IsNotFound e then Ok () else Err e, s1)
                 | r \<Rightarrow> r)) of
        (Ok _, s1) \<Rightarrow>
          (case DeleteAutoscale (HPAs (fc_clientset c)) name ns s1 of
             (Err e, s2) \<Rightarrow> (if IsNotFound e then Ok () else Err e, s2)
           | r \<Rightarrow> r)
      | r \<Rightarrow> r)"

text \<open>One deletion: an object that is not there is not an error.\<close>

definition and_then :: "unit res \<times> 's \<Rightarrow> ('s \<Rightarrow> unit res \<times> 's) \<Rightarrow> unit res \<times> 's" where
  "and_then r m = (case fst r of Ok _ \<Rightarrow> m (snd r) | Err e \<Rightarrow> (Err e, snd r) | Panic p \<Rightarrow> (Panic p, snd r))"

definition drop_not_found :: "unit res \<times> 's \<Rightarrow> unit res \<times> 's" where
  "drop_not_found r = (case fst r of Err e \<Rightarrow> if IsNotFound e then Ok () else Err e | x \<Rightarrow> x, snd r)"

definition job_selector :: "string \<Rightarrow> string" where
  "job_selector name = ''created-by=kubeless,function='' @ name"

definition deleteK8sResources :: "'s controller \<Rightarrow> string \<Rightarrow> string \<Rightarrow> 's \<Rightarrow> unit res \<times> 's" where
  "deleteK8sResources c ns name s =
     (let k = fc_clientset c in
      and_then (ignore_not_found (cl_delete (Deployments k) ns name s)) (\<lambda>s.
      and_then (ignore_not_found (cl_delete (Services k) ns name s)) (\<lambda>s.
      and_then (ignore_not_found (cl_delete (ConfigMaps k) ns name s)) (\<lambda>s.
      and_then (drop_not_found (deleteAutoscale c ns name s)) (\<lambda>s.
        ignore_not_found (cl_delete_collection (Jobs k) ns (job_selector name) s))))))"

section \<open>Building the image of a function\<close>

definition image_tag :: "kfunction \<Rightarrow> string" where
  "image_tag f = hex_encode (sha256 (fs_Function (f_Spec f) @ fs_Deps (f_Spec f)))"

definition startImageBuildJob ::
  "'s externals \<Rightarrow> 's controller \<Rightarrow> kfunction \<Rightarrow> owner_reference list \<Rightarrow> langruntimes \<Rightarrow> 's
   \<Rightarrow> (string \<times> bool) res \<times> langruntimes \<times> 's" where
  "startImageBuildJob ex c f ors l s =
     (case cl_get (Secrets (fc_clientset c)) (f_Namespace f) ''kubeless-registry-credentials'' s of
        (Inl e, s1) \<Rightarrow>
          (Err (Errorf (''Unable to locate registry credentials to build function image: '' @ err_text e)), l, s1)
      | (Inr imagePullSecret, s1) \<Rightarrow>
          (case wrap_err ''Unable to retrieve registry information: '' (NewRegistry (ex_json ex) imagePullSecret) of
             Err e \<Rightarrow> (Err e, l, s1)
           | Panic p \<Rightarrow> (Panic p, l, s1)
           | Ok reg \<Rightarrow>
               let tag = image_tag f; imageName = cr_Username (reg_Creds reg) @ ''/'' @ f_Name f in
               (case ImageExists (ex_json ex) (ex_http ex) reg imageName tag s1 of
                  (Err e, s2) \<Rightarrow> (Err (Errorf (''Unable to check is target image exists: '' @ err_text e)), l, s2)
                | (Panic p, s2) \<Rightarrow> (Panic p, l, s2)
                | (Ok exists, s2) \<Rightarrow>
                    (case ex_url_host ex (reg_Endpoint reg) of
                       Inl e \<Rightarrow> (Err (Errorf (''Unable to parse registry URL: '' @ err_text e)), l, s2)
                     | Inr host \<Rightarrow>
                         let builtImage = host @ ''/'' @ imageName @ '':'' @ tag; cfg = cm_Data (fc_config c) in
                         if exists then (Ok (builtImage, False), l, s2)
                         else
                           (case EnsureFuncImage (ex_runtimes ex) (ex_getenv ex) (fc_clientset c) f l ors imageName tag
                                   (gm_get cfg ''builder-image'') host (sec_Name imagePullSecret)
                                   (gm_get cfg ''provision-image'')
                                   (gm_get cfg ''function-registry-tls-verify'' \<noteq> ''false'')
                                   (fc_imagePullSecrets c) s2 of
                              (Ok _, l', s3) \<Rightarrow> (Ok (builtImage, True), l', s3)
                            | (Err e, l', s3) \<Rightarrow> (Err (Errorf (''Unable to create image build job: '' @ err_text e)), l', s3)
                            | (Panic p, l', s3) \<Rightarrow> (Panic p, l', s3))))))"

section \<open>Creating and updating the objects of a function\<close>

definition label_function :: "kfunction \<Rightarrow> kfunction" where
  "label_function f =
     set_f_Labels (gm_set (if gm_len (f_Labels f) = 0 then Some [] else f_Labels f) ''function'' (f_Name f)) f"

definition set_Deployment :: "deployment \<Rightarrow> kfunction \<Rightarrow> kfunction" where
  "set_Deployment d f = f\<lparr>f_Spec := (f_Spec f)\<lparr>fs_Deployment := d\<rparr>\<rparr>"

definition merge_config :: "'s externals \<Rightarrow> configmap \<Rightarrow> kfunction \<Rightarrow> unit res \<times> kfunction" where
  "merge_config ex config f =
     (case gm_find (cm_Data config) ''deployment'' of
        None \<Rightarrow> (Ok (), f)
      | Some deploymentConfigData \<Rightarrow>
          (case ex_deployment ex deploymentConfigData of
             Inl e \<Rightarrow> (Err e, f)
           | Inr d \<Rightarrow>
               (case MergeDeployments (ex_merge ex) (ex_merge_append ex) (fs_Deployment (f_Spec f)) d of
                  (r, d') \<Rightarrow> (r, set_Deployment d' f))))"

definition custom_image :: "kfunction \<Rightarrow> string" where
  "custom_image f =
     (case ps_Containers (d_PodSpec (fs_Deployment (f_Spec f))) of [] \<Rightarrow> [] | c # _ \<Rightarrow> c_Image c)"

text \<open>
  The image to run: the custom one, or the one that is or has been built. A build that
  fails is only logged, and the function then runs on the image of its runtime.
\<close>

definition function_image ::
  "'s externals \<Rightarrow> 's controller \<Rightarrow> kfunction \<Rightarrow> owner_reference list \<Rightarrow> langruntimes \<Rightarrow> 's
   \<Rightarrow> string res \<times> langruntimes \<times> 's" where
  "function_image ex c f ors l s =
     (if custom_image f \<noteq> [] then (Ok (custom_image f), l, s)
      else if gm_get (cm_Data (fc_config c)) ''enable-build-step'' = ''true'' then
        (case startImageBuildJob ex c f ors l s of
           (Ok (img, isBuilding), l', s') \<Rightarrow> (Ok img, l', s')
         | (Err e, l', s') \<Rightarrow> (Ok [], l', s')
         | (Panic p, l', s') \<Rightarrow> (Panic p, l', s'))
      else (Ok [], l, s))"

definition set_HPA_owner :: "owner_reference list \<Rightarrow> kfunction \<Rightarrow> kfunction" where
  "set_HPA_owner ors f =
     f\<lparr>f_Spec := (f_Spec f)\<lparr>fs_HorizontalPodAutoscaler :=
        (fs_HorizontalPodAutoscaler (f_Spec f))\<lparr>hpa_Meta :=
          (hpa_Meta (fs_HorizontalPodAutoscaler (f_Spec f)))\<lparr>om_OwnerReferences := ors\<rparr>\<rparr>\<rparr>\<rparr>"

definition ensure_monitor ::
  "'s controller \<Rightarrow> kfunction \<Rightarrow> owner_reference list \<Rightarrow> 's \<Rightarrow> unit res \<times> 's" where
  "ensure_monitor c f ors s =
     (case index (hpa_Metrics (fs_HorizontalPodAutoscaler (f_Spec f))) 0 of
        Ok m \<Rightarrow>
          if metric_type m = ''Object'' then
            (case fc_smclient c of
               None \<Rightarrow> (Panic NilDereference, s)
             | Some sm \<Rightarrow> CreateServiceMonitor sm f (f_Namespace f) ors s)
          else (Ok (), s)
      | Err e \<Rightarrow> (Err e, s)
      | Panic p \<Rightarrow> (Panic p, s))"

definition create_or_update_hpa :: "'s controller \<Rightarrow> hpa \<Rightarrow> 's \<Rightarrow> unit res \<times> 's" where
  "create_or_update_hpa c h s =
     (case CreateAutoscale (HPAs (fc_clientset c)) h s of
        (Err e, s1) \<Rightarrow>
          if IsAlreadyExists e then UpdateAutoscale (HPAs (fc_clientset c)) h s1 else (Err e, s1)
      | r \<Rightarrow> r)"

definition ensure_autoscale ::
  "'s controller \<Rightarrow> kfunction \<Rightarrow> owner_reference list \<Rightarrow> 's \<Rightarrow> unit res \<times> kfunction \<times> 's" where
  "ensure_autoscale c f ors s =
     (let h = fs_HorizontalPodAutoscaler (f_Spec f) in
      if om_Name (hpa_Meta h) \<noteq> [] \<and> hpa_TargetName h \<noteq> [] then
        let f' = set_HPA_owner ors f in
        (case ensure_monitor c f' ors s of
           (Ok _, s1) \<Rightarrow>
             (case create_or_update_hpa c (fs_HorizontalPodAutoscaler (f_Spec f')) s1 of (r, s2) \<Rightarrow> (r, f', s2))
         | (r, s1) \<Rightarrow> (r, f', s1))
      else
        (case drop_not_found (deleteAutoscale c (f_Namespace f) (f_Name f) s) of (r, s1) \<Rightarrow> (r, f, s1)))"

text \<open>The objects of a function, once its owner reference is known.\<close>

definition ensure_objects ::
  "'s externals \<Rightarrow> 's controller \<Rightarrow> kfunction \<Rightarrow> owner_reference list \<Rightarrow> langruntimes \<Rightarrow> 's
   \<Rightarrow> unit res \<times> kfunction \<times> langruntimes \<times> 's" where
  "ensure_objects ex c f ors l s =
     (let k = fc_clientset c in
      case EnsureFuncConfigMap k f ors l s of
        (Ok _, f1, s1) \<Rightarrow>
          (case EnsureFuncService k f1 ors s1 of
             (Ok _, f2, s2) \<Rightarrow>
               (case function_image ex c f2 ors l s2 of
                  (Ok prebuiltImage, l3, s3) \<Rightarrow>
                    (case EnsureFuncDeployment (ex_runtimes ex) (ex_getenv ex) k f2 ors l3 prebuiltImage
                            (gm_get (cm_Data (fc_config c)) ''provision-image'') (fc_imagePullSecrets c) s3 of
                       (Ok _, l4, s4) \<Rightarrow>
                         (case ensure_autoscale c f2 ors s4 of (r, f5, s5) \<Rightarrow> (r, f5, l4, s5))
                     | (r, l4, s4) \<Rightarrow> (r, f2, l4, s4))
                | (Err e, l3, s3) \<Rightarrow> (Err e, f2, l3, s3)
                | (Panic p, l3, s3) \<Rightarrow> (Panic p, f2, l3, s3))
           | (r, f2, s2) \<Rightarrow> (r, f2, l, s2))
      | (r, f1, s1) \<Rightarrow> (r, f1, l, s1))"

definition ensureK8sResources ::
  "'s externals \<Rightarrow> 's controller \<Rightarrow> kfunction \<Rightarrow> langruntimes \<Rightarrow> 's
   \<Rightarrow> unit res \<times> kfunction \<times> langruntimes \<times> 's" where
  "ensureK8sResources ex c f l s =
     (case merge_config ex (fc_config c) (label_function f) of
        (Ok _, f1) \<Rightarrow>
          (case GetOwnerReference funcKind funcAPIVersion (f_Name f1) (om_UID (f_Meta f1)) of
             Ok ors \<Rightarrow> ensure_objects ex c f1 ors l s
           | Err e \<Rightarrow> (Err e, f1, l, s)
           | Panic p \<Rightarrow> (Panic p, f1, l, s))
      | (r, f1) \<Rightarrow> (r, f1, l, s))"

section \<open>Processing a key\<close>

definition process_deletion ::
  "'s controller \<Rightarrow> string \<Rightarrow> string \<Rightarrow> kfunction \<Rightarrow> 's \<Rightarrow> unit res \<times> 's" where
  "process_deletion c ns name f s =
     (if \<not> FunctionObjHasFinalizer f functionFinalizer then (Ok (), s)
      else
        and_then (deleteK8sResources c ns name s) (\<lambda>s1.
          FunctionObjRemoveFinalizer (Functions (fc_clientset c)) f functionFinalizer s1))"

definition add_finalizer :: "'s controller \<Rightarrow> kfunction \<Rightarrow> 's \<Rightarrow> unit res \<times> 's" where
  "add_finalizer c f s =
     (if \<not> FunctionObjHasFinalizer f functionFinalizer
      then FunctionObjAddFinalizer (Functions (fc_clientset c)) f functionFinalizer s
      else (Ok (), s))"

definition processItem ::
  "'s externals \<Rightarrow> 's controller \<Rightarrow> string \<Rightarrow> 's ctl_state \<Rightarrow> unit res \<times> 's ctl_state" where
  "processItem ex c key st =
     (case ex_split_key ex key of
        Inl e \<Rightarrow> (Err e, st)
      | Inr (ns, name) \<Rightarrow>
          (case st_cache st key of
             Inl e \<Rightarrow> (Err (Errorf (''Error fetching object with key '' @ key @ '' from store: '' @ err_text e)), st)
           | Inr None \<Rightarrow> (Ok (), st)
           | Inr (Some funcObj) \<Rightarrow>
               (case om_DeletionTimestamp (f_Meta funcObj) of
                  Some t \<Rightarrow>
                    (case process_deletion c ns name funcObj (st_server st) of
                       (r, s1) \<Rightarrow> (r, st\<lparr>st_server := s1\<rparr>))
                | None \<Rightarrow>
                    (case add_finalizer c funcObj (st_server st) of
                       (Ok _, s1) \<Rightarrow>
                         (case ensureK8sResources ex c funcObj (st_langRuntime st) s1 of
                            (r, f', l', s2) \<Rightarrow>
                              (r, \<lparr>st_cache = (st_cache st)(key := Inr (Some f')), st_langRuntime = l', st_server = s2\<rparr>))
                     | (r, s1) \<Rightarrow> (r, st\<lparr>st_server := s1\<rparr>)))))"

section \<open>The work queue\<close>

record 'q queue_ops =
  q_Get :: "'q \<Rightarrow> (string \<times> bool) \<times> 'q"
  q_Add :: "string \<Rightarrow> 'q \<Rightarrow> 'q"
  q_Done :: "string \<Rightarrow> 'q \<Rightarrow> 'q"
  q_Forget :: "string \<Rightarrow> 'q \<Rightarrow> 'q"
  q_AddRateLimited :: "string \<Rightarrow> 'q \<Rightarrow> 'q"
  q_NumRequeues :: "string \<Rightarrow> 'q \<Rightarrow> nat"

text \<open>What happens to the queue after a key was processed, before the deferred \<open>Done\<close>.\<close>

definition requeue :: "'q queue_ops \<Rightarrow> unit res \<Rightarrow> string \<Rightarrow> 'q \<Rightarrow> 'q" where
  "requeue q r key qs =
     (case r of
        Ok _ \<Rightarrow> q_Forget q key qs
      | Err e \<Rightarrow>
          if q_NumRequeues q key qs < maxRetries then q_AddRateLimited q key qs else q_Forget q key qs
      | Panic p \<Rightarrow> qs)"

definition processNextItem ::
  "'q queue_ops \<Rightarrow> 's externals \<Rightarrow> 's controller \<Rightarrow> 's ctl_state \<times> 'q \<Rightarrow> bool res \<times> 's ctl_state \<times> 'q" where
  "processNextItem q ex c = (\<lambda>(st, qs).
     case q_Get q qs of
       ((key, quit), qs1) \<Rightarrow>
         if quit then (Ok False, st, qs1)
         else
           (case processItem ex c key st of
              (r, st') \<Rightarrow>
                ((case r of Panic p \<Rightarrow> Panic p | _ \<Rightarrow> Ok True), st', q_Done q key (requeue q r key qs1))))"

text \<open>The worker loops until the queue is shut down; None when it never is.\<close>

partial_function (option) runWorker ::
  "'q queue_ops \<Rightarrow> 's externals \<Rightarrow> 's controller \<Rightarrow> 's ctl_state \<times> 'q \<Rightarrow> (unit res \<times> 's ctl_state \<times> 'q) option" where
  "runWorker q ex c w =
     (case processNextItem q ex c w of
        (Ok b, w') \<Rightarrow> if b then runWorker q ex c w' else Some (Ok (), w')
      | (Err e, w') \<Rightarrow> Some (Err e, w')
      | (Panic p, w') \<Rightarrow> Some (Panic p, w'))"

section \<open>Event handlers\<close>

text \<open>The key functions of the client library are parameters; without a key nothing is queued.\<close>

definition AddFunc :: "'q queue_ops \<Rightarrow> (kfunction \<Rightarrow> gerror + string) \<Rightarrow> kfunction \<Rightarrow> 'q \<Rightarrow> 'q" where
  "AddFunc q key_of obj qs = (case key_of obj of Inl e \<Rightarrow> qs | Inr key \<Rightarrow> q_Add q key qs)"

definition UpdateFunc ::
  "'q queue_ops \<Rightarrow> deep_equal \<Rightarrow> (kfunction \<Rightarrow> gerror + string) \<Rightarrow> kfunction \<Rightarrow> kfunction \<Rightarrow> 'q \<Rightarrow> 'q" where
  "UpdateFunc q de key_of old new qs =
     (case key_of new of
        Inl e \<Rightarrow> qs
      | Inr key \<Rightarrow> if functionObjChanged de old new then q_Add q key qs else qs)"

definition DeleteFunc :: "'q queue_ops \<Rightarrow> (kfunction \<Rightarrow> gerror + string) \<Rightarrow> kfunction \<Rightarrow> 'q \<Rightarrow> 'q" where
  "DeleteFunc q del_key_of obj qs = (case del_key_of obj of Inl e \<Rightarrow> qs | Inr key \<Rightarrow> q_Add q key qs)"

end
