(* ===== verification/ControllerLaws.thy ===== *)
theory ControllerLaws
  imports Controller
begin

text \<open>
  Properties of the function controller. On a server about which nothing is known: only
  objects that carry the default label are overwritten, the finalizer of a deleted function
  is removed only after every deletion was answered, and a reconciliation that succeeds has
  written the three objects of the function. On a server that stores objects: a processed
  deletion leaves none of them. For the queue: a key is retried at most five times.
\<close>

section \<open>The controller with a log of its calls\<close>

definition logged_http :: "'s http_client \<Rightarrow> ('s \<times> event list) http_client" where
  "logged_http h url auth = (\<lambda>(s, l). (fst (h url auth s), (snd (h url auth s), l)))"

definition logged_externals :: "'s externals \<Rightarrow> ('s \<times> event list) externals" where
  "logged_externals ex =
     \<lparr>ex_runtimes = ex_runtimes ex, ex_getenv = ex_getenv ex, ex_deployment = ex_deployment ex,
      ex_merge = ex_merge ex, ex_merge_append = ex_merge_append ex, ex_json = ex_json ex,
      ex_http = logged_http (ex_http ex), ex_url_host = ex_url_host ex, ex_split_key = ex_split_key ex\<rparr>"

definition logged_controller :: "'s controller \<Rightarrow> ('s \<times> event list) controller" where
  "logged_controller c =
     \<lparr>fc_clientset = logged_clientset (fc_clientset c),
      fc_smclient = map_option (logged_client EvServiceMonitor) (fc_smclient c),
      fc_config = fc_config c, fc_imagePullSecrets = fc_imagePullSecrets c\<rparr>"

lemma logged_controller_simps [simp]:
  "fc_clientset (logged_controller c) = logged_clientset (fc_clientset c)"
  "fc_smclient (logged_controller c) = map_option (logged_client EvServiceMonitor) (fc_smclient c)"
  "fc_config (logged_controller c) = fc_config c"
  "fc_imagePullSecrets (logged_controller c) = fc_imagePullSecrets c"
  by (simp_all add: logged_controller_def)

lemma logged_externals_simps [simp]:
  "ex_runtimes (logged_externals ex) = ex_runtimes ex" "ex_getenv (logged_externals ex) = ex_getenv ex"
  "ex_deployment (logged_externals ex) = ex_deployment ex" "ex_merge (logged_externals ex) = ex_merge ex"
  "ex_merge_append (logged_externals ex) = ex_merge_append ex" "ex_json (logged_externals ex) = ex_json ex"
  "ex_http (logged_externals ex) = logged_http (ex_http ex)" "ex_url_host (logged_externals ex) = ex_url_host ex"
  "ex_split_key (logged_externals ex) = ex_split_key ex"
  by (simp_all add: logged_externals_def)

section \<open>Only owned objects are overwritten\<close>

text \<open>Requests to the image registry do not touch the log.\<close>

lemma logged_http_log: "logged_http h url auth sl = (r, sl') \<Longrightarrow> snd sl' = snd sl"
  by (cases sl) (auto simp: logged_http_def)

lemma doRequest_log: "doRequest js (logged_http h) url sl = (r, sl') \<Longrightarrow> snd sl' = snd sl"
  by (auto simp: doRequest_def doRequestWithAuth_def Let_def dest!: logged_http_log
      split: prod.splits sum.splits res.splits if_splits)

lemma ImageExists_log: "ImageExists js (logged_http h) r img tag sl = (b, sl') \<Longrightarrow> snd sl' = snd sl"
  by (auto simp: ImageExists_def dest!: doRequest_log split: prod.splits sum.splits res.splits if_splits)

named_theorems growth \<open>the log after an operation of the controller\<close>

lemma EnsureFuncConfigMap_growth [growth]:
  "EnsureFuncConfigMap (logged_clientset k) f ors l sl = (r, f', sl') \<Longrightarrow> owned_growth (snd sl) (snd sl')"
  by (metis EnsureFuncConfigMap_log prod.collapse snd_conv)

lemma EnsureFuncService_growth [growth]:
  "EnsureFuncService (logged_clientset k) f ors sl = (r, f', sl') \<Longrightarrow> owned_growth (snd sl) (snd sl')"
  by (metis EnsureFuncService_log prod.collapse snd_conv)

lemma EnsureFuncDeployment_growth [growth]:
  "EnsureFuncDeployment um env (logged_clientset k) f ors l pre prov ips sl = (r, l', sl') \<Longrightarrow>
   owned_growth (snd sl) (snd sl')"
  by (metis EnsureFuncDeployment_log prod.collapse snd_conv)

lemma EnsureFuncImage_growth [growth]:
  "EnsureFuncImage um env (logged_clientset k) f l ors img tag bi rh ds prov tls ips sl = (r, l', sl') \<Longrightarrow>
   owned_growth (snd sl) (snd sl')"
  by (metis EnsureFuncImage_log prod.collapse snd_conv)

lemma CreateServiceMonitor_growth [growth]:
  "CreateServiceMonitor (logged_client EvServiceMonitor c) f ns ors sl = (r, sl') \<Longrightarrow>
   owned_growth (snd sl) (snd sl')"
  by (metis CreateServiceMonitor_log prod.collapse snd_conv)

lemma deleteAutoscale_growth [growth]:
  "deleteAutoscale (logged_controller c) ns name sl = (r, sl') \<Longrightarrow> owned_growth (snd sl) (snd sl')"
  by (cases sl; cases "fc_smclient c")
     (auto simp: deleteAutoscale_def DeleteServiceMonitor_def DeleteAutoscale_def ignore_not_found_def
       call_simps owned_growth_def split: sum.splits if_splits)

lemma drop_not_found_snd [simp]: "snd (drop_not_found r) = snd r"
  by (simp add: drop_not_found_def)

lemma drop_not_found_growth [growth]:
  "drop_not_found (deleteAutoscale (logged_controller c) ns name sl) = (r, sl') \<Longrightarrow> owned_growth (snd sl) (snd sl')"
  by (metis deleteAutoscale_growth drop_not_found_snd prod.collapse snd_conv)

lemma owned_growth_after_secret: "owned_growth (lg @ [EvSecret ev]) lg' \<Longrightarrow> owned_growth lg lg'"
  by (rule owned_growth_trans [of lg "lg @ [EvSecret ev]"]) auto

lemma startImageBuildJob_growth [growth]:
  assumes "startImageBuildJob (logged_externals ex) (logged_controller c) f ors l sl = (r, l', sl')"
  shows "owned_growth (snd sl) (snd sl')"
proof (cases sl)
  case (Pair s lg)
  have "owned_growth lg (lg @ [EvSecret ev])" for ev by (rule owned_growthI) simp
  then show ?thesis
    using assms Pair
    by (auto simp: startImageBuildJob_def Let_def call_simps dest!: ImageExists_log EnsureFuncImage_growth
        intro: owned_growth_after_secret split: prod.splits sum.splits res.splits if_splits)
qed

lemma function_image_growth [growth]:
  "function_image (logged_externals ex) (logged_controller c) f ors l sl = (r, l', sl') \<Longrightarrow>
   owned_growth (snd sl) (snd sl')"
  by (auto simp: function_image_def dest!: startImageBuildJob_growth split: prod.splits res.splits if_splits)

lemma ensure_autoscale_growth [growth]:
  assumes "ensure_autoscale (logged_controller c) f ors sl = (r, f', sl')"
  shows "owned_growth (snd sl) (snd sl')"
proof -
  have m: "owned_growth (snd sl) (snd sl')" if "ensure_monitor (logged_controller c) f ors sl = (r, sl')" for f r sl sl'
    using that by (auto simp: ensure_monitor_def dest: growth split: res.splits option.splits if_splits)
  have h: "owned_growth (snd sl) (snd sl')" if "create_or_update_hpa (logged_controller c) x sl = (r, sl')" for x r sl sl'
    using that by (cases sl) (auto simp: create_or_update_hpa_def CreateAutoscale_def UpdateAutoscale_def unit_result_def
        log_simps owned_growth_def split: res.splits sum.splits if_splits)
  show ?thesis
    using assms
    by (auto simp: ensure_autoscale_def Let_def dest!: m h drop_not_found_growth intro: owned_growth_trans
        split: prod.splits res.splits if_splits)
qed

lemma owned_growth_steps:
  "owned_growth a b \<Longrightarrow> owned_growth b c \<Longrightarrow> owned_growth a c"
  "owned_growth a b \<Longrightarrow> owned_growth b c \<Longrightarrow> owned_growth c d \<Longrightarrow> owned_growth a d"
  "owned_growth a b \<Longrightarrow> owned_growth b c \<Longrightarrow> owned_growth c d \<Longrightarrow> owned_growth d e \<Longrightarrow> owned_growth a e"
  "owned_growth a b \<Longrightarrow> owned_growth b c \<Longrightarrow> owned_growth c d \<Longrightarrow> owned_growth d e \<Longrightarrow> owned_growth e g \<Longrightarrow>
   owned_growth a g"
  by (meson owned_growth_trans)+

lemma ensure_objects_growth [growth]:
  "ensure_objects (logged_externals ex) (logged_controller c) f ors l sl = (r, f', l', sl') \<Longrightarrow>
   owned_growth (snd sl) (snd sl')"
  by (auto simp: ensure_objects_def Let_def dest!: growth intro: owned_growth_steps
      split: prod.splits res.splits)

lemma ensureK8sResources_growth [growth]:
  "ensureK8sResources (logged_externals ex) (logged_controller c) f l sl = (r, f', l', sl') \<Longrightarrow>
   owned_growth (snd sl) (snd sl')"
  by (auto simp: ensureK8sResources_def merge_config_def dest!: ensure_objects_growth
      split: prod.splits res.splits option.splits sum.splits)

lemma unit_call_growth:
  "unit_result (cl_update (logged_client EvFunction cl) ns x sl) = (r, sl') \<Longrightarrow> owned_growth (snd sl) (snd sl')"
  by (cases sl) (auto simp: unit_result_def call_simps owned_growth_def)

lemma add_finalizer_growth [growth]:
  "add_finalizer (logged_controller c) f sl = (r, sl') \<Longrightarrow> owned_growth (snd sl) (snd sl')"
  by (auto simp: add_finalizer_def FunctionObjAddFinalizer_def UpdateFunctionCustomResource_def call_simps
      dest!: unit_call_growth split: if_splits)

text \<open>
  What a deletion does to the log: the calls in order, each answered with success or with
  "not found" if the next one is made.
\<close>

definition gone :: "gerror + unit \<Rightarrow> bool" where
  "gone r = (case r of Inl e \<Rightarrow> IsNotFound e | Inr _ \<Rightarrow> True)"

fun cleanup_call :: "string \<Rightarrow> string \<Rightarrow> event \<Rightarrow> bool" where
  "cleanup_call ns name (EvDeployment (CDelete ns' n r)) = (ns' = ns \<and> n = name \<and> gone r)"
| "cleanup_call ns name (EvService (CDelete ns' n r)) = (ns' = ns \<and> n = name \<and> gone r)"
| "cleanup_call ns name (EvConfigMap (CDelete ns' n r)) = (ns' = ns \<and> n = name \<and> gone r)"
| "cleanup_call ns name (EvServiceMonitor (CDelete ns' n r)) = (ns' = ns \<and> n = name \<and> gone r)"
| "cleanup_call ns name (EvHPA (CDelete ns' n r)) = (ns' = ns \<and> n = name \<and> gone r)"
| "cleanup_call ns name (EvJob (CDeleteCollection ns' sel r)) = (ns' = ns \<and> sel = job_selector name \<and> gone r)"
| "cleanup_call ns name _ = False"

lemma and_then_Ok_iff: "fst (and_then r m) = Ok () \<longleftrightarrow> fst r = Ok () \<and> fst (m (snd r)) = Ok ()"
  by (auto simp: and_then_def split: res.splits)

lemma and_then_snd: "snd (and_then r m) = (if fst r = Ok () then snd (m (snd r)) else snd r)"
  by (auto simp: and_then_def split: res.splits)

lemma ignore_not_found_gone: "fst (ignore_not_found r) = Ok () \<longleftrightarrow> gone (fst r)"
  by (auto simp: ignore_not_found_def gone_def split: sum.splits)

lemma gone_simps [simp]: "gone (Inl e) = IsNotFound e" "gone (Inr u)"
  by (simp_all add: gone_def)

lemma deleteAutoscale_calls:
  assumes "deleteAutoscale (logged_controller c) ns name (s, lg) = (r, (s', lg'))"
  shows "\<exists>evs. lg' = lg @ evs \<and> (\<forall>x. EvFunction x \<notin> set evs) \<and>
    (r = Ok () \<longrightarrow> list_all (cleanup_call ns name) evs \<and> (\<exists>a. EvHPA (CDelete ns name a) \<in> set evs) \<and>
       (fc_smclient c \<noteq> None \<longrightarrow> (\<exists>a. EvServiceMonitor (CDelete ns name a) \<in> set evs)))"
  using assms
  by (cases "fc_smclient c")
     (auto simp: deleteAutoscale_def DeleteServiceMonitor_def DeleteAutoscale_def ignore_not_found_def call_simps
       split: sum.splits if_splits)

lemma drop_not_found_deleteAutoscale:
  "drop_not_found (deleteAutoscale c ns name s) = deleteAutoscale c ns name s"
  by (auto simp: drop_not_found_def deleteAutoscale_def DeleteServiceMonitor_def DeleteAutoscale_def
      ignore_not_found_def prod_eq_iff split: prod.splits res.splits option.splits sum.splits if_splits)

text \<open>The calls of a complete clean-up.\<close>

definition cleanup_calls :: "bool \<Rightarrow> string \<Rightarrow> string \<Rightarrow> event list \<Rightarrow> bool" where
  "cleanup_calls monitors ns name evs \<longleftrightarrow>
     list_all (cleanup_call ns name) evs \<and>
     (\<exists>a. EvDeployment (CDelete ns name a) \<in> set evs) \<and> (\<exists>a. EvService (CDelete ns name a) \<in> set evs) \<and>
     (\<exists>a. EvConfigMap (CDelete ns name a) \<in> set evs) \<and> (\<exists>a. EvHPA (CDelete ns name a) \<in> set evs) \<and>
     (\<exists>a. EvJob (CDeleteCollection ns (job_selector name) a) \<in> set evs) \<and>
     (monitors \<longrightarrow> (\<exists>a. EvServiceMonitor (CDelete ns name a) \<in> set evs))"

lemma deleteK8sResources_calls:
  assumes "deleteK8sResources (logged_controller c) ns name (s, lg) = (r, (s', lg'))"
  shows "\<exists>evs. lg' = lg @ evs \<and> (\<forall>x. EvFunction x \<notin> set evs) \<and>
    (r = Ok () \<longrightarrow> cleanup_calls (fc_smclient c \<noteq> None) ns name evs)"
proof -
  let ?k = "fc_clientset c"
  define d1 where "d1 = cl_delete (Deployments ?k) ns name s"
  define d2 where "d2 = cl_delete (Services ?k) ns name (snd d1)"
  define d3 where "d3 = cl_delete (ConfigMaps ?k) ns name (snd d2)"
  let ?e1 = "EvDeployment (CDelete ns name (fst d1))" and ?e2 = "EvService (CDelete ns name (fst d2))"
    and ?e3 = "EvConfigMap (CDelete ns name (fst d3))"
  obtain r4 s4 l4 where a: "deleteAutoscale (logged_controller c) ns name (snd d3, lg @ [?e1, ?e2, ?e3]) = (r4, (s4, l4))"
    by (metis prod.collapse)
  obtain evs where evs: "l4 = lg @ [?e1, ?e2, ?e3] @ evs" "\<forall>x. EvFunction x \<notin> set evs"
    "r4 = Ok () \<longrightarrow> list_all (cleanup_call ns name) evs \<and> (\<exists>a. EvHPA (CDelete ns name a) \<in> set evs) \<and>
       (fc_smclient c \<noteq> None \<longrightarrow> (\<exists>a. EvServiceMonitor (CDelete ns name a) \<in> set evs))"
    using deleteAutoscale_calls [OF a] by auto
  define d5 where "d5 = cl_delete_collection (Jobs ?k) ns (job_selector name) s4"
  let ?e5 = "EvJob (CDeleteCollection ns (job_selector name) (fst d5))"
  have "(r, s', lg') = (if \<not> gone (fst d1) then (fst (ignore_not_found d1), snd d1, lg @ [?e1])
    else if \<not> gone (fst d2) then (fst (ignore_not_found d2), snd d2, lg @ [?e1, ?e2])
    else if \<not> gone (fst d3) then (fst (ignore_not_found d3), snd d3, lg @ [?e1, ?e2, ?e3])
    else if r4 \<noteq> Ok () then (r4, s4, l4)
    else (fst (ignore_not_found d5), snd d5, l4 @ [?e5]))"
    using assms a
    by (auto simp: deleteK8sResources_def Let_def and_then_def ignore_not_found_def call_simps
        drop_not_found_deleteAutoscale d1_def d2_def d3_def d5_def split: sum.splits res.splits if_splits)
  then show ?thesis
    using evs ignore_not_found_gone [of d1] ignore_not_found_gone [of d2] ignore_not_found_gone [of d3]
      ignore_not_found_gone [of d5]
    by (auto simp: cleanup_calls_def split: if_splits)
qed

text \<open>
  C2: Whatever the server answers, a function that is marked for deletion loses the
  controller's finalizer only at the very end: the last call of the log is the update that
  removes it, and before it the deployment, the service, the config map, the autoscaler, the
  build jobs and, where the cluster has them, the service monitor were deleted, each of
  these calls answered with success or with "not found".
\<close>

theorem finalizer_removed_last:
  assumes "processItem (logged_externals ex) (logged_controller c) key st = (r, st')"
    and "ex_split_key ex key = Inr (ns, name)"
    and "st_cache st key = Inr (Some f)" and "om_DeletionTimestamp (f_Meta f) = Some t"
    and "st_server st = (s, [])" and "EvFunction call \<in> set (snd (st_server st'))"
  shows "\<exists>ds res. snd (st_server st') =
      ds @ [EvFunction (CUpdate (f_Namespace f) (without_finalizer f functionFinalizer) res)] \<and>
    cleanup_calls (fc_smclient c \<noteq> None) ns name ds"
proof -
  obtain r1 s1 evs where d: "deleteK8sResources (logged_controller c) ns name (s, []) = (r1, (s1, evs))"
    by (metis prod.collapse)
  have p: "process_deletion (logged_controller c) ns name f (s, []) = (r, st_server st')"
    using assms(1-5) by (auto split: prod.splits simp: processItem_def)
  show ?thesis
  proof (cases "FunctionObjHasFinalizer f functionFinalizer \<and> r1 = Ok ()")
    case True
    then show ?thesis
      using p [symmetric] d deleteK8sResources_calls [OF d]
      by (auto simp: process_deletion_def and_then_def FunctionObjRemoveFinalizer_def UpdateFunctionCustomResource_def
          unit_result_def call_simps without_finalizer_def)
  next
    case False
    then have "snd (st_server st') = [] \<or> snd (st_server st') = evs"
      using p [symmetric] d by (auto simp: process_deletion_def and_then_def split: res.splits if_splits)
    then show ?thesis
      using deleteK8sResources_calls [OF d] assms(6) by auto
  qed
qed

lemma and_then_growth:
  "owned_growth l (snd (snd r)) \<Longrightarrow> (\<And>sl. owned_growth (snd sl) (snd (snd (m sl)))) \<Longrightarrow>
   owned_growth l (snd (snd (and_then r m)))"
  by (metis and_then_snd owned_growth_trans)

lemma deleteK8sResources_growth [growth]:
  assumes "deleteK8sResources (logged_controller c) ns name sl = (r, sl')"
  shows "owned_growth (snd sl) (snd sl')"
proof -
  let ?k = "logged_clientset (fc_clientset c)"
  have g: "owned_growth (snd sl) (snd (snd (ignore_not_found (cl_delete (Deployments ?k) ns n sl))))"
    "owned_growth (snd sl) (snd (snd (ignore_not_found (cl_delete (Services ?k) ns n sl))))"
    "owned_growth (snd sl) (snd (snd (ignore_not_found (cl_delete (ConfigMaps ?k) ns n sl))))"
    "owned_growth (snd sl) (snd (snd (ignore_not_found (cl_delete_collection (Jobs ?k) ns n sl))))"
    "owned_growth (snd sl) (snd (snd (deleteAutoscale (logged_controller c) ns n sl)))" for n sl
    using deleteAutoscale_growth [of c ns n sl "fst (deleteAutoscale (logged_controller c) ns n sl)"
        "snd (deleteAutoscale (logged_controller c) ns n sl)"]
    by (cases sl; simp add: call_simps owned_growth_def; fail)+
  have "owned_growth (snd sl) (snd (snd (deleteK8sResources (logged_controller c) ns name sl)))"
    unfolding deleteK8sResources_def Let_def drop_not_found_deleteAutoscale logged_controller_simps
    by (intro and_then_growth g)
  with assms show ?thesis by simp
qed

lemma process_deletion_growth [growth]:
  assumes "process_deletion (logged_controller c) ns name f sl = (r, sl')"
  shows "owned_growth (snd sl) (snd sl')"
proof -
  have r: "owned_growth (snd sl) (snd sl')"
    if "FunctionObjRemoveFinalizer (logged_client EvFunction cl) f fin sl = (r, sl')" for cl fin sl r sl'
    using that unfolding FunctionObjRemoveFinalizer_def UpdateFunctionCustomResource_def by (rule unit_call_growth)
  obtain r1 s1 where d: "deleteK8sResources (logged_controller c) ns name sl = (r1, s1)" by (metis prod.collapse)
  show ?thesis
    using assms d deleteK8sResources_growth [OF d]
    by (auto simp: process_deletion_def and_then_def call_simps dest!: r intro: owned_growth_trans
        split: res.splits if_splits)
qed

lemma processItem_growth [growth]:
  assumes "processItem (logged_externals ex) (logged_controller c) key st = (r, st')"
  shows "owned_growth (snd (st_server st)) (snd (st_server st'))"
  using assms
  by (auto simp: processItem_def dest!: growth intro: owned_growth_trans
      split: prod.splits sum.splits option.splits res.splits)

lemma processNextItem_growth:
  assumes "processNextItem q (logged_externals ex) (logged_controller c) (st, qs) = (r, st', qs')"
  shows "owned_growth (snd (st_server st)) (snd (st_server st'))"
  using assms
  by (auto simp: processNextItem_def dest!: processItem_growth split: prod.splits if_splits)

section \<open>The controller as a transition system\<close>

text \<open>
  The controller runs beside the informer, which changes the cache and calls the event
  handlers, and beside everything else that changes the server or moves a delayed key of the
  queue, the relation \<open>env\<close>.
\<close>

inductive ctl_step ::
  "'q queue_ops \<Rightarrow> deep_equal \<Rightarrow> (kfunction \<Rightarrow> gerror + string) \<Rightarrow> (kfunction \<Rightarrow> gerror + string)
   \<Rightarrow> ('s \<times> 'q \<Rightarrow> 's \<times> 'q \<Rightarrow> bool) \<Rightarrow> 's externals \<Rightarrow> 's controller
   \<Rightarrow> 's ctl_state \<times> 'q \<Rightarrow> 's ctl_state \<times> 'q \<Rightarrow> bool"
  for q de key_of del_key_of env ex c where
  informer_added: "ctl_step q de key_of del_key_of env ex c (st, qs)
     (st\<lparr>st_cache := (st_cache st)(k := Inr (Some f))\<rparr>, AddFunc q key_of f qs)"
| informer_updated: "st_cache st k = Inr (Some old) \<Longrightarrow> ctl_step q de key_of del_key_of env ex c (st, qs)
     (st\<lparr>st_cache := (st_cache st)(k := Inr (Some f))\<rparr>, UpdateFunc q de key_of old f qs)"
| informer_deleted: "st_cache st k = Inr (Some old) \<Longrightarrow> ctl_step q de key_of del_key_of env ex c (st, qs)
     (st\<lparr>st_cache := (st_cache st)(k := Inr None)\<rparr>, DeleteFunc q del_key_of old qs)"
| environment: "env (st_server st, qs) (s', qs') \<Longrightarrow> ctl_step q de key_of del_key_of env ex c (st, qs)
     (st\<lparr>st_server := s'\<rparr>, qs')"
| worked: "processNextItem q ex c (st, qs) = (Ok b, w') \<Longrightarrow> ctl_step q de key_of del_key_of env ex c (st, qs) w'"

inductive_cases ctl_stepE: "ctl_step q de key_of del_key_of env ex c (st, qs) w'"

section \<open>Bounded retries\<close>

text \<open>
  The rate limiting queue of the client library: retries are counted per key, a key is
  counted when it is added again with a delay, and forgetting it resets its count.
\<close>

definition queue_laws :: "'q queue_ops \<Rightarrow> bool" where
  "queue_laws q \<longleftrightarrow>
     (\<forall>k k' qs. q_NumRequeues q k (q_Add q k' qs) = q_NumRequeues q k qs \<and>
        q_NumRequeues q k (q_Done q k' qs) = q_NumRequeues q k qs \<and>
        q_NumRequeues q k (snd (q_Get q qs)) = q_NumRequeues q k qs \<and>
        q_NumRequeues q k (q_AddRateLimited q k' qs) =
          (if k = k' then Suc (q_NumRequeues q k qs) else q_NumRequeues q k qs) \<and>
        q_NumRequeues q k (q_Forget q k' qs) = (if k = k' then 0 else q_NumRequeues q k qs))"

definition quiet :: "'q queue_ops \<Rightarrow> ('s \<times> 'q \<Rightarrow> 's \<times> 'q \<Rightarrow> bool) \<Rightarrow> bool" where
  "quiet q env \<longleftrightarrow>
     (\<forall>s qs s' qs' k. env (s, qs) (s', qs') \<longrightarrow> q_NumRequeues q k qs' = q_NumRequeues q k qs)"

definition retries_ok :: "'q queue_ops \<Rightarrow> 'q \<Rightarrow> bool" where
  "retries_ok q qs \<longleftrightarrow> (\<forall>k. q_NumRequeues q k qs \<le> maxRetries)"

lemma requeue_count:
  assumes "queue_laws q"
  shows "q_NumRequeues q k (requeue q r key qs) =
    (if k \<noteq> key then q_NumRequeues q k qs
     else case r of Ok _ \<Rightarrow> 0
       | Err e \<Rightarrow> if q_NumRequeues q k qs < maxRetries then Suc (q_NumRequeues q k qs) else 0
       | Panic p \<Rightarrow> q_NumRequeues q k qs)"
  using assms by (auto simp: requeue_def queue_laws_def split: res.splits)

lemma processNextItem_retries:
  assumes "queue_laws q" and "retries_ok q qs" and "processNextItem q ex c (st, qs) = (r, st', qs')"
  shows "retries_ok q qs'"
proof -
  obtain key quit qs1 where g: "q_Get q qs = ((key, quit), qs1)" by (metis prod.collapse)
  have "q_NumRequeues q k (snd (q_Get q qs)) = q_NumRequeues q k qs" for k
    using assms(1) by (simp add: queue_laws_def)
  then have n: "q_NumRequeues q k qs1 = q_NumRequeues q k qs" for k
    using g by simp
  have d: "q_NumRequeues q k (q_Done q k' x) = q_NumRequeues q k x" for k k' x
    using assms(1) by (simp add: queue_laws_def)
  have "qs' = qs1 \<or> (\<exists>r. qs' = q_Done q key (requeue q r key qs1))"
    using assms(3) g by (auto simp: processNextItem_def split: prod.splits if_splits)
  then show ?thesis
    using assms(2) n by (auto simp: retries_ok_def d requeue_count [OF assms(1)] Suc_le_eq split: res.splits)
qed

lemma handlers_retries:
  assumes "queue_laws q" and "retries_ok q qs"
  shows "retries_ok q (AddFunc q key_of f qs)" "retries_ok q (UpdateFunc q de key_of old f qs)"
    "retries_ok q (DeleteFunc q key_of f qs)"
  using assms by (auto simp: retries_ok_def queue_laws_def AddFunc_def UpdateFunc_def DeleteFunc_def split: sum.splits)

lemma quiet_retries: "quiet q env \<Longrightarrow> retries_ok q qs \<Longrightarrow> env (s, qs) (s', qs') \<Longrightarrow> retries_ok q qs'"
  by (auto simp: quiet_def retries_ok_def)

interpretation retries: step_invariant "ctl_step q de key_of del_key_of env ex c"
  "\<lambda>(st, qs). queue_laws q \<and> quiet q env \<and> retries_ok q qs" for q de key_of del_key_of env ex c
proof unfold_locales
  fix w w'
  assume "case w of (st, qs) \<Rightarrow> queue_laws q \<and> quiet q env \<and> retries_ok q qs"
    and "ctl_step q de key_of del_key_of env ex c w w'"
  then show "case w' of (st, qs) \<Rightarrow> queue_laws q \<and> quiet q env \<and> retries_ok q qs"
    by (cases w; cases w') (auto elim!: ctl_stepE intro: handlers_retries processNextItem_retries quiet_retries)
qed

text \<open>
  C3: In every state the controller can reach, however the informer, the server and the
  queue move between its steps, no key has been retried more than five times since it was
  last processed successfully or given up.
\<close>

theorem retries_bounded:
  assumes "queue_laws q" and "quiet q env" and "\<forall>k. q_NumRequeues q k qs0 = 0"
    and "(ctl_step q de key_of del_key_of env ex c)\<^sup>*\<^sup>* (st0, qs0) (st, qs)"
  shows "q_NumRequeues q key qs \<le> 5"
  using retries.reachable [OF assms(4)] assms(1-3) by (simp add: retries_ok_def maxRetries_def)

section \<open>Only owned objects are overwritten, in every run\<close>

definition keeps_log :: "(('s \<times> event list) \<times> 'q \<Rightarrow> ('s \<times> event list) \<times> 'q \<Rightarrow> bool) \<Rightarrow> bool" where
  "keeps_log env \<longleftrightarrow> (\<forall>sl qs sl' qs'. env (sl, qs) (sl', qs') \<longrightarrow> snd sl' = snd sl)"

lemma keeps_logD: "keeps_log env \<Longrightarrow> env (sl, qs) (sl', qs') \<Longrightarrow> snd sl' = snd sl"
  unfolding keeps_log_def by blast

interpretation owned: step_invariant
  "ctl_step q de key_of del_key_of env (logged_externals ex) (logged_controller c)"
  "\<lambda>(st, qs). keeps_log env \<and> owned_growth [] (snd (st_server st))" for q de key_of del_key_of env ex c
proof unfold_locales
  fix w w'
  assume "case w of (st, qs) \<Rightarrow> keeps_log env \<and> owned_growth [] (snd (st_server st))"
    and "ctl_step q de key_of del_key_of env (logged_externals ex) (logged_controller c) w w'"
  then show "case w' of (st, qs) \<Rightarrow> keeps_log env \<and> owned_growth [] (snd (st_server st))"
    by (cases w; cases w')
       (auto elim!: ctl_stepE intro: owned_growth_trans dest: processNextItem_growth keeps_logD)
qed

text \<open>
  C1: Whatever the server answers and however the controller, the informer and other clients
  interleave, the controller updates a config map or a service, or patches a deployment, only
  directly after the server has shown it the object of that name with the label
  \<open>created-by: kubeless\<close>; it never overwrites an object somebody else created.
\<close>

theorem only_owned_overwritten:
  assumes "(ctl_step q de key_of del_key_of env (logged_externals ex) (logged_controller c))\<^sup>*\<^sup>* (st0, qs0) (st, qs)"
    and "keeps_log env" and "snd (st_server st0) = []"
  shows "owned_writes (snd (st_server st))"
  using owned.reachable [OF assms(1)] assms(2,3) by (auto intro: owned_growth_start)

section \<open>A successful reconciliation wrote every object\<close>

definition accepted :: "gerror + 'a \<Rightarrow> bool" where
  "accepted r = (case r of Inl e \<Rightarrow> IsAlreadyExists e | Inr _ \<Rightarrow> True)"

fun wrote_configmap :: "string \<Rightarrow> string \<Rightarrow> event \<Rightarrow> bool" where
  "wrote_configmap ns n (EvConfigMap (CCreate ns' x (Inr y))) = (ns' = ns \<and> om_Name (cm_Meta x) = n)"
| "wrote_configmap ns n (EvConfigMap (CUpdate ns' x r)) = (ns' = ns \<and> accepted r)"
| "wrote_configmap ns n _ = False"

fun wrote_service :: "string \<Rightarrow> string \<Rightarrow> event \<Rightarrow> bool" where
  "wrote_service ns n (EvService (CCreate ns' x (Inr y))) = (ns' = ns \<and> om_Name (svc_Meta x) = n)"
| "wrote_service ns n (EvService (CUpdate ns' x r)) = (ns' = ns \<and> accepted r)"
| "wrote_service ns n _ = False"

fun wrote_deployment :: "string \<Rightarrow> event \<Rightarrow> bool" where
  "wrote_deployment ns (EvDeployment (CCreate ns' x (Inr y))) = (ns' = ns)"
| "wrote_deployment ns (EvDeployment (CPatch ns' n x (Inr y))) = (ns' = ns)"
| "wrote_deployment ns _ = False"

lemma EnsureFuncConfigMap_wrote:
  assumes "EnsureFuncConfigMap (logged_clientset k) f ors l sl = (Ok u, f', sl')"
  shows "\<exists>a e. snd sl' = snd sl @ a @ [e] \<and> wrote_configmap (f_Namespace f) (f_Name f) e"
  using assms
  by (cases sl) (auto simp: EnsureFuncConfigMap_def Let_def call_simps new_configmap_def accepted_def
      split: res.splits sum.splits if_splits)

lemma EnsureFuncService_wrote:
  assumes "EnsureFuncService (logged_clientset k) f ors sl = (Ok u, f', sl')"
  shows "\<exists>a e. snd sl' = snd sl @ a @ [e] \<and> wrote_service (f_Namespace f) (f_Name f) e"
  using assms
  by (cases sl) (auto simp: EnsureFuncService_def Let_def call_simps new_service_def accepted_def
      split: res.splits sum.splits if_splits)

lemma EnsureFuncDeployment_wrote:
  assumes "EnsureFuncDeployment um env (logged_clientset k) f ors l pre prov ips sl = (Ok u, l', sl')"
  shows "\<exists>a e. snd sl' = snd sl @ a @ [e] \<and> wrote_deployment (f_Namespace f) e"
  using assms
  by (cases sl) (auto simp: EnsureFuncDeployment_def Let_def call_simps
      split: prod.splits res.splits sum.splits if_splits)

lemma EnsureFunc_names:
  "EnsureFuncConfigMap k f ors l s = (r, f1, s1) \<Longrightarrow> f_Name f1 = f_Name f \<and> f_Namespace f1 = f_Namespace f"
  "EnsureFuncService k f ors s = (r, f1, s1) \<Longrightarrow> f_Name f1 = f_Name f \<and> f_Namespace f1 = f_Namespace f"
  by (auto simp: EnsureFuncConfigMap_def EnsureFuncService_def labelled_function_def Let_def
      split: res.splits sum.splits prod.splits if_splits)

lemma owned_growthE: "owned_growth l l' \<Longrightarrow> (\<And>evs. l' = l @ evs \<Longrightarrow> P) \<Longrightarrow> P"
  by (auto simp: owned_growth_def)

lemma ensure_objects_wrote:
  assumes "ensure_objects (logged_externals ex) (logged_controller c) f ors l sl = (Ok u, f', l', sl')"
  shows "\<exists>x1 e1 x2 e2 x3 e3 x4. snd sl' = snd sl @ x1 @ [e1] @ x2 @ [e2] @ x3 @ [e3] @ x4 \<and>
    wrote_configmap (f_Namespace f) (f_Name f) e1 \<and> wrote_service (f_Namespace f) (f_Name f) e2 \<and>
    wrote_deployment (f_Namespace f) e3"
proof -
  let ?k = "logged_clientset (fc_clientset c)"
  obtain f1 s1 f2 s2 pre l3 s3 l4 s4 where
    c: "EnsureFuncConfigMap ?k f ors l sl = (Ok (), f1, s1)"
    and v: "EnsureFuncService ?k f1 ors s1 = (Ok (), f2, s2)"
    and i: "function_image (logged_externals ex) (logged_controller c) f2 ors l s2 = (Ok pre, l3, s3)"
    and d: "EnsureFuncDeployment (ex_runtimes ex) (ex_getenv ex) ?k f2 ors l3 pre
       (gm_get (cm_Data (fc_config c)) ''provision-image'') (fc_imagePullSecrets c) s3 = (Ok (), l4, s4)"
    and h: "ensure_autoscale (logged_controller c) f2 ors s4 = (Ok (), f', sl')"
    using assms by (auto simp: ensure_objects_def Let_def split: prod.splits res.splits)
  note n = EnsureFunc_names(1) [OF c] EnsureFunc_names(2) [OF v]
  obtain a1 e1 where 1: "snd s1 = snd sl @ a1 @ [e1]" "wrote_configmap (f_Namespace f) (f_Name f) e1"
    using EnsureFuncConfigMap_wrote [OF c] by blast
  obtain a2 e2 where 2: "snd s2 = snd s1 @ a2 @ [e2]" "wrote_service (f_Namespace f) (f_Name f) e2"
    using EnsureFuncService_wrote [OF v] n by auto
  obtain a3 where 3: "snd s3 = snd s2 @ a3"
    using function_image_growth [OF i] by (rule owned_growthE)
  obtain a4 e4 where 4: "snd s4 = snd s3 @ a4 @ [e4]" "wrote_deployment (f_Namespace f) e4"
    using EnsureFuncDeployment_wrote [OF d] n by auto
  obtain a5 where 5: "snd sl' = snd s4 @ a5"
    using ensure_autoscale_growth [OF h] by (rule owned_growthE)
  have "snd sl' = snd sl @ a1 @ [e1] @ a2 @ [e2] @ (a3 @ a4) @ [e4] @ a5"
    using 1(1) 2(1) 3 4(1) 5 by simp
  with 1(2) 2(2) 4(2) show ?thesis by blast
qed

lemma merge_config_meta: "merge_config ex config f = (r, f') \<Longrightarrow> f_Meta f' = f_Meta f"
  by (auto simp: merge_config_def set_Deployment_def split: option.splits sum.splits prod.splits)

lemma label_function_simps [simp]:
  "f_Name (label_function f) = f_Name f" "f_Namespace (label_function f) = f_Namespace f"
  "om_UID (f_Meta (label_function f)) = om_UID (f_Meta f)" "f_Labels (label_function f) \<noteq> None"
  by (simp_all add: label_function_def)


section \<open>A processed deletion leaves nothing behind\<close>

datatype kind = KDeployment | KService | KConfigMap | KAutoscaler | KMonitor | KJob | KFunction

type_synonym inventory = "(kind \<times> string \<times> string) set"

text \<open>
  A server with an inventory of objects: deleting an object removes it and nothing else, and
  deleting one that is not there is answered "not found"; deleting a collection of jobs
  removes only jobs; updating a function changes no other kind.
\<close>

definition deletes :: "('s \<Rightarrow> inventory) \<Rightarrow> kind \<Rightarrow> ('s, 'o) client \<Rightarrow> bool" where
  "deletes present kd cl \<longleftrightarrow>
     (\<forall>ns n s. present (snd (cl_delete cl ns n s)) = present s - {(kd, ns, n)} \<and> gone (fst (cl_delete cl ns n s)))"

definition cleanup_laws :: "'s controller \<Rightarrow> ('s \<Rightarrow> inventory) \<Rightarrow> bool" where
  "cleanup_laws c present \<longleftrightarrow>
     deletes present KDeployment (Deployments (fc_clientset c)) \<and>
     deletes present KService (Services (fc_clientset c)) \<and>
     deletes present KConfigMap (ConfigMaps (fc_clientset c)) \<and>
     deletes present KAutoscaler (HPAs (fc_clientset c)) \<and>
     (\<forall>sm. fc_smclient c = Some sm \<longrightarrow> deletes present KMonitor sm) \<and>
     (\<forall>ns sel s. gone (fst (cl_delete_collection (Jobs (fc_clientset c)) ns sel s)) \<and>
        present s - {x. fst x = KJob} \<subseteq> present (snd (cl_delete_collection (Jobs (fc_clientset c)) ns sel s)) \<and>
        present (snd (cl_delete_collection (Jobs (fc_clientset c)) ns sel s)) \<subseteq> present s) \<and>
     (\<forall>ns f s. present (snd (cl_update (Functions (fc_clientset c)) ns f s)) - {x. fst x = KFunction} =
        present s - {x. fst x = KFunction})"

lemma deletes_gone [simp]: "deletes present kd cl \<Longrightarrow> gone (fst (cl_delete cl ns n s))"
  by (simp add: deletes_def)

lemma deletes_present [simp]: "deletes present kd cl \<Longrightarrow> present (snd (cl_delete cl ns n s)) = present s - {(kd, ns, n)}"
  by (simp add: deletes_def)

lemma deleteAutoscale_store:
  assumes "cleanup_laws c present"
  shows "fst (deleteAutoscale c ns name s) = Ok () \<and>
    present (snd (deleteAutoscale c ns name s)) =
      present s - (if fc_smclient c = None then {} else {(KMonitor, ns, name)}) - {(KAutoscaler, ns, name)}"
proof -
  have ig: "ignore_not_found (cl_delete cl ns n s) = (Ok (), snd (cl_delete cl ns n s))" if "deletes present kd cl" for kd cl n s
    using that ignore_not_found_gone [of "cl_delete cl ns n s"] by (simp add: prod_eq_iff)
  show ?thesis
    using assms
    by (cases "fc_smclient c")
       (auto simp: cleanup_laws_def deleteAutoscale_def DeleteServiceMonitor_def DeleteAutoscale_def ig)
qed

text \<open>The objects that a function owns, apart from its build jobs.\<close>

definition owned_objects :: "bool \<Rightarrow> string \<Rightarrow> string \<Rightarrow> inventory" where
  "owned_objects monitors ns name =
     {(KDeployment, ns, name), (KService, ns, name), (KConfigMap, ns, name), (KAutoscaler, ns, name)} \<union>
     (if monitors then {(KMonitor, ns, name)} else {})"

lemma deleteK8sResources_store:
  assumes "cleanup_laws c present"
  shows "fst (deleteK8sResources c ns name s) = Ok () \<and>
    present (snd (deleteK8sResources c ns name s)) - {x. fst x = KJob} =
      present s - owned_objects (fc_smclient c \<noteq> None) ns name - {x. fst x = KJob}"
proof -
  let ?k = "fc_clientset c"
  define s1 where "s1 = snd (cl_delete (Deployments ?k) ns name s)"
  define s2 where "s2 = snd (cl_delete (Services ?k) ns name s1)"
  define s3 where "s3 = snd (cl_delete (ConfigMaps ?k) ns name s2)"
  define s4 where "s4 = snd (deleteAutoscale c ns name s3)"
  define s5 where "s5 = snd (cl_delete_collection (Jobs ?k) ns (job_selector name) s4)"
  have d: "deletes present KDeployment (Deployments ?k)" "deletes present KService (Services ?k)"
    "deletes present KConfigMap (ConfigMaps ?k)"
    using assms by (simp_all add: cleanup_laws_def)
  have a: "fst (deleteAutoscale c ns name s3) = Ok ()"
    using deleteAutoscale_store [OF assms] by simp
  have j: "gone (fst (cl_delete_collection (Jobs ?k) ns (job_selector name) s4))"
    using assms by (simp add: cleanup_laws_def)
  have r: "deleteK8sResources c ns name s = (Ok (), s5)"
    using d a j
    by (simp add: deleteK8sResources_def Let_def prod_eq_iff and_then_Ok_iff and_then_snd ignore_not_found_gone
        drop_not_found_deleteAutoscale s1_def s2_def s3_def s4_def s5_def)
  have "present s3 = present s - {(KDeployment, ns, name), (KService, ns, name), (KConfigMap, ns, name)}"
    using d by (auto simp: s1_def s2_def s3_def)
  moreover have "present s4 = present s3 - (if fc_smclient c = None then {} else {(KMonitor, ns, name)}) - {(KAutoscaler, ns, name)}"
    using deleteAutoscale_store [OF assms] by (simp add: s4_def)
  moreover have "present s4 - {x. fst x = KJob} \<subseteq> present s5" "present s5 \<subseteq> present s4"
    using assms by (simp_all add: cleanup_laws_def s5_def)
  then have "present s5 - {x. fst x = KJob} = present s4 - {x. fst x = KJob}"
    by blast
  ultimately have "present s5 - {x. fst x = KJob} =
      present s - owned_objects (fc_smclient c \<noteq> None) ns name - {x. fst x = KJob}"
    by (auto simp: owned_objects_def)
  with r show ?thesis by simp
qed

lemma inventory_removed: "c - x = a - own - x \<Longrightarrow> own \<inter> x = {} \<Longrightarrow> own \<inter> c = {}"
  by blast

lemma inventory_steps:
  assumes "b - j = a - own - j" and "c - f = b - f"
  shows "c - (j \<union> f) = a - own - (j \<union> f)"
proof -
  have "c - (j \<union> f) = (c - f) - j" by blast
  also have "\<dots> = (b - j) - f" unfolding assms(2) by blast
  also have "\<dots> = a - own - (j \<union> f)" unfolding assms(1) by blast
  finally show ?thesis .
qed


section \<open>Change detection and image tags\<close>

text \<open>
  An update event is ignored exactly when both deletion timestamps are the same pointer
  and either the resource version is the same or the two specifications agree on the code,
  the checksum, the handler, the content type, the dependencies and the timeout and, up to
  semantic equality, on the deployment, the autoscaler and the service. In particular a
  change of the runtime alone is ignored.
\<close>

theorem functionObjChanged_iff:
  "functionObjChanged de old f = False \<longleftrightarrow>
     map_option ptr_addr (om_DeletionTimestamp (f_Meta old)) = map_option ptr_addr (om_DeletionTimestamp (f_Meta f)) \<and>
     (om_ResourceVersion (f_Meta old) = om_ResourceVersion (f_Meta f) \<or>
      (\<exists>rt dp h sv. f_Spec f = (f_Spec old)\<lparr>fs_Runtime := rt, fs_Deployment := dp,
            fs_HorizontalPodAutoscaler := h, fs_ServiceSpec := sv\<rparr> \<and>
         de_deployment de (fs_Deployment (f_Spec old)) dp \<and>
         de_hpa de (fs_HorizontalPodAutoscaler (f_Spec old)) h \<and>
         de_service de (fs_ServiceSpec (f_Spec old)) sv))"
proof -
  have "(\<exists>rt dp h sv. f_Spec f = (f_Spec old)\<lparr>fs_Runtime := rt, fs_Deployment := dp,
            fs_HorizontalPodAutoscaler := h, fs_ServiceSpec := sv\<rparr> \<and>
         de_deployment de (fs_Deployment (f_Spec old)) dp \<and>
         de_hpa de (fs_HorizontalPodAutoscaler (f_Spec old)) h \<and>
         de_service de (fs_ServiceSpec (f_Spec old)) sv) \<longleftrightarrow>
    fs_Function (f_Spec old) = fs_Function (f_Spec f) \<and> fs_Checksum (f_Spec old) = fs_Checksum (f_Spec f) \<and>
    fs_Handler (f_Spec old) = fs_Handler (f_Spec f) \<and>
    fs_FunctionContentType (f_Spec old) = fs_FunctionContentType (f_Spec f) \<and>
    fs_Deps (f_Spec old) = fs_Deps (f_Spec f) \<and> fs_Timeout (f_Spec old) = fs_Timeout (f_Spec f) \<and>
    de_deployment de (fs_Deployment (f_Spec old)) (fs_Deployment (f_Spec f)) \<and>
    de_hpa de (fs_HorizontalPodAutoscaler (f_Spec old)) (fs_HorizontalPodAutoscaler (f_Spec f)) \<and>
    de_service de (fs_ServiceSpec (f_Spec old)) (fs_ServiceSpec (f_Spec f))"
    by (cases "f_Spec old"; cases "f_Spec f") auto
  then show ?thesis
    by (auto simp: functionObjChanged_def Let_def)
qed

lemma length_image_tag [simp]: "length (image_tag f) = 64"
  by (simp add: image_tag_def)

text \<open>
  C36: The tag under which the controller builds a function's image is 64 hexadecimal digits,
  so the guard of the build step never refuses it: on any server, the build starts by looking
  for the job named after the function and the first ten digits of the tag.
\<close>

theorem image_tag_accepted:
  "length (image_tag f) = 64 \<and> set (image_tag f) \<subseteq> set ''0123456789abcdef'' \<and>
   (\<exists>r rest. snd (snd (snd (EnsureFuncImage um env (logged_clientset k) f l ors img (image_tag f) bi rh ds prov tls ips (s, []))))
      = EvJob (CGet (f_Namespace f) (''build-'' @ f_Name f @ ''-'' @ take 10 (image_tag f)) r) # rest)"
proof -
  have "set (image_tag f) \<subseteq> set ''0123456789abcdef''"
    unfolding image_tag_def by (rule set_hex_encode)
  moreover have "\<exists>r rest. snd (snd (snd (EnsureFuncImage um env (logged_clientset k) f l ors img (image_tag f) bi rh ds prov tls ips (s, []))))
      = EvJob (CGet (f_Namespace f) (''build-'' @ f_Name f @ ''-'' @ take 10 (image_tag f)) r) # rest"
    by (auto simp: EnsureFuncImage_def Let_def call_simps split: sum.splits prod.splits res.splits)
  ultimately show ?thesis
    using length_image_tag by blast
qed

end
