(* ===== verification/Instances.thy ===== *)
theory Instances
  imports ControllerLaws
begin

text \<open>
  Concrete instances: a small runtime configuration, a function, and servers and queues that
  satisfy the laws stated of them. Each theorem applies one property of the development to
  them and discharges its hypotheses by evaluation.
\<close>

section \<open>Sample data\<close>

definition py_runtime :: runtime_info where
  "py_runtime =
     \<lparr>ri_ID = ''python'',
      ri_Versions = [\<lparr>rv_Name = ''python27'', rv_Version = ''2.7'',
        rv_Images = [\<lparr>img_Phase = ''compilation'', img_Image = ''py/build'', img_Command = ''make'', img_Env = None,
                      img_Secrets = [''p1'']\<rparr>,
                     \<lparr>img_Phase = ''runtime'', img_Image = ''py/run'', img_Command = [], img_Env = None, img_Secrets = []\<rparr>],
        rv_ImagePullSecrets = []\<rparr>],
      ri_LivenessProbeInfo = None, ri_DepName = ''req.txt'', ri_FileNameSuffix = ''.py''\<rparr>"

definition py_config :: configmap where
  "py_config = \<lparr>cm_Meta = zero_meta, cm_Data = Some []\<rparr>"

definition py_lr :: langruntimes where
  "py_lr = \<lparr>lr_kubelessConfig = py_config, lr_AvailableRuntimes = [py_runtime]\<rparr>"

definition keep_runtimes :: yaml_runtimes where
  "keep_runtimes txt rs = Inr rs"

definition no_env :: "string \<Rightarrow> string" where
  "no_env v = []"

definition hello :: kfunction where
  "hello = zero_function\<lparr>f_Meta := zero_meta\<lparr>om_Name := ''get'', om_Namespace := ''ns'', om_UID := ''u1'',
       om_Labels := Some []\<rparr>,
     f_Spec := (f_Spec zero_function)\<lparr>fs_Handler := ''m.h'', fs_Function := ''code'', fs_Runtime := ''python2.7''\<rparr>\<rparr>"

lemmas sample_defs = py_runtime_def py_config_def py_lr_def keep_runtimes_def no_env_def hello_def zero_function_def
  zero_meta_def zero_pod_spec_def zero_resources_def zero_container_def

section \<open>Runtimes\<close>

definition special_runtime :: runtime_info where
  "special_runtime = py_runtime\<lparr>ri_ID := ''dotnet-core'', ri_LivenessProbeInfo :=
     Some \<lparr>pr_InitialDelaySeconds = 9, pr_PeriodSeconds = 9, pr_HTTPGet = None\<rparr>\<rparr>"

definition special_lr :: langruntimes where
  "special_lr = py_lr\<lparr>lr_AvailableRuntimes := [py_runtime, special_runtime]\<rparr>"

lemma wf_special: "wf_langruntimes special_lr" "wf_langruntimes py_lr"
  by code_simp+

theorem IsValidRuntime_resolves_witness:
  "\<exists>rv. findRuntimeVersion py_lr ''python2.7'' = Ok rv \<and> is_ok (GetInitContainerSecrets py_lr ''python2.7'' ''compile'') \<and>
     is_ok (GetFunctionImage no_env py_lr ''python2.7'')"
proof -
  have "IsValidRuntime py_lr ''python2.7''" by code_simp
  from IsValidRuntime_resolves [OF wf_special(2) this, of "''compile''" no_env] show ?thesis by blast
qed

theorem GetFunctionImage_missing_witness:
  "GetFunctionImage no_env (py_lr\<lparr>lr_AvailableRuntimes := [py_runtime\<lparr>ri_Versions :=
     [\<lparr>rv_Name = [], rv_Version = ''3'', rv_Images = [], rv_ImagePullSecrets = []\<rparr>]\<rparr>]\<rparr>) ''python3'' = Ok []"
proof -
  let ?rv = "\<lparr>rv_Name = [], rv_Version = ''3'', rv_Images = [], rv_ImagePullSecrets = []\<rparr>"
  let ?ri = "py_runtime\<lparr>ri_Versions := [?rv]\<rparr>"
  let ?l = "py_lr\<lparr>lr_AvailableRuntimes := [?ri]\<rparr>"
  have "GetRuntimeInfo ?l ''python3'' = Ok ?ri" "findRuntimeVersion ?l ''python3'' = Ok ?rv"
    by (simp_all add: GetRuntimeInfo_def findRuntimeVersion_def getVersionFromRuntime_def py_runtime_def
        is_id_char_def is_letter_def is_version_char_def)
  from GetFunctionImage_missing [OF this, of no_env] show ?thesis
    by (simp add: no_env_def findImage_def)
qed

theorem GetLivenessProbeInfo_special_witness:
  "GetLivenessProbeInfo special_lr ''dotnet-core2.7'' 8080 =
     \<lparr>pr_InitialDelaySeconds = 3, pr_PeriodSeconds = 30, pr_HTTPGet = Some (''/healthz'', FromInt 8080)\<rparr>"
proof -
  have r: "special_runtime \<in> set (lr_AvailableRuntimes special_lr)" by (simp add: special_lr_def)
  have v: "hd (ri_Versions special_runtime) \<in> set (ri_Versions special_runtime)"
    by (simp add: special_runtime_def py_runtime_def)
  have d: "CHR ''_'' \<in> set (ri_ID special_runtime) \<or> CHR ''-'' \<in> set (ri_ID special_runtime)"
    by (simp add: special_runtime_def)
  have t: "takeWhile is_letter (ri_ID special_runtime) \<notin> ri_ID ` set (lr_AvailableRuntimes special_lr)"
    by (simp add: special_runtime_def special_lr_def py_runtime_def is_letter_def)
  have n: "ri_ID special_runtime @ rv_Version (hd (ri_Versions special_runtime)) = ''dotnet-core2.7''"
    by (simp add: special_runtime_def py_runtime_def)
  from GetLivenessProbeInfo_special [OF wf_special(1) r v d t, of 8080] show ?thesis
    unfolding n by simp
qed

section \<open>Pods\<close>

lemma hello_pod: "is_ok (fst (populatePodSpec keep_runtimes hello py_lr zero_pod_spec (getRuntimeVolumeMount ''get'') ''unzip'' []))"
  by code_simp

abbreviation hello_populated :: "pod_spec res \<times> langruntimes" where
  "hello_populated \<equiv> populatePodSpec keep_runtimes hello py_lr zero_pod_spec (getRuntimeVolumeMount ''get'') ''unzip'' []"

lemma hello_pod_Ok: "\<exists>p l. hello_populated = (Ok p, l)"
  using hello_pod by (metis is_ok_iff prod.collapse)

lemma hello_code: "fs_Function (f_Spec hello) \<noteq> []" "mounts_resolved zero_pod_spec"
  by (simp_all add: hello_def mounts_resolved_def zero_pod_spec_def)

theorem populatePodSpec_mounts_resolved_witness: "\<exists>p l. hello_populated = (Ok p, l) \<and> mounts_resolved p"
  using hello_pod_Ok populatePodSpec_mounts_resolved hello_code(2) by blast

theorem populatePodSpec_init_containers_witness:
  "\<exists>p l rv. hello_populated = (Ok p, l) \<and> findRuntimeVersion py_lr (fs_Runtime (f_Spec hello)) = Ok rv \<and>
     map c_Name (ps_InitContainers p) = [''prepare''] @
       (if has_deps hello \<and> findImage PhaseInstallation rv \<noteq> None then [''install''] else []) @
       (if findImage PhaseCompilation rv \<noteq> None then [''compile''] else [])"
  using hello_pod_Ok populatePodSpec_init_containers [OF _ hello_code(1)] by blast

theorem populatePodSpec_frame_witness:
  "\<exists>p l extra. hello_populated = (Ok p, l) \<and> ps_Containers p = [] \<and>
     ps_Volumes p = [\<lparr>vol_Name = ''get'', vol_Source = EmptyDirVolume\<rparr>,
       \<lparr>vol_Name = f_Name hello @ ''-deps'', vol_Source = ConfigMapVolume (f_Name hello)\<rparr>] @ extra"
proof -
  obtain p l where p: "hello_populated = (Ok p, l)" using hello_pod_Ok by blast
  from populatePodSpec_frame [OF p] p show ?thesis
    by (auto simp: zero_pod_spec_def getRuntimeVolumeMount_def)
qed


section \<open>Ensured objects\<close>

definition cm_server :: "configmap store clientset" where
  "cm_server =
     \<lparr>ConfigMaps = mem_client (\<lambda>cm. om_Name (cm_Meta cm)) (\<lambda>st. st) (\<lambda>st s. st),
       Services = mem_client (\<lambda>v. om_Name (svc_Meta v)) (\<lambda>st ns n. None) (\<lambda>st s. s),
       Deployments = mem_client (\<lambda>d. om_Name (d_Meta d)) (\<lambda>st ns n. None) (\<lambda>st s. s),
       Jobs = mem_client (\<lambda>j. om_Name (j_Meta j)) (\<lambda>st ns n. None) (\<lambda>st s. s),
       Secrets = mem_client sec_Name (\<lambda>st ns n. None) (\<lambda>st s. s),
       HPAs = mem_client (\<lambda>h. om_Name (hpa_Meta h)) (\<lambda>st ns n. None) (\<lambda>st s. s),
       Functions = mem_client f_Name (\<lambda>st ns n. None) (\<lambda>st s. s)\<rparr>"


theorem desired_deployment_container_witness:
  "\<exists>d l' c cs. desired_deployment keep_runtimes no_env hello [] py_lr [] ''unzip'' [] = (Ok d, l') \<and>
     ps_Containers (d_PodSpec d) = c # cs \<and> c_Name c = ''get'' \<and> c_LivenessProbe c \<noteq> None \<and>
     \<lparr>ev_Name = ''FUNC_HANDLER'', ev_Value = ''h''\<rparr> \<in> set (c_Env c)"
proof -
  have "d_PodSpec (dpm_base hello []) = zero_pod_spec\<lparr>ps_Containers := [zero_container]\<rparr>"
    by (simp add: dpm_base_def Let_def hello_def zero_function_def zero_deployment_def zero_pod_spec_def)
  moreover have "is_ok (fst (dpm_runtime keep_runtimes no_env hello py_lr [] ''unzip'' []
      (zero_pod_spec\<lparr>ps_Containers := [zero_container]\<rparr>)))"
    by code_simp
  ultimately have "is_ok (fst (desired_deployment keep_runtimes no_env hello [] py_lr [] ''unzip'' []))"
    by (simp add: desired_deployment_ok_iff)
  then obtain d l' where d: "desired_deployment keep_runtimes no_env hello [] py_lr [] ''unzip'' [] = (Ok d, l')"
    by (metis is_ok_iff prod.collapse)
  have h: "fs_Handler (f_Spec hello) = ''m'' @ ''.'' @ ''h''" "f_Name hello = ''get''" by (simp_all add: hello_def)
  from desired_deployment_container [OF d h(1) _ _ hello_code(1)] d h(2) show ?thesis by auto
qed

definition keep_first :: "'a \<Rightarrow> 'a \<Rightarrow> gerror option \<times> 'a" where
  "keep_first a b = (None, a)"

definition one_container :: deployment where
  "one_container = upd_pod (\<lambda>p. p\<lparr>ps_Containers := [zero_container]\<rparr>) zero_deployment"

definition two_containers :: deployment where
  "two_containers = upd_pod (\<lambda>p. p\<lparr>ps_Containers := [zero_container, zero_container]\<rparr>) zero_deployment"

definition merge_missing :: "deployment \<Rightarrow> deployment \<Rightarrow> gerror option \<times> deployment" where
  "merge_missing a b =
     (None, if ps_Containers (d_PodSpec a) = []
            then upd_pod (\<lambda>p. p\<lparr>ps_Containers := ps_Containers (d_PodSpec b)\<rparr>) a else a)"

theorem MergeDeployments_containers_witness:
  "fst (MergeDeployments merge_missing keep_first two_containers one_container) = Ok () \<and>
   fst (MergeDeployments merge_missing keep_first one_container two_containers) = Panic IndexOutOfRange"
proof -
  have k: "keeps_containers merge_missing" by (simp add: keeps_containers_def merge_missing_def)
  have m: "\<forall>a b. fst (keep_first a b) = None" by (simp add: keep_first_def)
  have c: "ps_Containers (d_PodSpec one_container) = [zero_container]"
    "ps_Containers (d_PodSpec two_containers) = [zero_container, zero_container]"
    by (simp_all add: one_container_def two_containers_def)
  show ?thesis
    using MergeDeployments_containers [OF k m c(2,1)] MergeDeployments_containers [OF k m c(1,2)] by simp
qed

section \<open>The controller\<close>

text \<open>A client that accepts everything, and one whose objects exist already.\<close>

definition yes_client :: "('s, 'o) client" where
  "yes_client =
     \<lparr>cl_get = (\<lambda>ns n s. (Inl not_found, s)), cl_list = (\<lambda>ns sel s. (Inr [], s)),
      cl_create = (\<lambda>ns x s. (Inr x, s)), cl_update = (\<lambda>ns x s. (Inr x, s)),
      cl_patch = (\<lambda>ns n x s. (Inr x, s)), cl_delete = (\<lambda>ns n s. (Inr (), s)),
      cl_delete_collection = (\<lambda>ns sel s. (Inr (), s))\<rparr>"

definition taken_client :: "'o \<Rightarrow> ('s, 'o) client" where
  "taken_client x = yes_client\<lparr>cl_get := (\<lambda>ns n s. (Inr x, s)), cl_create := (\<lambda>ns y s. (Inl already_exists, s))\<rparr>"

definition old_configmap :: configmap where
  "old_configmap = \<lparr>cm_Meta = zero_meta\<lparr>om_Name := ''get'', om_Labels := Some [(''created-by'', ''kubeless'')]\<rparr>, cm_Data = None\<rparr>"

definition yes_server :: "unit clientset" where
  "yes_server = \<lparr>ConfigMaps = taken_client old_configmap, Services = yes_client, Deployments = yes_client,
     Jobs = yes_client, Secrets = yes_client, HPAs = yes_client, Functions = yes_client\<rparr>"

definition yes_controller :: "unit controller" where
  "yes_controller = \<lparr>fc_clientset = yes_server, fc_smclient = None, fc_config = py_config, fc_imagePullSecrets = []\<rparr>"

definition yes_externals :: "unit externals" where
  "yes_externals =
     \<lparr>ex_runtimes = keep_runtimes, ex_getenv = no_env, ex_deployment = (\<lambda>txt. Inr zero_deployment),
      ex_merge = keep_first, ex_merge_append = keep_first, ex_json = sample_json,
      ex_http = (\<lambda>url auth s. (Inl (Errorf ''offline''), s)), ex_url_host = Inr, ex_split_key = (\<lambda>key. Inr (''ns'', ''get''))\<rparr>"

definition dying :: kfunction where
  "dying = hello\<lparr>f_Meta := (f_Meta hello)\<lparr>om_Finalizers := [functionFinalizer], om_DeletionTimestamp := Some (TimePtr 1 0)\<rparr>\<rparr>"

definition cached :: "kfunction \<Rightarrow> 's \<Rightarrow> 's ctl_state" where
  "cached f s = \<lparr>st_cache = (\<lambda>key. Inr (Some f)), st_langRuntime = py_lr, st_server = s\<rparr>"

lemmas controller_defs = yes_controller_def yes_server_def yes_client_def taken_client_def yes_externals_def
  cached_def dying_def hello_def zero_meta_def

lemma dying_calls:
  "snd (st_server (snd (processItem (logged_externals yes_externals) (logged_controller yes_controller) ''ns/get''
     (cached dying ((), []))))) =
   [EvDeployment (CDelete ''ns'' ''get'' (Inr ())), EvService (CDelete ''ns'' ''get'' (Inr ())),
    EvConfigMap (CDelete ''ns'' ''get'' (Inr ())), EvHPA (CDelete ''ns'' ''get'' (Inr ())),
    EvJob (CDeleteCollection ''ns'' (job_selector ''get'') (Inr ())),
    EvFunction (CUpdate ''ns'' (without_finalizer dying functionFinalizer) (Inr (without_finalizer dying functionFinalizer)))]"
  by (simp add: controller_defs processItem_def process_deletion_def has_finalizer_iff deleteK8sResources_def Let_def
      and_then_def ignore_not_found_def call_simps drop_not_found_def deleteAutoscale_def DeleteAutoscale_def
      FunctionObjRemoveFinalizer_def UpdateFunctionCustomResource_def unit_result_def without_finalizer_def)

theorem finalizer_removed_last_witness:
  "\<exists>ds res. snd (st_server (snd (processItem (logged_externals yes_externals) (logged_controller yes_controller) ''ns/get''
      (cached dying ((), []))))) =
     ds @ [EvFunction (CUpdate (f_Namespace dying) (without_finalizer dying functionFinalizer) res)] \<and>
   cleanup_calls (fc_smclient yes_controller \<noteq> None) ''ns'' ''get'' ds"
proof -
  let ?p = "processItem (logged_externals yes_externals) (logged_controller yes_controller) ''ns/get'' (cached dying ((), []))"
  show ?thesis
  proof (rule finalizer_removed_last [where t = "TimePtr 1 0" and s = "()"])
    show "?p = (fst ?p, snd ?p)" by simp
    show "EvFunction (CUpdate ''ns'' (without_finalizer dying functionFinalizer) (Inr (without_finalizer dying functionFinalizer)))
        \<in> set (snd (st_server (snd ?p)))"
      by (simp add: dying_calls)
  qed (simp_all add: controller_defs)
qed

text \<open>A queue: the keys to process and the retries of each key.\<close>

definition list_queue :: "(string list \<times> (string \<Rightarrow> nat)) queue_ops" where
  "list_queue =
     \<lparr>q_Get = (\<lambda>(ks, n). (case ks of [] \<Rightarrow> (([], True), (ks, n)) | k # ks' \<Rightarrow> ((k, False), (ks', n)))),
      q_Add = (\<lambda>k (ks, n). (ks @ [k], n)), q_Done = (\<lambda>k (ks, n). (ks, n)),
      q_Forget = (\<lambda>k (ks, n). (ks, n(k := 0))),
      q_AddRateLimited = (\<lambda>k (ks, n). (ks @ [k], n(k := Suc (n k)))),
      q_NumRequeues = (\<lambda>k (ks, n). n k)\<rparr>"

lemma list_queue_laws: "queue_laws list_queue"
  by (auto simp: queue_laws_def list_queue_def split: prod.splits list.splits)

lemma single_step:
  assumes "processNextItem q ex c w = (Ok b, w')"
  shows "(ctl_step q de key_of del_key_of env ex c)\<^sup>*\<^sup>* w w'"
  using assms by (cases w) (auto intro: ctl_step.worked)

definition name_key :: "kfunction \<Rightarrow> gerror + string" where
  "name_key f = Inr (f_Name f)"

definition eq_all :: deep_equal where
  "eq_all = \<lparr>de_deployment = (=), de_hpa = (=), de_service = (=)\<rparr>"

definition bad_keys :: "unit externals" where
  "bad_keys = yes_externals\<lparr>ex_split_key := (\<lambda>key. Inl (Errorf ''unexpected key format''))\<rparr>"

definition after_failure :: "unit ctl_state \<times> string list \<times> (string \<Rightarrow> nat)" where
  "after_failure = snd (processNextItem list_queue bad_keys yes_controller (cached hello (), [''a/b/c''], \<lambda>k. 0))"

theorem retries_bounded_witness:
  "q_NumRequeues list_queue ''a/b/c'' (snd after_failure) \<le> 5 \<and>
   q_NumRequeues list_queue ''a/b/c'' (snd after_failure) = 1"
proof -
  let ?w = "(cached hello (), [''a/b/c''], \<lambda>k. 0)"
  have p: "processNextItem list_queue bad_keys yes_controller ?w = (Ok True, after_failure)"
    by (simp add: after_failure_def processNextItem_def list_queue_def processItem_def bad_keys_def)
  have "q_NumRequeues list_queue ''a/b/c'' (snd after_failure) \<le> 5"
  proof (rule retries_bounded [OF list_queue_laws])
    show "quiet list_queue ((=) :: unit \<times> string list \<times> (string \<Rightarrow> nat) \<Rightarrow> _)"
      by (simp add: quiet_def)
    show "\<forall>k. q_NumRequeues list_queue k ([''a/b/c''], \<lambda>k. 0) = 0"
      by (simp add: list_queue_def)
    show "(ctl_step list_queue eq_all name_key name_key (=) bad_keys yes_controller)\<^sup>*\<^sup>* ?w
        (fst after_failure, snd after_failure)"
      using single_step [OF p] by simp
  qed
  moreover have "q_NumRequeues list_queue ''a/b/c'' (snd after_failure) = 1"
    by (simp add: after_failure_def processNextItem_def list_queue_def processItem_def bad_keys_def requeue_def maxRetries_def)
  ultimately show ?thesis by simp
qed

text \<open>One reconciliation of the sample function, whose config map exists already.\<close>

definition hello3 :: kfunction where
  "hello3 = labelled_function (labelled_function (label_function hello))"

definition hello_owner :: "owner_reference list" where
  "hello_owner = [\<lparr>or_Kind = funcKind, or_APIVersion = funcAPIVersion, or_Name = ''get'', or_UID = ''u1''\<rparr>]"

lemma hello_spec [simp]: "f_Spec (label_function hello) = f_Spec hello" "f_Spec hello3 = f_Spec hello"
  by (simp_all add: label_function_def hello3_def labelled_function_def)

lemma hello3_deployment:
  "is_ok (fst (desired_deployment keep_runtimes no_env hello3 hello_owner py_lr [] [] []))"
proof -
  have "d_PodSpec (dpm_base hello3 hello_owner) = zero_pod_spec\<lparr>ps_Containers := [zero_container]\<rparr>"
    by (simp add: dpm_base_def Let_def hello_def zero_function_def zero_deployment_def zero_pod_spec_def)
  moreover have "is_ok (fst (dpm_runtime keep_runtimes no_env hello3 py_lr [] [] []
      (zero_pod_spec\<lparr>ps_Containers := [zero_container]\<rparr>)))"
    by code_simp
  ultimately show ?thesis
    by (simp add: desired_deployment_ok_iff)
qed

lemma hello_reconciled:
  "\<exists>f' l' s' evs. ensureK8sResources (logged_externals yes_externals) (logged_controller yes_controller) hello py_lr sl =
     (Ok (), f', l', (s', evs))"
proof -
  have "is_ok (configmap_data py_lr (label_function hello))" by code_simp
  then obtain dat where dat: "configmap_data py_lr (label_function hello) = Ok dat" by (auto simp: is_ok_iff)
  obtain dpm l4 where dpm: "desired_deployment keep_runtimes no_env hello3 hello_owner py_lr [] [] [] = (Ok dpm, l4)"
    using hello3_deployment by (metis is_ok_iff prod.collapse)
  have n: "f_Name hello = ''get''" "f_Namespace hello = ''ns''" "om_UID (f_Meta hello) = ''u1''" by (simp_all add: hello_def)
  have c: "fc_config yes_controller = py_config" "fc_imagePullSecrets yes_controller = []" "fc_smclient yes_controller = None"
    "fc_clientset yes_controller = yes_server" "cm_Data py_config = Some []"
    by (simp_all add: yes_controller_def py_config_def)
  have m: "merge_config (logged_externals yes_externals) py_config (label_function hello) = (Ok (), label_function hello)"
    by (simp add: merge_config_def c gm_find_def)
  have o': "GetOwnerReference funcKind funcAPIVersion (f_Name hello) (om_UID (f_Meta hello)) = Ok hello_owner"
    by (simp add: GetOwnerReference_def hello_owner_def n)
  have cm: "fst (EnsureFuncConfigMap (logged_clientset yes_server) (label_function hello) ors py_lr sl) = Ok ()"
    "fst (snd (EnsureFuncConfigMap (logged_clientset yes_server) (label_function hello) ors py_lr sl)) =
       labelled_function (label_function hello)" for ors
    by (cases sl; simp add: EnsureFuncConfigMap_def dat Let_def call_simps yes_server_def taken_client_def yes_client_def
        already_exists_def old_configmap_def hasDefaultLabel_def gm_get_def gm_find_def)+
  have sv: "fst (EnsureFuncService (logged_clientset yes_server) f ors sl) = Ok ()"
    "fst (snd (EnsureFuncService (logged_clientset yes_server) f ors sl)) = labelled_function f" for f ors sl
    by (cases sl; simp add: EnsureFuncService_def Let_def call_simps yes_server_def yes_client_def)+
  have im: "function_image (logged_externals yes_externals) (logged_controller yes_controller) hello3 ors l sl = (Ok [], l, sl)" for ors l sl
    by (simp add: function_image_def custom_image_def hello_def zero_function_def zero_deployment_def zero_pod_spec_def c
        gm_get_def gm_find_def)
  have dp: "fst (EnsureFuncDeployment keep_runtimes no_env (logged_clientset yes_server) hello3 hello_owner py_lr [] [] [] sl) = Ok ()" for sl
    by (cases sl) (simp add: EnsureFuncDeployment_def dpm Let_def call_simps yes_server_def yes_client_def)
  have au: "fst (ensure_autoscale (logged_controller yes_controller) hello3 ors sl) = Ok ()" for ors sl
    by (cases sl) (simp add: ensure_autoscale_def hello_def zero_function_def zero_hpa_def zero_meta_def Let_def c
        drop_not_found_def deleteAutoscale_def DeleteAutoscale_def ignore_not_found_def call_simps yes_server_def yes_client_def split_beta)
  let ?k = "logged_clientset yes_server" and ?f2 = "labelled_function (label_function hello)"
  obtain s1 where s1: "EnsureFuncConfigMap ?k (label_function hello) hello_owner py_lr sl = (Ok (), ?f2, s1)"
    using cm [of hello_owner] by (metis prod.collapse)
  obtain s2 where s2: "EnsureFuncService ?k ?f2 hello_owner s1 = (Ok (), hello3, s2)"
    using sv [of ?f2 hello_owner s1] by (metis hello3_def prod.collapse)
  obtain l4 s4 where s4: "EnsureFuncDeployment keep_runtimes no_env ?k hello3 hello_owner py_lr [] [] [] s2 = (Ok (), l4, s4)"
    using dp [of s2] by (metis prod.collapse)
  obtain f5 s5 where s5: "ensure_autoscale (logged_controller yes_controller) hello3 hello_owner s4 = (Ok (), f5, s5)"
    using au [of hello_owner s4] by (metis prod.collapse)
  have x: "ex_runtimes yes_externals = keep_runtimes" "ex_getenv yes_externals = no_env" "gm_get (Some []) v = []" for v
    by (simp_all add: yes_externals_def gm_get_def gm_find_def)
  have "ensureK8sResources (logged_externals yes_externals) (logged_controller yes_controller) hello py_lr sl =
      (Ok (), f5, l4, s5)"
    by (simp add: ensureK8sResources_def c m o' ensure_objects_def Let_def s1 s2 im x s4 s5)
  then show ?thesis by (metis prod.collapse)
qed


definition after_work :: "(unit \<times> event list) ctl_state \<times> string list \<times> (string \<Rightarrow> nat)" where
  "after_work = snd (processNextItem list_queue (logged_externals yes_externals) (logged_controller yes_controller)
     (cached hello ((), []), [''ns/get''], \<lambda>k. 0))"

lemma hello_processed:
  "fst (processItem (logged_externals yes_externals) (logged_controller yes_controller) key (cached hello sl)) = Ok ()"
proof -
  have n: "om_DeletionTimestamp (f_Meta hello) = None" by (simp add: hello_def zero_meta_def)
  have a: "fst (add_finalizer (logged_controller yes_controller) hello sl) = Ok ()"
    by (cases sl) (simp add: add_finalizer_def FunctionObjAddFinalizer_def UpdateFunctionCustomResource_def unit_result_def
        call_simps yes_controller_def yes_server_def yes_client_def)
  obtain s1 where s1: "add_finalizer (logged_controller yes_controller) hello sl = (Ok (), s1)"
    using a by (metis prod.collapse)
  obtain f' l' sl' where "ensureK8sResources (logged_externals yes_externals) (logged_controller yes_controller) hello py_lr s1 =
      (Ok (), f', l', sl')"
    using hello_reconciled by blast
  moreover have "ex_split_key yes_externals key = Inr (''ns'', ''get'')" by (simp add: yes_externals_def)
  ultimately show ?thesis
    by (simp add: processItem_def cached_def n s1)
qed

theorem only_owned_overwritten_witness:
  "owned_writes (snd (st_server (fst after_work)))"
proof -
  let ?ex = "logged_externals yes_externals" and ?c = "logged_controller yes_controller"
  let ?w = "(cached hello ((), []), [''ns/get''], \<lambda>k. 0)"
  have "fst (processNextItem list_queue ?ex ?c ?w) = Ok True"
    using hello_processed [of "''ns/get''" "((), [])"]
    by (simp add: processNextItem_def list_queue_def split_beta)
  then have p: "processNextItem list_queue ?ex ?c ?w = (Ok True, after_work)"
    unfolding after_work_def by (metis prod.collapse)
  show ?thesis
  proof (rule only_owned_overwritten)
    show "(ctl_step list_queue eq_all name_key name_key (=) ?ex ?c)\<^sup>*\<^sup>* ?w (fst after_work, snd after_work)"
      using single_step [OF p] by simp
    show "keeps_log ((=) :: (unit \<times> event list) \<times> string list \<times> (string \<Rightarrow> nat) \<Rightarrow> _)"
      by (simp add: keeps_log_def)
    show "snd (st_server (cached hello ((), []))) = []"
      by (simp add: cached_def)
  qed
qed

text \<open>A server that keeps an inventory.\<close>

definition inv_client :: "kind \<Rightarrow> (inventory, 'o) client" where
  "inv_client kd = yes_client\<lparr>cl_delete := (\<lambda>ns n s.
     (if (kd, ns, n) \<in> s then Inr () else Inl not_found, s - {(kd, ns, n)}))\<rparr>"

definition inv_controller :: "inventory controller" where
  "inv_controller =
     \<lparr>fc_clientset = \<lparr>ConfigMaps = inv_client KConfigMap, Services = inv_client KService, Deployments = inv_client KDeployment,
        Jobs = inv_client KJob, Secrets = yes_client, HPAs = inv_client KAutoscaler, Functions = yes_client\<rparr>,
      fc_smclient = None, fc_config = py_config, fc_imagePullSecrets = []\<rparr>"

definition inv_externals :: "inventory externals" where
  "inv_externals =
     \<lparr>ex_runtimes = keep_runtimes, ex_getenv = no_env, ex_deployment = (\<lambda>txt. Inr zero_deployment),
      ex_merge = keep_first, ex_merge_append = keep_first, ex_json = sample_json,
      ex_http = (\<lambda>url auth s. (Inl (Errorf ''offline''), s)), ex_url_host = Inr, ex_split_key = (\<lambda>key. Inr (''ns'', ''get''))\<rparr>"

definition inv_start :: inventory where
  "inv_start = {(KDeployment, ''ns'', ''get''), (KService, ''ns'', ''get''), (KConfigMap, ''ns'', ''other'')}"

lemma inv_client_deletes: "deletes (\<lambda>s. s) kd (inv_client kd)"
  unfolding deletes_def by (simp add: inv_client_def not_found_def)

lemma inv_laws: "cleanup_laws inv_controller (\<lambda>s. s)"
  by (simp add: cleanup_laws_def inv_controller_def inv_client_deletes) (simp add: inv_client_def yes_client_def)


end
