(* ===== verification/Content.thy ===== *)
theory Content
  imports K8sUtil
begin

text \<open>
  The rest of \<open>pkg/utils/kubelessutil.go\<close> and of \<open>pkg/utils/k8sutil.go\<close>: the content
  type, the encoding and the checksum of a function file, the location of the configuration,
  the formats of a dry run, ports and host names. UTF-8 validity and base64 are executable
  definitions; files, HTTP, the process environment, the JSON and YAML encoders and the
  random source are parameters. The lemmas follow a file from the command line to the init
  container: what the code stores is what the prepare command of the pod recovers.
\<close>

section \<open>Package unicode/utf8\<close>

abbreviation in_range :: "nat \<Rightarrow> nat \<Rightarrow> char \<Rightarrow> bool" where
  "in_range lo hi c \<equiv> lo \<le> of_char c \<and> of_char c \<le> hi"

text \<open>
  The accepted byte sequences: no overlong forms, no surrogates, nothing above U+10FFFF.
\<close>

fun utf8_valid :: "string \<Rightarrow> bool" where
  "utf8_valid [] = True"
| "utf8_valid (a # s) =
     (if in_range 0 127 a then utf8_valid s
      else case s of
        [] \<Rightarrow> False
      | b # s2 \<Rightarrow>
          if in_range 0xC2 0xDF a then in_range 0x80 0xBF b \<and> utf8_valid s2
          else case s2 of
            [] \<Rightarrow> False
          | c # s3 \<Rightarrow>
              if in_range 0xE0 0xEF a then
                (if a = CHR 0xE0 then in_range 0xA0 0xBF b
                 else if a = CHR 0xED then in_range 0x80 0x9F b else in_range 0x80 0xBF b) \<and>
                in_range 0x80 0xBF c \<and> utf8_valid s3
              else case s3 of
                [] \<Rightarrow> False
              | d # s4 \<Rightarrow>
                  in_range 0xF0 0xF4 a \<and>
                  (if a = CHR 0xF0 then in_range 0x90 0xBF b
                   else if a = CHR 0xF4 then in_range 0x80 0x8F b else in_range 0x80 0xBF b) \<and>
                  in_range 0x80 0xBF c \<and> in_range 0x80 0xBF d \<and> utf8_valid s4)"

section \<open>Package encoding/base64\<close>

definition std_alphabet :: string where
  "std_alphabet = ''ABCDEFGHIJKLMNOPQRSTUVWXYZabcdefghijklmnopqrstuvwxyz0123456789+/''"

definition url_alphabet :: string where
  "url_alphabet = ''ABCDEFGHIJKLMNOPQRSTUVWXYZabcdefghijklmnopqrstuvwxyz0123456789-_''"

text \<open>Three bytes make four digits; a shorter rest makes two or three, and padding.\<close>

fun base64_encode :: "string \<Rightarrow> string \<Rightarrow> string \<Rightarrow> string" where
  "base64_encode alphabet fill [] = []"
| "base64_encode alphabet fill [a] =
     [alphabet ! (of_char a div 4), alphabet ! (of_char a mod 4 * 16)] @ fill @ fill"
| "base64_encode alphabet fill [a, b] =
     [alphabet ! (of_char a div 4), alphabet ! (of_char a mod 4 * 16 + of_char b div 16),
      alphabet ! (of_char b mod 16 * 4)] @ fill"
| "base64_encode alphabet fill (a # b # c # rest) =
     [alphabet ! (of_char a div 4), alphabet ! (of_char a mod 4 * 16 + of_char b div 16),
      alphabet ! (of_char b mod 16 * 4 + of_char c div 64), alphabet ! (of_char c mod 64)] @
     base64_encode alphabet fill rest"

definition std_encode :: "string \<Rightarrow> string" where
  "std_encode = base64_encode std_alphabet ''=''"

text \<open>The decoder that \<open>base64 -d\<close> runs in the prepare container.\<close>

definition sextet :: "char \<Rightarrow> nat option" where
  "sextet c = (let i = length (takeWhile (\<lambda>x. x \<noteq> c) std_alphabet) in if i < 64 then Some i else None)"

fun std_decode :: "string \<Rightarrow> string option" where
  "std_decode [] = Some []"
| "std_decode (w # x # y # z # rest) =
     (case (sextet w, sextet x, sextet y, sextet z) of
        (Some i, Some j, Some k, Some l) \<Rightarrow>
          map_option (\<lambda>bs. char_of (i * 4 + j div 16) # char_of (j mod 16 * 16 + k div 4) # char_of (k mod 4 * 64 + l) # bs)
            (std_decode rest)
      | (Some i, Some j, Some k, None) \<Rightarrow>
          if z = CHR ''='' \<and> rest = [] then Some [char_of (i * 4 + j div 16), char_of (j mod 16 * 16 + k div 4)] else None
      | (Some i, Some j, None, _) \<Rightarrow>
          if y = CHR ''='' \<and> z = CHR ''='' \<and> rest = [] then Some [char_of (i * 4 + j div 16)] else None
      | _ \<Rightarrow> None)"
| "std_decode _ = None"

section \<open>Content type, content and checksum\<close>

record 's world_io =
  io_ReadFile :: "string \<Rightarrow> ('s, string) api"
  io_ParseURL :: "string \<Rightarrow> gerror + string"
  io_HttpGet :: "string \<Rightarrow> ('s, gerror + string) api"

definition getCompressionType :: "string \<Rightarrow> string" where
  "getCompressionType filename =
     (let extensions = [''.tar.gz'', ''.taz'', ''.tgz'', ''.tar.bz2'', ''.tb2'', ''.tbz'', ''.tbz2'', ''.tz2'', ''.tar.xz'']
      in if list_ex (has_suffix filename) extensions then ''+compressedtar''
         else if has_suffix filename ''.zip'' then ''+zip'' else [])"

definition is_url :: "string \<Rightarrow> bool" where
  "is_url filename \<longleftrightarrow> prefix ''http://'' filename \<or> prefix ''https://'' filename"

definition GetContentType :: "'s world_io \<Rightarrow> string \<Rightarrow> 's \<Rightarrow> string res \<times> 's" where
  "GetContentType io filename s =
     (if is_url filename then (Ok (''url'' @ getCompressionType (hd (split_char (CHR ''?'') filename))), s)
      else
        (case io_ReadFile io filename s of
           (Inl e, s1) \<Rightarrow> (Err e, s1)
         | (Inr fbytes, s1) \<Rightarrow>
             (Ok ((if utf8_valid fbytes then ''text'' else ''base64'') @ getCompressionType filename), s1)))"

definition getSha256 :: "string \<Rightarrow> string" where
  "getSha256 bytes = ''sha256:'' @ hex_encode (sha256 bytes)"

definition getFileSha256 :: "'s world_io \<Rightarrow> string \<Rightarrow> 's \<Rightarrow> string res \<times> 's" where
  "getFileSha256 io fname s =
     (case io_ReadFile io fname s of
        (Inl e, s1) \<Rightarrow> (Err e, s1)
      | (Inr bytes, s1) \<Rightarrow> (Ok (''sha256:'' @ hex_encode (sha256 bytes)), s1))"

definition ParseContent :: "'s world_io \<Rightarrow> string \<Rightarrow> string \<Rightarrow> 's \<Rightarrow> (string \<times> string) res \<times> 's" where
  "ParseContent io fname contentType s =
     (if contains contentType ''url'' then
        (case io_ParseURL io fname of
           Inl e \<Rightarrow> (Err e, s)
         | Inr functionURL \<Rightarrow>
             (case io_HttpGet io functionURL s of
                (Inl e, s1) \<Rightarrow> (Err e, s1)
              | (Inr (Inl e), s1) \<Rightarrow> (Err e, s1)
              | (Inr (Inr functionBytes), s1) \<Rightarrow> (Ok (functionBytes, getSha256 functionBytes), s1)))
      else
        (case io_ReadFile io fname s of
           (Inl e, s1) \<Rightarrow> (Err e, s1)
         | (Inr functionBytes, s1) \<Rightarrow>
             let content = (if contentType = ''text'' then functionBytes else std_encode functionBytes) in
             (case getFileSha256 io fname s1 of
                (Ok checksum, s2) \<Rightarrow> (Ok (content, checksum), s2)
              | (Err e, s2) \<Rightarrow> (Err e, s2)
              | (Panic p, s2) \<Rightarrow> (Panic p, s2))))"

section \<open>Configuration\<close>

definition GetFunctionPort :: "('s, service) client \<Rightarrow> string \<Rightarrow> string \<Rightarrow> 's \<Rightarrow> string res \<times> 's" where
  "GetFunctionPort c namespace functionName s =
     (case cl_get c namespace functionName s of
        (Inl e, s1) \<Rightarrow> (Err (Errorf (''Unable to find the service for function '' @ functionName)), s1)
      | (Inr svc, s1) \<Rightarrow>
          (bind_res (index (ss_Ports (svc_Spec svc)) 0) (\<lambda>p. Ok (Itoa (sint (sp_Port p)))), s1))"

definition IsJSON :: "(string \<Rightarrow> gerror option) \<Rightarrow> string \<Rightarrow> bool" where
  "IsJSON unmarshal_object txt = (unmarshal_object txt = None)"

record rest_config =
  rc_Host :: string
  rc_BearerToken :: string

text \<open>
  When the token file is set, the error of reading the cluster configuration is overwritten
  by the one of reading that file, and the configuration is used although it may be nil.
\<close>

definition GetInClusterConfig ::
  "(string \<Rightarrow> string) \<Rightarrow> 's world_io \<Rightarrow> (gerror + rest_config) \<Rightarrow> 's \<Rightarrow> rest_config res \<times> 's" where
  "GetInClusterConfig getenv io in_cluster s =
     (let tokenFile = getenv ''KUBELESS_TOKEN_FILE_PATH'' in
      if tokenFile = [] then (case in_cluster of Inl e \<Rightarrow> (Err e, s) | Inr config \<Rightarrow> (Ok config, s))
      else
        (case io_ReadFile io tokenFile s of
           (Inl e, s1) \<Rightarrow> (Err (Errorf (''unable to read file containing oauth token: '' @ err_text e)), s1)
         | (Inr tokenBytes, s1) \<Rightarrow>
             (case in_cluster of
                Inl e \<Rightarrow> (Panic NilDereference, s1)
              | Inr config \<Rightarrow> (Ok (config\<lparr>rc_BearerToken := tokenBytes\<rparr>), s1))))"

definition GetAnnotationsFromCRD :: "(string \<Rightarrow> ('s, object_meta) api) \<Rightarrow> string \<Rightarrow> 's \<Rightarrow> gomap res \<times> 's" where
  "GetAnnotationsFromCRD get_crd name s =
     (case get_crd name s of (Inl e, s1) \<Rightarrow> (Err e, s1) | (Inr crd, s1) \<Rightarrow> (Ok (om_Annotations crd), s1))"

text \<open>The first of: environment variable, annotation, default.\<close>

definition config_setting :: "string \<Rightarrow> gomap \<Rightarrow> string \<Rightarrow> string \<Rightarrow> string" where
  "config_setting env_value annotations key default_value =
     (if env_value = [] then (case gm_find annotations key of Some v \<Rightarrow> v | None \<Rightarrow> default_value) else env_value)"

record config_location =
  cl_Namespace :: string
  cl_Name :: string

definition getConfigLocation ::
  "(string \<Rightarrow> string) \<Rightarrow> (string \<Rightarrow> ('s, object_meta) api) \<Rightarrow> 's \<Rightarrow> config_location res \<times> 's" where
  "getConfigLocation getenv get_crd s =
     (case GetAnnotationsFromCRD get_crd ''functions.kubeless.io'' s of
        (r, s1) \<Rightarrow>
          (bind_res r (\<lambda>annotationsCRD.
             Ok \<lparr>cl_Namespace = config_setting (getenv ''KUBELESS_NAMESPACE'') annotationsCRD ''kubeless.io/namespace'' ''kubeless'',
                 cl_Name = config_setting (getenv ''KUBELESS_CONFIG'') annotationsCRD ''kubeless.io/config'' ''kubeless-config''\<rparr>), s1))"

definition GetKubelessConfig ::
  "(string \<Rightarrow> string) \<Rightarrow> (string \<Rightarrow> ('s, object_meta) api) \<Rightarrow> ('s, configmap) client \<Rightarrow> 's \<Rightarrow> configmap res \<times> 's" where
  "GetKubelessConfig getenv get_crd c s =
     (case getConfigLocation getenv get_crd s of
        (Ok loc, s1) \<Rightarrow>
          (case cl_get c (cl_Namespace loc) (cl_Name loc) s1 of
             (Inl e, s2) \<Rightarrow> (Err (Errorf (''Unable to read the configmap: '' @ err_text e)), s2)
           | (Inr config, s2) \<Rightarrow> (Ok config, s2))
      | (Err e, s1) \<Rightarrow> (Err (Errorf (''Error while fetching config location: '' @ err_text e)), s1)
      | (Panic p, s1) \<Rightarrow> (Panic p, s1))"

record 'o marshallers =
  ma_json :: "'o \<Rightarrow> gerror + string"
  ma_yaml :: "'o \<Rightarrow> gerror + string"

definition DryRunFmt :: "'o marshallers \<Rightarrow> string \<Rightarrow> 'o \<Rightarrow> string res" where
  "DryRunFmt ma format trigger =
     (if format = ''json'' then (case ma_json ma trigger of Inl e \<Rightarrow> Err e | Inr j \<Rightarrow> Ok j)
      else if format = ''yaml'' then (case ma_yaml ma trigger of Inl e \<Rightarrow> Err e | Inr y \<Rightarrow> Ok y)
      else Err (Errorf ''Output format needs to be yaml or json''))"

definition GetLocalHostname :: "(string \<Rightarrow> gerror + string) \<Rightarrow> rest_config \<Rightarrow> string \<Rightarrow> string res" where
  "GetLocalHostname url_hostname config funcName =
     (case url_hostname (rc_Host config) of
        Inl e \<Rightarrow> Err e
      | Inr host \<Rightarrow> Ok (funcName @ ''.'' @ host @ ''.nip.io''))"

definition GetRandString :: "(nat \<Rightarrow> ('s, string) api) \<Rightarrow> nat \<Rightarrow> 's \<Rightarrow> string res \<times> 's" where
  "GetRandString rand_read n s =
     (case rand_read n s of
        (Inl e, s1) \<Rightarrow> (Err e, s1)
      | (Inr b, s1) \<Rightarrow> (Ok (base64_encode url_alphabet [] b), s1))"

section \<open>Encoding and decoding\<close>

lemma sextet_alphabet:
  assumes "i < 64"
  shows "sextet (std_alphabet ! i) = Some i"
proof -
  have "list_all (\<lambda>i. sextet (std_alphabet ! i) = Some i) [0..<64]"
    by code_simp
  with assms show ?thesis by (simp add: list_all_iff)
qed

lemma sextet_pad: "sextet (CHR ''='') = None"
  by code_simp

lemma byte_less: "(of_char c :: nat) < 256"
  by (rule nat_of_char_less_256)

lemma char_of_parts: "char_of (of_char c div k * k + of_char c mod k :: nat) = c"
  by simp

lemma group_bounds:
  fixes a b c :: nat
  assumes "a < 256" "b < 256" "c < 256"
  shows "a div 4 < 64" "a mod 4 * 16 + b div 16 < 64" "b mod 16 * 4 + c div 64 < 64" "c mod 64 < 64"
    "a mod 4 * 16 < 64" "b mod 16 * 4 < 64"
  using assms by (auto simp: less_mult_imp_div_less)

lemma group_bytes:
  fixes a b c :: nat
  assumes "b < 256" "c < 256"
  shows "a div 4 * 4 + (a mod 4 * 16 + b div 16) div 16 = a"
    "(a mod 4 * 16 + b div 16) mod 16 * 16 + (b mod 16 * 4 + c div 64) div 4 = b"
    "(b mod 16 * 4 + c div 64) mod 4 * 64 + c mod 64 = c"
proof -
  have "b div 16 < 16" "c div 64 < 4" using assms by auto
  then show "a div 4 * 4 + (a mod 4 * 16 + b div 16) div 16 = a"
    "(a mod 4 * 16 + b div 16) mod 16 * 16 + (b mod 16 * 4 + c div 64) div 4 = b"
    "(b mod 16 * 4 + c div 64) mod 4 * 64 + c mod 64 = c"
    by (auto simp: div_mult_mod_eq)
qed

lemma base64_decoded: "std_decode (std_encode bs) = Some bs"
proof (induction "std_alphabet" "''=''" bs rule: base64_encode.induct)
  case 1
  then show ?case by (simp add: std_encode_def)
next
  case (2 a)
  have b: "(of_char a :: nat) div 4 < 64" "(of_char a :: nat) mod 4 * 16 < 64"
    using group_bounds [of "of_char a" 0 0] byte_less [of a] by auto
  then show ?case
    using group_bytes(1) [of 0 0 "of_char a"] by (simp add: std_encode_def sextet_alphabet sextet_pad)
next
  case (3 a b)
  have "(of_char b :: nat) div 16 < 16"
    using byte_less [of b] by (intro less_mult_imp_div_less) simp
  then show ?case
    using group_bounds [OF byte_less [of a] byte_less [of b], of 0]
    by (simp add: std_encode_def sextet_alphabet sextet_pad)
next
  case (4 a b c rest)
  note g = group_bounds [OF byte_less [of a] byte_less [of b] byte_less [of c]]
    group_bytes(1,2) [OF byte_less [of b] byte_less [of c], of "of_char a"] group_bytes(3) [OF byte_less [of b] byte_less [of c]]
  then show ?case
    using 4 by (simp add: std_encode_def sextet_alphabet)
qed

text \<open>
  Encoding a file in base64 loses nothing: the decoder that the prepare container runs
  gives back exactly the bytes of the file, whatever they are and however many.
\<close>

theorem base64_roundtrip: "std_decode (std_encode bs) = Some bs"
  by (rule base64_decoded)

section \<open>From the command line to the pod\<close>

lemma getCompressionType_cases: "getCompressionType f \<in> {[], ''+zip'', ''+compressedtar''}"
  by (simp add: getCompressionType_def Let_def)

lemma GetContentType_result:
  assumes "GetContentType io f s = (Ok ct, s')"
  shows "\<exists>base suf. ct = base @ suf \<and> base \<in> {''url'', ''text'', ''base64''} \<and> suf \<in> {[], ''+zip'', ''+compressedtar''}"
proof (cases "is_url f")
  case True
  with assms have "ct = ''url'' @ getCompressionType (hd (split_char (CHR ''?'') f))"
    by (simp add: GetContentType_def)
  then show ?thesis
    by (intro exI conjI, assumption) (simp, rule getCompressionType_cases)
next
  case False
  with assms obtain bs where "ct = (if utf8_valid bs then ''text'' else ''base64'') @ getCompressionType f"
    by (auto simp: GetContentType_def split: prod.splits sum.splits)
  then show ?thesis
    by (intro exI conjI, assumption) (simp, rule getCompressionType_cases)
qed

text \<open>
  C25: What the command line client determines of a file is accepted by the controller: the
  content type is one the prepare container knows, and the checksum has the form it can
  verify. A function deployed from a file is never refused, and never makes the controller
  panic, for its content type or checksum.
\<close>

theorem deployed_content_accepted:
  assumes "GetContentType io fname s = (Ok ct, s1)" and "ParseContent io fname ct s1 = (Ok (content, checksum), s2)"
    and "getFileName l handler ct runtime = Ok destName"
  shows "is_ok (getProvisionContainer l content checksum fileName handler ct runtime img vm dvm rs)"
proof -
  have "known_content_type ct"
    using GetContentType_result [OF assms(1)]
    by (auto simp: known_content_type_def split: if_splits)
  moreover have "good_checksum checksum"
    using assms(2)
    by (auto simp: ParseContent_def getFileSha256_def getSha256_def good_checksum_def Let_def
        split: if_splits prod.splits sum.splits)
  ultimately show ?thesis
    using getProvisionContainer_Ok [OF assms(3)] by (simp add: is_ok_iff)
qed

text \<open>
  What the fetch stage of the prepare container makes of the stored content of a local file.
\<close>

definition fetched :: "string \<Rightarrow> string \<Rightarrow> string option" where
  "fetched ct content = (if contains ct ''base64'' then std_decode content else Some content)"

text \<open>
  C21: A local file arrives in the pod byte for byte, and with the checksum of those bytes,
  exactly when it is not an archive whose bytes happen to be valid UTF-8: such an archive is
  stored in base64 under a content type that starts with \<open>text\<close>, so that the pod does not
  decode it.
\<close>

theorem local_content_delivered:
  assumes "\<not> is_url fname" and "\<And>s. fst (io_ReadFile io fname s) = Inr bs"
    and "GetContentType io fname s = (Ok ct, s1)" and "ParseContent io fname ct s1 = (Ok (content, checksum), s2)"
  shows "checksum = ''sha256:'' @ hex_encode (sha256 bs) \<and>
    fetched ct content =
      (if utf8_valid bs \<and> getCompressionType fname \<noteq> [] then Some (std_encode bs) else Some bs)"
proof -
  have ct: "ct = (if utf8_valid bs then ''text'' else ''base64'') @ getCompressionType fname"
    using assms(1,3) assms(2) [of s] by (auto simp: GetContentType_def split: prod.splits sum.splits)
  have u: "\<not> contains ct ''url''"
    using getCompressionType_cases [of fname] by (auto simp: ct)
  have c: "content = (if ct = ''text'' then bs else std_encode bs)" "checksum = ''sha256:'' @ hex_encode (sha256 bs)"
    using assms(2,4) u
    by (auto simp: ParseContent_def getFileSha256_def Let_def split: prod.splits sum.splits if_splits
        dest!: arg_cong [where f = fst])
  have t: "ct = ''text'' \<longleftrightarrow> utf8_valid bs \<and> getCompressionType fname = []"
    "contains ct ''base64'' \<longleftrightarrow> \<not> utf8_valid bs"
    using getCompressionType_cases [of fname] by (auto simp: ct)
  show ?thesis
    using c t base64_decoded [of bs] by (auto simp: fetched_def)
qed

end
