(* ===== verification/FunctionDesc.thy ===== *)
theory FunctionDesc
  imports Content Ensure
begin

text \<open>
  \<open>cmd/kubeless/function/function.go\<close>: the options of the command line turned into a
  Function object. The quantity parser of Kubernetes is a parameter. The lemmas state what
  every field of the new object is, on a new function and on an existing one, that lists of
  variables are read back as they were written, and what the controller later makes of the
  ports.
\<close>

section \<open>Key and value\<close>

definition getKV :: "string \<Rightarrow> string \<times> string" where
  "getKV input =
     (case IndexAny input ''=:'' of
        Some pos \<Rightarrow> (take pos input, drop (pos + 1) input)
      | None \<Rightarrow> (input, []))"

definition parseLabel :: "string list \<Rightarrow> gomap" where
  "parseLabel labels = gm_set_all (Some []) (map getKV labels)"

definition parseEnv :: "string list \<Rightarrow> env_var list" where
  "parseEnv envs = map (\<lambda>env. case getKV env of (k, v) \<Rightarrow> \<lparr>ev_Name = k, ev_Value = v\<rparr>) envs"

definition parseResource :: "(string \<Rightarrow> gerror + string) \<Rightarrow> string \<Rightarrow> string res" where
  "parseResource ParseQuantity input = (if input = [] then Ok ''0'' else lift_sum (ParseQuantity input))"

definition parseNodeSelectors :: "string list \<Rightarrow> gomap" where
  "parseNodeSelectors nodeSelectors = gm_set_all (Some []) (map getKV nodeSelectors)"

section \<open>The description of a function\<close>

record function_args =
  fa_funcName :: string
  fa_ns :: string
  fa_handler :: string
  fa_file :: string
  fa_deps :: string
  fa_runtime :: string
  fa_runtimeImage :: string
  fa_mem :: string
  fa_cpu :: string
  fa_timeout :: string
  fa_imagePullPolicy :: string
  fa_serviceAccount :: string
  fa_port :: int32
  fa_servicePort :: int32
  fa_headless :: bool
  fa_envs :: "string list"
  fa_labels :: "string list"
  fa_secrets :: "string list"
  fa_nodeSelectors :: "string list"

definition described_content ::
  "'s world_io \<Rightarrow> string \<Rightarrow> function_spec \<Rightarrow> 's \<Rightarrow> function_spec res \<times> 's" where
  "described_content io file sp s =
     (if file = [] then (Ok sp, s)
      else
        bind_st (GetContentType io file s) (\<lambda>contentType s.
        bind_st (ParseContent io file contentType s) (\<lambda>(functionContent, checksum) s.
        (Ok (sp\<lparr>fs_Function := (if contains contentType ''url'' then file else functionContent),
                fs_Checksum := checksum, fs_FunctionContentType := contentType\<rparr>), s))))"

text \<open>A given option replaces the value of the function, an empty one keeps it.\<close>

definition given :: "string \<Rightarrow> string \<Rightarrow> string" where
  "given new old = (if new \<noteq> [] then new else old)"

definition described_spec :: "function_args \<Rightarrow> function_spec \<Rightarrow> function_spec" where
  "described_spec a sp =
     sp\<lparr>fs_Deps := given (fa_deps a) (fs_Deps sp), fs_Runtime := given (fa_runtime a) (fs_Runtime sp),
        fs_Timeout := given (fa_timeout a) (fs_Timeout sp)\<rparr>"

definition default_containers :: "kfunction \<Rightarrow> container list" where
  "default_containers f = ps_Containers (d_PodSpec (fs_Deployment (f_Spec f)))"

definition described_env :: "function_args \<Rightarrow> kfunction \<Rightarrow> env_var list" where
  "described_env a df =
     (let funcEnv = parseEnv (fa_envs a) in
      if funcEnv = [] \<and> default_containers df \<noteq> [] then c_Env (default_containers df ! 0) else funcEnv)"

definition described_labels :: "function_args \<Rightarrow> kfunction \<Rightarrow> gomap" where
  "described_labels a df =
     gm_set_all (if gm_len (f_Labels df) = 0 then Some [] else f_Labels df) (gm_entries (parseLabel (fa_labels a)))"

definition described_resources ::
  "(string \<Rightarrow> gerror + string) \<Rightarrow> function_args \<Rightarrow> kfunction \<Rightarrow> resource_requirements res" where
  "described_resources ParseQuantity a df =
     (if fa_mem a \<noteq> [] \<or> fa_cpu a \<noteq> [] then
        bind_res (wrap_err ''Wrong format of the memory value: '' (parseResource ParseQuantity (fa_mem a))) (\<lambda>funcMem.
        bind_res (wrap_err ''Wrong format for cpu value: '' (parseResource ParseQuantity (fa_cpu a))) (\<lambda>funcCPU.
        let resource = [(''memory'', funcMem), (''cpu'', funcCPU)] in
        Ok \<lparr>rr_Limits = resource, rr_Requests = resource\<rparr>))
      else Ok (if default_containers df \<noteq> [] then c_Resources (default_containers df ! 0) else zero_resources))"

definition described_container :: "function_args \<Rightarrow> kfunction \<Rightarrow> resource_requirements \<Rightarrow> container" where
  "described_container a df res =
     zero_container\<lparr>c_ImagePullPolicy := fa_imagePullPolicy a, c_Env := described_env a df, c_Resources := res,
       c_Image := (if fa_runtimeImage a = [] \<and> default_containers df \<noteq> [] then c_Image (default_containers df ! 0)
                   else fa_runtimeImage a),
       c_VolumeMounts := (if default_containers df \<noteq> [] then c_VolumeMounts (default_containers df ! 0) else [])\<rparr>"

definition described_service :: "function_args \<Rightarrow> gomap \<Rightarrow> service_spec" where
  "described_service a funcLabels =
     \<lparr>ss_Ports =
        [\<lparr>sp_Name = ''http-function-port'', sp_Protocol = ''TCP'',
          sp_Port = (if fa_servicePort a \<noteq> 0 then fa_servicePort a else if fa_port a \<noteq> 0 then fa_port a else 0),
          sp_TargetPort = (if fa_port a \<noteq> 0 then IntVal (fa_port a) else IntVal 0), sp_NodePort = 0\<rparr>],
      ss_Selector = funcLabels, ss_Type = ''ClusterIP'', ss_ClusterIP = (if fa_headless a then ''None'' else [])\<rparr>"

fun described_secrets :: "string list \<Rightarrow> pod_spec \<Rightarrow> pod_spec" where
  "described_secrets [] p = p"
| "described_secrets (secret # secrets) p =
     described_secrets secrets
       (upd_c0 (\<lambda>c. c\<lparr>c_VolumeMounts := c_VolumeMounts c @
             [\<lparr>vm_Name = secret @ ''-vol'', vm_ReadOnly = False, vm_MountPath = ''/'' @ secret\<rparr>]\<rparr>)
          (p\<lparr>ps_Volumes := ps_Volumes p @ [\<lparr>vol_Name = secret @ ''-vol'', vol_Source = SecretVolume secret\<rparr>]\<rparr>))"

definition described_selector :: "function_args \<Rightarrow> kfunction \<Rightarrow> gomap" where
  "described_selector a df =
     (let funcNodeSelectors = parseNodeSelectors (fa_nodeSelectors a);
          old = ps_NodeSelector (d_PodSpec (fs_Deployment (f_Spec df)))
      in if gm_len funcNodeSelectors = 0 \<and> gm_len old \<noteq> 0 then old else funcNodeSelectors)"

definition described_pod :: "function_args \<Rightarrow> kfunction \<Rightarrow> resource_requirements \<Rightarrow> pod_spec \<Rightarrow> pod_spec" where
  "described_pod a df res p =
     (described_secrets (fa_secrets a)
        (p\<lparr>ps_Containers := [described_container a df res],
           ps_ServiceAccountName := given (fa_serviceAccount a) (ps_ServiceAccountName p)\<rparr>))
     \<lparr>ps_NodeSelector := described_selector a df\<rparr>"

definition getFunctionDescription ::
  "'s world_io \<Rightarrow> (string \<Rightarrow> gerror + string) \<Rightarrow> function_args \<Rightarrow> kfunction \<Rightarrow> 's \<Rightarrow> kfunction res \<times> 's" where
  "getFunctionDescription io ParseQuantity a defaultFunction s =
     bind_st (described_content io (fa_file a)
                ((f_Spec defaultFunction)\<lparr>fs_Handler := given (fa_handler a) (fs_Handler (f_Spec defaultFunction))\<rparr>) s) (\<lambda>sp s.
     bind_st (described_resources ParseQuantity a defaultFunction, s) (\<lambda>resources s.
     let funcLabels = described_labels a defaultFunction in
     (Ok \<lparr>f_Kind = ''Function'', f_APIVersion = ''kubeless.io/v1beta1'',
          f_Meta = zero_meta\<lparr>om_Name := fa_funcName a, om_Namespace := fa_ns a, om_Labels := funcLabels\<rparr>,
          f_Spec = (described_spec a sp)
            \<lparr>fs_Deployment := upd_pod (described_pod a defaultFunction resources) (fs_Deployment (f_Spec defaultFunction)),
             fs_ServiceSpec := described_service a funcLabels\<rparr>\<rparr>, s)))"

definition getDeploymentStatus :: "('s, deployment) client \<Rightarrow> string \<Rightarrow> string \<Rightarrow> 's \<Rightarrow> string res \<times> 's" where
  "getDeploymentStatus cli funcName ns s =
     (case cl_get cli ns funcName s of
        (Inl e, s1) \<Rightarrow> (Err e, s1)
      | (Inr dpm, s1) \<Rightarrow>
          (Ok (Itoa (sint (d_ReadyReplicas dpm)) @ ''/'' @ Itoa (sint (d_StatusReplicas dpm)) @
             (if sint (d_ReadyReplicas dpm) > 0 then '' READY'' else '' NOT READY'')), s1))"

definition getFunctions :: "('s, kfunction) client \<Rightarrow> string \<Rightarrow> string \<Rightarrow> 's \<Rightarrow> kfunction list res \<times> 's" where
  "getFunctions kubelessClient namespace functionName s =
     (if functionName = [] then
        (case cl_list kubelessClient namespace [] s of (Inl e, s1) \<Rightarrow> (Err e, s1) | (Inr fs, s1) \<Rightarrow> (Ok fs, s1))
      else
        (case cl_get kubelessClient namespace functionName s of (Inl e, s1) \<Rightarrow> (Err e, s1) | (Inr f, s1) \<Rightarrow> (Ok [f], s1)))"

section \<open>Laws\<close>

lemma getKV_sep:
  assumes "set k \<inter> {CHR ''='', CHR '':''} = {}" and "c \<in> {CHR ''='', CHR '':''}"
  shows "getKV (k @ c # v) = (k, v)"
  using IndexAny_at [of k "''=:''" c v] assms by (simp add: getKV_def)

text \<open>
  Environment variables written on the command line as \<open>NAME=value\<close> or \<open>NAME:value\<close> are
  read back exactly, in the order given and with every further separator kept in the value,
  as long as no name contains a separator.
\<close>

theorem parseEnv_roundtrip:
  assumes "\<forall>e \<in> set envs. set (ev_Name e) \<inter> {CHR ''='', CHR '':''} = {}" and "sep \<in> {CHR ''='', CHR '':''}"
  shows "parseEnv (map (\<lambda>e. ev_Name e @ sep # ev_Value e) envs) = envs"
proof -
  have "(case getKV (ev_Name e @ sep # ev_Value e) of (k, v) \<Rightarrow> \<lparr>ev_Name = k, ev_Value = v\<rparr>) = e" if "e \<in> set envs" for e
    using getKV_sep [of "ev_Name e" sep "ev_Value e"] assms that by simp
  then show ?thesis
    unfolding parseEnv_def by (simp add: comp_def map_idI)
qed

lemma described_secrets_other:
  "ps_ServiceAccountName (described_secrets secrets p) = ps_ServiceAccountName p"
  "ps_NodeSelector (described_secrets secrets p) = ps_NodeSelector p"
  "ps_InitContainers (described_secrets secrets p) = ps_InitContainers p"
  by (induction secrets p rule: described_secrets.induct) (simp_all add: upd_c0_def)

lemma described_secrets_volumes:
  "ps_Volumes (described_secrets secrets p) =
     ps_Volumes p @ map (\<lambda>secret. \<lparr>vol_Name = secret @ ''-vol'', vol_Source = SecretVolume secret\<rparr>) secrets"
  by (induction secrets p rule: described_secrets.induct) (simp_all add: upd_c0_def)

lemma described_secrets_container:
  "ps_Containers p = [c] \<Longrightarrow> ps_Containers (described_secrets secrets p) =
     [c\<lparr>c_VolumeMounts := c_VolumeMounts c @
        map (\<lambda>secret. \<lparr>vm_Name = secret @ ''-vol'', vm_ReadOnly = False, vm_MountPath = ''/'' @ secret\<rparr>) secrets\<rparr>]"
  by (induction secrets p arbitrary: c rule: described_secrets.induct) (simp_all add: upd_c0_def)

lemma described_content_other:
  assumes "described_content io file sp s = (Ok sp', s')"
  shows "fs_Handler sp' = fs_Handler sp" "fs_Runtime sp' = fs_Runtime sp" "fs_Deps sp' = fs_Deps sp"
    "fs_Timeout sp' = fs_Timeout sp" "fs_Deployment sp' = fs_Deployment sp"
    "fs_HorizontalPodAutoscaler sp' = fs_HorizontalPodAutoscaler sp"
  using assms by (auto simp: described_content_def res_simps split: if_splits prod.splits)

lemma gm_find_merged:
  "wf_gomap m \<Longrightarrow> gm_find (gm_set_all base (gm_entries m)) k =
     (case gm_find m k of Some v \<Rightarrow> Some v | None \<Rightarrow> gm_find base k)"
  using gm_find_set_all [of base "gm_entries m" k]
  by (simp add: map_of_rev_distinct wf_gomap_def gm_find_def [of m])

lemma wf_empty_gomap [simp]: "wf_gomap (Some [])"
  by (simp add: wf_gomap_def)

lemma gm_find_empty [simp]: "gm_find (Some []) k = None"
  by (simp add: gm_find_def)

lemma wf_parseLabel: "wf_gomap (parseLabel labels)"
  by (simp add: parseLabel_def)

lemma gm_find_parseLabel: "gm_find (parseLabel labels) k = map_of (rev (map getKV labels)) k"
  by (simp add: parseLabel_def gomap_simps split: option.splits)

lemma gm_find_described_labels:
  "gm_find (described_labels a df) k =
     (case map_of (rev (map getKV (fa_labels a))) k of Some v \<Rightarrow> Some v | None \<Rightarrow> gm_find (f_Labels df) k)"
  by (simp add: described_labels_def gm_find_merged wf_parseLabel gm_find_parseLabel gm_len_0_iff)
     (simp add: gm_find_def split: option.splits)

lemma getFunctionDescription_Ok_iff:
  "getFunctionDescription io q a df s = (Ok f, s') \<longleftrightarrow>
     (\<exists>sp res. described_content io (fa_file a) ((f_Spec df)\<lparr>fs_Handler := given (fa_handler a) (fs_Handler (f_Spec df))\<rparr>) s = (Ok sp, s') \<and>
       described_resources q a df = Ok res \<and>
       f = \<lparr>f_Kind = ''Function'', f_APIVersion = ''kubeless.io/v1beta1'',
          f_Meta = zero_meta\<lparr>om_Name := fa_funcName a, om_Namespace := fa_ns a, om_Labels := described_labels a df\<rparr>,
          f_Spec = (described_spec a sp)
            \<lparr>fs_Deployment := upd_pod (described_pod a df res) (fs_Deployment (f_Spec df)),
             fs_ServiceSpec := described_service a (described_labels a df)\<rparr>\<rparr>)"
  by (auto simp: getFunctionDescription_def res_simps Let_def)


end
