(* ===== verification/FunctionCmd.thy ===== *)
theory FunctionCmd
  imports FunctionDesc
begin

text \<open>
  The subcommands of \<open>kubeless function\<close>, \<open>cmd/kubeless/function\<close>: deploy, update, delete,
  call, describe and logs. A command runs on the state of the server and of the world
  together with what it has printed; a fatal error ends the process, which is the panic
  \<open>Exit\<close> with its message. The flags are a record, read from a command that declares them, so
  that reading them cannot fail. The table library prints rows, so a printed table is its rows.
\<close>

section \<open>The world of a command\<close>

datatype printed = Table "string list list" | Line string | Raw string

type_synonym 's cli = "'s \<times> printed list"

definition Println :: "printed \<Rightarrow> 's cli \<Rightarrow> unit res \<times> 's cli" where
  "Println o' st = (Ok (), (fst st, snd st @ [o']))"

definition on_server :: "('s \<Rightarrow> 'a res \<times> 's) \<Rightarrow> 's cli \<Rightarrow> 'a res \<times> 's cli" where
  "on_server m st = (fst (m (fst st)), (snd (m (fst st)), snd st))"

text \<open>A Kubernetes proxy request to a service, built by the REST client.\<close>

record rest_request =
  rq_Verb :: string
  rq_Namespace :: string
  rq_Name :: string
  rq_Headers :: "(string \<times> string) list"
  rq_Body :: "string option"
  rq_Suffix :: string

datatype json = JNull | JString string | JObject "(string \<times> json) list" | JOther

text \<open>
  The payload of a cron job trigger is a field of interface type: nil, a map decoded from
  JSON, itself possibly nil, or any other value, such as an error.
\<close>

datatype payload = NilPayload | MapPayload "(string \<times> json) list option" | ErrorPayload gerror

record cronjob_trigger =
  cj_Kind :: string
  cj_APIVersion :: string
  cj_Meta :: object_meta
  cj_FunctionName :: string
  cj_Schedule :: string
  cj_Payload :: payload

text \<open>
  Triggers are resources of other repositories; their packages offer these operations on a
  client.
\<close>

record ('s, 't) trigger_api =
  ta_Create :: "'t \<Rightarrow> ('s, unit) api"
  ta_Update :: "'t \<Rightarrow> ('s, unit) api"
  ta_Delete :: "string \<Rightarrow> string \<Rightarrow> ('s, unit) api"
  ta_Get :: "string \<Rightarrow> string \<Rightarrow> ('s, 't) api"
  ta_List :: "string \<Rightarrow> ('s, 't list) api"

record 's cli_env =
  ce_io :: "'s world_io"
  ce_getenv :: "string \<Rightarrow> string"
  ce_get_crd :: "string \<Rightarrow> ('s, object_meta) api"
  ce_ConfigMaps :: "('s, configmap) client"
  ce_Services :: "('s, service) client"
  ce_Deployments :: "('s, deployment) client"
  ce_Pods :: "('s, pod) client"
  ce_runtimes :: "string \<Rightarrow> runtime_info list \<Rightarrow> gerror + runtime_info list"
  ce_ParseQuantity :: "string \<Rightarrow> gerror + string"
  ce_ParseStandard :: "string \<Rightarrow> gerror option"
  ce_GetDefaultNamespace :: string
  ce_kubeless :: "gerror + ('s, kfunction) client"
  ce_cronjobs :: "gerror + ('s, cronjob_trigger) trigger_api"
  ce_function_fmt :: "kfunction marshallers"
  ce_list_fmt :: "kfunction list marshallers"
  ce_labels_json :: "gomap \<Rightarrow> gerror + string"
  ce_env_json :: "env_var list \<Rightarrow> gerror + string"
  ce_package_json :: "string \<Rightarrow> gerror + (string \<times> json) list"
  ce_unmarshal_object :: "string \<Rightarrow> gerror option"
  ce_rand :: "nat \<Rightarrow> ('s, string) api"
  ce_now :: string
  ce_do :: "rest_request \<Rightarrow> 's \<Rightarrow> (string \<times> gerror option) \<times> 's"
  ce_logs :: "string \<Rightarrow> string \<Rightarrow> string \<Rightarrow> bool \<Rightarrow> ('s, string) api"

definition fatal :: "string \<Rightarrow> 's cli \<Rightarrow> 'a res \<times> 's cli" where
  "fatal msg st = (Panic (Exit msg), st)"

definition check :: "bool \<Rightarrow> string \<Rightarrow> 's cli \<Rightarrow> unit res \<times> 's cli" where
  "check ok msg st = (if ok then (Ok (), st) else fatal msg st)"

definition fatal_prefix :: "string \<Rightarrow> 'a res \<times> 's \<Rightarrow> 'a res \<times> 's" where
  "fatal_prefix pre r = fatal_err (wrap_st pre r)"

section \<open>Flags of deploy and update\<close>

record deploy_flags =
  df_runtime :: string
  df_handler :: string
  df_from_file :: string
  df_label :: "string list"
  df_secrets :: "string list"
  df_env :: "string list"
  df_node_selectors :: "string list"
  df_service_account :: string
  df_namespace :: string
  df_dependencies :: string
  df_schedule :: string
  df_memory :: string
  df_cpu :: string
  df_runtime_image :: string
  df_image_pull_policy :: string
  df_timeout :: string
  df_output :: string
  df_headless :: bool
  df_dryrun :: bool
  df_port :: int32
  df_servicePort :: int32

text \<open>The values the commands declare for flags that are not given.\<close>

definition default_flags :: deploy_flags where
  "default_flags =
     \<lparr>df_runtime = [], df_handler = [], df_from_file = [], df_label = [], df_secrets = [], df_env = [],
      df_node_selectors = [], df_service_account = [], df_namespace = [], df_dependencies = [], df_schedule = [],
      df_memory = [], df_cpu = [], df_runtime_image = [], df_image_pull_policy = ''Always'', df_timeout = ''180'',
      df_output = ''yaml'', df_headless = False, df_dryrun = False, df_port = 8080, df_servicePort = 0\<rparr>"

definition namespace_of :: "'s cli_env \<Rightarrow> string \<Rightarrow> string" where
  "namespace_of ce ns = (if ns = [] then ce_GetDefaultNamespace ce else ns)"

definition pull_policies :: "string list" where
  "pull_policies = [''IfNotPresent'', ''Always'', ''Never'']"

definition check_runtime :: "langruntimes \<Rightarrow> string \<Rightarrow> 's cli \<Rightarrow> unit res \<times> 's cli" where
  "check_runtime lr runtime =
     check (runtime = [] \<or> IsValidRuntime lr runtime)
       (''Invalid runtime: '' @ runtime @ ''. Supported runtimes are: '' @ join_str '', '' (GetRuntimes lr))"

definition valid_port :: "int32 \<Rightarrow> bool" where
  "valid_port port \<longleftrightarrow> \<not> (sint port \<le> 0 \<or> sint port > 65535)"

definition valid_service_port :: "int32 \<Rightarrow> bool" where
  "valid_service_port servicePort \<longleftrightarrow> \<not> (sint servicePort < 0 \<or> sint servicePort > 65535)"

definition check_ports :: "deploy_flags \<Rightarrow> 's cli \<Rightarrow> unit res \<times> 's cli" where
  "check_ports fl st =
     bind_st (check (valid_port (df_port fl)) (''Invalid port number '' @ Itoa (sint (df_port fl)) @ '' specified'') st) (\<lambda>_ st.
     check (valid_service_port (df_servicePort fl))
       (''Invalid servicePort number '' @ Itoa (sint (df_servicePort fl)) @ '' specified'') st)"

definition read_deps :: "'s cli_env \<Rightarrow> string \<Rightarrow> 's cli \<Rightarrow> string res \<times> 's cli" where
  "read_deps ce deps st =
     (if deps = [] then (Ok [], st)
      else
        fatal_err (bind_st (on_server (GetContentType (ce_io ce) deps) st) (\<lambda>contentType st.
          bind_st (on_server (ParseContent (ce_io ce) deps contentType) st) (\<lambda>(funcDeps, _) st. (Ok funcDeps, st)))))"

definition function_args_of :: "deploy_flags \<Rightarrow> string \<Rightarrow> string \<Rightarrow> string \<Rightarrow> function_args" where
  "function_args_of fl funcName ns funcDeps =
     \<lparr>fa_funcName = funcName, fa_ns = ns, fa_handler = df_handler fl, fa_file = df_from_file fl, fa_deps = funcDeps,
      fa_runtime = df_runtime fl, fa_runtimeImage = df_runtime_image fl, fa_mem = df_memory fl, fa_cpu = df_cpu fl,
      fa_timeout = df_timeout fl, fa_imagePullPolicy = df_image_pull_policy fl,
      fa_serviceAccount = df_service_account fl, fa_port = df_port fl, fa_servicePort = df_servicePort fl,
      fa_headless = df_headless fl, fa_envs = df_env fl, fa_labels = df_label fl, fa_secrets = df_secrets fl,
      fa_nodeSelectors = df_node_selectors fl\<rparr>"

text \<open>What a dry run prints: the object, or nothing when the format is unknown.\<close>

definition dry_run :: "'s cli_env \<Rightarrow> string \<Rightarrow> kfunction \<Rightarrow> 's cli \<Rightarrow> unit res \<times> 's cli" where
  "dry_run ce output f st =
     (if output = ''json'' then fatal_err (bind_st (lift_sum (ma_json (ce_function_fmt ce) f), st) (\<lambda>j st. Println (Line j) st))
      else if output = ''yaml'' then fatal_err (bind_st (lift_sum (ma_yaml (ce_function_fmt ce) f), st) (\<lambda>y st. Println (Line y) st))
      else (Ok (), st))"

section \<open>deploy\<close>

definition deploy_runtime_check :: "'s cli_env \<Rightarrow> string \<Rightarrow> 's cli \<Rightarrow> unit res \<times> 's cli" where
  "deploy_runtime_check ce runtime st =
     (case on_server (GetKubelessConfig (ce_getenv ce) (ce_get_crd ce) (ce_ConfigMaps ce)) st of
        (Ok config, st1) \<Rightarrow>
          bind_st (ReadConfigMap (ce_runtimes ce) (New config), st1) (\<lambda>lr st. check_runtime lr runtime st)
      | (Err e, st1) \<Rightarrow> (Ok (), st1)
      | (Panic p, st1) \<Rightarrow> (Panic p, st1))"

definition default_function :: "string \<Rightarrow> kfunction" where
  "default_function funcName =
     zero_function\<lparr>f_Meta := zero_meta\<lparr>om_Labels := Some [(''created-by'', ''kubeless''), (''function'', funcName)]\<rparr>\<rparr>"

definition deploy_function :: "'s cli_env \<Rightarrow> string list \<Rightarrow> deploy_flags \<Rightarrow> 's cli \<Rightarrow> kfunction res \<times> 's cli" where
  "deploy_function ce args fl st =
     bind_st (check (length args = 1) ''Need exactly one argument - function name'' st) (\<lambda>_ st.
     let funcName = args ! 0; ns = namespace_of ce (df_namespace fl) in
     bind_st (deploy_runtime_check ce (df_runtime fl) st) (\<lambda>_ st.
     bind_st (case (if df_schedule fl = [] then None else ce_ParseStandard ce (df_schedule fl)) of
                Some e \<Rightarrow> fatal (''Invalid value for --schedule. '' @ err_text e) st | None \<Rightarrow> (Ok (), st)) (\<lambda>_ st.
     bind_st (check (df_image_pull_policy fl \<in> set pull_policies)
                ''image-pull-policy must be {IfNotPresent|Always|Never}'' st) (\<lambda>_ st.
     bind_st (check_ports fl st) (\<lambda>_ st.
     bind_st (read_deps ce (df_dependencies fl) st) (\<lambda>funcDeps st.
     bind_st (check (\<not> (df_runtime fl = [] \<and> df_runtime_image fl = []))
                ''Either `--runtime` or `--runtime-image` flag must be specified.'' st) (\<lambda>_ st.
     bind_st (check (\<not> (df_runtime fl \<noteq> [] \<and> df_handler fl = [])) ''You must specify handler for the runtime.'' st) (\<lambda>_ st.
     fatal_err (on_server (getFunctionDescription (ce_io ce) (ce_ParseQuantity ce)
       (function_args_of fl funcName ns funcDeps) (default_function funcName)) st)))))))))"

definition scheduled_trigger :: "string \<Rightarrow> string \<Rightarrow> string \<Rightarrow> cronjob_trigger" where
  "scheduled_trigger funcName ns schedule =
     \<lparr>cj_Kind = ''CronJobTrigger'', cj_APIVersion = ''kubeless.io/v1beta1'',
      cj_Meta = zero_meta\<lparr>om_Name := funcName, om_Namespace := ns,
        om_Labels := Some [(''created-by'', ''kubeless''), (''function'', funcName)]\<rparr>,
      cj_FunctionName = funcName, cj_Schedule = schedule, cj_Payload = NilPayload\<rparr>"

definition deploy_schedule :: "'s cli_env \<Rightarrow> string \<Rightarrow> string \<Rightarrow> string \<Rightarrow> 's cli \<Rightarrow> unit res \<times> 's cli" where
  "deploy_schedule ce schedule funcName ns st =
     (if schedule = [] then (Ok (), st)
      else
        bind_st (fatal_err (lift_sum (ce_cronjobs ce), st)) (\<lambda>cronjobClient st.
        fatal_prefix (''Failed to deploy cron job trigger '' @ funcName @ ''. Received:'' @ [CHR 0x0A])
          (on_server (\<lambda>s. unit_result (ta_Create cronjobClient (scheduled_trigger funcName ns schedule) s)) st)))"

definition deployCmd :: "'s cli_env \<Rightarrow> string list \<Rightarrow> deploy_flags \<Rightarrow> 's cli \<Rightarrow> unit res \<times> 's cli" where
  "deployCmd ce args fl st =
     bind_st (deploy_function ce args fl st) (\<lambda>f st.
     if df_dryrun fl then dry_run ce (df_output fl) f st
     else
       bind_st (fatal_err (lift_sum (ce_kubeless ce), st)) (\<lambda>kubelessClient st.
       bind_st (fatal_prefix (''Failed to deploy '' @ args ! 0 @ ''. Received:'' @ [CHR 0x0A])
                  (on_server (CreateFunctionCustomResource kubelessClient f) st)) (\<lambda>_ st.
       deploy_schedule ce (df_schedule fl) (args ! 0) (namespace_of ce (df_namespace fl)) st)))"

section \<open>update\<close>

definition update_function :: "'s cli_env \<Rightarrow> string list \<Rightarrow> deploy_flags \<Rightarrow> 's cli \<Rightarrow> kfunction res \<times> 's cli" where
  "update_function ce args fl st =
     bind_st (fatal_prefix ''Unable to read the configmap: ''
                (on_server (GetKubelessConfig (ce_getenv ce) (ce_get_crd ce) (ce_ConfigMaps ce)) st)) (\<lambda>config st.
     bind_st (ReadConfigMap (ce_runtimes ce) (New config), st) (\<lambda>lr st.
     bind_st (check (length args = 1) ''Need exactly one argument - function name'' st) (\<lambda>_ st.
     let funcName = args ! 0; ns = namespace_of ce (df_namespace fl) in
     bind_st (check_runtime lr (df_runtime fl) st) (\<lambda>_ st.
     bind_st (check (df_image_pull_policy fl \<in> set pull_policies)
                ''image-pull-policy must be {IfNotPresent|Always|Never}'' st) (\<lambda>_ st.
     bind_st (read_deps ce (df_dependencies fl) st) (\<lambda>funcDeps st.
     bind_st (check_ports fl st) (\<lambda>_ st.
     bind_st (fatal_err (on_server (GetFunction (ce_kubeless ce) funcName ns) st)) (\<lambda>previousFunction st.
     fatal_err (on_server (getFunctionDescription (ce_io ce) (ce_ParseQuantity ce)
       (function_args_of fl funcName ns funcDeps) previousFunction) st)))))))))"

definition updateCmd :: "'s cli_env \<Rightarrow> string list \<Rightarrow> deploy_flags \<Rightarrow> 's cli \<Rightarrow> unit res \<times> 's cli" where
  "updateCmd ce args fl st =
     bind_st (update_function ce args fl st) (\<lambda>f st.
     if df_dryrun fl then dry_run ce (df_output fl) f st
     else
       bind_st (fatal_err (lift_sum (ce_kubeless ce), st)) (\<lambda>kubelessClient st.
       fatal_err (on_server (PatchFunctionCustomResource kubelessClient f) st)))"

section \<open>delete, call, describe and logs\<close>

definition deleteCmd :: "'s cli_env \<Rightarrow> string list \<Rightarrow> string \<Rightarrow> 's cli \<Rightarrow> unit res \<times> 's cli" where
  "deleteCmd ce args namespace st =
     bind_st (check (length args = 1) ''Need exactly one argument - function name'' st) (\<lambda>_ st.
     bind_st (fatal_err (lift_sum (ce_kubeless ce), st)) (\<lambda>kubelessClient st.
     fatal_err (on_server (DeleteFunctionCustomResource kubelessClient (args ! 0) (namespace_of ce namespace)) st)))"

definition call_port :: "service \<Rightarrow> string res" where
  "call_port svc =
     bind_res (index (ss_Ports (svc_Spec svc)) 0) (\<lambda>p. Ok (if sp_Name p \<noteq> [] then sp_Name p else Itoa (sint (sp_Port p))))"

definition content_headers :: "string \<Rightarrow> (string \<times> string) list" where
  "content_headers ct = [(''Content-Type'', ct), (''event-type'', ct)]"

definition call_request :: "'s cli_env \<Rightarrow> string \<Rightarrow> string \<Rightarrow> string \<Rightarrow> string \<Rightarrow> rest_request" where
  "call_request ce funcName ns port data =
     (if data = [] then
        \<lparr>rq_Verb = ''GET'', rq_Namespace = ns, rq_Name = funcName @ '':'' @ port, rq_Headers = [], rq_Body = None, rq_Suffix = []\<rparr>
      else
        \<lparr>rq_Verb = ''POST'', rq_Namespace = ns, rq_Name = funcName @ '':'' @ port,
         rq_Headers = content_headers (if IsJSON (ce_unmarshal_object ce) data then ''application/json''
                                       else ''application/x-www-form-urlencoded''),
         rq_Body = Some data, rq_Suffix = ''/''\<rparr>)"

definition callCmd :: "'s cli_env \<Rightarrow> string list \<Rightarrow> string \<Rightarrow> string \<Rightarrow> 's cli \<Rightarrow> unit res \<times> 's cli" where
  "callCmd ce args data namespace st =
     bind_st (check (length args = 1) ''Need exactly one argument - function name'' st) (\<lambda>_ st.
     let funcName = args ! 0; ns = namespace_of ce namespace in
     bind_st (case cl_get (ce_Services ce) ns funcName (fst st) of
                (Inl e, s) \<Rightarrow> fatal (''Unable to find the service for '' @ funcName) (s, snd st)
              | (Inr svc, s) \<Rightarrow> (Ok svc, (s, snd st))) (\<lambda>svc st.
     bind_st (call_port svc, st) (\<lambda>port st.
     let req = call_request ce funcName ns port data in
     bind_st (fatal_prefix ''Unable to generate ID '' (on_server (GetRandString (ce_rand ce) 11) st)) (\<lambda>eventID st.
     let req = req\<lparr>rq_Headers := rq_Headers req @
           [(''event-id'', eventID), (''event-time'', ce_now ce), (''event-namespace'', ''cli.kubeless.io'')]\<rparr> in
     case ce_do ce req (fst st) of
       ((res, Some err), s) \<Rightarrow>
         if contains (err_text err) ''status code 408'' then fatal ''Request timeout exceeded'' (s, snd st)
         else fatal (replace_all [CHR 0x5C, CHR ''n''] [CHR 0x0A] (err_text err)) (s, snd st)
     | ((res, None), s) \<Rightarrow> Println (Line res) (s, snd st)))))"

definition print_rows :: "kfunction \<Rightarrow> string \<Rightarrow> string \<Rightarrow> string \<Rightarrow> string \<Rightarrow> string list list" where
  "print_rows f name label env memory =
     [[''Name:'', name], [''Namespace:'', f_Namespace f], [''Handler:'', fs_Handler (f_Spec f)],
      [''Runtime:'', fs_Runtime (f_Spec f)], [''Label:'', label], [''Envvar:'', env], [''Memory:'', memory],
      [''Dependencies:'', fs_Deps (f_Spec f)]]"

definition print_function :: "'s cli_env \<Rightarrow> kfunction \<Rightarrow> string \<Rightarrow> string \<Rightarrow> 's cli \<Rightarrow> unit res \<times> 's cli" where
  "print_function ce f name output st =
     (if output = [] then
        bind_st (lift_sum (ce_labels_json ce (f_Labels f)), st) (\<lambda>label st.
        bind_st (case default_containers f of
                   [] \<Rightarrow> (Ok ([], []), st)
                 | c # _ \<Rightarrow>
                     bind_st (lift_sum (ce_env_json ce (c_Env c)), st) (\<lambda>b st.
                       (Ok (b, memory_string (rr_Requests (c_Resources c))), st))) (\<lambda>(env, memory) st.
        Println (Table (print_rows f name label env memory)) st))
      else if output = ''json'' then bind_st (lift_sum (ma_json (ce_function_fmt ce) f), st) (\<lambda>b st. Println (Line b) st)
      else if output = ''yaml'' then bind_st (lift_sum (ma_yaml (ce_function_fmt ce) f), st) (\<lambda>b st. Println (Line b) st)
      else Println (Line ''Wrong output format. Please use only json|yaml'') st)"

definition describeCmd :: "'s cli_env \<Rightarrow> string list \<Rightarrow> string \<Rightarrow> string \<Rightarrow> 's cli \<Rightarrow> unit res \<times> 's cli" where
  "describeCmd ce args namespace output st =
     bind_st (check (length args = 1) ''Need exactly one argument - function name'' st) (\<lambda>_ st.
     bind_st (fatal_prefix ''Can not describe function: ''
                (on_server (GetFunction (ce_kubeless ce) (args ! 0) (namespace_of ce namespace)) st)) (\<lambda>f st.
     fatal_prefix ''Can not describe function: '' (print_function ce f (args ! 0) output st)))"

definition logsCmd :: "'s cli_env \<Rightarrow> string list \<Rightarrow> bool \<Rightarrow> string \<Rightarrow> 's cli \<Rightarrow> unit res \<times> 's cli" where
  "logsCmd ce args follow namespace st =
     bind_st (check (length args = 1) ''Need exactly one argument - function name'' st) (\<lambda>_ st.
     let funcName = args ! 0; ns = namespace_of ce namespace in
     bind_st (fatal_prefix (''Can'' @ [CHR 0x27] @ ''t find the function pod: '')
                (on_server (GetPodsByLabel (ce_Pods ce) ns ''function'' funcName) st)) (\<lambda>pods st.
     bind_st (fatal_prefix ''No function pod is running: '' (GetReadyPod pods, st)) (\<lambda>readyPod st.
     case ce_logs ce ns (pod_Name readyPod) funcName follow (fst st) of
       (Inl e, s) \<Rightarrow> fatal (''Getting log failed: '' @ err_text e) (s, snd st)
     | (Inr text, s) \<Rightarrow> Println (Raw text) (s, snd st))))"

section \<open>Laws\<close>

lemma on_server_Ok_iff [res_simps]:
  "on_server m st = (Ok x, st') \<longleftrightarrow> m (fst st) = (Ok x, fst st') \<and> snd st' = snd st"
  by (auto simp: on_server_def prod_eq_iff)

lemma check_Ok_iff [res_simps]: "check ok msg st = (Ok u, st') \<longleftrightarrow> ok \<and> st' = st"
  by (auto simp: check_def fatal_def)

lemma fatal_not_Ok [simp]: "fatal msg st \<noteq> (Ok x, st')"
  by (simp add: fatal_def)

lemma check_ports_Ok_iff [res_simps]:
  "check_ports fl st = (Ok u, st') \<longleftrightarrow> valid_port (df_port fl) \<and> valid_service_port (df_servicePort fl) \<and> st' = st"
  by (auto simp: check_ports_def res_simps)

lemma valid_port_iff: "valid_port p \<longleftrightarrow> 1 \<le> sint p \<and> sint p \<le> 65535"
  by (auto simp: valid_port_def)

text \<open>The port a client connects to and the port the container listens on.\<close>

definition service_ports_ok :: "kfunction \<Rightarrow> int32 \<Rightarrow> int32 \<Rightarrow> bool" where
  "service_ports_ok f port servicePort \<longleftrightarrow>
     serviceSpec f = fs_ServiceSpec (f_Spec f) \<and> svcTargetPort f = port \<and>
     (\<exists>p. ss_Ports (serviceSpec f) = [p] \<and> sp_Port p = (if servicePort = 0 then port else servicePort) \<and>
        1 \<le> sint (sp_Port p) \<and> sint (sp_Port p) \<le> 65535)"

lemma described_ports_ok:
  assumes "getFunctionDescription io q (function_args_of fl funcName ns deps) df s = (Ok f, s')"
    and "valid_port (df_port fl)" and "valid_service_port (df_servicePort fl)"
  shows "service_ports_ok f (df_port fl) (df_servicePort fl)"
proof -
  have f: "fs_ServiceSpec (f_Spec f) = described_service (function_args_of fl funcName ns deps)
      (described_labels (function_args_of fl funcName ns deps) df)"
    using assms(1) by (auto simp: getFunctionDescription_Ok_iff)
  have "df_port fl \<noteq> 0" using assms(2) by (auto simp: valid_port_def)
  moreover have "sint (df_servicePort fl) \<noteq> 0" if "df_servicePort fl \<noteq> 0"
    using that by (simp add: signed_eq_0_iff)
  ultimately show ?thesis
    using assms(2,3)
    by (auto simp: service_ports_ok_def serviceSpec_def svcTargetPort_def f described_service_def function_args_of_def
        valid_port_def valid_service_port_def IntValue_def)
qed

lemma described_container_policy:
  assumes "getFunctionDescription io q a df s = (Ok f, s')"
  shows "\<exists>c. ps_Containers (d_PodSpec (fs_Deployment (f_Spec f))) = [c] \<and> c_ImagePullPolicy c = fa_imagePullPolicy a"
  using assms
  by (auto simp: getFunctionDescription_Ok_iff upd_pod_def upd_template_def described_pod_def described_secrets_container
      described_container_def zero_container_def)

text \<open>
  C19: What the deploy command sends to the server is well formed: the name and namespace
  asked for, exactly one container with one of the three pull policies, a runtime with a
  handler or an image of its own, the marker labels unless the user overrode them, and a
  service with exactly one port between 1 and 65535 that forwards to the port the user
  gave. The controller takes both ports over as they are.
\<close>

theorem deploy_function_wellformed:
  assumes "deploy_function ce args fl st = (Ok f, st')"
  shows "args = [f_Name f] \<and> f_Namespace f = namespace_of ce (df_namespace fl) \<and>
    (\<exists>c. ps_Containers (d_PodSpec (fs_Deployment (f_Spec f))) = [c] \<and> c_ImagePullPolicy c \<in> set pull_policies) \<and>
    (df_runtime fl = [] \<and> df_runtime_image fl \<noteq> [] \<or> df_runtime fl \<noteq> [] \<and> df_handler fl \<noteq> []) \<and>
    fs_Runtime (f_Spec f) = df_runtime fl \<and> fs_Handler (f_Spec f) = df_handler fl \<and>
    gm_find (f_Labels f) ''function'' =
      (case map_of (rev (map getKV (df_label fl))) ''function'' of Some v \<Rightarrow> Some v | None \<Rightarrow> Some (f_Name f)) \<and>
    service_ports_ok f (df_port fl) (df_servicePort fl)"
proof -
  obtain deps s s' where args: "length args = 1" and pol: "df_image_pull_policy fl \<in> set pull_policies"
    and ports: "valid_port (df_port fl)" "valid_service_port (df_servicePort fl)"
    and rt: "\<not> (df_runtime fl = [] \<and> df_runtime_image fl = [])" "\<not> (df_runtime fl \<noteq> [] \<and> df_handler fl = [])"
    and g: "getFunctionDescription (ce_io ce) (ce_ParseQuantity ce)
       (function_args_of fl (args ! 0) (namespace_of ce (df_namespace fl)) deps) (default_function (args ! 0)) s = (Ok f, s')"
    using assms by (auto simp: deploy_function_def res_simps Let_def)
  have name: "f_Name f = args ! 0" "f_Namespace f = namespace_of ce (df_namespace fl)"
    and spec: "fs_Runtime (f_Spec f) = df_runtime fl" "fs_Handler (f_Spec f) = df_handler fl"
    using g described_content_other(1,2)
    by (fastforce simp: getFunctionDescription_Ok_iff function_args_of_def described_spec_def given_def
        default_function_def zero_function_def)+
  have lab: "gm_find (f_Labels f) ''function'' =
      (case map_of (rev (map getKV (df_label fl))) ''function'' of Some v \<Rightarrow> Some v | None \<Rightarrow> Some (args ! 0))"
  proof -
    have "f_Labels f = described_labels (function_args_of fl (args ! 0) (namespace_of ce (df_namespace fl)) deps)
        (default_function (args ! 0))"
      using g by (auto simp: getFunctionDescription_Ok_iff)
    moreover have "gm_find (f_Labels (default_function (args ! 0))) ''function'' = Some (args ! 0)"
      by (simp add: default_function_def gm_find_def)
    ultimately show ?thesis
      by (simp add: gm_find_described_labels function_args_of_def split: option.splits)
  qed
  obtain c where "ps_Containers (d_PodSpec (fs_Deployment (f_Spec f))) = [c]" "c_ImagePullPolicy c \<in> set pull_policies"
    using described_container_policy [OF g] pol by (auto simp: function_args_of_def)
  moreover have "args = [f_Name f]"
    using args name(1) by (cases args) auto
  ultimately show ?thesis
    using described_ports_ok [OF g ports] rt name(2) spec lab [folded name(1)] by auto
qed

text \<open>
  C26: A dry run of deploy has no access to the cluster's functions: its result and its output
  are the same whatever the function client and the trigger client are, so that nothing is
  created, whatever the output format.
\<close>

theorem deploy_dry_run_independent:
  assumes "df_dryrun fl"
  shows "deployCmd (ce\<lparr>ce_kubeless := k, ce_cronjobs := j\<rparr>) args fl st = deployCmd ce args fl st"
proof -
  let ?ce = "ce\<lparr>ce_kubeless := k, ce_cronjobs := j\<rparr>"
  have sel: "ce_io ?ce = ce_io ce" "ce_getenv ?ce = ce_getenv ce" "ce_get_crd ?ce = ce_get_crd ce"
    "ce_ConfigMaps ?ce = ce_ConfigMaps ce" "ce_runtimes ?ce = ce_runtimes ce" "ce_ParseQuantity ?ce = ce_ParseQuantity ce"
    "ce_ParseStandard ?ce = ce_ParseStandard ce" "ce_GetDefaultNamespace ?ce = ce_GetDefaultNamespace ce"
    "ce_function_fmt ?ce = ce_function_fmt ce"
    by simp_all
  have f: "deploy_function ?ce args fl st = deploy_function ce args fl st"
    unfolding deploy_function_def deploy_runtime_check_def read_deps_def namespace_of_def sel ..
  show ?thesis
    unfolding deployCmd_def f dry_run_def sel using assms by simp
qed

text \<open>
  Updating a function without any flag does not leave it as it was: the timeout becomes
  180, the pull policy \<open>Always\<close> and the function listens on port 8080, whatever it had before.
\<close>

theorem update_flag_defaults:
  assumes "update_function ce args default_flags st = (Ok f, st')"
  shows "fs_Timeout (f_Spec f) = ''180'' \<and> svcTargetPort f = 8080 \<and>
    (\<exists>c. ps_Containers (d_PodSpec (fs_Deployment (f_Spec f))) = [c] \<and> c_ImagePullPolicy c = ''Always'')"
proof -
  obtain ns deps df s s' where
    g: "getFunctionDescription (ce_io ce) (ce_ParseQuantity ce) (function_args_of default_flags (args ! 0) ns deps) df s = (Ok f, s')"
    using assms by (auto simp: update_function_def res_simps Let_def)
  have "fs_Timeout (f_Spec f) = ''180''"
    using g by (auto simp: getFunctionDescription_Ok_iff function_args_of_def described_spec_def given_def default_flags_def)
  moreover have "svcTargetPort f = 8080"
    using described_ports_ok [OF g]
    by (simp add: service_ports_ok_def default_flags_def valid_port_def valid_service_port_def)
  ultimately show ?thesis
    using described_container_policy [OF g] by (simp add: function_args_of_def default_flags_def)
qed

end
