(* ===== verification/FunctionList.thy ===== *)
theory FunctionList
  imports FunctionCmd "HOL-Library.Multiset"
begin

text \<open>
  The subcommands list and top of \<open>kubeless function\<close> and the metrics of a function,
  \<open>cmd/kubeless/function/list.go\<close>, \<open>top.go\<close> and \<open>pkg/utils/metrics.go\<close>. The parser of
  Prometheus' text format is a parameter, and so are the operations on \<open>float64\<close>. The
  goroutines of top run one after the other in the order in which their results arrive; the
  order, and the moment the timer fires, are an argument, so that a statement holds for all.
\<close>

section \<open>list\<close>

fun dependency_lines :: "(string \<times> json) list \<Rightarrow> string list res" where
  "dependency_lines [] = Ok []"
| "dependency_lines ((pkg, ver) # deps) =
     (case ver of
        JString v \<Rightarrow> bind_res (dependency_lines deps) (\<lambda>ls. Ok ((pkg @ '': '' @ v) # ls))
      | _ \<Rightarrow> Panic TypeAssertion)"

definition parseDeps :: "(string \<Rightarrow> gerror + (string \<times> json) list) \<Rightarrow> string \<Rightarrow> string \<Rightarrow> string res" where
  "parseDeps package_json deps runtime =
     (if deps = [] then Ok []
      else if contains runtime ''nodejs'' then
        bind_res (lift_sum (package_json deps)) (\<lambda>pkgjson.
          case map_of pkgjson ''dependencies'' of
            None \<Rightarrow> Ok []
          | Some JNull \<Rightarrow> Ok []
          | Some (JObject dependencies) \<Rightarrow> map_res (join_str [CHR 0x0A]) (dependency_lines dependencies)
          | Some _ \<Rightarrow> Panic TypeAssertion)
      else Ok deps)"

definition status_of :: "'s cli_env \<Rightarrow> kfunction \<Rightarrow> 's cli \<Rightarrow> string res \<times> 's cli" where
  "status_of ce f st =
     (case on_server (getDeploymentStatus (ce_Deployments ce) (f_Name f) (f_Namespace f)) st of
        (Err e, st1) \<Rightarrow> (if IsNotFound e then Ok ''MISSING: Check controller logs'' else Err e, st1)
      | (r, st1) \<Rightarrow> (r, st1))"

definition row :: "'s cli_env \<Rightarrow> kfunction \<Rightarrow> 's cli \<Rightarrow> string list res \<times> 's cli" where
  "row ce f st =
     bind_st (status_of ce f st) (\<lambda>status st.
     bind_st (parseDeps (ce_package_json ce) (fs_Deps (f_Spec f)) (fs_Runtime (f_Spec f)), st) (\<lambda>deps st.
     (Ok [f_Name f, f_Namespace f, fs_Handler (f_Spec f), fs_Runtime (f_Spec f), deps, status], st)))"

definition wide_row :: "'s cli_env \<Rightarrow> kfunction \<Rightarrow> 's cli \<Rightarrow> string list res \<times> 's cli" where
  "wide_row ce f st =
     bind_st (parseDeps (ce_package_json ce) (fs_Deps (f_Spec f)) (fs_Runtime (f_Spec f)), st) (\<lambda>deps st.
     bind_st (status_of ce f st) (\<lambda>status st.
     bind_st (index (default_containers f) 0, st) (\<lambda>c st.
     let mem = (if rr_Requests (c_Resources c) \<noteq> [] then memory_string (rr_Requests (c_Resources c)) else []);
         env = concat (map (\<lambda>e. ev_Name e @ '' = '' @ ev_Value e @ [CHR 0x0A]) (c_Env c));
         label = concat (map (\<lambda>(k, v). k @ '' : '' @ v @ [CHR 0x0A]) (gm_entries (f_Labels f)))
     in (Ok [f_Name f, f_Namespace f, fs_Handler (f_Spec f), fs_Runtime (f_Spec f), deps, status, mem, env, label], st))))"

fun rows :: "(kfunction \<Rightarrow> 's cli \<Rightarrow> string list res \<times> 's cli) \<Rightarrow> kfunction list \<Rightarrow> 's cli \<Rightarrow> string list list res \<times> 's cli" where
  "rows r [] st = (Ok [], st)"
| "rows r (f # fs) st = bind_st (r f st) (\<lambda>x st. bind_st (rows r fs st) (\<lambda>xs st. (Ok (x # xs), st)))"

definition list_header :: "string list" where
  "list_header = [''NAME'', ''NAMESPACE'', ''HANDLER'', ''RUNTIME'', ''DEPENDENCIES'', ''STATUS'']"

definition wide_header :: "string list" where
  "wide_header = [''NAME'', ''NAMESPACE'', ''HANDLER'', ''RUNTIME'', ''TYPE'', ''TOPIC'', ''DEPENDENCIES'', ''STATUS'',
     ''MEMORY'', ''ENV'', ''LABEL'', ''SCHEDULE'']"

definition printFunctions :: "'s cli_env \<Rightarrow> kfunction list \<Rightarrow> string \<Rightarrow> 's cli \<Rightarrow> unit res \<times> 's cli" where
  "printFunctions ce functions output st =
     (if output = [] then bind_st (rows (row ce) functions st) (\<lambda>rs st. Println (Table (list_header # rs)) st)
      else if output = ''wide'' then bind_st (rows (wide_row ce) functions st) (\<lambda>rs st. Println (Table (wide_header # rs)) st)
      else if output = ''json'' then bind_st (lift_sum (ma_json (ce_list_fmt ce) functions), st) (\<lambda>b st. Println (Line b) st)
      else if output = ''yaml'' then bind_st (lift_sum (ma_yaml (ce_list_fmt ce) functions), st) (\<lambda>b st. Println (Line b) st)
      else (Err (Errorf ''Wrong output format. Please use only json|yaml''), st))"

fun get_all :: "('s, kfunction) client \<Rightarrow> string \<Rightarrow> string list \<Rightarrow> 's \<Rightarrow> kfunction list res \<times> 's" where
  "get_all c ns [] s = (Ok [], s)"
| "get_all c ns (arg # args) s =
     bind_st (case cl_get c ns arg s of
                (Inl e, s1) \<Rightarrow> (Err (Errorf (''Error listing function '' @ arg @ '': '' @ err_text e)), s1)
              | (Inr f, s1) \<Rightarrow> (Ok f, s1)) (\<lambda>f s.
     bind_st (get_all c ns args s) (\<lambda>fs s. (Ok (f # fs), s)))"

definition doList ::
  "'s cli_env \<Rightarrow> ('s, kfunction) client \<Rightarrow> string \<Rightarrow> string \<Rightarrow> string list \<Rightarrow> 's cli \<Rightarrow> unit res \<times> 's cli" where
  "doList ce kubelessClient ns output args st =
     bind_st (if args = [] then on_server (\<lambda>s. (lift_sum (fst (cl_list kubelessClient ns [] s)), snd (cl_list kubelessClient ns [] s))) st
              else on_server (get_all kubelessClient ns args) st) (\<lambda>list st.
     printFunctions ce list output st)"

definition listCmd :: "'s cli_env \<Rightarrow> string list \<Rightarrow> string \<Rightarrow> string \<Rightarrow> 's cli \<Rightarrow> unit res \<times> 's cli" where
  "listCmd ce args output namespace st =
     bind_st (fatal_prefix ''Can not list functions: '' (lift_sum (ce_kubeless ce), st)) (\<lambda>kubelessClient st.
     fatal_err (doList ce kubelessClient (namespace_of ce namespace) output args st))"

section \<open>Metrics\<close>

record 'v float64_ops =
  fl_zero :: 'v
  fl_pos :: "'v \<Rightarrow> bool"
  fl_div :: "'v \<Rightarrow> 'v \<Rightarrow> 'v"

record 'v Metric =
  mt_FunctionName :: string
  mt_Namespace :: string
  mt_Method :: string
  mt_Message :: string
  mt_TotalCalls :: 'v
  mt_TotalFailures :: 'v
  mt_TotalDurationSeconds :: 'v
  mt_AvgDurationSeconds :: 'v

text \<open>
  A sample of a Prometheus metric family: its labels, and the value of its counter and the
  sum of its histogram, which are zero when the sample has none.
\<close>

record 'v sample =
  sa_Label :: "(string \<times> string) list"
  sa_Counter :: 'v
  sa_SampleSum :: 'v

type_synonym 'v families = "(string \<times> 'v sample list) list"

definition metricsOfInterest :: "string list" where
  "metricsOfInterest = [''function_duration_seconds'', ''function_calls_total'', ''function_failures_total'']"

definition new_metric :: "'v float64_ops \<Rightarrow> string \<Rightarrow> string \<Rightarrow> string \<Rightarrow> string \<Rightarrow> 'v Metric" where
  "new_metric fo namespace functionName method message =
     \<lparr>mt_FunctionName = functionName, mt_Namespace = namespace, mt_Method = method, mt_Message = message,
      mt_TotalCalls = fl_zero fo, mt_TotalFailures = fl_zero fo, mt_TotalDurationSeconds = fl_zero fo,
      mt_AvgDurationSeconds = fl_zero fo\<rparr>"

definition set_metric :: "'v float64_ops \<Rightarrow> string \<Rightarrow> 'v sample \<Rightarrow> 'v Metric \<Rightarrow> 'v Metric" where
  "set_metric fo m sa t =
     (if m = ''function_failures_total'' then t\<lparr>mt_TotalFailures := sa_Counter sa\<rparr>
      else if m = ''function_duration_seconds'' then t\<lparr>mt_TotalDurationSeconds := sa_SampleSum sa\<rparr>
      else if m = ''function_calls_total'' then
        (let t1 = t\<lparr>mt_TotalCalls := sa_Counter sa\<rparr> in
         if fl_pos fo (mt_TotalCalls t1)
         then t1\<lparr>mt_AvgDurationSeconds := fl_div fo (mt_TotalDurationSeconds t1) (mt_TotalCalls t1)\<rparr> else t1)
      else t)"

definition metric_step ::
  "'v float64_ops \<Rightarrow> string \<Rightarrow> string \<Rightarrow> string \<times> 'v sample \<times> string \<Rightarrow> (string \<times> 'v Metric) list \<Rightarrow> (string \<times> 'v Metric) list" where
  "metric_step fo namespace functionName = (\<lambda>(m, sa, method) tmp.
     let t = (case map_of tmp method of Some t \<Rightarrow> t | None \<Rightarrow> new_metric fo namespace functionName method [])
     in AList.update method (set_metric fo m sa t) tmp)"

text \<open>The visits of the three nested loops, in order.\<close>

definition metric_visits :: "'v families \<Rightarrow> (string \<times> 'v sample \<times> string) list" where
  "metric_visits parsedData =
     concat (map (\<lambda>m. concat (map (\<lambda>sa. map (\<lambda>l. (m, sa, snd l)) (filter (\<lambda>l. fst l = ''method'') (sa_Label sa)))
       (case map_of parsedData m of None \<Rightarrow> [] | Some ss \<Rightarrow> ss))) metricsOfInterest)"

definition parseMetrics ::
  "'v float64_ops \<Rightarrow> (string \<Rightarrow> gerror + 'v families) \<Rightarrow> string \<Rightarrow> string \<Rightarrow> string \<Rightarrow> 'v Metric list res" where
  "parseMetrics fo text_to_families namespace functionName rawMetrics =
     bind_res (lift_sum (text_to_families rawMetrics)) (\<lambda>parsedData.
       let tmp = fold (metric_step fo namespace functionName) (metric_visits parsedData) [];
           tmp = (if tmp = [] then [([], new_metric fo namespace functionName [] [])] else tmp)
       in Ok (map snd tmp))"

definition GetRawMetrics ::
  "('s, service) client \<Rightarrow> (rest_request \<Rightarrow> 's \<Rightarrow> (string \<times> gerror option) \<times> 's) \<Rightarrow> string \<Rightarrow> string \<Rightarrow> 's \<Rightarrow> string res \<times> 's" where
  "GetRawMetrics services do_request namespace functionName s =
     bind_st (GetFunctionPort services namespace functionName s) (\<lambda>port s.
       case do_request \<lparr>rq_Verb = ''GET'', rq_Namespace = namespace, rq_Name = functionName @ '':'' @ port, rq_Headers = [],
              rq_Body = None, rq_Suffix = ''/metrics''\<rparr> s of
         ((res, None), s1) \<Rightarrow> (Ok res, s1)
       | ((res, Some e), s1) \<Rightarrow> (Err e, s1))"

definition GetFunctionMetrics ::
  "'v float64_ops \<Rightarrow> (string \<Rightarrow> gerror + 'v families) \<Rightarrow> (string \<Rightarrow> string \<Rightarrow> 's \<Rightarrow> string res \<times> 's) \<Rightarrow> string \<Rightarrow> string \<Rightarrow>
   's \<Rightarrow> 'v Metric list res \<times> 's" where
  "GetFunctionMetrics fo text_to_families raw namespace functionName s =
     (case raw namespace functionName s of
        (Err e, s1) \<Rightarrow> (Ok [new_metric fo namespace functionName [] ''Function does not expose metrics''], s1)
      | (Panic p, s1) \<Rightarrow> (Panic p, s1)
      | (Ok res, s1) \<Rightarrow>
          (case parseMetrics fo text_to_families namespace functionName res of
             Err e \<Rightarrow> Ok [new_metric fo namespace functionName [] ''Unable to get function metrics'']
           | r \<Rightarrow> r, s1))"

section \<open>top\<close>

text \<open>The order of Go strings: byte by byte.\<close>

fun str_less :: "string \<Rightarrow> string \<Rightarrow> bool" where
  "str_less [] ys = (ys \<noteq> [])"
| "str_less (x # xs) [] = False"
| "str_less (x # xs) (y # ys) =
     ((of_char x :: nat) < of_char y \<or> x = y \<and> str_less xs ys)"

text \<open>
  \<open>sort.Slice\<close> with a less function. It is not stable; the statements about it only use that
  the result is ordered and has the same elements.
\<close>

fun insert_less :: "('a \<Rightarrow> 'a \<Rightarrow> bool) \<Rightarrow> 'a \<Rightarrow> 'a list \<Rightarrow> 'a list" where
  "insert_less lt x [] = [x]"
| "insert_less lt x (y # ys) = (if lt y x then y # insert_less lt x ys else x # y # ys)"

fun sort_Slice :: "('a \<Rightarrow> 'a \<Rightarrow> bool) \<Rightarrow> 'a list \<Rightarrow> 'a list" where
  "sort_Slice lt [] = []"
| "sort_Slice lt (x # xs) = insert_less lt x (sort_Slice lt xs)"

datatype arrival = Arrives nat | TimerFires

text \<open>
  The loop over \<open>select\<close>: \<open>i\<close> results have been received of \<open>n\<close>; \<open>None\<close> means that it is still
  waiting when the list of events ends.
\<close>

fun collect :: "(nat \<Rightarrow> 's \<Rightarrow> 'm list res \<times> 's) \<Rightarrow> nat \<Rightarrow> nat \<Rightarrow> arrival list \<Rightarrow> 'm list \<Rightarrow> 's \<Rightarrow> ('m list res \<times> 's) option" where
  "collect run n i evs metrics s =
     (if i < n then
        (case evs of
           [] \<Rightarrow> None
         | TimerFires # _ \<Rightarrow> Some (Ok metrics, s)
         | Arrives k # evs' \<Rightarrow>
             (case run k s of
                (Ok r, s1) \<Rightarrow> collect run n (Suc i) evs' (metrics @ r) s1
              | (Err e, s1) \<Rightarrow> Some (Err e, s1)
              | (Panic p, s1) \<Rightarrow> Some (Panic p, s1)))
      else Some (Ok metrics, s))"

declare collect.simps [simp del]

record 'v top_fmt =
  tf_float :: "'v \<Rightarrow> string"
  tf_list :: "'v Metric list marshallers"

definition top_header :: "string list" where
  "top_header = [''NAME'', ''NAMESPACE'', ''METHOD'', ''TOTAL_CALLS'', ''TOTAL_FAILURES'', ''TOTAL_DURATION_SECONDS'',
     ''AVG_DURATION_SECONDS'', ''MESSAGE'']"

definition top_row :: "'v top_fmt \<Rightarrow> 'v Metric \<Rightarrow> string list" where
  "top_row tf f =
     (if mt_Message f \<noteq> [] then [mt_FunctionName f, mt_Namespace f, [], [], [], [], [], mt_Message f]
      else [mt_FunctionName f, mt_Namespace f, mt_Method f, tf_float tf (mt_TotalCalls f), tf_float tf (mt_TotalFailures f),
            tf_float tf (mt_TotalDurationSeconds f), tf_float tf (mt_AvgDurationSeconds f), []])"

definition printTop :: "'v top_fmt \<Rightarrow> 'v Metric list \<Rightarrow> string \<Rightarrow> 's cli \<Rightarrow> unit res \<times> 's cli" where
  "printTop tf metrics output st =
     (if output = [] then Println (Table (top_header # map (top_row tf) metrics)) st
      else if output = ''json'' then bind_st (lift_sum (ma_json (tf_list tf) metrics), st) (\<lambda>b st. Println (Line b) st)
      else if output = ''yaml'' then bind_st (lift_sum (ma_yaml (tf_list tf) metrics), st) (\<lambda>b st. Println (Line b) st)
      else (Err (Errorf ''Wrong output format. Please use only json|yaml''), st))"

definition metric_less :: "'v Metric \<Rightarrow> 'v Metric \<Rightarrow> bool" where
  "metric_less a b = str_less (mt_FunctionName a) (mt_FunctionName b)"

definition run_metrics ::
  "'v float64_ops \<Rightarrow> (string \<Rightarrow> gerror + 'v families) \<Rightarrow> (string \<Rightarrow> string \<Rightarrow> 's \<Rightarrow> string res \<times> 's) \<Rightarrow> string \<Rightarrow>
   kfunction list \<Rightarrow> nat \<Rightarrow> 's \<Rightarrow> 'v Metric list res \<times> 's" where
  "run_metrics fo text_to_families raw ns functions k s = GetFunctionMetrics fo text_to_families raw ns (f_Name (functions ! k)) s"

definition doTop ::
  "'v float64_ops \<Rightarrow> (string \<Rightarrow> gerror + 'v families) \<Rightarrow> 'v top_fmt \<Rightarrow> ('s, kfunction) client \<Rightarrow>
   (string \<Rightarrow> string \<Rightarrow> 's \<Rightarrow> string res \<times> 's) \<Rightarrow> arrival list \<Rightarrow> string \<Rightarrow> string \<Rightarrow> string \<Rightarrow> 's cli \<Rightarrow> (unit res \<times> 's cli) option" where
  "doTop fo text_to_families tf kubelessClient handler evs ns functionName output st =
     (case wrap_st ''Error listing functions: '' (on_server (getFunctions kubelessClient ns functionName) st) of
        (Ok functions, st1) \<Rightarrow>
          map_option (\<lambda>(r, s2).
              bind_st (r, (s2, snd st1)) (\<lambda>metrics st. printTop tf (sort_Slice metric_less metrics) output st))
            (collect (run_metrics fo text_to_families handler ns functions) (length functions) 0 evs [] (fst st1))
      | (Err e, st1) \<Rightarrow> Some (Err e, st1)
      | (Panic p, st1) \<Rightarrow> Some (Panic p, st1))"

text \<open>The error of building the client is overwritten by the result of the listing.\<close>

definition topCmd ::
  "'s cli_env \<Rightarrow> 'v float64_ops \<Rightarrow> (string \<Rightarrow> gerror + 'v families) \<Rightarrow> 'v top_fmt \<Rightarrow> arrival list \<Rightarrow> string \<Rightarrow> string \<Rightarrow>
   string \<Rightarrow> 's cli \<Rightarrow> (unit res \<times> 's cli) option" where
  "topCmd ce fo text_to_families tf evs functionName namespace output st =
     (case ce_kubeless ce of
        Inl e \<Rightarrow> Some (Panic NilDereference, st)
      | Inr kubelessClient \<Rightarrow>
          map_option fatal_err (doTop fo text_to_families tf kubelessClient (GetRawMetrics (ce_Services ce) (ce_do ce)) evs
            (namespace_of ce namespace) functionName output st))"

section \<open>Sorting\<close>

lemma not_str_less_Nil [simp]: "\<not> str_less a []"
  by (cases a) auto

lemma str_less_asym: "str_less a b \<Longrightarrow> \<not> str_less b a"
  by (induction a b rule: str_less.induct) auto

lemma str_less_split: "str_less c a \<Longrightarrow> str_less c b \<or> str_less b a"
proof (induction c a arbitrary: b rule: str_less.induct)
  case (1 ys)
  then show ?case by (cases b) auto
next
  case (3 x xs y ys)
  then show ?case
    by (cases b) (auto simp: not_less order.order_iff_strict)
qed simp

lemma mset_insert_less [simp]: "mset (insert_less lt x ys) = add_mset x (mset ys)"
  by (induction ys) auto

lemma mset_sort_Slice [simp]: "mset (sort_Slice lt xs) = mset xs"
  by (induction xs) auto

lemma set_insert_less [simp]: "set (insert_less lt x ys) = insert x (set ys)"
  by (induction ys) auto

text \<open>What the less function has to satisfy for a sort to be meaningful: a strict weak order.\<close>

locale weak_order =
  fixes lt :: "'a \<Rightarrow> 'a \<Rightarrow> bool"
  assumes asym: "lt a b \<Longrightarrow> \<not> lt b a"
    and negtrans: "lt c a \<Longrightarrow> lt c b \<or> lt b a"
begin

abbreviation ordered :: "'a list \<Rightarrow> bool" where
  "ordered \<equiv> sorted_wrt (\<lambda>a b. \<not> lt b a)"

lemma ordered_insert: "ordered ys \<Longrightarrow> ordered (insert_less lt x ys)"
proof (induction ys)
  case (Cons y ys)
  then show ?case
    using asym negtrans [of _ x y] by auto
qed simp

lemma ordered_sort: "ordered (sort_Slice lt xs)"
  by (induction xs) (auto intro: ordered_insert)

end

interpretation metrics_by_name: weak_order metric_less
  by unfold_locales (auto simp: metric_less_def dest: str_less_asym str_less_split)

section \<open>Laws of the metrics\<close>

lemma collect_returns: "n \<le> i + length evs \<Longrightarrow> \<exists>r. collect run n i evs metrics s = Some r"
proof (induction evs arbitrary: i metrics s)
  case Nil
  then show ?case by (simp add: collect.simps)
next
  case (Cons ev evs)
  show ?case
  proof (cases "i < n")
    case True
    with Cons show ?thesis
      by (subst collect.simps) (auto split: arrival.splits prod.splits res.splits)
  qed (simp add: collect.simps)
qed

text \<open>
  C23: The top command does not hang: whatever order the results of the functions arrive in
  and whenever the timer fires, it has an outcome after at most as many rounds of its
  \<open>select\<close> as there are functions, each of which the timer ends after five seconds.
\<close>

theorem doTop_terminates:
  assumes "\<And>fs s'. getFunctions client ns functionName (fst st) = (Ok fs, s') \<Longrightarrow> length fs \<le> length evs"
  shows "\<exists>r. doTop fo parser tf client handler evs ns functionName output st = Some r"
proof (cases "getFunctions client ns functionName (fst st)")
  case (Pair r s')
  show ?thesis
  proof (cases r)
    case (Ok fs)
    then obtain x where "collect (run_metrics fo parser handler ns fs) (length fs) 0 evs [] s' = Some x"
      using assms [of fs s'] Pair collect_returns [of "length fs" 0 evs] by fastforce
    with Pair Ok show ?thesis by (simp add: doTop_def on_server_def del: split_paired_Ex)
  qed (use Pair in \<open>simp_all add: doTop_def on_server_def\<close>)
qed

text \<open>The results received before the timer fired, or all of them.\<close>

definition received_of :: "arrival list \<Rightarrow> nat \<Rightarrow> nat list" where
  "received_of evs n = map (\<lambda>ev. case ev of Arrives k \<Rightarrow> k | TimerFires \<Rightarrow> 0) (take n (takeWhile (\<lambda>ev. ev \<noteq> TimerFires) evs))"

lemma collect_Ok:
  assumes "\<And>k s. run k s = (Ok (res k), s)" and "collect run n i evs metrics s = Some r"
  shows "r = (Ok (metrics @ concat (map res (received_of evs (n - i)))), s)"
  using assms(2)
proof (induction evs arbitrary: i metrics)
  case Nil
  then show ?case by (simp add: collect.simps received_of_def split: if_splits)
next
  case (Cons ev evs)
  show ?case
  proof (cases "i < n")
    case True
    then have n: "n - i = Suc (n - Suc i)" by simp
    show ?thesis
    proof (cases ev)
      case (Arrives k)
      then have "collect run n (Suc i) evs (metrics @ res k) s = Some r"
        using Cons.prems True assms(1) [of k s] by (simp add: collect.simps [of run n i])
      from Cons.IH [OF this] Arrives show ?thesis
        by (simp add: n received_of_def)
    next
      case TimerFires
      then show ?thesis using Cons.prems True by (simp add: collect.simps received_of_def)
    qed
  next
    case False
    then show ?thesis using Cons.prems by (simp add: collect.simps received_of_def)
  qed
qed

text \<open>
  What top prints is ordered by function name, byte by byte, and has exactly the metrics
  of the functions whose results arrived before the timer fired, each as often as it was
  received: nothing is lost, made up or printed twice by the sorting. This is stated for
  functions whose metrics can be read without changing the server.
\<close>

theorem doTop_sorted:
  assumes "getFunctions client ns functionName s = (Ok fs, s)"
    and "\<And>k s. run_metrics fo parser handler ns fs k s = (Ok (res k), s)"
    and "doTop fo parser tf client handler evs ns functionName [] (s, out) = Some (r, st')"
  shows "\<exists>ms. r = Ok () \<and> st' = (s, out @ [Table (top_header # map (top_row tf) ms)]) \<and>
    mset ms = mset (concat (map res (received_of evs (length fs)))) \<and>
    sorted_wrt (\<lambda>a b. \<not> str_less (mt_FunctionName b) (mt_FunctionName a)) ms"
proof -
  let ?got = "concat (map res (received_of evs (length fs)))"
  obtain x where x: "collect (run_metrics fo parser handler ns fs) (length fs) 0 evs [] s = Some x"
    using assms(1,3) by (auto simp: doTop_def on_server_def)
  have "x = (Ok ?got, s)"
    using collect_Ok [OF assms(2) x] by simp
  then have "r = Ok () \<and> st' = (s, out @ [Table (top_header # map (top_row tf) (sort_Slice metric_less ?got))])"
    using assms(1,3) x by (simp add: doTop_def on_server_def printTop_def Println_def)
  moreover have "sorted_wrt (\<lambda>a b. \<not> str_less (mt_FunctionName b) (mt_FunctionName a)) (sort_Slice metric_less ?got)"
    using metrics_by_name.ordered_sort [of ?got] by (simp add: metric_less_def)
  ultimately show ?thesis
    by (intro exI [of _ "sort_Slice metric_less ?got"]) simp
qed

text \<open>The table of methods while it is filled: one entry per method, made for this function.\<close>

definition metrics_ok :: "string \<Rightarrow> string \<Rightarrow> (string \<times> 'v Metric) list \<Rightarrow> bool" where
  "metrics_ok namespace functionName tmp \<longleftrightarrow>
     distinct (map fst tmp) \<and>
     list_all (\<lambda>(k, t). mt_Method t = k \<and> mt_FunctionName t = functionName \<and> mt_Namespace t = namespace \<and> mt_Message t = []) tmp"

lemma set_metric_id [simp]:
  "mt_Method (set_metric fo m sa t) = mt_Method t" "mt_FunctionName (set_metric fo m sa t) = mt_FunctionName t"
  "mt_Namespace (set_metric fo m sa t) = mt_Namespace t" "mt_Message (set_metric fo m sa t) = mt_Message t"
  by (simp_all add: set_metric_def Let_def)

lemma metric_step_ok:
  assumes "metrics_ok ns fn tmp"
  shows "metrics_ok ns fn (metric_step fo ns fn v tmp)"
proof -
  obtain m sa k where v: "v = (m, sa, k)" by (cases v)
  let ?t = "case map_of tmp k of Some t \<Rightarrow> t | None \<Rightarrow> new_metric fo ns fn k []"
  have t: "mt_Method ?t = k \<and> mt_FunctionName ?t = fn \<and> mt_Namespace ?t = ns \<and> mt_Message ?t = []"
    using assms by (auto simp: metrics_ok_def new_metric_def list_all_iff split: option.splits dest!: map_of_SomeD)
  have "set (AList.update k (set_metric fo m sa ?t) tmp) \<subseteq> insert (k, set_metric fo m sa ?t) (set tmp)"
    by (induction tmp) auto
  then show ?thesis
    using assms t by (auto simp: metrics_ok_def metric_step_def v Let_def list_all_iff distinct_update)
qed

lemma metric_step_keys: "fst ` set (metric_step fo ns fn v tmp) = insert (snd (snd v)) (fst ` set tmp)"
  by (cases v) (simp add: metric_step_def Let_def dom_update)

lemma metric_fold:
  assumes "metrics_ok ns fn tmp"
  shows "metrics_ok ns fn (fold (metric_step fo ns fn) vs tmp) \<and>
    fst ` set (fold (metric_step fo ns fn) vs tmp) = (snd \<circ> snd) ` set vs \<union> fst ` set tmp"
  using assms
proof (induction vs arbitrary: tmp)
  case (Cons v vs)
  then show ?case
    using metric_step_ok [OF Cons.prems, of fo v] by (simp add: metric_step_keys)
qed simp

text \<open>
  The metrics of a function have exactly one entry for each method that occurs in one of
  the three metric families, all of them for this function and namespace and without a
  message; a function that was never called has one entry, with an empty method.
\<close>

theorem parseMetrics_methods:
  assumes "parser raw = Inr families"
  shows "\<exists>ms. parseMetrics fo parser ns fn raw = Ok ms \<and> ms \<noteq> [] \<and> distinct (map mt_Method ms) \<and>
    set (map mt_Method ms) = (let used = (snd \<circ> snd) ` set (metric_visits families) in if used = {} then {[]} else used) \<and>
    list_all (\<lambda>t. mt_FunctionName t = fn \<and> mt_Namespace t = ns \<and> mt_Message t = []) ms"
proof -
  define tmp where "tmp = fold (metric_step fo ns fn) (metric_visits families) []"
  have f: "metrics_ok ns fn tmp" "fst ` set tmp = (snd \<circ> snd) ` set (metric_visits families)"
    using metric_fold [of ns fn "[]" fo "metric_visits families"] by (simp_all add: tmp_def metrics_ok_def)
  define all where "all = (if tmp = [] then [([], new_metric fo ns fn [] [])] else tmp)"
  have ok: "metrics_ok ns fn all"
    using f(1) by (simp add: all_def metrics_ok_def new_metric_def)
  then have m: "map mt_Method (map snd all) = map fst all"
    by (auto simp: metrics_ok_def list_all_iff)
  have "parseMetrics fo parser ns fn raw = Ok (map snd all)"
    using assms by (simp add: parseMetrics_def Let_def tmp_def all_def)
  moreover have "fst ` set all = (let used = (snd \<circ> snd) ` set (metric_visits families) in if used = {} then {[]} else used)"
    using f(2) [symmetric] by (simp add: all_def Let_def)
  moreover have "all \<noteq> []" "distinct (map mt_Method (map snd all))"
    using ok by (simp_all only: m) (simp_all add: all_def metrics_ok_def)
  moreover have "list_all (\<lambda>t. mt_FunctionName t = fn \<and> mt_Namespace t = ns \<and> mt_Message t = []) (map snd all)"
    using ok by (auto simp: metrics_ok_def list_all_iff)
  moreover have "set (map mt_Method (map snd all)) = fst ` set all"
    by (simp only: m list.set_map)
  ultimately show ?thesis
    by (intro exI [of _ "map snd all"] conjI) (simp_all only: map_is_Nil_conv simp_thms)
qed

end
