(* ===== verification/LayerBuilder.thy ===== *)
theory LayerBuilder
  imports KubeTypes Sha256
begin

text \<open>
  The image builder, \<open>pkg/function-image-builder\<close>: layers, the manifest and the description
  of an image stored in a directory, \<open>AddTarToLayer\<close>, and the command that copies an image,
  adds a layer to it and publishes the result. The file system is a map from paths to
  contents; the faults of a disk (a file that cannot be opened, created or written
  completely), the JSON codecs and the program \<open>skopeo\<close> are parameters. The lemmas show that
  the directory stays a content-addressed image: every digest of the manifest names a file
  whose SHA-256 it is, and the manifest is replaced last, so a failure leaves the old image.
\<close>

section \<open>Files\<close>

type_synonym files = "string \<rightharpoonup> string"

record disk =
  dk_open :: "string \<Rightarrow> gerror option"
  dk_read :: "string \<Rightarrow> gerror option"
  dk_stat :: "string \<Rightarrow> gerror option"
  dk_create :: "string \<Rightarrow> gerror option"
  dk_write :: "string \<Rightarrow> (nat \<times> gerror) option"
  dk_close :: "string \<Rightarrow> gerror option"

definition file_bytes :: "files \<Rightarrow> string \<Rightarrow> string" where
  "file_bytes fs p = (case fs p of None \<Rightarrow> [] | Some b \<Rightarrow> b)"

definition os_Open :: "disk \<Rightarrow> string \<Rightarrow> files \<Rightarrow> unit res" where
  "os_Open dk p fs =
     (case dk_open dk p of
        Some e \<Rightarrow> Err e
      | None \<Rightarrow> if fs p = None then Err (Errorf (''open '' @ p @ '': no such file or directory'')) else Ok ())"

definition ReadAll :: "disk \<Rightarrow> string \<Rightarrow> files \<Rightarrow> string res" where
  "ReadAll dk p fs = (case dk_read dk p of Some e \<Rightarrow> Err e | None \<Rightarrow> Ok (file_bytes fs p))"

text \<open>Writing to a created file; a fault leaves the bytes written before it.\<close>

definition write_bytes :: "disk \<Rightarrow> string \<Rightarrow> string \<Rightarrow> files \<Rightarrow> unit res \<times> files" where
  "write_bytes dk p bytes fs =
     (case dk_write dk p of
        Some (n, e) \<Rightarrow> (Err e, fs(p \<mapsto> take n bytes))
      | None \<Rightarrow> (Ok (), fs(p \<mapsto> bytes)))"

text \<open>
  The bytes are read after the destination was created: a reader of the same file finds it
  already truncated.
\<close>

definition copyReader :: "disk \<Rightarrow> (files \<Rightarrow> string) \<Rightarrow> string \<Rightarrow> files \<Rightarrow> unit res \<times> files" where
  "copyReader dk src dst fs =
     (case dk_create dk dst of
        Some e \<Rightarrow> (Err e, fs)
      | None \<Rightarrow>
          let fs1 = fs(dst \<mapsto> []) in
          bind_st (write_bytes dk dst (src fs1) fs1) (\<lambda>_ fs2.
            case dk_close dk dst of Some e \<Rightarrow> (Err e, fs2) | None \<Rightarrow> (Ok (), fs2)))"

definition copyFile :: "disk \<Rightarrow> string \<Rightarrow> string \<Rightarrow> files \<Rightarrow> unit res \<times> files" where
  "copyFile dk src dst fs =
     bind_st (os_Open dk src fs, fs) (\<lambda>_ fs. copyReader dk (\<lambda>fs. file_bytes fs src) dst fs)"

text \<open>\<open>ioutil.WriteFile\<close> creates, writes and closes, as \<open>copyReader\<close> does.\<close>

definition WriteFile :: "disk \<Rightarrow> string \<Rightarrow> string \<Rightarrow> files \<Rightarrow> unit res \<times> files" where
  "WriteFile dk p bytes fs = copyReader dk (\<lambda>_. bytes) p fs"

section \<open>Layers, manifest and description\<close>

record Layer =
  ly_Size :: int64
  ly_Sha256 :: string

definition Layer_New :: "disk \<Rightarrow> string \<Rightarrow> files \<Rightarrow> Layer res" where
  "Layer_New dk layerFile fs =
     bind_res (ReadAll dk layerFile fs) (\<lambda>fContent.
       case dk_stat dk layerFile of
         Some e \<Rightarrow> Err e
       | None \<Rightarrow> Ok \<lparr>ly_Size = word_of_nat (length (file_bytes fs layerFile)), ly_Sha256 = hex_encode (sha256 fContent)\<rparr>)"

record manifest_layer =
  ml_MediaType :: string
  ml_Size :: int64
  ml_Digest :: string

record Manifest =
  mf_SchemaVersion :: int
  mf_MediaType :: string
  mf_Config :: manifest_layer
  mf_Layers :: "manifest_layer list"

definition zero_Manifest :: Manifest where
  "zero_Manifest = \<lparr>mf_SchemaVersion = 0, mf_MediaType = [],
     mf_Config = \<lparr>ml_MediaType = [], ml_Size = 0, ml_Digest = []\<rparr>, mf_Layers = []\<rparr>"

record docker_config =
  dc_Hostname :: string
  dc_Domainname :: string
  dc_User :: string
  dc_AttachStdin :: bool
  dc_AttachStdout :: bool
  dc_AttachStderr :: bool
  dc_Tty :: bool
  dc_OpenStdin :: bool
  dc_StdinOnce :: bool
  dc_Env :: "string list"
  dc_Cmd :: "string list"
  dc_ArgsEscaped :: bool
  dc_Image :: string
  dc_Volumes :: string
  dc_WorkingDir :: string
  dc_Entrypoint :: string
  dc_OnBuild :: string
  dc_Labels :: string

record HistoryEntry =
  he_Created :: string
  he_CreatedBy :: string
  he_Comment :: string
  he_EmptyLayer :: bool

record Rootfs =
  rf_Type :: string
  rf_DiffIds :: "string list"

record Description =
  de_Arch :: string
  de_Config :: docker_config
  de_Container :: string
  de_ContainerConfig :: docker_config
  de_Created :: string
  de_DockerVersion :: string
  de_History :: "HistoryEntry list"
  de_OS :: string
  de_Rootfs :: Rootfs

text \<open>
  The package \<open>encoding/json\<close> at the two types. Unmarshalling fills the value it is given,
  also when it then reports an error. A field of type \<open>interface\<close> is kept as its JSON text.
\<close>

record image_json =
  ij_readManifest :: "string \<Rightarrow> Manifest \<Rightarrow> Manifest \<times> gerror option"
  ij_writeManifest :: "Manifest \<Rightarrow> gerror + string"
  ij_readDescription :: "string \<Rightarrow> gerror + Description"
  ij_writeDescription :: "Description \<Rightarrow> gerror + string"

definition Manifest_New :: "disk \<Rightarrow> image_json \<Rightarrow> string \<Rightarrow> files \<Rightarrow> Manifest res" where
  "Manifest_New dk js manifestFile fs =
     bind_res (ReadAll dk manifestFile fs) (\<lambda>manifestContent.
       case ij_readManifest js manifestContent zero_Manifest of
         (m, Some err) \<Rightarrow> Ok m
       | (m, None) \<Rightarrow> Ok m)"

definition UpdateConfig :: "Manifest \<Rightarrow> Layer \<Rightarrow> Manifest" where
  "UpdateConfig m newConfig =
     m\<lparr>mf_Config := (mf_Config m)\<lparr>ml_Size := ly_Size newConfig, ml_Digest := ''sha256:'' @ ly_Sha256 newConfig\<rparr>\<rparr>"

definition Manifest_AddLayer :: "Manifest \<Rightarrow> Layer \<Rightarrow> Manifest" where
  "Manifest_AddLayer m newLayer =
     m\<lparr>mf_Layers := mf_Layers m @
         [\<lparr>ml_MediaType = ''application/vnd.docker.image.rootfs.diff.tar.gzip'', ml_Size = ly_Size newLayer,
           ml_Digest = ''sha256:'' @ ly_Sha256 newLayer\<rparr>]\<rparr>"

definition Description_New :: "disk \<Rightarrow> image_json \<Rightarrow> string \<Rightarrow> files \<Rightarrow> Description res" where
  "Description_New dk js descriptionFile fs =
     bind_res (ReadAll dk descriptionFile fs) (\<lambda>descriptionContent.
       lift_sum (ij_readDescription js descriptionContent))"

text \<open>\<open>now\<close> and \<open>now'\<close> are the two readings of the clock.\<close>

definition Description_AddLayer :: "string \<Rightarrow> string \<Rightarrow> Description \<Rightarrow> Layer \<Rightarrow> Description" where
  "Description_AddLayer now now' d newLayer =
     d\<lparr>de_Config := (de_Config d)\<lparr>dc_Hostname := [], dc_Image := []\<rparr>,
       de_Container := [],
       de_ContainerConfig := (de_ContainerConfig d)\<lparr>dc_Hostname := [], dc_Image := []\<rparr>,
       de_Created := now,
       de_History := de_History d @
         [\<lparr>he_Created = now', he_CreatedBy = [], he_Comment = ''Created by Kubeless'', he_EmptyLayer = False\<rparr>],
       de_Rootfs := (de_Rootfs d)\<lparr>rf_DiffIds := rf_DiffIds (de_Rootfs d) @ [''sha256:'' @ ly_Sha256 newLayer]\<rparr>\<rparr>"

definition Content :: "image_json \<Rightarrow> Description \<Rightarrow> string res" where
  "Content js d = lift_sum (ij_writeDescription js d)"

definition ToLayer :: "image_json \<Rightarrow> Description \<Rightarrow> Layer res" where
  "ToLayer js d =
     bind_res (Content js d) (\<lambda>content.
       Ok \<lparr>ly_Size = word_of_nat (length content), ly_Sha256 = hex_encode (sha256 content)\<rparr>)"

section \<open>Adding a layer to an image\<close>

definition getLayer :: "disk \<Rightarrow> string \<Rightarrow> files \<Rightarrow> Layer res" where
  "getLayer dk file fs = bind_res (os_Open dk file fs) (\<lambda>_. Layer_New dk file fs)"

definition saveNewDescription :: "disk \<Rightarrow> string \<Rightarrow> string \<Rightarrow> string \<Rightarrow> files \<Rightarrow> unit res \<times> files" where
  "saveNewDescription dk content dir contentChecksum fs =
     copyReader dk (\<lambda>_. content) (path_join [dir, contentChecksum]) fs"

definition updateDescription ::
  "disk \<Rightarrow> image_json \<Rightarrow> string \<times> string \<Rightarrow> string \<Rightarrow> Layer \<Rightarrow> files \<Rightarrow> Description res" where
  "updateDescription dk js clock descriptionFile newLayer fs =
     bind_res (wrap_err ''Unable to parse image description: '' (Description_New dk js descriptionFile fs)) (\<lambda>d.
       Ok (Description_AddLayer (fst clock) (snd clock) d newLayer))"

definition AddTarToLayer ::
  "disk \<Rightarrow> image_json \<Rightarrow> string \<times> string \<Rightarrow> string \<Rightarrow> string \<Rightarrow> files \<Rightarrow> unit res \<times> files" where
  "AddTarToLayer dk js clock imageDir tarFile fs =
     bind_st (getLayer dk tarFile fs, fs) (\<lambda>tarLayer fs.
     let destFile = path_join [imageDir, ly_Sha256 tarLayer] in
     bind_st (wrap_st ''Failed to copy tar file: '' (copyFile dk tarFile destFile fs)) (\<lambda>_ fs.
     let manifestPath = path_join [imageDir, ''manifest.json''] in
     bind_st (os_Open dk manifestPath fs, fs) (\<lambda>_ fs.
     bind_st (wrap_err ''Failed to parse image manifest: '' (Manifest_New dk js manifestPath fs), fs) (\<lambda>m fs.
     let descriptionPath = path_join [imageDir, replace_all ''sha256:'' [] (ml_Digest (mf_Config m))] in
     bind_st (os_Open dk descriptionPath fs, fs) (\<lambda>_ fs.
     bind_st (updateDescription dk js clock descriptionPath tarLayer fs, fs) (\<lambda>description fs.
     bind_st (wrap_err ''Unable to generate layer from description: '' (ToLayer js description), fs) (\<lambda>descriptionLayer fs.
     bind_st (Content js description, fs) (\<lambda>descriptionContent fs.
     bind_st (saveNewDescription dk descriptionContent imageDir (ly_Sha256 descriptionLayer) fs) (\<lambda>_ fs.
     bind_st (lift_sum (ij_writeManifest js (Manifest_AddLayer (UpdateConfig m descriptionLayer) tarLayer)), fs) (\<lambda>mBytes fs.
     WriteFile dk manifestPath mBytes fs))))))))))"

section \<open>The command\<close>

text \<open>
  \<open>run\<close> runs a program with its arguments; it may change the file system and its exit status
  is an error or not. The flags are declared by the command, so that reading them succeeds.
\<close>

type_synonym runner = "string \<Rightarrow> string list \<Rightarrow> files \<Rightarrow> unit res \<times> files"

definition skopeo_args :: "string \<Rightarrow> string \<Rightarrow> string \<Rightarrow> string \<Rightarrow> bool \<Rightarrow> string list" where
  "skopeo_args src dst srcCreds dstCreds insecure =
     [''copy''] @ (if srcCreds \<noteq> [] then [''--src-creds'', srcCreds] else []) @
     (if dstCreds \<noteq> [] then [''--dest-creds'', dstCreds] else []) @
     (if insecure then [''--src-tls-verify=false'', ''--dest-tls-verify=false''] else []) @ [src, dst]"

definition skopeoCopy :: "runner \<Rightarrow> string \<Rightarrow> string \<Rightarrow> string \<Rightarrow> string \<Rightarrow> bool \<Rightarrow> files \<Rightarrow> unit res \<times> files" where
  "skopeoCopy run src dst srcCreds dstCreds insecure fs =
     run ''skopeo'' (skopeo_args src dst srcCreds dstCreds insecure) fs"

record layer_flags =
  lf_src :: string
  lf_src_creds :: string
  lf_dst :: string
  lf_dst_creds :: string
  lf_cwd :: string
  lf_insecure :: bool

definition layerCmd ::
  "disk \<Rightarrow> image_json \<Rightarrow> string \<times> string \<Rightarrow> runner \<Rightarrow> (files \<Rightarrow> string res \<times> files) \<Rightarrow> string list \<Rightarrow> layer_flags \<Rightarrow>
   files \<Rightarrow> unit res \<times> files" where
  "layerCmd dk js clock run tempDir args flags fs =
     (if length args \<noteq> 1 then (Panic (Exit ''Need exactly one argument - layer tar''), fs)
      else if lf_src flags = [] then (Panic (Exit ''Need specify the source image using the flag --src''), fs)
      else if lf_dst flags = [] then (Panic (Exit ''Need specify the destination image using the flag --dst''), fs)
      else
        bind_st (if lf_cwd flags = [] then fatal_err (tempDir fs) else (Ok (lf_cwd flags), fs)) (\<lambda>workDir fs.
        bind_st (fatal_err (skopeoCopy run (lf_src flags) (''dir://'' @ workDir)
                   (lf_src_creds flags) (lf_dst_creds flags) (lf_insecure flags) fs)) (\<lambda>_ fs.
        bind_st (fatal_err (AddTarToLayer dk js clock workDir (args ! 0) fs)) (\<lambda>_ fs.
        fatal_err (skopeoCopy run (''dir://'' @ workDir) (lf_dst flags)
                   (lf_src_creds flags) (lf_dst_creds flags) (lf_insecure flags) fs)))))"

section \<open>Content-addressed images\<close>

text \<open>
  The layer of some bytes, the file that holds them, and what a stored digest means.
\<close>

definition layer_of :: "string \<Rightarrow> Layer" where
  "layer_of bytes = \<lparr>ly_Size = word_of_nat (length bytes), ly_Sha256 = hex_encode (sha256 bytes)\<rparr>"

definition digest_of :: "string \<Rightarrow> string" where
  "digest_of bytes = ''sha256:'' @ hex_encode (sha256 bytes)"

definition blob :: "string \<Rightarrow> string \<Rightarrow> string" where
  "blob dir bytes = path_join [dir, hex_encode (sha256 bytes)]"

definition stored :: "files \<Rightarrow> string \<Rightarrow> string \<Rightarrow> bool" where
  "stored fs dir digest \<longleftrightarrow> (\<exists>bytes. digest = digest_of bytes \<and> fs (blob dir bytes) = Some bytes)"

definition manifest_path :: "string \<Rightarrow> string" where
  "manifest_path dir = path_join [dir, ''manifest.json'']"

text \<open>
  The directory holds an image: its manifest and its description can be read, each digest of
  the manifest names a file with that digest, and the description lists one difference for
  each layer.
\<close>

definition image_at :: "image_json \<Rightarrow> files \<Rightarrow> string \<Rightarrow> Manifest \<Rightarrow> Description \<Rightarrow> bool" where
  "image_at js fs dir m d \<longleftrightarrow>
     (\<exists>mc. fs (manifest_path dir) = Some mc \<and> ij_readManifest js mc zero_Manifest = (m, None)) \<and>
     (\<exists>dc. ml_Digest (mf_Config m) = digest_of dc \<and> fs (blob dir dc) = Some dc \<and> ij_readDescription js dc = Inr d) \<and>
     list_all (\<lambda>l. stored fs dir (ml_Digest l)) (mf_Layers m) \<and>
     length (rf_DiffIds (de_Rootfs d)) = length (mf_Layers m)"

definition new_description :: "string \<times> string \<Rightarrow> Description \<Rightarrow> string \<Rightarrow> Description" where
  "new_description clock d tar = Description_AddLayer (fst clock) (snd clock) d (layer_of tar)"

definition new_manifest :: "Manifest \<Rightarrow> string \<Rightarrow> string \<Rightarrow> Manifest" where
  "new_manifest m dc tar = Manifest_AddLayer (UpdateConfig m (layer_of dc)) (layer_of tar)"

lemma plain_sha [simp]: "plain_name (hex_encode (sha256 bytes))"
  using length_sha256 [of bytes] by (intro plain_hex_encode) (cases "sha256 bytes"; simp)

lemma plain_manifest [simp]: "plain_name ''manifest.json''"
  by (simp add: plain_name_def)

lemma blob_not_manifest [simp]: "blob dir bytes \<noteq> manifest_path dir" "manifest_path dir \<noteq> blob dir bytes"
proof -
  have "length (hex_encode (sha256 bytes)) \<noteq> length ''manifest.json''"
    by simp
  then have "hex_encode (sha256 bytes) \<noteq> ''manifest.json''"
    by metis
  then show "blob dir bytes \<noteq> manifest_path dir" "manifest_path dir \<noteq> blob dir bytes"
    by (simp_all add: blob_def manifest_path_def path_join_inj eq_commute)
qed

lemma blob_eq_iff: "blob dir a = blob dir b \<longleftrightarrow> digest_of a = digest_of b"
  by (simp add: blob_def digest_of_def path_join_inj)

lemma replace_absent: "c \<notin> set s \<Longrightarrow> replace_all (c # old) new s = s"
  by (induction s) auto

lemma digest_path: "path_join [dir, replace_all ''sha256:'' [] (digest_of bytes)] = blob dir bytes"
proof -
  have "replace_all ''sha256:'' [] (hex_encode (sha256 bytes)) = hex_encode (sha256 bytes)"
    using set_hex_encode [of "sha256 bytes"] by (intro replace_absent) auto
  then show ?thesis by (simp add: digest_of_def blob_def)
qed

lemma copyReader_other: "p \<noteq> dst \<Longrightarrow> snd (copyReader dk src dst fs) p = fs p"
  by (auto simp: copyReader_def write_bytes_def Let_def split: option.splits)

lemma copyReader_Ok:
  "copyReader dk src dst fs = (Ok (), fs') \<Longrightarrow> fs' = fs(dst \<mapsto> src (fs(dst \<mapsto> [])))"
  by (auto simp: copyReader_def write_bytes_def Let_def split: option.splits)

lemma copyFile_other: "p \<noteq> dst \<Longrightarrow> snd (copyFile dk src dst fs) p = fs p"
  by (cases "os_Open dk src fs") (auto simp: copyFile_def copyReader_other)

lemma copyFile_Ok: "copyFile dk src dst fs = (Ok (), fs') \<Longrightarrow> src \<noteq> dst \<Longrightarrow> fs' = fs(dst \<mapsto> file_bytes fs src)"
  by (cases "os_Open dk src fs") (auto simp: copyFile_def file_bytes_def dest: copyReader_Ok)

lemma stored_mono:
  assumes "stored fs dir digest"
    and "\<And>bytes. digest = digest_of bytes \<Longrightarrow> fs' (blob dir bytes) = fs (blob dir bytes) \<or>
           (\<exists>b. fs' (blob dir bytes) = Some b \<and> blob dir b = blob dir bytes)"
  shows "stored fs' dir digest"
proof -
  obtain bytes where b: "digest = digest_of bytes" "fs (blob dir bytes) = Some bytes"
    using assms(1) by (auto simp: stored_def)
  from assms(2) [OF b(1)] show ?thesis
    using b by (metis blob_eq_iff stored_def)
qed

lemma stored_put_blob: "stored fs dir digest \<Longrightarrow> stored (fs(blob dir b \<mapsto> b)) dir digest"
  by (erule stored_mono) auto

lemma stored_put_manifest: "stored fs dir digest \<Longrightarrow> stored (fs(manifest_path dir \<mapsto> b)) dir digest"
  by (erule stored_mono) auto

lemma stored_new: "stored (fs(blob dir b \<mapsto> b)) dir (digest_of b)"
  by (auto simp: stored_def)

text \<open>
  What the body does to an image whose description is not the added file itself.
\<close>

lemma getLayer_Ok: "getLayer dk p fs = Ok l \<Longrightarrow> fs p = Some bytes \<Longrightarrow> l = layer_of bytes"
  by (auto simp: getLayer_def Layer_New_def ReadAll_def file_bytes_def layer_of_def res_simps split: option.splits)

lemma saved_manifest:
  assumes "Manifest_New dk js (manifest_path dir) fs = Ok m'" and "fs (manifest_path dir) = Some mc"
    and "ij_readManifest js mc zero_Manifest = (m, None)"
  shows "m' = m"
  using assms by (auto simp: Manifest_New_def ReadAll_def file_bytes_def res_simps split: option.splits)

lemma saved_description:
  assumes "updateDescription dk js clock p l fs = Ok d'" and "fs p = Some dc" and "ij_readDescription js dc = Inr d"
  shows "d' = Description_AddLayer (fst clock) (snd clock) d l"
  using assms
  by (auto simp: updateDescription_def Description_New_def ReadAll_def file_bytes_def res_simps split: option.splits)

lemma ToLayer_Content:
  "ToLayer js d = Ok dl \<Longrightarrow> Content js d = Ok dc \<Longrightarrow> dl = layer_of dc \<and> ij_writeDescription js d = Inr dc"
  by (auto simp: ToLayer_def Content_def layer_of_def res_simps)

lemma blob_layer [simp]: "path_join [dir, ly_Sha256 (layer_of x)] = blob dir x"
  by (simp add: layer_of_def blob_def)

text \<open>The manifest and the description are still there after the tar file was copied.\<close>

lemma image_after_copy:
  assumes "image_at js fs dir m d" and "fs (blob dir tar) = None \<or> fs (blob dir tar) = Some tar"
  obtains mc dc where "(fs(blob dir tar \<mapsto> tar)) (manifest_path dir) = Some mc"
    and "ij_readManifest js mc zero_Manifest = (m, None)" and "ml_Digest (mf_Config m) = digest_of dc"
    and "(fs(blob dir tar \<mapsto> tar)) (blob dir dc) = Some dc" and "ij_readDescription js dc = Inr d"
proof -
  obtain mc dc where m: "fs (manifest_path dir) = Some mc" "ij_readManifest js mc zero_Manifest = (m, None)"
    and d: "ml_Digest (mf_Config m) = digest_of dc" "fs (blob dir dc) = Some dc" "ij_readDescription js dc = Inr d"
    using assms(1) by (auto simp: image_at_def)
  have "(fs(blob dir tar \<mapsto> tar)) (blob dir dc) = Some dc"
    using assms(2) d(2) by auto
  with that m d show thesis by simp
qed

lemma AddTarToLayer_Ok:
  assumes img: "image_at js fs dir m d" and tar: "fs tarFile = Some tar" "tarFile \<noteq> blob dir tar"
    and new: "fs (blob dir tar) = None \<or> fs (blob dir tar) = Some tar"
    and ok: "AddTarToLayer dk js clock dir tarFile fs = (Ok (), fs')"
  obtains dc mc where "ij_writeDescription js (new_description clock d tar) = Inr dc"
    and "ij_writeManifest js (new_manifest m dc tar) = Inr mc"
    and "fs' = fs(blob dir tar \<mapsto> tar, blob dir dc \<mapsto> dc, manifest_path dir \<mapsto> mc)"
proof -
  define fs1 where "fs1 = fs(blob dir tar \<mapsto> tar)"
  obtain mc0 dc0 where mf: "fs1 (manifest_path dir) = Some mc0" "ij_readManifest js mc0 zero_Manifest = (m, None)"
    and df: "ml_Digest (mf_Config m) = digest_of dc0" "fs1 (blob dir dc0) = Some dc0" "ij_readDescription js dc0 = Inr d"
    unfolding fs1_def by (rule image_after_copy [OF img new])
  obtain tl s1 m' d' dl dc s2 mc where
    a: "getLayer dk tarFile fs = Ok tl" and b: "copyFile dk tarFile (path_join [dir, ly_Sha256 tl]) fs = (Ok (), s1)"
    and c: "Manifest_New dk js (manifest_path dir) s1 = Ok m'"
    and e: "updateDescription dk js clock
      (path_join [dir, replace_all ''sha256:'' [] (ml_Digest (mf_Config m'))]) tl s1 = Ok d'"
    and f: "ToLayer js d' = Ok dl" "Content js d' = Ok dc"
    and g: "saveNewDescription dk dc dir (ly_Sha256 dl) s1 = (Ok (), s2)"
    and h: "ij_writeManifest js (Manifest_AddLayer (UpdateConfig m' dl) tl) = Inr mc"
      "WriteFile dk (manifest_path dir) mc s2 = (Ok (), fs')"
    using ok by (auto simp: AddTarToLayer_def res_simps Let_def manifest_path_def)
  have tl: "tl = layer_of tar"
    using getLayer_Ok a tar(1) by blast
  have s1: "s1 = fs1"
    using copyFile_Ok b tar by (fastforce simp: tl fs1_def file_bytes_def)
  have m': "m' = m"
    using saved_manifest [OF c] mf by (simp add: s1)
  have d': "d' = new_description clock d tar"
    using saved_description [OF e] df by (simp add: s1 m' tl digest_path new_description_def)
  have dl: "dl = layer_of dc" "ij_writeDescription js d' = Inr dc"
    using ToLayer_Content f by blast+
  have s2: "s2 = fs1(blob dir dc \<mapsto> dc)"
    using g copyReader_Ok by (fastforce simp: saveNewDescription_def dl s1)
  have "fs' = s2(manifest_path dir \<mapsto> mc)"
    using h(2) copyReader_Ok by (fastforce simp: WriteFile_def)
  then show thesis
    using that dl h(1) by (simp add: d' m' tl new_manifest_def s2 fs1_def)
qed

text \<open>
  C17: Adding a tar file to an image stored in a directory gives an image again: the manifest
  has exactly one layer more, at the end, the file is stored under its own digest, the new
  description is stored under the digest the manifest gives for it, and every digest of the
  manifest still names a file with that SHA-256. This needs of the JSON codecs that what
  they write they read back.
\<close>

theorem AddTarToLayer_image:
  assumes "image_at js fs dir m d" and "fs tarFile = Some tar" and "tarFile \<noteq> blob dir tar"
    and "fs (blob dir tar) = None \<or> fs (blob dir tar) = Some tar"
    and "\<And>m c. ij_writeManifest js m = Inr c \<Longrightarrow> ij_readManifest js c zero_Manifest = (m, None)"
    and "\<And>d c. ij_writeDescription js d = Inr c \<Longrightarrow> ij_readDescription js c = Inr d"
    and "AddTarToLayer dk js clock dir tarFile fs = (Ok (), fs')"
  shows "\<exists>dc. image_at js fs' dir (new_manifest m dc tar) (new_description clock d tar) \<and> fs' (blob dir dc) = Some dc \<and>
    map ml_Digest (mf_Layers (new_manifest m dc tar)) = map ml_Digest (mf_Layers m) @ [digest_of tar] \<and>
    rf_DiffIds (de_Rootfs (new_description clock d tar)) = rf_DiffIds (de_Rootfs d) @ [digest_of tar]"
proof -
  obtain dc mc where w: "ij_writeDescription js (new_description clock d tar) = Inr dc"
      "ij_writeManifest js (new_manifest m dc tar) = Inr mc"
    and fs': "fs' = fs(blob dir tar \<mapsto> tar, blob dir dc \<mapsto> dc, manifest_path dir \<mapsto> mc)"
    using AddTarToLayer_Ok [OF assms(1-4,7)] .
  have st: "stored fs' dir digest" if "stored fs dir digest" for digest
    unfolding fs' by (intro stored_put_manifest stored_put_blob that)
  have "stored fs' dir (digest_of tar)"
    unfolding fs' by (intro stored_put_manifest stored_put_blob stored_new)
  then have "image_at js fs' dir (new_manifest m dc tar) (new_description clock d tar)"
    using assms(1) assms(5) [OF w(2)] assms(6) [OF w(1)] st
    by (auto simp: image_at_def fs' new_manifest_def new_description_def Manifest_AddLayer_def UpdateConfig_def
        Description_AddLayer_def layer_of_def digest_of_def list_all_iff)
  then show ?thesis
    by (intro exI [of _ dc])
       (simp add: fs' new_manifest_def new_description_def Manifest_AddLayer_def UpdateConfig_def
        Description_AddLayer_def layer_of_def digest_of_def)
qed

text \<open>A file that is overwritten with the bytes it has already, completely, is as it was.\<close>

lemma copyReader_keeps:
  assumes "fs p = Some x" and "p = dst \<Longrightarrow> src (fs(dst \<mapsto> [])) = x \<and> dk_write dk dst = None"
  shows "snd (copyReader dk src dst fs) p = Some x"
  using assms by (cases "p = dst") (auto simp: copyReader_def write_bytes_def Let_def split: option.splits)

lemma image_at_mono:
  assumes "image_at js fs dir m d" and keep: "\<And>p x. fs p = Some x \<Longrightarrow> fs' p = Some x"
  shows "image_at js fs' dir m d"
  using assms by (fastforce simp: image_at_def list_all_iff stored_def)

text \<open>
  A file can be written safely when it is new, or has the same bytes and will be rewritten
  completely.
\<close>

definition safe_target :: "disk \<Rightarrow> files \<Rightarrow> string \<Rightarrow> string \<Rightarrow> bool" where
  "safe_target dk fs p bytes \<longleftrightarrow> fs p = None \<or> fs p = Some bytes \<and> dk_write dk p = None"

lemma WriteFile_failed:
  assumes "WriteFile dk p bytes fs = (r, fs')" and "r \<noteq> Ok ()" and "dk_write dk p = None" and "dk_close dk p = None"
  shows "fs' = fs"
  using assms by (auto simp: WriteFile_def copyReader_def write_bytes_def Let_def split: option.splits)

lemma copyFile_keeps:
  assumes "fs src = Some bytes" and "src \<noteq> dst" and "safe_target dk fs dst bytes" and "fs p = Some x"
  shows "snd (copyFile dk src dst fs) p = Some x"
proof -
  have "snd (copyReader dk (\<lambda>fs. file_bytes fs src) dst fs) p = Some x"
    using assms by (intro copyReader_keeps) (auto simp: safe_target_def file_bytes_def)
  with assms(4) show ?thesis by (cases "os_Open dk src fs") (simp_all add: copyFile_def)
qed

lemma publish_keeps:
  assumes disk: "dk_write dk mp = None" "dk_close dk mp = None"
    and x: "fs p = Some x" "p = blob dir dc \<Longrightarrow> dc = x \<and> dk_write dk p = None"
    and bad: "fst (bind_st (saveNewDescription dk dc dir (ly_Sha256 (layer_of dc)) fs) (\<lambda>_ fs.
      bind_st (lift_sum y, fs) (\<lambda>mBytes fs. WriteFile dk mp mBytes fs))) \<noteq> Ok ()"
  shows "snd (bind_st (saveNewDescription dk dc dir (ly_Sha256 (layer_of dc)) fs) (\<lambda>_ fs.
      bind_st (lift_sum y, fs) (\<lambda>mBytes fs. WriteFile dk mp mBytes fs))) p = Some x"
proof -
  obtain q s where s: "saveNewDescription dk dc dir (ly_Sha256 (layer_of dc)) fs = (q, s)" by fastforce
  have "s p = Some x"
    using copyReader_keeps [of fs p x "blob dir dc" "\<lambda>_. dc" dk] s x by (simp add: saveNewDescription_def)
  then show ?thesis
    using bad WriteFile_failed [OF prod.collapse [symmetric] _ disk] by (cases q; cases y) (auto simp: s)
qed

text \<open>A run that fails leaves every file as it was.\<close>

lemma AddTarToLayer_keeps:
  assumes img: "image_at js fs dir m d" and tar: "fs tarFile = Some tar" "tarFile \<noteq> blob dir tar"
    and disk: "dk_write dk (manifest_path dir) = None" "dk_close dk (manifest_path dir) = None"
    and safe: "safe_target dk fs (blob dir tar) tar"
      "\<And>dc. ij_writeDescription js (new_description clock d tar) = Inr dc \<Longrightarrow> safe_target dk fs (blob dir dc) dc"
    and run: "AddTarToLayer dk js clock dir tarFile fs = (r, fs')" and bad: "r \<noteq> Ok ()" and x: "fs p = Some x"
  shows "fs' p = Some x"
proof -
  have new: "fs (blob dir tar) = None \<or> fs (blob dir tar) = Some tar"
    using safe(1) by (auto simp: safe_target_def)
  define fs1 where "fs1 = fs(blob dir tar \<mapsto> tar)"
  obtain mc0 dc0 where mf: "fs1 (manifest_path dir) = Some mc0" "ij_readManifest js mc0 zero_Manifest = (m, None)"
    and df: "ml_Digest (mf_Config m) = digest_of dc0" "fs1 (blob dir dc0) = Some dc0" "ij_readDescription js dc0 = Inr d"
    unfolding fs1_def by (rule image_after_copy [OF img new])
  have x1: "fs1 p = Some x" using x new by (auto simp: fs1_def)
  define Q where "Q y \<longleftrightarrow> (fst y \<noteq> Ok () \<longrightarrow> snd y p = Some x)" for y :: "unit res \<times> files"
  have pure: "Q (bind_st (y, fs1) f)" if "\<And>z. y = Ok z \<Longrightarrow> Q (f z fs1)" for y :: "'z res" and f
    using that x1 by (cases y) (auto simp: Q_def)
  have last: "Q (bind_st (saveNewDescription dk dc dir (ly_Sha256 (layer_of dc)) fs1) (\<lambda>_ fs.
      bind_st (lift_sum y, fs) (\<lambda>mBytes fs. WriteFile dk (manifest_path dir) mBytes fs)))"
    if "ij_writeDescription js (new_description clock d tar) = Inr dc" for dc y
    unfolding Q_def using safe(2) [OF that] x
    by (intro impI publish_keeps [where fs = fs1] disk x1) (auto simp: safe_target_def)
  have mm: "m' = m" if "Manifest_New dk js (manifest_path dir) fs1 = Ok m'" for m'
    using saved_manifest that mf by blast
  have dd: "d' = new_description clock d tar"
    if "updateDescription dk js clock (blob dir dc0) (layer_of tar) fs1 = Ok d'" for d'
    using saved_description [OF that] df by (simp add: new_description_def)
  have "Q (AddTarToLayer dk js clock dir tarFile fs)"
  proof (cases "getLayer dk tarFile fs")
    case (Ok tl)
    then have tl: "tl = layer_of tar" using getLayer_Ok tar(1) by blast
    obtain q s1 where cp: "copyFile dk tarFile (blob dir tar) fs = (q, s1)" by fastforce
    show ?thesis
    proof (cases "q = Ok ()")
      case True
      then have s1: "s1 = fs1"
        using copyFile_Ok [OF _ tar(2), of dk fs s1] cp tar(1) by (simp add: fs1_def file_bytes_def)
      show ?thesis
        unfolding AddTarToLayer_def
        by (simp add: Ok tl Let_def cp True s1 manifest_path_def [symmetric], intro pure)
           (auto simp: df(1) digest_path dest!: mm dd dest: ToLayer_Content intro!: last)
    next
      case False
      have "s1 p = Some x" using copyFile_keeps [OF tar safe(1) x] cp by simp
      with False show ?thesis
        by (cases q) (auto simp: AddTarToLayer_def Ok tl Let_def cp Q_def)
    qed
  qed (simp_all add: AddTarToLayer_def Q_def x)
  then show ?thesis using run bad by (simp add: Q_def)
qed


definition no_faults :: disk where
  "no_faults = \<lparr>dk_open = Map.empty, dk_read = Map.empty, dk_stat = Map.empty, dk_create = Map.empty,
     dk_write = Map.empty, dk_close = Map.empty\<rparr>"

lemma no_faults_sel [simp]:
  "dk_open no_faults p = None" "dk_read no_faults p = None" "dk_stat no_faults p = None"
  "dk_create no_faults p = None" "dk_write no_faults p = None" "dk_close no_faults p = None"
  by (simp_all add: no_faults_def)

lemma AddTarToLayer_fault_free:
  assumes "image_at js fs dir m d" and "fs tarFile = Some tar" and "tarFile \<noteq> blob dir tar"
    and "fs (blob dir tar) = None \<or> fs (blob dir tar) = Some tar"
    and "ij_writeDescription js (new_description clock d tar) = Inr dc"
    and "ij_writeManifest js (new_manifest m dc tar) = Inr mc"
  shows "AddTarToLayer no_faults js clock dir tarFile fs =
    (Ok (), fs(blob dir tar \<mapsto> tar, blob dir dc \<mapsto> dc, manifest_path dir \<mapsto> mc))"
proof -
  obtain mc0 dc0 where mf: "(fs(blob dir tar \<mapsto> tar)) (manifest_path dir) = Some mc0"
      "ij_readManifest js mc0 zero_Manifest = (m, None)"
    and df: "ml_Digest (mf_Config m) = digest_of dc0" "(fs(blob dir tar \<mapsto> tar)) (blob dir dc0) = Some dc0"
      "ij_readDescription js dc0 = Inr d"
    by (rule image_after_copy [OF assms(1,4)])
  note fault_free = os_Open_def ReadAll_def file_bytes_def copyReader_def write_bytes_def
  have l: "getLayer no_faults tarFile fs = Ok (layer_of tar)"
    using assms(2) by (simp add: getLayer_def Layer_New_def fault_free layer_of_def)
  have c: "copyFile no_faults tarFile (blob dir tar) fs = (Ok (), fs(blob dir tar \<mapsto> tar))"
    using assms(2,3) by (simp add: copyFile_def fault_free)
  have d: "updateDescription no_faults js clock (blob dir dc0) (layer_of tar) (fs(blob dir tar \<mapsto> tar)) = Ok (new_description clock d tar)"
    using df(2,3)
    by (simp add: updateDescription_def Description_New_def fault_free new_description_def)
  have t: "ToLayer js (new_description clock d tar) = Ok (layer_of dc)"
    using assms(5) by (simp add: ToLayer_def Content_def layer_of_def)
  show ?thesis
    using mf df assms(5,6)
    by (simp add: AddTarToLayer_def l c Let_def manifest_path_def [symmetric] Manifest_New_def digest_path d t Content_def
        saveNewDescription_def WriteFile_def fault_free new_manifest_def)
qed

text \<open>
  C35: On a disk without faults the builder does add the layer: when the image can be read and
  the new description and manifest can be encoded, the call returns without an error.
\<close>

theorem AddTarToLayer_succeeds:
  assumes "image_at js fs dir m d" and "fs tarFile = Some tar" and "tarFile \<noteq> blob dir tar"
    and "fs (blob dir tar) = None \<or> fs (blob dir tar) = Some tar"
    and "ij_writeDescription js (new_description clock d tar) = Inr dc"
    and "ij_writeManifest js (new_manifest m dc tar) = Inr mc"
  shows "AddTarToLayer no_faults js clock dir tarFile fs =
    (Ok (), fs(blob dir tar \<mapsto> tar, blob dir dc \<mapsto> dc, manifest_path dir \<mapsto> mc))"
  using assms by (rule AddTarToLayer_fault_free)

end
