(* ===== verification/Worker.thy ===== *)
theory Worker
  imports ControllerLaws
begin

text \<open>
  Progress of the worker of the controller: when no new events arrive, the queue is drained
  after a bounded number of items, because a key that keeps failing is given up after its
  sixth attempt. The keys waiting in the work queue, also those that wait for their delay to
  pass, are observed by a function; its laws are what the work queue documents.
\<close>

definition pending_laws :: "'q queue_ops \<Rightarrow> ('q \<Rightarrow> string set) \<Rightarrow> bool" where
  "pending_laws q pending \<longleftrightarrow>
     (\<forall>k qs. finite (pending qs) \<and>
        (pending qs \<noteq> {} \<longrightarrow> \<not> snd (fst (q_Get q qs)) \<and> fst (fst (q_Get q qs)) \<in> pending qs \<and>
           pending (snd (q_Get q qs)) = pending qs - {fst (fst (q_Get q qs))}) \<and>
        pending (q_Done q k qs) = pending qs \<and> pending (q_Forget q k qs) = pending qs \<and>
        pending (q_AddRateLimited q k qs) = insert k (pending qs))"

text \<open>The body of the worker's loop, a number of times; it ends early on a panic or a shutdown.\<close>

fun work ::
  "'q queue_ops \<Rightarrow> 's externals \<Rightarrow> 's controller \<Rightarrow> nat \<Rightarrow> 's ctl_state \<times> 'q \<Rightarrow> bool res \<times> 's ctl_state \<times> 'q" where
  "work q ex c 0 w = (Ok True, w)"
| "work q ex c (Suc n) w =
     (case processNextItem q ex c w of
        (Ok True, w') \<Rightarrow> work q ex c n w'
      | r \<Rightarrow> r)"

text \<open>The worker went on until no key was waiting, or the controller panicked.\<close>

definition drained :: "('q \<Rightarrow> string set) \<Rightarrow> bool res \<times> 's ctl_state \<times> 'q \<Rightarrow> bool" where
  "drained pending = (\<lambda>(r, st, qs).
     case r of Ok b \<Rightarrow> b \<and> pending qs = {} | Err e \<Rightarrow> False | Panic p \<Rightarrow> True)"

text \<open>How often the waiting keys can still be attempted.\<close>

definition attempts_left :: "'q queue_ops \<Rightarrow> 'q \<Rightarrow> string \<Rightarrow> nat" where
  "attempts_left q qs k = Suc (maxRetries - q_NumRequeues q k qs)"

definition work_left :: "'q queue_ops \<Rightarrow> ('q \<Rightarrow> string set) \<Rightarrow> 'q \<Rightarrow> nat" where
  "work_left q pending qs = (\<Sum>k \<in> pending qs. attempts_left q qs k)"

lemma work_left_bound: "finite (pending qs) \<Longrightarrow> work_left q pending qs \<le> Suc maxRetries * card (pending qs)"
  unfolding work_left_def attempts_left_def
  by (rule order_trans [OF sum_bounded_above [of _ _ "Suc maxRetries"]]) auto

lemma processNextItem_progress:
  assumes "queue_laws q" and "pending_laws q pending" and "pending qs \<noteq> {}"
    and "processNextItem q ex c (st, qs) = (r, st', qs')" and "\<forall>p. r \<noteq> Panic p"
  shows "r = Ok True \<and> work_left q pending qs' < work_left q pending qs"
proof -
  obtain key quit qs1 where g: "q_Get q qs = ((key, quit), qs1)" by (metis prod.collapse)
  have key: "\<not> quit" "key \<in> pending qs" "pending qs1 = pending qs - {key}"
    and fin: "finite (pending qs)"
    using assms(2,3) g unfolding pending_laws_def by (metis fst_conv snd_conv)+
  have n: "q_NumRequeues q k qs1 = q_NumRequeues q k qs" for k
    using assms(1) g unfolding queue_laws_def by (metis snd_conv)
  obtain x where x: "r = Ok True" "qs' = q_Done q key (requeue q x key qs1)" "\<forall>p. x \<noteq> Panic p"
    using assms(4,5) g key(1) by (auto simp: processNextItem_def split: prod.splits res.splits)
  have count: "q_NumRequeues q k qs' = (if k \<noteq> key then q_NumRequeues q k qs
      else case x of Ok _ \<Rightarrow> 0 | Err e \<Rightarrow> if q_NumRequeues q k qs < maxRetries then Suc (q_NumRequeues q k qs) else 0
        | Panic p \<Rightarrow> q_NumRequeues q k qs)" for k
    using assms(1) by (simp add: x(2) queue_laws_def requeue_count [OF assms(1)] n split: res.split)
  have pend: "pending qs' = (if (\<exists>e. x = Err e) \<and> q_NumRequeues q key qs < maxRetries then pending qs else pending qs - {key})"
    using assms(2) key x(3) n
    by (auto simp: x(2) pending_laws_def requeue_def insert_absorb split: res.splits)
  have others: "(\<Sum>k \<in> pending qs - {key}. attempts_left q qs' k) = (\<Sum>k \<in> pending qs - {key}. attempts_left q qs k)"
    by (intro sum.cong) (auto simp: attempts_left_def count)
  have whole: "work_left q pending qs = attempts_left q qs key + (\<Sum>k \<in> pending qs - {key}. attempts_left q qs k)"
    unfolding work_left_def using fin key(2) by (rule sum.remove)
  show ?thesis
  proof (cases "(\<exists>e. x = Err e) \<and> q_NumRequeues q key qs < maxRetries")
    case True
    then have "work_left q pending qs' = attempts_left q qs' key + (\<Sum>k \<in> pending qs - {key}. attempts_left q qs' k)"
      unfolding work_left_def using fin key(2) by (simp add: pend sum.remove)
    moreover have "attempts_left q qs' key < attempts_left q qs key"
      using True by (auto simp: attempts_left_def count)
    ultimately show ?thesis using whole others x(1) by simp
  next
    case False
    then have "pending qs' = pending qs - {key}" by (simp only: pend if_False)
    then have "work_left q pending qs' = (\<Sum>k \<in> pending qs - {key}. attempts_left q qs' k)"
      by (simp only: work_left_def)
    moreover have "0 < attempts_left q qs key" by (simp add: attempts_left_def)
    ultimately show ?thesis using whole others x(1) by linarith
  qed
qed

lemma work_drains:
  assumes "queue_laws q" and "pending_laws q pending"
  shows "\<exists>n \<le> work_left q pending qs. drained pending (work q ex c n (st, qs))"
proof (induction "work_left q pending qs" arbitrary: st qs rule: less_induct)
  case less
  show ?case
  proof (cases "pending qs = {}")
    case True
    then show ?thesis by (intro exI [of _ 0]) (simp add: drained_def)
  next
    case False
    obtain r st' qs' where p: "processNextItem q ex c (st, qs) = (r, st', qs')" by (metis prod.collapse)
    show ?thesis
    proof (cases "\<exists>p. r = Panic p")
      case True
      moreover have "0 < work_left q pending qs"
        using False assms(2) unfolding work_left_def attempts_left_def pending_laws_def by (auto intro!: sum_pos)
      ultimately show ?thesis using p by (intro exI [of _ "Suc 0"]) (auto simp: drained_def)
    next
      case nopanic: False
      then have prog: "r = Ok True" "work_left q pending qs' < work_left q pending qs"
        using processNextItem_progress [OF assms False p] by auto
      obtain n where "n \<le> work_left q pending qs'" "drained pending (work q ex c n (st', qs'))"
        using less.hyps [OF prog(2), of st'] by blast
      then show ?thesis using p prog by (intro exI [of _ "Suc n"]) simp
    qed
  qed
qed

text \<open>
  C16: When no new events arrive the worker drains the queue: after at most six items for each
  key that was waiting, no key is left, because each was processed successfully or given up.
  Only a panic of the controller can end it earlier. The work queue is only assumed to hand
  out each waiting key and to take keys back as documented.
\<close>

theorem worker_drains_queue:
  assumes "queue_laws q" and "pending_laws q pending"
  shows "\<exists>n \<le> 6 * card (pending qs). drained pending (work q ex c n (st, qs))"
proof -
  have "work_left q pending qs \<le> 6 * card (pending qs)"
    using work_left_bound [of pending qs q] assms(2) by (simp add: pending_laws_def maxRetries_def)
  then show ?thesis
    using work_drains [OF assms, of qs ex c st] by (meson order_trans)
qed

end
