(* ===== verification/Proxy.thy ===== *)
theory Proxy
  imports KubeTypes
begin

text \<open>
  The proxy in front of a compiled function, \<open>pkg/function-proxy\<close>: its configuration, the
  handler that runs a function under a timeout and counts calls and failures, logging, the
  health check and the forwarding of requests. Each request is served by two goroutines, the
  one that runs the function and the one that waits for it or for the timer; the proxy is a
  step relation over any number of requests, so that its invariant covers every interleaving.
\<close>

section \<open>Configuration\<close>

record proxy_config =
  px_timeout :: string
  px_funcPort :: string
  px_shutdownTimeout :: string
  px_intTimeout :: int
  px_intShutdownTimeout :: int

definition or_default :: "string \<Rightarrow> string \<Rightarrow> string" where
  "or_default v d = (if v = [] then d else v)"

definition atoi_or_panic :: "string \<Rightarrow> int res" where
  "atoi_or_panic s = (case Atoi s of (i, None) \<Rightarrow> Ok i | (_, Some err) \<Rightarrow> Panic (Raised err))"

definition init :: "(string \<Rightarrow> string) \<Rightarrow> proxy_config res" where
  "init getenv =
     (let timeout = or_default (getenv ''FUNC_TIMEOUT'') ''180'';
          funcPort = or_default (getenv ''FUNC_PORT'') ''8080'';
          shutdownTimeout = or_default (getenv ''SHUTDOWN_TIMEOUT'') ''10'' in
      bind_res (atoi_or_panic timeout) (\<lambda>intTimeout.
      bind_res (atoi_or_panic shutdownTimeout) (\<lambda>intShutdownTimeout.
      Ok \<lparr>px_timeout = timeout, px_funcPort = funcPort, px_shutdownTimeout = shutdownTimeout,
          px_intTimeout = intTimeout, px_intShutdownTimeout = intShutdownTimeout\<rparr>)))"

definition NewServer_Addr :: "proxy_config \<Rightarrow> string" where
  "NewServer_Addr cfg = '':'' @ px_funcPort cfg"

section \<open>Headers and the forwarded request\<close>

type_synonym header = "(string \<times> string list) list"

text \<open>The keys of a received header are in canonical form, so that \<open>Add\<close> uses them as they are.\<close>

definition header_add :: "header \<Rightarrow> string \<Rightarrow> string \<Rightarrow> header" where
  "header_add h k v = AList.update k ((case map_of h k of None \<Rightarrow> [] | Some vs \<Rightarrow> vs) @ [v]) h"

fun add_values :: "header \<Rightarrow> string \<Rightarrow> string list \<Rightarrow> header" where
  "add_values dst k [] = dst"
| "add_values dst k (v # vv) = add_values (header_add dst k v) k vv"

fun copyHeaders :: "header \<Rightarrow> header \<Rightarrow> header" where
  "copyHeaders dst [] = dst"
| "copyHeaders dst ((k, vv) # src) = copyHeaders (add_values dst k vv) src"

record http_request =
  hq_Method :: string
  hq_URL :: string
  hq_Header :: header
  hq_Body :: string
  hq_ContentLength :: int

definition handle ::
  "(http_request \<Rightarrow> ('s, gerror + string) api) \<Rightarrow> (string \<Rightarrow> bool) \<Rightarrow> http_request \<Rightarrow> 's \<Rightarrow> string res \<times> 's" where
  "handle client_Do valid_method r s =
     (if \<not> valid_method (hq_Method r) then (Err (Errorf (''net/http: invalid method '' @ hq_Method r)), s)
      else
        let req = \<lparr>hq_Method = hq_Method r, hq_URL = ''http://localhost:8090'', hq_Header = copyHeaders [] (hq_Header r),
                   hq_Body = hq_Body r, hq_ContentLength = hq_ContentLength r\<rparr> in
        (case client_Do req s of
           (Inl e, s1) \<Rightarrow> (Err e, s1)
         | (Inr (Inl e), s1) \<Rightarrow> (Err e, s1)
         | (Inr (Inr body), s1) \<Rightarrow> (Ok body, s1)))"

text \<open>
  The response to the health check is read before its error is looked at: when the function
  does not answer there is no response.
\<close>

definition health :: "('s, gerror + string) api \<Rightarrow> 's \<Rightarrow> string res \<times> 's" where
  "health get_healthz s =
     (case get_healthz s of
        (Inl e, s1) \<Rightarrow> (Panic NilDereference, s1)
      | (Inr body, s1) \<Rightarrow> (Ok ''OK'', s1))"

section \<open>Serving requests\<close>

datatype progress = Accepted | Running | Finished "gerror option" string

record response =
  rp_Status :: int
  rp_Body :: string

record served =
  sv_Method :: string
  sv_Progress :: progress
  sv_Response :: "response option"

record proxy =
  pr_Requests :: "served list"
  pr_Calls :: "string \<Rightarrow> nat"
  pr_Failures :: "string \<Rightarrow> nat"
  pr_Observations :: "string \<Rightarrow> nat"

definition inc :: "(string \<Rightarrow> nat) \<Rightarrow> string \<Rightarrow> string \<Rightarrow> nat" where
  "inc c k = c(k := Suc (c k))"

definition StatusOK :: int where "StatusOK = 200"
definition StatusInternalServerError :: int where "StatusInternalServerError = 500"
definition StatusRequestTimeout :: int where "StatusRequestTimeout = 408"

text \<open>The goroutine of request \<open>i\<close> counts the call and later the duration.\<close>

definition start_call :: "nat \<Rightarrow> proxy \<Rightarrow> proxy" where
  "start_call i p =
     (let r = pr_Requests p ! i in
      p\<lparr>pr_Requests := (pr_Requests p)[i := r\<lparr>sv_Progress := Running\<rparr>], pr_Calls := inc (pr_Calls p) (sv_Method r)\<rparr>)"

definition finish_call :: "nat \<Rightarrow> gerror option \<Rightarrow> string \<Rightarrow> proxy \<Rightarrow> proxy" where
  "finish_call i err res p =
     (let r = pr_Requests p ! i in
      p\<lparr>pr_Requests := (pr_Requests p)[i := r\<lparr>sv_Progress := Finished err res\<rparr>],
        pr_Observations := inc (pr_Observations p) (sv_Method r)\<rparr>)"

text \<open>The two branches of the select.\<close>

definition respond :: "nat \<Rightarrow> gerror option \<Rightarrow> string \<Rightarrow> proxy \<Rightarrow> proxy" where
  "respond i err res p =
     (let r = pr_Requests p ! i in
      case err of
        Some e \<Rightarrow>
          p\<lparr>pr_Requests := (pr_Requests p)[i := r\<lparr>sv_Response :=
               Some \<lparr>rp_Status = StatusInternalServerError, rp_Body = ''Error: '' @ err_text e\<rparr>\<rparr>],
            pr_Failures := inc (pr_Failures p) (sv_Method r)\<rparr>
      | None \<Rightarrow>
          p\<lparr>pr_Requests := (pr_Requests p)[i := r\<lparr>sv_Response := Some \<lparr>rp_Status = StatusOK, rp_Body = res\<rparr>\<rparr>]\<rparr>)"

definition time_out :: "nat \<Rightarrow> proxy \<Rightarrow> proxy" where
  "time_out i p =
     (let r = pr_Requests p ! i in
      p\<lparr>pr_Requests := (pr_Requests p)[i := r\<lparr>sv_Response :=
           Some \<lparr>rp_Status = StatusRequestTimeout, rp_Body = ''Timeout exceeded''\<rparr>\<rparr>],
        pr_Failures := inc (pr_Failures p) (sv_Method r)\<rparr>)"

definition accept_request :: "string \<Rightarrow> proxy \<Rightarrow> proxy" where
  "accept_request method p =
     p\<lparr>pr_Requests := pr_Requests p @ [\<lparr>sv_Method = method, sv_Progress = Accepted, sv_Response = None\<rparr>]\<rparr>"

inductive Handler_step :: "proxy \<Rightarrow> proxy \<Rightarrow> bool" where
  accepted: "Handler_step p (accept_request method p)"
| started: "i < length (pr_Requests p) \<Longrightarrow> sv_Progress (pr_Requests p ! i) = Accepted \<Longrightarrow> Handler_step p (start_call i p)"
| finished: "i < length (pr_Requests p) \<Longrightarrow> sv_Progress (pr_Requests p ! i) = Running \<Longrightarrow>
    Handler_step p (finish_call i err res p)"
| responded: "i < length (pr_Requests p) \<Longrightarrow> sv_Response (pr_Requests p ! i) = None \<Longrightarrow>
    sv_Progress (pr_Requests p ! i) = Finished err res \<Longrightarrow> Handler_step p (respond i err res p)"
| timed_out: "i < length (pr_Requests p) \<Longrightarrow> sv_Response (pr_Requests p ! i) = None \<Longrightarrow> Handler_step p (time_out i p)"

inductive_cases Handler_stepE: "Handler_step p p'"

definition new_proxy :: proxy where
  "new_proxy = \<lparr>pr_Requests = [], pr_Calls = (\<lambda>_. 0), pr_Failures = (\<lambda>_. 0), pr_Observations = (\<lambda>_. 0)\<rparr>"

section \<open>Logging and shutdown\<close>

text \<open>
  The status code the logging writer remembers is the last one written, or 200. A request
  that was answered with a timeout makes the process exit.
\<close>

definition logged_status :: "int list \<Rightarrow> int" where
  "logged_status codes = (if codes = [] then StatusOK else last codes)"

definition logReq_exits :: "int list \<Rightarrow> bool" where
  "logReq_exits codes \<longleftrightarrow> logged_status codes = 408"

definition GracefulShutdown :: "proxy_config \<Rightarrow> (int \<Rightarrow> gerror option) \<Rightarrow> string list" where
  "GracefulShutdown cfg shutdown =
     (let timeoutDuration = px_intShutdownTimeout cfg in
      [''Shuting down with timeout: '' @ Itoa timeoutDuration @ ''s''] @
      (case shutdown timeoutDuration of Some err \<Rightarrow> [''Error: '' @ err_text err] | None \<Rightarrow> [''Server stopped'']))"

section \<open>Counters\<close>

definition count_of :: "(served \<Rightarrow> bool) \<Rightarrow> proxy \<Rightarrow> string \<Rightarrow> nat" where
  "count_of P p m = length (filter (\<lambda>r. sv_Method r = m \<and> P r) (pr_Requests p))"

definition has_started :: "served \<Rightarrow> bool" where
  "has_started r \<longleftrightarrow> sv_Progress r \<noteq> Accepted"

definition has_finished :: "served \<Rightarrow> bool" where
  "has_finished r \<longleftrightarrow> (case sv_Progress r of Finished _ _ \<Rightarrow> True | _ \<Rightarrow> False)"

definition has_failed :: "served \<Rightarrow> bool" where
  "has_failed r \<longleftrightarrow> (case sv_Response r of None \<Rightarrow> False | Some rp \<Rightarrow> rp_Status rp \<noteq> StatusOK)"

definition answered_ok :: "served \<Rightarrow> bool" where
  "answered_ok r \<longleftrightarrow>
     (case sv_Response r of
        None \<Rightarrow> True
      | Some rp \<Rightarrow> rp_Status rp = StatusRequestTimeout \<or>
          (\<exists>err res. sv_Progress r = Finished err res \<and>
             rp_Status rp = (if err = None then StatusOK else StatusInternalServerError)))"

definition counted :: "proxy \<Rightarrow> bool" where
  "counted p \<longleftrightarrow>
     pr_Calls p = count_of has_started p \<and> pr_Observations p = count_of has_finished p \<and>
     pr_Failures p = count_of has_failed p \<and> list_all answered_ok (pr_Requests p)"

lemma length_filter_update:
  "i < length rs \<Longrightarrow> length (filter Q (rs[i := r'])) + of_bool (Q (rs ! i)) = length (filter Q rs) + of_bool (Q r')"
proof (induction rs arbitrary: i)
  case (Cons r rs)
  show ?case
  proof (cases i)
    case (Suc j)
    then show ?thesis using Cons.IH [of j] Cons.prems by auto
  qed auto
qed simp

lemma count_update:
  assumes "i < length (pr_Requests p)" and "sv_Method r' = sv_Method (pr_Requests p ! i)"
    and "pr_Requests p' = (pr_Requests p)[i := r']"
  shows "count_of P p' m + of_bool (sv_Method r' = m \<and> P (pr_Requests p ! i)) = count_of P p m + of_bool (sv_Method r' = m \<and> P r')"
  using length_filter_update [OF assms(1), of "\<lambda>r. sv_Method r = m \<and> P r" r'] assms(2,3) by (simp add: count_of_def)

lemma count_same:
  assumes "i < length (pr_Requests p)" and "sv_Method r' = sv_Method (pr_Requests p ! i)"
    and "pr_Requests p' = (pr_Requests p)[i := r']" and "P r' = P (pr_Requests p ! i)"
  shows "count_of P p' = count_of P p"
proof
  show "count_of P p' m = count_of P p m" for m
    using count_update [OF assms(1-3), of P m] assms(4) by simp
qed

lemma count_more:
  assumes "i < length (pr_Requests p)" and "sv_Method r' = sv_Method (pr_Requests p ! i)"
    and "pr_Requests p' = (pr_Requests p)[i := r']" and "P r'" and "\<not> P (pr_Requests p ! i)"
  shows "count_of P p' = inc (count_of P p) (sv_Method (pr_Requests p ! i))"
proof
  show "count_of P p' m = inc (count_of P p) (sv_Method (pr_Requests p ! i)) m" for m
    using count_update [OF assms(1-3), of P m] assms(2,4,5) by (auto simp: inc_def)
qed

lemma answered_update:
  assumes "list_all answered_ok rs" and "answered_ok r'"
  shows "list_all answered_ok (rs[i := r'])"
  using assms by (auto simp: list_all_iff dest!: set_update_subset_insert [THEN subsetD])

lemma answered_nth: "list_all answered_ok rs \<Longrightarrow> i < length rs \<Longrightarrow> answered_ok (rs ! i)"
  by (simp add: list_all_length)

lemmas count_defs = has_started_def has_finished_def has_failed_def answered_ok_def StatusOK_def
  StatusInternalServerError_def StatusRequestTimeout_def

text \<open>Each step keeps the counters in agreement with the requests.\<close>

lemma accept_counted: "counted p \<Longrightarrow> counted (accept_request method p)"
  by (auto simp: counted_def accept_request_def count_of_def count_defs fun_eq_iff)

lemma counted_update:
  assumes p: "counted p" and i: "i < length (pr_Requests p)"
    and r: "sv_Method r' = sv_Method (pr_Requests p ! i)" and q: "pr_Requests p' = (pr_Requests p)[i := r']"
    and mono: "\<And>P. P \<in> {has_started, has_finished, has_failed} \<Longrightarrow> P (pr_Requests p ! i) \<Longrightarrow> P r'"
    and ok: "answered_ok r'"
    and counters: "pr_Calls p' = (if has_started r' \<and> \<not> has_started (pr_Requests p ! i) then inc (pr_Calls p) (sv_Method r') else pr_Calls p)"
      "pr_Observations p' = (if has_finished r' \<and> \<not> has_finished (pr_Requests p ! i) then inc (pr_Observations p) (sv_Method r') else pr_Observations p)"
      "pr_Failures p' = (if has_failed r' \<and> \<not> has_failed (pr_Requests p ! i) then inc (pr_Failures p) (sv_Method r') else pr_Failures p)"
  shows "counted p'"
proof -
  have "count_of P p' = (if P r' \<and> \<not> P (pr_Requests p ! i) then inc (count_of P p) (sv_Method r') else count_of P p)"
    if "P \<in> {has_started, has_finished, has_failed}" for P
    using count_same [OF i r q, of P] count_more [OF i r q, of P] mono [OF that] r by auto
  then show ?thesis
    using p ok counters by (simp add: counted_def q answered_update)
qed

lemma Handler_step_counted:
  assumes "Handler_step p p'" and p: "counted p"
  shows "counted p'"
  using assms(1)
proof (cases rule: Handler_step.cases)
  case (accepted m)
  then show ?thesis using p by (simp add: accept_counted)
next
  case (started i)
  have "answered_ok (pr_Requests p ! i)"
    using p started(2) by (auto simp: counted_def intro: answered_nth)
  then show ?thesis
    using started(2,3) unfolding started(1)
    by (intro counted_update [OF p started(2), of "(pr_Requests p ! i)\<lparr>sv_Progress := Running\<rparr>"])
       (auto simp: start_call_def Let_def count_defs split: option.splits)
next
  case (finished i err res)
  have "answered_ok (pr_Requests p ! i)"
    using p finished(2) by (auto simp: counted_def intro: answered_nth)
  then show ?thesis
    using finished(2,3) unfolding finished(1)
    by (intro counted_update [OF p finished(2), of "(pr_Requests p ! i)\<lparr>sv_Progress := Finished err res\<rparr>"])
       (auto simp: finish_call_def Let_def count_defs split: option.splits)
next
  case (responded i err res)
  let ?rp = "case err of Some e \<Rightarrow> \<lparr>rp_Status = StatusInternalServerError, rp_Body = ''Error: '' @ err_text e\<rparr>
    | None \<Rightarrow> \<lparr>rp_Status = StatusOK, rp_Body = res\<rparr>"
  show ?thesis
    using responded(2-4) unfolding responded(1)
    by (intro counted_update [OF p responded(2), of "(pr_Requests p ! i)\<lparr>sv_Response := Some ?rp\<rparr>"])
       (auto simp: respond_def Let_def count_defs split: option.splits)
next
  case (timed_out i)
  show ?thesis
    using timed_out(2-3) unfolding timed_out(1)
    by (intro counted_update [OF p timed_out(2), of "(pr_Requests p ! i)\<lparr>sv_Response :=
          Some \<lparr>rp_Status = StatusRequestTimeout, rp_Body = ''Timeout exceeded''\<rparr>\<rparr>"])
       (auto simp: time_out_def Let_def count_defs)
qed

lemma new_proxy_counted: "counted new_proxy"
  by (simp add: counted_def new_proxy_def count_of_def fun_eq_iff)

interpretation px: step_invariant Handler_step counted
  by unfold_locales (rule Handler_step_counted)

text \<open>
  C20: In every state of the proxy, however its goroutines and timers are interleaved, the
  metric of the calls of a method is the number of its requests whose function was started,
  the number of observed durations is the number of those that finished, and the metric of
  the failures is the number of its requests that were answered with an error or a timeout.
  Every answer is the result of the function or a timeout.
\<close>

theorem proxy_metrics:
  assumes "Handler_step\<^sup>*\<^sup>* new_proxy p"
  shows "pr_Calls p m = count_of has_started p m \<and> pr_Observations p m = count_of has_finished p m \<and>
    pr_Failures p m = count_of has_failed p m \<and> list_all answered_ok (pr_Requests p)"
  using px.reachable [OF assms new_proxy_counted] by (simp add: counted_def)

end
