(* ===== verification/Exec.thy ===== *)
theory Exec
  imports Content
begin

text \<open>
  Commands run in a pod over a websocket, \<open>pkg/utils/exec.go\<close>: the two goroutines that copy
  the standard streams, what they report, and the request that opens the connection. The
  websocket and the TLS configuration are parameters: a goroutine is a function of the
  outcomes of its reads and writes, in order. The lemmas show that the frames carry the input
  unchanged and that the outputs receive exactly the payloads sent to them, in the order in
  which they arrived.
\<close>

section \<open>Frames\<close>

definition stdinChannel :: char where "stdinChannel = CHR 0x00"
definition stdoutChannel :: char where "stdoutChannel = CHR 0x01"
definition stderrChannel :: char where "stderrChannel = CHR 0x02"
definition errChannel :: char where "errChannel = CHR 0x03"

datatype io_error = EOF | IoError gerror

text \<open>A command: whether it has an input, and which of the two outputs are wanted.\<close>

record Cmd =
  cmd_Stdin :: bool
  cmd_Stdout :: bool
  cmd_Stderr :: bool

text \<open>
  A round of the first goroutine: the bytes read, the error of the read and the error of the
  send. Also the last read, with no bytes and the end of the input, is sent. The result is
  the frames that were sent, the reported error, and whether the connection was closed.
\<close>

record stdin_round =
  sr_Bytes :: string
  sr_ReadErr :: "io_error option"
  sr_SendErr :: "io_error option"

definition round_error :: "stdin_round \<Rightarrow> io_error option" where
  "round_error r = (if sr_ReadErr r = None \<and> sr_SendErr r \<noteq> None then sr_SendErr r else sr_ReadErr r)"

definition sent_frames :: "stdin_round \<Rightarrow> string list" where
  "sent_frames r = (if sr_SendErr r = None then [stdinChannel # sr_Bytes r] else [])"

fun stdin_loop :: "stdin_round list \<Rightarrow> string list \<times> gerror option \<times> bool" where
  "stdin_loop [] = ([], None, False)"
| "stdin_loop (r # rs) =
     (case round_error r of
        None \<Rightarrow> (case stdin_loop rs of (frames, err, closed) \<Rightarrow> (sent_frames r @ frames, err, closed))
      | Some EOF \<Rightarrow> (sent_frames r, None, True)
      | Some (IoError e) \<Rightarrow> (sent_frames r, Some e, False))"

definition copy_stdin :: "Cmd \<Rightarrow> stdin_round list \<Rightarrow> string list \<times> gerror option \<times> bool" where
  "copy_stdin c rs = (if \<not> cmd_Stdin c then ([], None, False) else stdin_loop rs)"

text \<open>
  A round of the second goroutine: a message, with the error of writing its payload on, or
  an error of the connection.
\<close>

datatype receipt = Message string "gerror option" | Broken io_error

text \<open>
  What was written, in order: the channel, which says to which of the two writers, and the
  bytes. A command may use the same writer for both.
\<close>

type_synonym writes = "(char \<times> string) list"

definition stream :: "char \<Rightarrow> writes \<Rightarrow> string" where
  "stream ch ws = concat (map snd (filter (\<lambda>w. fst w = ch) ws))"

fun receive_loop :: "Cmd \<Rightarrow> receipt list \<Rightarrow> writes \<Rightarrow> writes \<times> gerror option" where
  "receive_loop c [] out = (out, None)"
| "receive_loop c (Broken EOF # rs) out = (out, None)"
| "receive_loop c (Broken (IoError e) # rs) out = (out, Some e)"
| "receive_loop c (Message [] w # rs) out = receive_loop c rs out"
| "receive_loop c (Message (ch # payload) w # rs) out =
     (if ch = errChannel then (out, Some (Errorf (''Error from remote command: '' @ payload)))
      else if ch = stdoutChannel \<and> cmd_Stdout c \<or> ch = stderrChannel \<and> cmd_Stderr c then
        (case w of Some e \<Rightarrow> (out, Some e) | None \<Rightarrow> receive_loop c rs (out @ [(ch, payload)]))
      else receive_loop c rs out)"

text \<open>
  The call waits for both goroutines and reports the first error that entered the channel;
  \<open>stdin_first\<close> says which one that was when both failed. The response is always 200.
\<close>

record exec_result =
  xr_StatusCode :: int
  xr_Error :: "gerror option"
  xr_Frames :: "string list"
  xr_Output :: writes

definition first_error :: "bool \<Rightarrow> gerror option \<Rightarrow> gerror option \<Rightarrow> gerror option" where
  "first_error stdin_first e1 e2 =
     (case (e1, e2) of
        (None, None) \<Rightarrow> None | (Some e, None) \<Rightarrow> Some e | (None, Some e) \<Rightarrow> Some e
      | (Some a, Some b) \<Rightarrow> Some (if stdin_first then a else b))"

definition RoundTripCallback :: "Cmd \<Rightarrow> bool \<Rightarrow> stdin_round list \<Rightarrow> receipt list \<Rightarrow> exec_result" where
  "RoundTripCallback c stdin_first ins outs =
     (case (copy_stdin c ins, receive_loop c outs []) of
        ((frames, e1, closed), (out, e2)) \<Rightarrow>
          \<lparr>xr_StatusCode = 200, xr_Error = first_error stdin_first e1 e2, xr_Frames = frames, xr_Output = out\<rparr>)"

section \<open>Opening the connection\<close>

record 'tls ws_config =
  ws_URL :: string
  ws_Origin :: string
  ws_TlsConfig :: 'tls
  ws_Header :: "(string \<times> string list) list"
  ws_Protocol :: "string list"

record http_request =
  hr_URL :: string
  hr_Referer :: string
  hr_Header :: "(string \<times> string list) list"

text \<open>The websocket library: a configuration for a URL, and a connection for a configuration.\<close>

record ('tls, 'conn) websocket =
  wk_NewConfig :: "string \<Rightarrow> string \<Rightarrow> gerror + 'tls ws_config"
  wk_DialConfig :: "'tls ws_config \<Rightarrow> gerror + 'conn"

type_synonym round_tripper = "http_request \<Rightarrow> exec_result res"

definition RoundTrip :: "('tls, 'conn) websocket \<Rightarrow> 'tls \<Rightarrow> ('conn \<Rightarrow> exec_result) \<Rightarrow> round_tripper" where
  "RoundTrip wk tlsConfig callback r =
     (let referrer = (if hr_Referer r = [] then ''http://localhost/'' else hr_Referer r) in
      bind_res (lift_sum (wk_NewConfig wk (hr_URL r) referrer)) (\<lambda>wsconf.
      bind_res (lift_sum (wk_DialConfig wk (wsconf\<lparr>ws_TlsConfig := tlsConfig, ws_Header := hr_Header r,
                  ws_Protocol := [''channel.k8s.io'']\<rparr>))) (\<lambda>conn.
      Ok (callback conn))))"

definition ExecRoundTripper ::
  "(rest_config \<Rightarrow> gerror + 'tls) \<Rightarrow> (rest_config \<Rightarrow> round_tripper \<Rightarrow> gerror + round_tripper) \<Rightarrow>
   ('tls, 'conn) websocket \<Rightarrow> rest_config \<Rightarrow> ('conn \<Rightarrow> exec_result) \<Rightarrow> round_tripper res" where
  "ExecRoundTripper TLSConfigFor HTTPWrappersForConfig wk conf f =
     bind_res (lift_sum (TLSConfigFor conf)) (\<lambda>tlsConfig.
     lift_sum (HTTPWrappersForConfig conf (RoundTrip wk tlsConfig f)))"

record exec_url =
  xu_Scheme :: string
  xu_Rest :: string

record exec_options =
  xo_Stdin :: bool
  xo_Stdout :: bool
  xo_Stderr :: bool
  xo_TTY :: bool
  xo_Container :: string
  xo_Command :: "string list"

text \<open>
  The URL of the \<open>exec\<close> resource of a pod, with the options as its query, is built by the REST
  client.
\<close>

definition Exec ::
  "(string \<Rightarrow> string \<Rightarrow> exec_options \<Rightarrow> exec_url) \<Rightarrow> string \<Rightarrow> string \<Rightarrow> exec_options \<Rightarrow> http_request res" where
  "Exec exec_resource pod_name namespace opts =
     (let url = exec_resource namespace pod_name opts in
      bind_res (if xu_Scheme url = ''http'' then Ok ''ws''
                else if xu_Scheme url = ''https'' then Ok ''wss''
                else Err (Errorf (''Unrecognised URL scheme in '' @ xu_Scheme url @ ''://'' @ xu_Rest url))) (\<lambda>scheme.
      Ok \<lparr>hr_URL = scheme @ ''://'' @ xu_Rest url, hr_Referer = [], hr_Header = []\<rparr>))"

section \<open>Laws\<close>

text \<open>What the rounds read before the input ended.\<close>

fun input_of :: "stdin_round list \<Rightarrow> string" where
  "input_of [] = []"
| "input_of (r # rs) = sr_Bytes r @ (if round_error r = None then input_of rs else [])"

lemma stdin_loop_frames:
  assumes "list_all (\<lambda>r. sr_SendErr r = None \<and> length (sr_Bytes r) \<le> 1024) rs"
  shows "concat (map tl (fst (stdin_loop rs))) = input_of rs \<and>
    list_all (\<lambda>fr. hd fr = stdinChannel \<and> 1 \<le> length fr \<and> length fr \<le> 1025) (fst (stdin_loop rs))"
  using assms
  by (induction rs) (auto simp: sent_frames_def split: option.splits io_error.splits prod.splits)

text \<open>The payloads of the messages for a channel, up to the first that ends the loop.\<close>

fun payloads :: "char \<Rightarrow> receipt list \<Rightarrow> string" where
  "payloads ch [] = []"
| "payloads ch (Broken e # rs) = []"
| "payloads ch (Message [] w # rs) = payloads ch rs"
| "payloads ch (Message (c # p) w # rs) = (if c = errChannel then [] else (if c = ch then p else []) @ payloads ch rs)"

definition written :: "receipt \<Rightarrow> bool" where
  "written r \<longleftrightarrow> (case r of Message m w \<Rightarrow> w = None | Broken e \<Rightarrow> True)"

lemma channels_distinct [simp]:
  "stdoutChannel \<noteq> errChannel" "stderrChannel \<noteq> errChannel" "stdoutChannel \<noteq> stderrChannel" "stderrChannel \<noteq> stdoutChannel"
  by (simp_all add: stdoutChannel_def stderrChannel_def errChannel_def)

lemma stream_simps [simp]:
  "stream ch [] = []" "stream ch (ws @ [(c, p)]) = stream ch ws @ (if c = ch then p else [])"
  by (simp_all add: stream_def)

lemma receive_loop_streams:
  assumes "list_all written rs" and "cmd_Stdout c" and "cmd_Stderr c"
  shows "stream stdoutChannel (fst (receive_loop c rs out)) = stream stdoutChannel out @ payloads stdoutChannel rs \<and>
    stream stderrChannel (fst (receive_loop c rs out)) = stream stderrChannel out @ payloads stderrChannel rs"
  using assms
  by (induction c rs out rule: receive_loop.induct) (auto simp: written_def)

text \<open>
  C22: Running a command in a pod copies its streams faithfully: as long as the local writes
  and sends succeed, the standard output and error are exactly the payloads of the messages
  for their channel, in order, and the frames sent carry exactly the input, each with the
  channel number in front and at most 1024 bytes of payload. A message on the error channel
  ends the output and is reported.
\<close>

theorem RoundTripCallback_streams:
  assumes "list_all written outs" and "cmd_Stdin c" and "cmd_Stdout c" and "cmd_Stderr c"
    and "list_all (\<lambda>r. sr_SendErr r = None \<and> length (sr_Bytes r) \<le> 1024) ins"
  shows "let x = RoundTripCallback c stdin_first ins outs in
    stream stdoutChannel (xr_Output x) = payloads stdoutChannel outs \<and>
    stream stderrChannel (xr_Output x) = payloads stderrChannel outs \<and>
    concat (map tl (xr_Frames x)) = input_of ins \<and>
    list_all (\<lambda>fr. hd fr = stdinChannel \<and> 1 \<le> length fr \<and> length fr \<le> 1025) (xr_Frames x)"
  using stdin_loop_frames [OF assms(5)] receive_loop_streams [OF assms(1,3,4)] assms(2)
  by (simp add: RoundTripCallback_def copy_stdin_def case_prod_beta Let_def)

end
