(* ===== verification/CliInstances.thy ===== *)
theory CliInstances
  imports Instances FunctionList LayerBuilder Worker Proxy Exec
begin

text \<open>
  Concrete instances for the command line client, the image builder, the proxy and the work
  queue: each theorem applies one property of those theories to sample data and discharges
  its hypotheses by evaluation.
\<close>

section \<open>Files\<close>

definition one_file :: "unit world_io" where
  "one_file = \<lparr>io_ReadFile = (\<lambda>f s. (Inr ''code'', s)), io_ParseURL = (\<lambda>u. Inr u), io_HttpGet = (\<lambda>u s. (Inr (Inr ''code''), s))\<rparr>"

lemma one_file_type: "GetContentType one_file ''m.py'' () = (Ok ''text'', ())"
  by (simp add: GetContentType_def one_file_def is_url_def getCompressionType_def has_suffix_def suffix_def)

lemma one_file_content:
  "ParseContent one_file ''m.py'' ''text'' () = (Ok (''code'', ''sha256:'' @ hex_encode (sha256 ''code'')), ())"
  by (simp add: ParseContent_def one_file_def getFileSha256_def Let_def)

theorem deployed_content_accepted_witness:
  "is_ok (getProvisionContainer py_lr ''code'' (''sha256:'' @ hex_encode (sha256 ''code'')) ''m.py'' ''m.h'' ''text'' ''python2.7''
     ''img'' \<lparr>vm_Name = ''v'', vm_ReadOnly = False, vm_MountPath = ''/k''\<rparr>
     \<lparr>vm_Name = ''d'', vm_ReadOnly = False, vm_MountPath = ''/s''\<rparr> zero_resources)"
proof -
  have "getFileName py_lr ''m.h'' ''text'' ''python2.7'' = Ok ''m.py''"
    by code_simp
  from deployed_content_accepted [OF one_file_type one_file_content this] show ?thesis .
qed

theorem local_content_delivered_witness:
  "fetched ''text'' ''code'' = Some ''code''"
proof -
  have "\<not> is_url ''m.py''" by (simp add: is_url_def)
  from local_content_delivered [OF this, of one_file "''code''", OF _ one_file_type one_file_content] show ?thesis
    by (simp add: one_file_def getCompressionType_def has_suffix_def suffix_def)
qed

section \<open>An image\<close>

definition base_config :: docker_config where
  "base_config = \<lparr>dc_Hostname = ''h'', dc_Domainname = [], dc_User = [], dc_AttachStdin = False, dc_AttachStdout = False,
     dc_AttachStderr = False, dc_Tty = False, dc_OpenStdin = False, dc_StdinOnce = False, dc_Env = [], dc_Cmd = [],
     dc_ArgsEscaped = False, dc_Image = [], dc_Volumes = [], dc_WorkingDir = [], dc_Entrypoint = [], dc_OnBuild = [],
     dc_Labels = []\<rparr>"

definition base_description :: Description where
  "base_description = \<lparr>de_Arch = ''amd64'', de_Config = base_config, de_Container = [], de_ContainerConfig = base_config,
     de_Created = [], de_DockerVersion = [], de_History = [], de_OS = ''linux'',
     de_Rootfs = \<lparr>rf_Type = ''layers'', rf_DiffIds = []\<rparr>\<rparr>"

definition base_manifest :: Manifest where
  "base_manifest = \<lparr>mf_SchemaVersion = 2, mf_MediaType = [],
     mf_Config = \<lparr>ml_MediaType = [], ml_Size = 1, ml_Digest = digest_of ''D''\<rparr>, mf_Layers = []\<rparr>"

abbreviation clock0 :: "string \<times> string" where "clock0 \<equiv> (''t'', ''t'')"

text \<open>The codec of the two manifests and the two descriptions that occur; the added file is \<open>D\<close> itself.\<close>

definition image_codec :: image_json where
  "image_codec =
     \<lparr>ij_readManifest = (\<lambda>c z. if c = ''M'' then (base_manifest, None)
        else if c = ''M2'' then (new_manifest base_manifest ''D2'' ''D'', None) else (z, Some (Errorf ''json''))),
      ij_writeManifest = (\<lambda>m. if m = new_manifest base_manifest ''D2'' ''D'' then Inr ''M2'' else Inl (Errorf ''json'')),
      ij_readDescription = (\<lambda>c. if c = ''D'' then Inr base_description
        else if c = ''D2'' then Inr (new_description clock0 base_description ''D'') else Inl (Errorf ''json'')),
      ij_writeDescription = (\<lambda>d. if d = new_description clock0 base_description ''D'' then Inr ''D2'' else Inl (Errorf ''json''))\<rparr>"

definition image_files :: files where
  "image_files = [manifest_path ''/img'' \<mapsto> ''M'', blob ''/img'' ''D'' \<mapsto> ''D'', ''/t.tar'' \<mapsto> ''D'']"

lemma tar_outside [simp]: "blob ''/img'' b \<noteq> ''/t.tar''" "manifest_path ''/img'' \<noteq> ''/t.tar''"
  using path_join_plain [of "''img''" "hex_encode (sha256 b)"] path_join_plain [of "''img''" "''manifest.json''"]
  by (simp_all add: blob_def manifest_path_def plain_name_def [of "''img''"])

lemma image_files_look [simp]:
  "image_files (manifest_path ''/img'') = Some ''M''" "image_files (blob ''/img'' ''D'') = Some ''D''"
  "image_files ''/t.tar'' = Some ''D''"
  using tar_outside(1) [of "''D''"] tar_outside(2) by (simp_all add: image_files_def)

lemma sample_image: "image_at image_codec image_files ''/img'' base_manifest base_description"
  by (simp add: image_at_def image_codec_def base_manifest_def base_description_def)
     (intro exI [of _ "''D''"], simp)

lemma sample_run:
  "ij_writeDescription image_codec (new_description clock0 base_description ''D'') = Inr ''D2''"
  "ij_writeManifest image_codec (new_manifest base_manifest ''D2'' ''D'') = Inr ''M2''"
  "''/t.tar'' \<noteq> blob ''/img'' ''D''"
  by (simp_all add: image_codec_def tar_outside(1) [symmetric])

theorem AddTarToLayer_succeeds_witness:
  "fst (AddTarToLayer no_faults image_codec clock0 ''/img'' ''/t.tar'' image_files) = Ok ()"
  using AddTarToLayer_succeeds [OF sample_image, of "''/t.tar''" "''D''" clock0 "''D2''" "''M2''"]
  by (simp add: image_codec_def tar_outside(1) [symmetric])

lemma image_codec_inverse:
  "ij_writeManifest image_codec m = Inr c \<Longrightarrow> ij_readManifest image_codec c zero_Manifest = (m, None)"
  "ij_writeDescription image_codec d = Inr c \<Longrightarrow> ij_readDescription image_codec c = Inr d"
  by (auto simp: image_codec_def split: if_splits)

theorem AddTarToLayer_image_witness:
  "\<exists>dc fs'. image_at image_codec fs' ''/img'' (new_manifest base_manifest dc ''D'') (new_description clock0 base_description ''D'')"
proof -
  have run: "AddTarToLayer no_faults image_codec clock0 ''/img'' ''/t.tar'' image_files =
      (Ok (), image_files(blob ''/img'' ''D'' \<mapsto> ''D'', blob ''/img'' ''D2'' \<mapsto> ''D2'', manifest_path ''/img'' \<mapsto> ''M2''))"
    using AddTarToLayer_fault_free [OF sample_image _ sample_run(3) _ sample_run(1,2)] by simp
  show ?thesis
    using AddTarToLayer_image [OF sample_image _ _ _ image_codec_inverse run, of "''D''"]
    by (auto simp: tar_outside(1) [symmetric])
qed

text \<open>A disk on which no description can be written.\<close>

definition mute_json :: image_json where
  "mute_json = image_codec\<lparr>ij_writeDescription := (\<lambda>d. Inl (Errorf ''json''))\<rparr>"

lemma mute_image: "image_at mute_json image_files ''/img'' base_manifest base_description"
  using sample_image by (simp add: mute_json_def image_at_def)

lemma mute_fails: "fst (AddTarToLayer no_faults mute_json clock0 ''/img'' ''/t.tar'' image_files) \<noteq> Ok ()"
proof
  assume "fst (AddTarToLayer no_faults mute_json clock0 ''/img'' ''/t.tar'' image_files) = Ok ()"
  then obtain s where "AddTarToLayer no_faults mute_json clock0 ''/img'' ''/t.tar'' image_files = (Ok (), s)"
    by (metis prod.collapse)
  from AddTarToLayer_Ok [OF mute_image _ _ _ this, of "''D''"] show False
    by (simp add: mute_json_def tar_outside(1) [symmetric])
qed


section \<open>Descriptions of functions\<close>

theorem parseEnv_roundtrip_witness:
  "FunctionDesc.parseEnv [''A=1=2'', ''B=''] = [\<lparr>ev_Name = ''A'', ev_Value = ''1=2''\<rparr>, \<lparr>ev_Name = ''B'', ev_Value = []\<rparr>]"
  using parseEnv_roundtrip [of "[\<lparr>ev_Name = ''A'', ev_Value = ''1=2''\<rparr>, \<lparr>ev_Name = ''B'', ev_Value = []\<rparr>]" "CHR ''=''"]
  by simp

definition no_flags :: function_args where
  "no_flags = function_args_of default_flags ''get'' ''ns'' []"

definition running :: kfunction where
  "running = hello\<lparr>f_Spec := (f_Spec hello)\<lparr>fs_Deployment :=
     upd_pod (\<lambda>p. p\<lparr>ps_Containers := [zero_container\<lparr>c_Image := ''img''\<rparr>]\<rparr>) zero_deployment\<rparr>\<rparr>"

lemma running_containers:
  "ps_Containers (d_PodSpec (fs_Deployment (f_Spec running))) = [zero_container\<lparr>c_Image := ''img''\<rparr>]"
  by (simp add: running_def upd_pod_def upd_template_def)

lemma running_described: "is_ok (fst (getFunctionDescription one_file (\<lambda>q. Inr q) no_flags running ()))"
  by (simp add: getFunctionDescription_def described_content_def described_resources_def no_flags_def function_args_of_def
      default_flags_def Let_def)


section \<open>Commands\<close>

text \<open>A cluster without configuration, whose clients return what they are given.\<close>

definition no_config :: "string \<Rightarrow> (unit, object_meta) api" where
  "no_config n s = (Inl (StatusError NotFound ''crd''), s)"

definition with_config :: "string \<Rightarrow> (unit, object_meta) api" where
  "with_config n s = (Inr zero_meta, s)"

definition give :: "'o \<Rightarrow> (unit, 'o) client" where
  "give x = \<lparr>cl_get = (\<lambda>ns n s. (Inr x, s)), cl_list = (\<lambda>ns sel s. (Inr [x], s)), cl_create = (\<lambda>ns o' s. (Inr o', s)),
     cl_update = (\<lambda>ns o' s. (Inr o', s)), cl_patch = (\<lambda>ns n o' s. (Inr o', s)), cl_delete = (\<lambda>ns n s. (Inr (), s)),
     cl_delete_collection = (\<lambda>ns sel s. (Inr (), s))\<rparr>"

definition small_env :: "(string \<Rightarrow> (unit, object_meta) api) \<Rightarrow> unit cli_env" where
  "small_env crd =
     \<lparr>ce_io = one_file, ce_getenv = no_env, ce_get_crd = crd, ce_ConfigMaps = give py_config,
      ce_Services = give \<lparr>svc_Meta = zero_meta, svc_Spec = zero_service_spec\<rparr>, ce_Deployments = give zero_deployment,
      ce_Pods = give \<lparr>pod_Name = ''p'', pod_Ready = [True]\<rparr>, ce_runtimes = (\<lambda>t rs. Inr rs), ce_ParseQuantity = (\<lambda>q. Inr q),
      ce_ParseStandard = (\<lambda>c. None), ce_GetDefaultNamespace = ''default'', ce_kubeless = Inr (give running),
      ce_cronjobs = Inl (Errorf ''none''), ce_function_fmt = \<lparr>ma_json = (\<lambda>f. Inr ''j''), ma_yaml = (\<lambda>f. Inr ''y'')\<rparr>,
      ce_list_fmt = \<lparr>ma_json = (\<lambda>f. Inr ''j''), ma_yaml = (\<lambda>f. Inr ''y'')\<rparr>, ce_labels_json = (\<lambda>m. Inr ''{}''),
      ce_env_json = (\<lambda>e. Inr ''[]''), ce_package_json = (\<lambda>t. Inr []), ce_unmarshal_object = (\<lambda>t. None),
      ce_rand = (\<lambda>n s. (Inr ''r'', s)), ce_now = ''t'', ce_do = (\<lambda>r s. ((''ok'', None), s)), ce_logs = (\<lambda>ns p c f s. (Inr ''log'', s))\<rparr>"

definition some_flags :: deploy_flags where
  "some_flags = default_flags\<lparr>df_runtime := ''python2.7'', df_handler := ''m.h'', df_servicePort := 80\<rparr>"

lemmas run_defs = check_def fatal_def check_ports_def valid_port_def valid_service_port_def read_deps_def on_server_def
  getFunctionDescription_def described_content_def described_resources_def function_args_of_def default_flags_def
  pull_policies_def GetKubelessConfig_def getConfigLocation_def GetAnnotationsFromCRD_def small_env_def Let_def

lemma deployed: "is_ok (fst (deploy_function (small_env no_config) [''get''] some_flags ((), [])))"
  by (simp add: deploy_function_def deploy_runtime_check_def some_flags_def no_config_def run_defs)

theorem deploy_function_wellformed_witness:
  "\<exists>f st'. deploy_function (small_env no_config) [''get''] some_flags ((), []) = (Ok f, st') \<and> f_Name f = ''get'' \<and>
     service_ports_ok f 8080 80"
proof -
  obtain f st' where f: "deploy_function (small_env no_config) [''get''] some_flags ((), []) = (Ok f, st')"
    using deployed by (metis is_ok_iff prod.collapse)
  have "df_port some_flags = 8080" "df_servicePort some_flags = 80"
    by (simp_all add: some_flags_def default_flags_def)
  with deploy_function_wellformed [OF f] have "f_Name f = ''get''" "service_ports_ok f 8080 80"
    by auto
  with f show ?thesis by blast
qed

theorem deploy_dry_run_independent_witness:
  "deployCmd ((small_env no_config)\<lparr>ce_kubeless := Inl (Errorf ''down''), ce_cronjobs := Inl (Errorf ''down'')\<rparr>)
     [''get''] (some_flags\<lparr>df_dryrun := True\<rparr>) ((), []) =
   deployCmd (small_env no_config) [''get''] (some_flags\<lparr>df_dryrun := True\<rparr>) ((), [])"
  by (rule deploy_dry_run_independent) simp

lemma updated: "is_ok (fst (update_function (small_env with_config) [''get''] default_flags ((), [])))"
  by (simp add: update_function_def with_config_def run_defs config_setting_def no_env_def zero_meta_def gm_find_def
      fatal_prefix_def check_runtime_def ReadConfigMap_def New_def py_config_def give_def GetFunction_def namespace_of_def)

theorem update_flag_defaults_witness:
  "\<exists>f st'. update_function (small_env with_config) [''get''] default_flags ((), []) = (Ok f, st') \<and>
     fs_Timeout (f_Spec f) = ''180'' \<and> svcTargetPort f = 8080"
proof -
  obtain f st' where f: "update_function (small_env with_config) [''get''] default_flags ((), []) = (Ok f, st')"
    using updated by (metis is_ok_iff prod.collapse)
  from update_flag_defaults [OF f] f show ?thesis by blast
qed

section \<open>Metrics\<close>

definition nat_floats :: "nat float64_ops" where
  "nat_floats = \<lparr>fl_zero = 0, fl_pos = (\<lambda>n. 0 < n), fl_div = (div)\<rparr>"

definition nat_fmt :: "nat top_fmt" where
  "nat_fmt = \<lparr>tf_float = show_nat, tf_list = \<lparr>ma_json = (\<lambda>f. Inr ''j''), ma_yaml = (\<lambda>f. Inr ''y'')\<rparr>\<rparr>"

definition two_functions :: "(unit, kfunction) client" where
  "two_functions = (give hello)\<lparr>cl_list := (\<lambda>ns sel s. (Inr [hello, hello\<lparr>f_Meta := zero_meta\<lparr>om_Name := ''a''\<rparr>\<rparr>], s))\<rparr>"

definition silent :: "string \<Rightarrow> string \<Rightarrow> unit \<Rightarrow> string res \<times> unit" where
  "silent ns f s = (Err (Errorf ''down''), s)"

definition one_family :: "string \<Rightarrow> gerror + nat families" where
  "one_family raw = Inr [(''function_calls_total'',
     [\<lparr>sa_Label = [(''method'', ''GET'')], sa_Counter = 3, sa_SampleSum = 0\<rparr>,
      \<lparr>sa_Label = [(''code'', ''200''), (''method'', ''POST'')], sa_Counter = 1, sa_SampleSum = 0\<rparr>])]"

lemma two_functions_list:
  "getFunctions two_functions ns [] s = (Ok [hello, hello\<lparr>f_Meta := zero_meta\<lparr>om_Name := ''a''\<rparr>\<rparr>], s)"
  by (simp add: getFunctions_def two_functions_def)

theorem doTop_terminates_witness:
  "\<exists>r. doTop nat_floats one_family nat_fmt two_functions silent [TimerFires, TimerFires] ''ns'' [] [] ((), []) = Some r"
  by (rule doTop_terminates) (simp add: two_functions_list)

theorem doTop_sorted_witness:
  "\<exists>ms r st'. doTop nat_floats one_family nat_fmt two_functions silent [Arrives 0, Arrives 1] ''ns'' [] [] ((), []) = Some (r, st') \<and>
     st' = ((), [Table (top_header # map (top_row nat_fmt) ms)]) \<and> length ms = 2 \<and>
     sorted_wrt (\<lambda>a b. \<not> str_less (mt_FunctionName b) (mt_FunctionName a)) ms"
proof -
  let ?fs = "[hello, hello\<lparr>f_Meta := zero_meta\<lparr>om_Name := ''a''\<rparr>\<rparr>]"
  let ?res = "\<lambda>k. [new_metric nat_floats ''ns'' (f_Name (?fs ! k)) [] ''Function does not expose metrics'']"
  have run: "run_metrics nat_floats one_family silent ''ns'' ?fs k s = (Ok (?res k), s)" for k s
    by (simp add: run_metrics_def GetFunctionMetrics_def silent_def)
  obtain r st' where top: "doTop nat_floats one_family nat_fmt two_functions silent [Arrives 0, Arrives 1] ''ns'' [] [] ((), []) = Some (r, st')"
    by (simp add: doTop_def two_functions_list on_server_def collect.simps run printTop_def Println_def)
  from doTop_sorted [OF two_functions_list run top] obtain ms where
    ms: "st' = ((), [] @ [Table (top_header # map (top_row nat_fmt) ms)])"
      "mset ms = mset (concat (map ?res (received_of [Arrives 0, Arrives 1] (length ?fs))))"
      "sorted_wrt (\<lambda>a b. \<not> str_less (mt_FunctionName b) (mt_FunctionName a)) ms"
    by blast
  have "length ms = 2"
    using arg_cong [OF ms(2), of size] by (simp add: received_of_def)
  with ms top show ?thesis by auto
qed

theorem parseMetrics_methods_witness:
  "\<exists>ms. parseMetrics nat_floats one_family ''ns'' ''get'' ''raw'' = Ok ms \<and> set (map mt_Method ms) = {''GET'', ''POST''}"
proof -
  from parseMetrics_methods [of one_family "''raw''", OF one_family_def, of nat_floats "''ns''" "''get''"] show ?thesis
    by (auto simp: metric_visits_def metricsOfInterest_def Let_def insert_commute)
qed

section \<open>The work queue\<close>

text \<open>A queue that holds every key at most once.\<close>

definition set_queue :: "(string list \<times> (string \<Rightarrow> nat)) queue_ops" where
  "set_queue =
     \<lparr>q_Get = (\<lambda>(ks, n). (case ks of [] \<Rightarrow> (([], True), (ks, n)) | k # ks' \<Rightarrow> ((k, False), (removeAll k ks', n)))),
      q_Add = (\<lambda>k (ks, n). (List.insert k ks, n)), q_Done = (\<lambda>k (ks, n). (ks, n)),
      q_Forget = (\<lambda>k (ks, n). (ks, n(k := 0))),
      q_AddRateLimited = (\<lambda>k (ks, n). (List.insert k ks, n(k := Suc (n k)))),
      q_NumRequeues = (\<lambda>k (ks, n). n k)\<rparr>"

lemma set_queue_laws: "queue_laws set_queue" "pending_laws set_queue (\<lambda>(ks, n). set ks)"
  by (auto simp: queue_laws_def pending_laws_def set_queue_def split: prod.splits list.splits)

theorem worker_drains_queue_witness:
  "\<exists>n \<le> 6. drained (\<lambda>(ks, n). set ks) (work set_queue bad_keys yes_controller n (cached hello (), [''a/b/c''], \<lambda>k. 0))"
  using worker_drains_queue [OF set_queue_laws, of "([''a/b/c''], \<lambda>k. 0)" bad_keys yes_controller "cached hello ()"] by simp

section \<open>The proxy and remote commands\<close>

definition one_call :: proxy where
  "one_call = respond 0 None ''hi'' (finish_call 0 None ''hi'' (start_call 0 (accept_request ''GET'' new_proxy)))"

lemma one_call_reached: "Handler_step\<^sup>*\<^sup>* new_proxy one_call"
proof -
  let ?p1 = "accept_request ''GET'' new_proxy"
  have "Handler_step new_proxy ?p1" by (rule accepted)
  moreover have "Handler_step ?p1 (start_call 0 ?p1)"
    by (rule started) (simp_all add: accept_request_def new_proxy_def)
  moreover have "Handler_step (start_call 0 ?p1) (finish_call 0 None ''hi'' (start_call 0 ?p1))"
    by (rule finished) (simp_all add: accept_request_def new_proxy_def start_call_def)
  moreover have "Handler_step (finish_call 0 None ''hi'' (start_call 0 ?p1)) one_call"
    unfolding one_call_def by (rule responded) (simp_all add: accept_request_def new_proxy_def start_call_def finish_call_def)
  ultimately show ?thesis by (meson rtranclp.rtrancl_into_rtrancl rtranclp.rtrancl_refl)
qed

theorem proxy_metrics_witness:
  "pr_Calls one_call ''GET'' = count_of has_started one_call ''GET'' \<and> pr_Failures one_call ''GET'' = count_of has_failed one_call ''GET'' \<and>
   pr_Calls one_call ''GET'' = 1"
  using proxy_metrics [OF one_call_reached, of "''GET''"]
  by (simp add: one_call_def respond_def finish_call_def start_call_def accept_request_def new_proxy_def inc_def Let_def)

theorem RoundTripCallback_streams_witness:
  "let x = RoundTripCallback \<lparr>cmd_Stdin = True, cmd_Stdout = True, cmd_Stderr = True\<rparr> True
       [\<lparr>sr_Bytes = ''in'', sr_ReadErr = None, sr_SendErr = None\<rparr>, \<lparr>sr_Bytes = [], sr_ReadErr = Some EOF, sr_SendErr = None\<rparr>]
       [Message (stdoutChannel # ''out'') None, Message (stderrChannel # ''err'') None, Broken EOF] in
   stream stdoutChannel (xr_Output x) = ''out'' \<and> stream stderrChannel (xr_Output x) = ''err'' \<and> concat (map tl (xr_Frames x)) = ''in''"
  using RoundTripCallback_streams [of "[Message (stdoutChannel # ''out'') None, Message (stderrChannel # ''err'') None, Broken EOF]"
      "\<lparr>cmd_Stdin = True, cmd_Stdout = True, cmd_Stderr = True\<rparr>"
      "[\<lparr>sr_Bytes = ''in'', sr_ReadErr = None, sr_SendErr = None\<rparr>, \<lparr>sr_Bytes = [], sr_ReadErr = Some EOF, sr_SendErr = None\<rparr>]" True]
  by (simp add: written_def round_error_def Let_def)

end
