(* ===== verification/EndToEnd.thy ===== *)
theory EndToEnd
  imports FunctionCmd ControllerLaws
begin

text \<open>
  From the command line to the cluster: what the controller makes of a function that the
  deploy command describes. A service finds its pods by labels; the lemmas compare the selector
  that the client puts into the function with the labels that the controller gives to the pods.
\<close>

section \<open>Labels of the pods\<close>

text \<open>A selector accepts an object that carries each of its labels.\<close>

definition selects :: "gomap \<Rightarrow> gomap \<Rightarrow> bool" where
  "selects sel labels \<longleftrightarrow> list_all (\<lambda>(k, v). gm_find labels k = Some v) (gm_entries sel)"

lemma gm_find_mergeMap:
  assumes "wf_gomap src"
  shows "gm_find (mergeMap dst src) k = (case gm_find src k of Some v \<Rightarrow> Some v | None \<Rightarrow> gm_find dst k)"
  using assms
  by (auto simp: mergeMap_def gm_find_merged gm_len_0_iff gm_find_def [of None] gm_find_def [of "Some []"] gm_find_def [of dst]
      split: option.splits)

lemma UpdateDeployment_labels:
  "UpdateDeployment l d v r = Ok d' \<Longrightarrow> pt_Labels (ds_Template (d_Spec d')) = pt_Labels (ds_Template (d_Spec d))"
  by (auto simp: UpdateDeployment_def Let_def upd_pod_def upd_template_def split: res.splits option.splits if_splits)

lemma desired_deployment_labels:
  assumes "desired_deployment um env f ors l pre prov ips = (Ok d, l')"
  shows "pt_Labels (ds_Template (d_Spec d)) = mergeMap (pt_Labels (ds_Template (d_Spec (fs_Deployment (f_Spec f))))) (f_Labels f)"
  using assms
  by (auto simp: desired_deployment_def Let_def res_simps upd_pod_def upd_template_def dpm_base_def
      dest!: UpdateDeployment_labels split: prod.splits)

lemma desired_deployment_port:
  assumes "desired_deployment um env f ors l pre prov ips = (Ok d, l')"
  shows "\<exists>c cs. ps_Containers (d_PodSpec d) = c # cs \<and> svcTargetPort f \<in> set (c_Ports c) \<and>
    \<lparr>ev_Name = ''FUNC_PORT'', ev_Value = Itoa (sint (svcTargetPort f))\<rparr> \<in> set (c_Env c)"
proof -
  let ?b = "dpm_base f ors"
  obtain p d1 where p: "dpm_runtime um env f l pre prov ips (d_PodSpec ?b) = (Ok p, l')"
    and d1: "UpdateDeployment l' (upd_pod (\<lambda>_. dpm_port f p) ?b) ''/kubeless'' (fs_Runtime (f_Spec f)) = Ok d1"
    and d: "d = upd_pod (dpm_defaults f l') d1"
    using assms(1) by (auto simp: desired_deployment_def Let_def res_simps split: prod.splits)
  obtain c cs where "ps_Containers p = c # cs"
    using dpm_runtime_not_empty [OF p] dpm_base_containers [of f ors] by (cases "ps_Containers p") auto
  then have "\<exists>c'. ps_Containers (d_PodSpec (upd_pod (\<lambda>_. dpm_port f p) ?b)) = c' # cs \<and> svcTargetPort f \<in> set (c_Ports c') \<and>
      \<lparr>ev_Name = ''FUNC_PORT'', ev_Value = Itoa (sint (svcTargetPort f))\<rparr> \<in> set (c_Env c')"
    by (simp add: dpm_port_def)
  with UpdateDeployment_containers [OF d1] show ?thesis
    by (fastforce simp: d dpm_defaults_def)
qed

section \<open>The service of a deployed function\<close>

lemma deployed_service:
  assumes "deploy_function ce args fl st = (Ok f, st')"
  shows "wf_gomap (f_Labels f) \<and> ss_Selector (fs_ServiceSpec (f_Spec f)) = f_Labels f \<and>
    service_ports_ok f (df_port fl) (df_servicePort fl) \<and>
    (\<forall>k. gm_find (f_Labels f) k = (case map_of (rev (map getKV (df_label fl))) k of
        Some v \<Rightarrow> Some v | None \<Rightarrow> gm_find (f_Labels (default_function (f_Name f))) k))"
proof -
  obtain name deps s s' where g: "getFunctionDescription (ce_io ce) (ce_ParseQuantity ce)
       (function_args_of fl name (namespace_of ce (df_namespace fl)) deps) (default_function name) s = (Ok f, s')"
    and ports: "valid_port (df_port fl)" "valid_service_port (df_servicePort fl)"
    using assms by (auto simp: deploy_function_def res_simps Let_def)
  let ?a = "function_args_of fl name (namespace_of ce (df_namespace fl)) deps"
  have "wf_gomap (f_Labels (default_function name))"
    by (simp add: default_function_def wf_gomap_def)
  then have "wf_gomap (described_labels ?a (default_function name))"
    by (simp add: described_labels_def wf_gomap_def [of "Some []"])
  moreover have "f_Name f = name" "f_Labels f = described_labels ?a (default_function name)"
    "ss_Selector (fs_ServiceSpec (f_Spec f)) = described_labels ?a (default_function name)"
    using g by (auto simp: getFunctionDescription_Ok_iff described_service_def function_args_of_def)
  moreover have "fa_labels ?a = df_label fl" by (simp add: function_args_of_def)
  ultimately show ?thesis
    using described_ports_ok [OF g ports] by (simp add: gm_find_described_labels split: option.splits)
qed

lemma selects_marked:
  assumes "wf_gomap m" and "gm_find m a = Some va" and "gm_find m b = Some vb" and "a \<noteq> b"
  shows "selects m (mergeMap dst (gm_set (gm_set m a wa) b wb)) \<longleftrightarrow> va = wa \<and> vb = wb"
proof -
  have "selects m ls \<longleftrightarrow> (\<forall>k v. gm_find m k = Some v \<longrightarrow> gm_find ls k = Some v)" for ls
    using assms(1) by (auto simp: selects_def list_all_iff gm_find_def [of m] wf_gomap_def)
  then show ?thesis
    using assms by (auto simp: gm_find_mergeMap gomap_simps)
qed

text \<open>The function as it is when the controller creates the objects: with the two marker labels.\<close>

lemma controller_labels:
  assumes "merge_config ex config (label_function f) = (Ok (), f1)" and "gm_find (f_Labels f) k = Some v"
  shows "f_Labels (labelled_function f1) = gm_set (gm_set (f_Labels f) ''function'' (f_Name f)) ''created-by'' ''kubeless''"
    and "fs_ServiceSpec (f_Spec f1) = fs_ServiceSpec (f_Spec f)"
proof -
  have "gm_len (f_Labels f) \<noteq> 0" using assms(2) by (auto simp: gm_len_0_iff gm_find_def)
  then have "f_Labels (label_function f) = gm_set (f_Labels f) ''function'' (f_Name f)"
    by (simp add: label_function_def)
  with merge_config_meta [OF assms(1)]
  show "f_Labels (labelled_function f1) = gm_set (gm_set (f_Labels f) ''function'' (f_Name f)) ''created-by'' ''kubeless''"
    by (simp add: labelled_function_def addDefaultLabel_arg_def addDefaultLabel_def gm_set_def)
  show "fs_ServiceSpec (f_Spec f1) = fs_ServiceSpec (f_Spec f)"
    using assms(1)
    by (auto simp: merge_config_def set_Deployment_def label_function_def split: option.splits sum.splits prod.splits)
qed

lemma controller_service:
  assumes "deploy_function ce args fl st = (Ok f, st')" and "merge_config ex config (label_function f) = (Ok (), f1)"
  shows "\<exists>p. ss_Ports (svc_Spec (new_service f1 ors)) = [p] \<and> word_of_int (IntValue (sp_TargetPort p)) = df_port fl"
    and "ss_Selector (svc_Spec (new_service f1 ors)) = f_Labels f" and "svcTargetPort (labelled_function f1) = df_port fl"
proof -
  note svc = deployed_service [OF assms(1)]
  obtain k v where "gm_find (f_Labels f) k = Some v"
    using svc by (fastforce simp: default_function_def gm_find_def [of "Some _"] split: option.splits)
  note same = controller_labels(2) [OF assms(2) this]
  obtain p where p: "ss_Ports (fs_ServiceSpec (f_Spec f)) = [p]" "word_of_int (IntValue (sp_TargetPort p)) = df_port fl"
    using svc by (auto simp: service_ports_ok_def svcTargetPort_def)
  have spec: "f_Spec (labelled_function f1) = f_Spec f1"
    by (simp add: labelled_function_def)
  have svc_Spec: "svc_Spec (new_service f1 ors) = fs_ServiceSpec (f_Spec f)"
    using p(1) same spec by (simp add: new_service_def serviceSpec_def)
  with p svc show "\<exists>p. ss_Ports (svc_Spec (new_service f1 ors)) = [p] \<and> word_of_int (IntValue (sp_TargetPort p)) = df_port fl"
    "ss_Selector (svc_Spec (new_service f1 ors)) = f_Labels f"
    by auto
  show "svcTargetPort (labelled_function f1) = df_port fl"
    using p same spec by (simp add: svcTargetPort_def)
qed

lemma controller_selects:
  assumes "deploy_function ce args fl st = (Ok f, st')" and "merge_config ex config (label_function f) = (Ok (), f1)"
  shows "selects (f_Labels f) (mergeMap dst (f_Labels (labelled_function f1))) \<longleftrightarrow>
    map_of (rev (map getKV (df_label fl))) ''function'' \<in> {None, Some (f_Name f)} \<and>
    map_of (rev (map getKV (df_label fl))) ''created-by'' \<in> {None, Some ''kubeless''}"
proof -
  note labels = deployed_service [OF assms(1)]
  obtain va vb where va: "gm_find (f_Labels f) ''function'' = Some va" and vb: "gm_find (f_Labels f) ''created-by'' = Some vb"
    using labels by (fastforce simp: default_function_def gm_find_def [of "Some _"] split: option.splits)
  show ?thesis
    using labels va vb selects_marked [OF _ va vb]
    by (auto simp: controller_labels(1) [OF assms(2) va] default_function_def gm_find_def [of "Some _"] split: option.splits)
qed

text \<open>
  C6: The service that the controller creates for a deployed function forwards to the port the
  user gave, and the container of its pods listens there and is told so. The service finds
  these pods exactly when the user gave no label \<open>function\<close> or \<open>created-by\<close> of their own that differs
  from the name of the function and from \<open>kubeless\<close>: such a label enters the selector of the service,
  while the controller replaces it on the pods.
\<close>

theorem deployed_service_reaches_pods:
  assumes "deploy_function ce args fl st = (Ok f, st')"
    and "merge_config ex config (label_function f) = (Ok (), f1)"
    and "desired_deployment um env (labelled_function f1) ors l pre prov ips = (Ok d, l')"
  shows "(selects (ss_Selector (svc_Spec (new_service f1 ors))) (pt_Labels (ds_Template (d_Spec d))) \<longleftrightarrow>
      map_of (rev (map getKV (df_label fl))) ''function'' \<in> {None, Some (f_Name f)} \<and>
      map_of (rev (map getKV (df_label fl))) ''created-by'' \<in> {None, Some ''kubeless''}) \<and>
    (\<exists>p c cs. ss_Ports (svc_Spec (new_service f1 ors)) = [p] \<and> word_of_int (IntValue (sp_TargetPort p)) = df_port fl \<and>
      ps_Containers (d_PodSpec d) = c # cs \<and> df_port fl \<in> set (c_Ports c) \<and>
      \<lparr>ev_Name = ''FUNC_PORT'', ev_Value = Itoa (sint (df_port fl))\<rparr> \<in> set (c_Env c))"
  using controller_service(1,2) [OF assms(1,2), of ors] controller_service(3) [OF assms(1,2)] controller_selects [OF assms(1,2)]
    desired_deployment_labels [OF assms(3)] desired_deployment_port [OF assms(3)]
  by auto

end
