(* ===== verification/Flags.thy ===== *)
theory Flags
  imports FunctionCmd
begin

text \<open>
  The flags of a command and the parts the remaining commands share. A command looks its
  flags up by name and type; the flag library is a parameter, a record of its getters.
  \<open>flags_for\<close> states what the library documents: a getter succeeds exactly for a flag that was
  declared with its type, and gives the declared default when the flag was not set.
  \<open>flags_of\<close>, a flag set kept as a list, satisfies it.
\<close>

section \<open>Flag sets\<close>

record flags =
  fl_GetString :: "string \<Rightarrow> gerror + string"
  fl_GetBool :: "string \<Rightarrow> gerror + bool"
  fl_GetInt32 :: "string \<Rightarrow> gerror + int32"
  fl_GetInt64 :: "string \<Rightarrow> gerror + int64"
  fl_GetStringArray :: "string \<Rightarrow> gerror + string list"

datatype flag_value = FString string | FBool bool | FInt32 int32 | FInt64 int64 | FStrings "string list"

type_synonym declarations = "(string \<times> flag_value) list"

text \<open>The flag set of a command: its declarations, with the values given in front.\<close>

definition undeclared :: "string \<Rightarrow> gerror" where
  "undeclared name = Errorf (''flag accessed but not defined: '' @ name)"

definition flags_of :: "declarations \<Rightarrow> flags" where
  "flags_of fs =
     \<lparr>fl_GetString = (\<lambda>n. case map_of fs n of Some (FString v) \<Rightarrow> Inr v | _ \<Rightarrow> Inl (undeclared n)),
      fl_GetBool = (\<lambda>n. case map_of fs n of Some (FBool v) \<Rightarrow> Inr v | _ \<Rightarrow> Inl (undeclared n)),
      fl_GetInt32 = (\<lambda>n. case map_of fs n of Some (FInt32 v) \<Rightarrow> Inr v | _ \<Rightarrow> Inl (undeclared n)),
      fl_GetInt64 = (\<lambda>n. case map_of fs n of Some (FInt64 v) \<Rightarrow> Inr v | _ \<Rightarrow> Inl (undeclared n)),
      fl_GetStringArray = (\<lambda>n. case map_of fs n of Some (FStrings v) \<Rightarrow> Inr v | _ \<Rightarrow> Inl (undeclared n))\<rparr>"

definition getter_for :: "('v \<Rightarrow> flag_value) \<Rightarrow> (string \<Rightarrow> gerror + 'v) \<Rightarrow> declarations \<Rightarrow> string set \<Rightarrow> bool" where
  "getter_for con get ds chosen \<longleftrightarrow>
     (\<forall>n. case map_of ds n of
        None \<Rightarrow> \<exists>e. get n = Inl e
      | Some d \<Rightarrow> if \<exists>v. d = con v then \<exists>v. get n = Inr v \<and> (n \<notin> chosen \<longrightarrow> d = con v) else \<exists>e. get n = Inl e)"

definition flags_for :: "declarations \<Rightarrow> string set \<Rightarrow> flags \<Rightarrow> bool" where
  "flags_for ds chosen fl \<longleftrightarrow>
     getter_for FString (fl_GetString fl) ds chosen \<and> getter_for FBool (fl_GetBool fl) ds chosen \<and>
     getter_for FInt32 (fl_GetInt32 fl) ds chosen \<and> getter_for FInt64 (fl_GetInt64 fl) ds chosen \<and>
     getter_for FStrings (fl_GetStringArray fl) ds chosen"

text \<open>Reading a flag in a command; an error ends the process.\<close>

definition flag_string :: "flags \<Rightarrow> string \<Rightarrow> 's cli \<Rightarrow> string res \<times> 's cli" where
  "flag_string fl name st = fatal_err (lift_sum (fl_GetString fl name), st)"

definition flag_bool :: "flags \<Rightarrow> string \<Rightarrow> 's cli \<Rightarrow> bool res \<times> 's cli" where
  "flag_bool fl name st = fatal_err (lift_sum (fl_GetBool fl name), st)"

definition flag_int32 :: "flags \<Rightarrow> string \<Rightarrow> 's cli \<Rightarrow> int32 res \<times> 's cli" where
  "flag_int32 fl name st = fatal_err (lift_sum (fl_GetInt32 fl name), st)"

definition flag_int64 :: "flags \<Rightarrow> string \<Rightarrow> 's cli \<Rightarrow> int64 res \<times> 's cli" where
  "flag_int64 fl name st = fatal_err (lift_sum (fl_GetInt64 fl name), st)"

definition flag_strings :: "flags \<Rightarrow> string \<Rightarrow> 's cli \<Rightarrow> string list res \<times> 's cli" where
  "flag_strings fl name st = fatal_err (lift_sum (fl_GetStringArray fl name), st)"

text \<open>The namespace flag, with the default of the current context.\<close>

definition flag_namespace :: "'s cli_env \<Rightarrow> flags \<Rightarrow> 's cli \<Rightarrow> string res \<times> 's cli" where
  "flag_namespace ce fl st = bind_st (flag_string fl ''namespace'' st) (\<lambda>ns st. (Ok (namespace_of ce ns), st))"

section \<open>Laws\<close>

named_theorems flag_simps \<open>when reading flags succeeds\<close>

lemma flag_Ok_iff [flag_simps]:
  "flag_string fl n st = (Ok v, st') \<longleftrightarrow> fl_GetString fl n = Inr v \<and> st' = st"
  "flag_bool fl n st = (Ok b, st') \<longleftrightarrow> fl_GetBool fl n = Inr b \<and> st' = st"
  "flag_int32 fl n st = (Ok i, st') \<longleftrightarrow> fl_GetInt32 fl n = Inr i \<and> st' = st"
  "flag_int64 fl n st = (Ok j, st') \<longleftrightarrow> fl_GetInt64 fl n = Inr j \<and> st' = st"
  "flag_strings fl n st = (Ok vs, st') \<longleftrightarrow> fl_GetStringArray fl n = Inr vs \<and> st' = st"
  by (auto simp: flag_string_def flag_bool_def flag_int32_def flag_int64_def flag_strings_def res_simps)

lemma flag_read [simp]:
  "fl_GetString fl n = Inr v \<Longrightarrow> flag_string fl n st = (Ok v, st)"
  "fl_GetBool fl n = Inr b \<Longrightarrow> flag_bool fl n st = (Ok b, st)"
  "fl_GetInt32 fl n = Inr i \<Longrightarrow> flag_int32 fl n st = (Ok i, st)"
  "fl_GetInt64 fl n = Inr j \<Longrightarrow> flag_int64 fl n st = (Ok j, st)"
  "fl_GetStringArray fl n = Inr vs \<Longrightarrow> flag_strings fl n st = (Ok vs, st)"
  by (auto simp: flag_simps)

lemma flag_namespace_Ok_iff [flag_simps]:
  "flag_namespace ce fl st = (Ok ns, st') \<longleftrightarrow>
     (\<exists>v. fl_GetString fl ''namespace'' = Inr v \<and> ns = namespace_of ce v) \<and> st' = st"
  by (auto simp: flag_namespace_def res_simps flag_simps)

lemma flag_namespace_read [simp]:
  "fl_GetString fl ''namespace'' = Inr v \<Longrightarrow> flag_namespace ce fl st = (Ok (namespace_of ce v), st)"
  by (simp add: flag_namespace_def)

text \<open>The list of flags behaves as documented.\<close>

lemma flags_for_flags_of: "flags_for ds {} (flags_of ds)"
  unfolding flags_for_def
  by (intro conjI) (auto simp: getter_for_def flags_of_def undeclared_def split: option.splits flag_value.splits)

lemma flags_for_default:
  assumes "flags_for ds chosen fl" and "n \<notin> chosen"
  shows "map_of ds n = Some (FString v) \<Longrightarrow> fl_GetString fl n = Inr v"
    and "map_of ds n = Some (FBool b) \<Longrightarrow> fl_GetBool fl n = Inr b"
    and "map_of ds n = Some (FInt32 i) \<Longrightarrow> fl_GetInt32 fl n = Inr i"
  using assms
  by (fastforce simp: flags_for_def getter_for_def split: option.splits if_splits)+

lemma flags_for_undeclared:
  assumes "flags_for ds chosen fl" and "map_of ds n = None"
  shows "\<exists>e. fl_GetString fl n = Inl e"
  using assms by (auto simp: flags_for_def getter_for_def dest: spec [of _ n])

end
