(* ===== verification/Clients.thy ===== *)
theory Clients
  imports FunctionCmd
begin

text \<open>
  The constructors of API clients in \<open>pkg/utils/k8sutil.go\<close>, the plain REST request of the same
  file, and the command that prints the server configuration. The loader of client
  configurations is a parameter that takes an explicit path or, without one, follows its
  own rules; so are the constructors of the client libraries. The lemmas say which file the
  configuration is read from and which requests are sent.
\<close>

section \<open>Configuration of a client outside the cluster\<close>

definition home_dir :: "(string \<Rightarrow> string) \<Rightarrow> string" where
  "home_dir getenv =
     (let home = getenv ''HOMEDRIVE'' @ getenv ''HOMEPATH'' in
      if home \<noteq> [] then home
      else case find (\<lambda>h. h \<noteq> []) (map getenv [''HOME'', ''USERPROFILE'']) of Some h \<Rightarrow> h | None \<Rightarrow> [])"

definition explicit_path :: "(string \<Rightarrow> string) \<Rightarrow> string option" where
  "explicit_path getenv =
     (if getenv ''KUBECONFIG'' = [] then Some (path_join [home_dir getenv, ''.kube'', ''config'']) else None)"

definition BuildOutOfClusterConfig ::
  "(string \<Rightarrow> string) \<Rightarrow> (string option \<Rightarrow> gerror + rest_config) \<Rightarrow> rest_config res" where
  "BuildOutOfClusterConfig getenv load = lift_sum (load (explicit_path getenv))"

section \<open>Clients\<close>

text \<open>A client from a configuration; an error of either step ends the process.\<close>

definition new_client_or_exit ::
  "string \<Rightarrow> (rest_config \<Rightarrow> gerror + 'c) \<Rightarrow> rest_config res \<times> 's \<Rightarrow> 'c res \<times> 's" where
  "new_client_or_exit failed NewForConfig config =
     bind_st (fatal_err (wrap_st ''Can not get kubernetes config: '' config)) (\<lambda>config s.
     fatal_err (wrap_st failed (lift_sum (NewForConfig config), s)))"

definition GetClient ::
  "(string \<Rightarrow> string) \<Rightarrow> 's world_io \<Rightarrow> (gerror + rest_config) \<Rightarrow> (rest_config \<Rightarrow> gerror + 'c) \<Rightarrow> 's \<Rightarrow> 'c res \<times> 's" where
  "GetClient getenv io in_cluster NewForConfig s =
     new_client_or_exit ''Can not create kubernetes client: '' NewForConfig (GetInClusterConfig getenv io in_cluster s)"

definition GetClientOutOfCluster ::
  "(string \<Rightarrow> string) \<Rightarrow> (string option \<Rightarrow> gerror + rest_config) \<Rightarrow> (rest_config \<Rightarrow> gerror + 'c) \<Rightarrow> 's \<Rightarrow> 'c res \<times> 's" where
  "GetClientOutOfCluster getenv load NewForConfig s =
     new_client_or_exit ''Can not get kubernetes client: '' NewForConfig (BuildOutOfClusterConfig getenv load, s)"

definition GetAPIExtensionsClientOutOfCluster ::
  "(string \<Rightarrow> string) \<Rightarrow> (string option \<Rightarrow> gerror + rest_config) \<Rightarrow> (rest_config \<Rightarrow> gerror + 'c) \<Rightarrow> 's \<Rightarrow> 'c res \<times> 's" where
  "GetAPIExtensionsClientOutOfCluster getenv load NewForConfig s =
     new_client_or_exit ''Can not get kubernetes client: '' NewForConfig (BuildOutOfClusterConfig getenv load, s)"

definition GetAPIExtensionsClientInCluster ::
  "(string \<Rightarrow> string) \<Rightarrow> 's world_io \<Rightarrow> (gerror + rest_config) \<Rightarrow> (rest_config \<Rightarrow> gerror + 'c) \<Rightarrow> 's \<Rightarrow> 'c res \<times> 's" where
  "GetAPIExtensionsClientInCluster getenv io in_cluster NewForConfig s =
     new_client_or_exit ''Can not get kubernetes client: '' NewForConfig (GetInClusterConfig getenv io in_cluster s)"

definition GetFunctionClientInCluster ::
  "(string \<Rightarrow> string) \<Rightarrow> 's world_io \<Rightarrow> (gerror + rest_config) \<Rightarrow> (rest_config \<Rightarrow> gerror + 'c) \<Rightarrow> 's \<Rightarrow> 'c res \<times> 's" where
  "GetFunctionClientInCluster getenv io in_cluster NewForConfig s =
     bind_st (GetInClusterConfig getenv io in_cluster s) (\<lambda>config s. (lift_sum (NewForConfig config), s))"

definition GetKubelessClientOutCluster ::
  "(string \<Rightarrow> string) \<Rightarrow> (string option \<Rightarrow> gerror + rest_config) \<Rightarrow> (rest_config \<Rightarrow> gerror + 'c) \<Rightarrow> 'c res" where
  "GetKubelessClientOutCluster getenv load NewForConfig =
     bind_res (BuildOutOfClusterConfig getenv load) (\<lambda>config. lift_sum (NewForConfig config))"

text \<open>The namespace of the current context; its errors are dropped.\<close>

definition GetDefaultNamespace :: "gerror + string \<Rightarrow> string" where
  "GetDefaultNamespace context_namespace = (case context_namespace of Inr ns \<Rightarrow> ns | Inl e \<Rightarrow> ''default'')"

section \<open>Plain requests\<close>

record raw_request =
  rw_Method :: string
  rw_Name :: "string option"
  rw_Body :: "string option"
  rw_AbsPath :: "string list"

text \<open>\<open>json\<close> encodes the body, if there is one; \<open>unmarshal\<close> is absent when no result is wanted.\<close>

definition doRESTReq ::
  "(raw_request \<Rightarrow> ('s, string) api) \<Rightarrow> string \<Rightarrow> string \<Rightarrow> string \<Rightarrow> string \<Rightarrow> string \<Rightarrow>
   ('b \<Rightarrow> gerror + string) \<Rightarrow> 'b option \<Rightarrow> (string \<Rightarrow> gerror + 'r) option \<Rightarrow> 's \<Rightarrow> 'r option res \<times> 's" where
  "doRESTReq DoRaw groupVersion verb resource elem namespace json body unmarshal s =
     bind_st (case body of None \<Rightarrow> Ok [] | Some b \<Rightarrow> lift_sum (json b), s) (\<lambda>bodyJSON s.
     let path = [''apis'', groupVersion, ''namespaces'', namespace, resource] in
     bind_st (if verb = ''get'' then Ok \<lparr>rw_Method = ''GET'', rw_Name = Some elem, rw_Body = None, rw_AbsPath = path\<rparr>
              else if verb = ''create'' then
                Ok \<lparr>rw_Method = ''POST'', rw_Name = None, rw_Body = Some bodyJSON, rw_AbsPath = path\<rparr>
              else if verb = ''update'' then
                Ok \<lparr>rw_Method = ''PUT'', rw_Name = Some elem, rw_Body = Some bodyJSON, rw_AbsPath = path\<rparr>
              else Err (Errorf (''Verb '' @ verb @ '' not supported'')), s) (\<lambda>req s.
     case DoRaw req s of
       (Inl e, s1) \<Rightarrow> (Err e, s1)
     | (Inr rawResponse, s1) \<Rightarrow>
         (case unmarshal of
            None \<Rightarrow> (Ok None, s1)
          | Some um \<Rightarrow> (map_res Some (lift_sum (um rawResponse)), s1))))"

section \<open>get-server-config\<close>

definition GetServerConfigCmd :: "'s cli_env \<Rightarrow> 's cli \<Rightarrow> unit res \<times> 's cli" where
  "GetServerConfigCmd ce st =
     bind_st (fatal_prefix ''Unable to read the configmap: ''
                (on_server (GetKubelessConfig (ce_getenv ce) (ce_get_crd ce) (ce_ConfigMaps ce)) st)) (\<lambda>config st.
     bind_st (ReadConfigMap (ce_runtimes ce) (New config), st) (\<lambda>lr st.
     bind_st (Println (Line ''Current Server Config:'') st) (\<lambda>_ st.
     Println (Line (''Supported Runtimes are: '' @ join_str '', '' (GetRuntimes lr))) st)))"

section \<open>Laws\<close>

lemma home_dir_HOME:
  assumes "getenv ''HOMEDRIVE'' = []" and "getenv ''HOMEPATH'' = []" and "getenv ''HOME'' \<noteq> []"
  shows "home_dir getenv = getenv ''HOME''"
  using assms by (simp add: home_dir_def)

lemma doRESTReq_sends_nothing:
  assumes "verb \<notin> {''get'', ''create'', ''update''}"
  shows "snd (doRESTReq DoRaw gv verb resource elem namespace json body unmarshal s) = s \<and>
    \<not> is_ok (fst (doRESTReq DoRaw gv verb resource elem namespace json body unmarshal s))"
proof (cases body)
  case (Some b)
  with assms show ?thesis by (cases "json b") (auto simp: doRESTReq_def)
qed (use assms in \<open>auto simp: doRESTReq_def\<close>)

text \<open>Outside the cluster a client is never nil: the process ends or there is a client.\<close>

lemma GetClientOutOfCluster_total:
  "(\<exists>c. GetClientOutOfCluster getenv load NewForConfig s = (Ok c, s)) \<or>
   (\<exists>msg. GetClientOutOfCluster getenv load NewForConfig s = (Panic (Exit msg), s))"
proof (cases "load (explicit_path getenv)")
  case (Inr config)
  then show ?thesis
    by (cases "NewForConfig config")
       (auto simp: GetClientOutOfCluster_def new_client_or_exit_def BuildOutOfClusterConfig_def)
qed (auto simp: GetClientOutOfCluster_def new_client_or_exit_def BuildOutOfClusterConfig_def)

end
