(* ===== verification/Autoscale.thy ===== *)
theory Autoscale
  imports Flags Clients ControllerLaws
begin

text \<open>
  The commands of \<open>kubeless autoscale\<close>, \<open>cmd/kubeless/autoscale\<close>, which keep an autoscaling rule
  in the specification of a function, and what the function controller makes of it. The
  lemmas follow a rule from the flags to the object the controller writes and to the row a
  listing prints, and its removal to the deletion by the controller.
\<close>

section \<open>The rule\<close>

definition autoscale_metrics ::
  "(string \<Rightarrow> gerror + string) \<Rightarrow> string \<Rightarrow> string \<Rightarrow> string \<Rightarrow> metric_source list res" where
  "autoscale_metrics ParseQuantity name metric value =
     (if metric = ''cpu'' then
        map_res (\<lambda>i. [ResourceMetric ''cpu'' (Some (word_of_int i))]) (lift_sum (ParseInt value 32))
      else if metric = ''qps'' then
        map_res (\<lambda>q. [ObjectMetric ''function_calls'' q ''Service'' name]) (lift_sum (ParseQuantity value))
      else Err (Errorf (''metric '' @ metric @ '' is not supported'')))"

definition getHorizontalAutoscaleDefinition ::
  "(string \<Rightarrow> gerror + string) \<Rightarrow> string \<Rightarrow> string \<Rightarrow> string \<Rightarrow> int32 \<Rightarrow> int32 \<Rightarrow> string \<Rightarrow> gomap \<Rightarrow> hpa res" where
  "getHorizontalAutoscaleDefinition ParseQuantity name ns metric minReplicas maxReplicas value labels =
     map_res (\<lambda>m.
       \<lparr>hpa_APIVersion = ''autoscaling/v2beta1'', hpa_Kind = ''HorizontalPodAutoscaler'',
        hpa_Meta = zero_meta\<lparr>om_Name := name, om_Namespace := ns, om_Labels := labels\<rparr>,
        hpa_TargetAPIVersion = ''apps/v1beta1'', hpa_TargetKind = ''Deployment'', hpa_TargetName = name,
        hpa_MinReplicas = Some minReplicas, hpa_MaxReplicas = maxReplicas, hpa_Metrics = m\<rparr>)
       (autoscale_metrics ParseQuantity name metric value)"

definition set_HPA :: "hpa \<Rightarrow> kfunction \<Rightarrow> kfunction" where
  "set_HPA h f = f\<lparr>f_Spec := (f_Spec f)\<lparr>fs_HorizontalPodAutoscaler := h\<rparr>\<rparr>"

section \<open>create and delete\<close>

definition autoscaleCreate_flags :: declarations where
  "autoscaleCreate_flags =
     [(''min'', FInt32 1), (''max'', FInt32 1), (''metric'', FString ''cpu''), (''value'', FString []),
      (''namespace'', FString [])]"

definition find_function :: "'s cli_env \<Rightarrow> string \<Rightarrow> string \<Rightarrow> 's cli \<Rightarrow> kfunction res \<times> 's cli" where
  "find_function ce funcName ns st =
     (case on_server (GetFunction (ce_kubeless ce) funcName ns) st of
        (Err e, st1) \<Rightarrow> fatal (''Unable to find the function '' @ funcName @ ''. Received '' @ err_text e @ '': '') st1
      | r \<Rightarrow> r)"

definition update_rule :: "'s cli_env \<Rightarrow> kfunction \<Rightarrow> 's cli \<Rightarrow> unit res \<times> 's cli" where
  "update_rule ce f st =
     bind_st (fatal_err (lift_sum (ce_kubeless ce), st)) (\<lambda>kubelessClient st.
     fatal_err (on_server (UpdateFunctionCustomResource kubelessClient f) st))"

definition autoscaleCreateCmd :: "'s cli_env \<Rightarrow> string list \<Rightarrow> flags \<Rightarrow> 's cli \<Rightarrow> unit res \<times> 's cli" where
  "autoscaleCreateCmd ce args fl st =
     bind_st (check (length args = 1) ''Need exactly one argument - function name'' st) (\<lambda>_ st.
     let funcName = args ! 0 in
     bind_st (flag_namespace ce fl st) (\<lambda>ns st.
     bind_st (find_function ce funcName ns st) (\<lambda>function st.
     bind_st (flag_int32 fl ''min'' st) (\<lambda>min st.
     bind_st (check (\<not> sint min \<le> 0) (''min can'' @ [CHR 0x27] @ ''t be negative or zero'') st) (\<lambda>_ st.
     bind_st (flag_int32 fl ''max'' st) (\<lambda>max st.
     bind_st (check (\<not> sint max < sint min) ''max must be greater than or equal to min'' st) (\<lambda>_ st.
     bind_st (flag_string fl ''metric'' st) (\<lambda>metric st.
     bind_st (check (\<not> (metric \<noteq> ''cpu'' \<and> metric \<noteq> ''qps'')) ''only supported metrics: cpu, qps'' st) (\<lambda>_ st.
     bind_st (flag_string fl ''value'' st) (\<lambda>value st.
     bind_st (fatal_err (getHorizontalAutoscaleDefinition (ce_ParseQuantity ce) funcName ns metric min max value
                           (f_Labels function), st)) (\<lambda>hpa st.
     update_rule ce (set_HPA hpa function) st)))))))))))"

definition autoscaleDelete_flags :: declarations where
  "autoscaleDelete_flags = [(''namespace'', FString [])]"

definition autoscaleDeleteCmd :: "'s cli_env \<Rightarrow> string list \<Rightarrow> flags \<Rightarrow> 's cli \<Rightarrow> unit res \<times> 's cli" where
  "autoscaleDeleteCmd ce args fl st =
     bind_st (check (length args = 1) ''Need exactly one argument - autoscale name'' st) (\<lambda>_ st.
     let funcName = args ! 0 in
     bind_st (flag_namespace ce fl st) (\<lambda>ns st.
     bind_st (find_function ce funcName ns st) (\<lambda>function st.
     if om_Name (hpa_Meta (fs_HorizontalPodAutoscaler (f_Spec function))) \<noteq> [] then
       update_rule ce (set_HPA zero_hpa function) st
     else fatal (''Not found an autoscale definition for '' @ funcName) st)))"

section \<open>list\<close>

definition autoscaleList_flags :: declarations where
  "autoscaleList_flags = [(''out'', FString []), (''namespace'', FString [])]"

text \<open>The metric and its value; reading an absent target is a nil dereference.\<close>

definition metric_cells :: "metric_source \<Rightarrow> (string \<times> string) res" where
  "metric_cells m =
     (case m of
        ObjectMetric metricName target _ _ \<Rightarrow> Ok (metricName, target)
      | ResourceMetric name (Some u) \<Rightarrow> Ok (name, Itoa (sint u))
      | ResourceMetric name None \<Rightarrow> Panic NilDereference
      | OtherMetric _ \<Rightarrow> Ok ([], []))"

definition autoscale_row :: "hpa \<Rightarrow> string list res" where
  "autoscale_row i =
     bind_res (metric_cells (hpa_Metrics i ! 0)) (\<lambda>(m, v).
     case hpa_MinReplicas i of
       None \<Rightarrow> Panic NilDereference
     | Some minReplicas \<Rightarrow>
         Ok [om_Name (hpa_Meta i), om_Namespace (hpa_Meta i), hpa_TargetName i, Itoa (sint minReplicas),
             Itoa (sint (hpa_MaxReplicas i)), m, v])"

text \<open>A rule without a metric is logged and skipped.\<close>

fun autoscale_rows :: "hpa list \<Rightarrow> string list list res" where
  "autoscale_rows [] = Ok []"
| "autoscale_rows (i # is) =
     (if hpa_Metrics i = [] then autoscale_rows is
      else bind_res (autoscale_row i) (\<lambda>r. bind_res (autoscale_rows is) (\<lambda>rs. Ok (r # rs))))"

definition autoscale_header :: "string list" where
  "autoscale_header = [''NAME'', ''NAMESPACE'', ''TARGET'', ''MIN'', ''MAX'', ''METRIC'', ''VALUE'']"

fun print_each :: "('o \<Rightarrow> string res) \<Rightarrow> 'o list \<Rightarrow> 's cli \<Rightarrow> unit res \<times> 's cli" where
  "print_each fmt [] st = (Ok (), st)"
| "print_each fmt (i # is) st =
     bind_st (fmt i, st) (\<lambda>b st. bind_st (Println (Line b) st) (\<lambda>_ st. print_each fmt is st))"

definition autoscale_format :: "hpa marshallers \<Rightarrow> string \<Rightarrow> hpa \<Rightarrow> string res" where
  "autoscale_format ma output i =
     (if output = ''json'' then lift_sum (ma_json ma i)
      else if output = ''yaml'' then lift_sum (ma_yaml ma i)
      else Err (Errorf ''Wrong output format. Only accept json|yaml file''))"

definition printAutoscale :: "hpa marshallers \<Rightarrow> hpa list \<Rightarrow> string \<Rightarrow> 's cli \<Rightarrow> unit res \<times> 's cli" where
  "printAutoscale ma ass output st =
     (if output = [] then
        bind_st (autoscale_rows ass, st) (\<lambda>rs st. Println (Table (autoscale_header # rs)) st)
      else print_each (autoscale_format ma output) ass st)"

definition doAutoscaleList ::
  "('s, hpa) client \<Rightarrow> hpa marshallers \<Rightarrow> string \<Rightarrow> string \<Rightarrow> 's cli \<Rightarrow> unit res \<times> 's cli" where
  "doAutoscaleList client ma ns output st =
     (case cl_list client ns ''created-by=kubeless'' (fst st) of
        (Inl e, s) \<Rightarrow> (Err e, (s, snd st))
      | (Inr items, s) \<Rightarrow> printAutoscale ma items output (s, snd st))"

definition autoscaleListCmd ::
  "'s cli_env \<Rightarrow> (string option \<Rightarrow> gerror + rest_config) \<Rightarrow> (rest_config \<Rightarrow> gerror + ('s, hpa) client) \<Rightarrow> hpa marshallers \<Rightarrow>
   flags \<Rightarrow> 's cli \<Rightarrow> unit res \<times> 's cli" where
  "autoscaleListCmd ce load NewForConfig ma fl st =
     bind_st (flag_string fl ''out'' st) (\<lambda>output st.
     bind_st (flag_namespace ce fl st) (\<lambda>ns st.
     bind_st (GetClientOutOfCluster (ce_getenv ce) load NewForConfig st) (\<lambda>client st.
     fatal_err (doAutoscaleList client ma ns output st))))"

section \<open>Laws\<close>

lemma GetFunction_Ok_iff [res_simps]:
  "GetFunction k n ns s = (Ok f, s') \<longleftrightarrow> (\<exists>c. k = Inr c \<and> cl_get c ns n s = (Inr f, s'))"
  by (auto simp: GetFunction_def split: sum.splits prod.splits)

lemma find_function_Ok_iff [res_simps]:
  "find_function ce n ns st = (Ok f, st') \<longleftrightarrow>
     (\<exists>c. ce_kubeless ce = Inr c \<and> cl_get c ns n (fst st) = (Inr f, fst st')) \<and> snd st' = snd st"
proof -
  have "find_function ce n ns st = (Ok f, st') \<longleftrightarrow> on_server (GetFunction (ce_kubeless ce) n ns) st = (Ok f, st')"
    by (auto simp: find_function_def fatal_def split: prod.splits res.splits)
  then show ?thesis by (simp add: res_simps)
qed

lemma update_rule_Ok_iff [res_simps]:
  "update_rule ce f st = (Ok u, st') \<longleftrightarrow>
     (\<exists>c. ce_kubeless ce = Inr c \<and> UpdateFunctionCustomResource c f (fst st) = (Ok (), fst st')) \<and> snd st' = snd st"
  by (auto simp: update_rule_def res_simps)

lemma set_HPA_simps [simp]:
  "fs_HorizontalPodAutoscaler (f_Spec (set_HPA h f)) = h" "f_Meta (set_HPA h f) = f_Meta f"
  "set_HPA h (set_HPA h' f) = set_HPA h f"
  by (simp_all add: set_HPA_def)

lemma set_HPA_owner_set_HPA:
  "set_HPA_owner ors (set_HPA h f) = set_HPA (h\<lparr>hpa_Meta := (hpa_Meta h)\<lparr>om_OwnerReferences := ors\<rparr>\<rparr>) f"
  by (simp add: set_HPA_owner_def set_HPA_def)

text \<open>A rule that Kubernetes and the controller accept, for the function it is named after.\<close>

definition valid_rule :: "string \<Rightarrow> string \<Rightarrow> hpa \<Rightarrow> bool" where
  "valid_rule name ns h \<longleftrightarrow>
     om_Name (hpa_Meta h) = name \<and> om_Namespace (hpa_Meta h) = ns \<and>
     hpa_TargetKind h = ''Deployment'' \<and> hpa_TargetName h = name \<and>
     (\<exists>mn. hpa_MinReplicas h = Some mn \<and> 0 < sint mn \<and> sint mn \<le> sint (hpa_MaxReplicas h)) \<and>
     (\<exists>m. hpa_Metrics h = [m] \<and> metric_type m \<in> {''Resource'', ''Object''})"

lemma autoscale_definition_valid:
  assumes "getHorizontalAutoscaleDefinition Q name ns metric mn mx value labels = Ok h"
    and "0 < sint mn" and "sint mn \<le> sint mx"
  shows "valid_rule name ns h \<and> om_Labels (hpa_Meta h) = labels \<and> autoscale_metrics Q name metric value = Ok (hpa_Metrics h)"
  using assms
  by (auto simp: getHorizontalAutoscaleDefinition_def autoscale_metrics_def valid_rule_def metric_type_def
      res_simps split: if_splits)

lemma autoscaleCreateCmd_Ok:
  assumes "autoscaleCreateCmd ce args fl st = (Ok (), st')"
  shows "\<exists>name v k f s1 h metric value. args = [name] \<and> fl_GetString fl ''namespace'' = Inr v \<and> ce_kubeless ce = Inr k \<and>
    cl_get k (namespace_of ce v) name (fst st) = (Inr f, s1) \<and> valid_rule name (namespace_of ce v) h \<and>
    om_Labels (hpa_Meta h) = f_Labels f \<and> fl_GetString fl ''metric'' = Inr metric \<and>
    autoscale_metrics (ce_ParseQuantity ce) name metric value = Ok (hpa_Metrics h) \<and>
    UpdateFunctionCustomResource k (set_HPA h f) s1 = (Ok (), fst st') \<and> snd st' = snd st"
proof -
  obtain name where "args = [name]"
    using assms by (auto simp: autoscaleCreateCmd_def res_simps length_Suc_conv)
  with assms show ?thesis
    by (fastforce simp: autoscaleCreateCmd_def res_simps flag_simps dest: autoscale_definition_valid)
qed

text \<open>What the controller does with a rule whose monitor is in place.\<close>

lemma ensure_autoscale_rule:
  assumes "valid_rule name ns h" and "name \<noteq> []"
    and "ensure_monitor c (set_HPA_owner ors (set_HPA h f)) ors s = (Ok (), s1)"
  shows "ensure_autoscale c (set_HPA h f) ors s =
    (let h' = h\<lparr>hpa_Meta := (hpa_Meta h)\<lparr>om_OwnerReferences := ors\<rparr>\<rparr>
     in case create_or_update_hpa c h' s1 of (r, s2) \<Rightarrow> (r, set_HPA h' f, s2))"
  using assms by (simp add: ensure_autoscale_def valid_rule_def set_HPA_owner_set_HPA Let_def)

lemma ensure_monitor_resource:
  assumes "hpa_Metrics h = [ResourceMetric n u]"
  shows "ensure_monitor c (set_HPA_owner ors (set_HPA h f)) ors s = (Ok (), s)"
  using assms by (simp add: ensure_monitor_def set_HPA_owner_set_HPA metric_type_def)


text \<open>
  C34: A rule on requests per second is applied once and then frozen: when its service monitor
  exists, as it does after the first reconciliation, reconciling the function reports an error
  before the rule is looked at, so that a changed rule never reaches the cluster.
\<close>

theorem qps_rule_frozen:
  assumes "getHorizontalAutoscaleDefinition Q name ns ''qps'' mn mx value labels = Ok h" and "name \<noteq> []"
    and "fc_smclient c = Some sm" and "cl_get sm (f_Namespace f) (f_Name f) s = (Inr x, s1)"
  shows "\<exists>f'. ensure_autoscale c (set_HPA h f) ors s = (Err (Errorf ''service monitor has already existed''), f', s1)"
proof -
  have "om_Name (hpa_Meta h) = name" "hpa_TargetName h = name" and m: "\<exists>q. hpa_Metrics h = [ObjectMetric ''function_calls'' q ''Service'' name]"
    using assms(1) by (auto simp: getHorizontalAutoscaleDefinition_def autoscale_metrics_def res_simps)
  with assms(2-4) show ?thesis
    by (auto simp: ensure_autoscale_def set_HPA_owner_set_HPA Let_def ensure_monitor_def metric_type_def CreateServiceMonitor_def)
qed

text \<open>
  After \<open>autoscale delete\<close> the function the server returned has no rule, and the
  reconciliation of that function deletes the rule and its service monitor from the cluster.
\<close>

theorem autoscale_delete_applied:
  assumes "autoscaleDeleteCmd ce [name] fl st = (Ok (), st')"
  shows "\<exists>v k f s1. fl_GetString fl ''namespace'' = Inr v \<and> ce_kubeless ce = Inr k \<and>
    cl_get k (namespace_of ce v) name (fst st) = (Inr f, s1) \<and>
    UpdateFunctionCustomResource k (set_HPA zero_hpa f) s1 = (Ok (), fst st') \<and>
    (\<forall>c ors s. ensure_autoscale c (set_HPA zero_hpa f) ors s =
       (case drop_not_found (deleteAutoscale c (f_Namespace f) (f_Name f) s) of (r, s2) \<Rightarrow> (r, set_HPA zero_hpa f, s2)))"
  using assms
  by (auto simp: autoscaleDeleteCmd_def res_simps flag_simps fatal_def ensure_autoscale_def zero_hpa_def zero_meta_def
      split: if_splits)

text \<open>
  The listing shows a CPU rule as it was given: the row has the name, the namespace, the
  target, both bounds and the percentage that were on the command line.
\<close>

theorem autoscale_row_roundtrip:
  assumes "- (2 ^ 31) \<le> i" and "i < 2 ^ 31"
  shows "bind_res (getHorizontalAutoscaleDefinition Q name ns ''cpu'' mn mx (Itoa i) labels) autoscale_row =
    Ok [name, ns, name, Itoa (sint mn), Itoa (sint mx), ''cpu'', Itoa i]"
proof -
  have "ParseInt (Itoa i) 32 = Inr i"
    using assms by (intro ParseInt_Itoa) simp_all
  moreover have "sint (word_of_int i :: int32) = i"
    using assms by (simp add: sint_sbintrunc' signed_take_bit_int_eq_self)
  ultimately show ?thesis
    by (simp add: getHorizontalAutoscaleDefinition_def autoscale_metrics_def autoscale_row_def metric_cells_def)
qed

end
