(* ===== verification/Topic.thy ===== *)
theory Topic
  imports Flags Exec Clients
begin

text \<open>
  The commands of \<open>kubeless topic\<close>, \<open>cmd/kubeless/topic\<close>, which run the tools of Kafka in its
  pod through the websocket of \<open>Exec\<close>. The record of parameters holds the libraries: TLS and
  authentication, the websocket, and what happens on a connection, which is the outcome of
  every read and write of the two goroutines that serve it.
\<close>

section \<open>The environment of a topic command\<close>

record ('s, 'tls, 'conn) topic_env =
  tp_cli :: "'s cli_env"
  tp_load :: "string option \<Rightarrow> gerror + rest_config"
  tp_NewForConfig :: "rest_config \<Rightarrow> gerror + ('s, pod) client"
  tp_TLSConfigFor :: "rest_config \<Rightarrow> gerror + 'tls"
  tp_HTTPWrappers :: "rest_config \<Rightarrow> round_tripper \<Rightarrow> gerror + round_tripper"
  tp_websocket :: "('tls, 'conn) websocket"
  tp_exec_resource :: "string \<Rightarrow> string \<Rightarrow> exec_options \<Rightarrow> exec_url"
  tp_stdin_first :: "'conn \<Rightarrow> bool"
  tp_stdin :: "'conn \<Rightarrow> string \<Rightarrow> stdin_round list"
  tp_receipts :: "'conn \<Rightarrow> receipt list"

text \<open>
  A command on a connection: the input is read through a pipe, so the rounds of the first
  goroutine depend on it.
\<close>

definition run_on :: "('s, 'tls, 'conn) topic_env \<Rightarrow> Cmd \<Rightarrow> string \<Rightarrow> 'conn \<Rightarrow> exec_result" where
  "run_on tp c input conn = RoundTripCallback c (tp_stdin_first tp conn) (tp_stdin tp conn input) (tp_receipts tp conn)"

definition kafka_pod :: "('s, pod) client \<Rightarrow> string \<Rightarrow> 's cli \<Rightarrow> pod res \<times> 's cli" where
  "kafka_pod k8sClientSet ctlNamespace st =
     bind_st (wrap_st (''Can'' @ [CHR 0x27] @ ''t find the kafka pod: '')
                (on_server (GetPodsByLabel k8sClientSet ctlNamespace ''kubeless'' ''kafka'') st)) (\<lambda>pods st.
     (if pods = [] then Err (Errorf (''Can'' @ [CHR 0x27] @ ''t find any kafka pod'')) else Ok (pods ! 0), st))"

text \<open>
  The outputs of the remote command go to one writer, in the order in which they arrive. The
  response of the round tripper is not looked at, only its error.
\<close>

definition exec_in_pod ::
  "('s, 'tls, 'conn) topic_env \<Rightarrow> rest_config \<Rightarrow> Cmd \<Rightarrow> string \<Rightarrow> exec_options \<Rightarrow> string \<Rightarrow> string \<Rightarrow> 's cli \<Rightarrow>
   unit res \<times> 's cli" where
  "exec_in_pod tp conf c input opts pod_name ns st =
     bind_st (ExecRoundTripper (tp_TLSConfigFor tp) (tp_HTTPWrappers tp) (tp_websocket tp) conf (run_on tp c input), st) (\<lambda>rt st.
     bind_st (Exec (tp_exec_resource tp) pod_name ns opts, st) (\<lambda>req st.
     bind_st (rt req, st) (\<lambda>x st.
     case Println (Raw (concat (map snd (xr_Output x)))) st of
       (_, st1) \<Rightarrow> (case xr_Error x of None \<Rightarrow> Ok () | Some e \<Rightarrow> Err e, st1))))"

definition execCommand ::
  "('s, 'tls, 'conn) topic_env \<Rightarrow> rest_config \<Rightarrow> ('s, pod) client \<Rightarrow> string \<Rightarrow> string list \<Rightarrow> 's cli \<Rightarrow> unit res \<times> 's cli" where
  "execCommand tp conf k8sClientSet ctlNamespace command st =
     bind_st (kafka_pod k8sClientSet ctlNamespace st) (\<lambda>p st.
     exec_in_pod tp conf \<lparr>cmd_Stdin = False, cmd_Stdout = True, cmd_Stderr = True\<rparr> []
       \<lparr>xo_Stdin = False, xo_Stdout = True, xo_Stderr = True, xo_TTY = False, xo_Container = ''broker'', xo_Command = command\<rparr>
       (pod_Name p) ctlNamespace st)"

section \<open>Commands\<close>

definition kafka_topics :: "string \<Rightarrow> string list" where
  "kafka_topics ctlNamespace =
     [''bash'', ''/opt/bitnami/kafka/bin/kafka-topics.sh'', ''--zookeeper'', ''zookeeper.'' @ ctlNamespace @ '':2181'']"

definition createTopic ::
  "('s, 'tls, 'conn) topic_env \<Rightarrow> rest_config \<Rightarrow> ('s, pod) client \<Rightarrow> string \<Rightarrow> string \<Rightarrow> 's cli \<Rightarrow> unit res \<times> 's cli" where
  "createTopic tp conf k8sClientSet ctlNamespace topicName st =
     execCommand tp conf k8sClientSet ctlNamespace
       (kafka_topics ctlNamespace @
        [''--replication-factor'', ''1'', ''--partitions'', ''1'', ''--create'', ''--topic'', topicName]) st"

definition deleteTopic ::
  "('s, 'tls, 'conn) topic_env \<Rightarrow> rest_config \<Rightarrow> ('s, pod) client \<Rightarrow> string \<Rightarrow> string \<Rightarrow> 's cli \<Rightarrow> unit res \<times> 's cli" where
  "deleteTopic tp conf k8sClientSet ctlNamespace topicName st =
     execCommand tp conf k8sClientSet ctlNamespace (kafka_topics ctlNamespace @ [''--delete'', ''--topic'', topicName]) st"

definition listTopic :: "('s, 'tls, 'conn) topic_env \<Rightarrow> rest_config \<Rightarrow> ('s, pod) client \<Rightarrow> string \<Rightarrow> 's cli \<Rightarrow> unit res \<times> 's cli" where
  "listTopic tp conf k8sClientSet ctlNamespace st = execCommand tp conf k8sClientSet ctlNamespace (kafka_topics ctlNamespace @ [''--list'']) st"

definition publish_options :: "string \<Rightarrow> exec_options" where
  "publish_options topic =
     \<lparr>xo_Stdin = True, xo_Stdout = True, xo_Stderr = True, xo_TTY = True, xo_Container = ''broker'',
      xo_Command = [''bash'', ''/opt/bitnami/kafka/bin/kafka-console-producer.sh'', ''--broker-list'', ''localhost:9092'',
        ''--topic'', topic]\<rparr>"

definition publishTopic ::
  "('s, 'tls, 'conn) topic_env \<Rightarrow> rest_config \<Rightarrow> ('s, pod) client \<Rightarrow> string \<Rightarrow> string \<Rightarrow> string \<Rightarrow> 's cli \<Rightarrow> unit res \<times> 's cli" where
  "publishTopic tp conf k8sClientSet namespace topic data st =
     bind_st (kafka_pod k8sClientSet namespace st) (\<lambda>p st.
     exec_in_pod tp conf \<lparr>cmd_Stdin = True, cmd_Stdout = True, cmd_Stderr = True\<rparr> (data @ [CHR 0x0A])
       (publish_options topic) (pod_Name p) namespace st)"

text \<open>The configuration of the client, which every command builds first.\<close>

definition out_of_cluster_config :: "('s, 'tls, 'conn) topic_env \<Rightarrow> 's cli \<Rightarrow> rest_config res \<times> 's cli" where
  "out_of_cluster_config tp st = fatal_err (BuildOutOfClusterConfig (ce_getenv (tp_cli tp)) (tp_load tp), st)"

definition topic_clientset :: "('s, 'tls, 'conn) topic_env \<Rightarrow> 's cli \<Rightarrow> ('s, pod) client res \<times> 's cli" where
  "topic_clientset tp = GetClientOutOfCluster (ce_getenv (tp_cli tp)) (tp_load tp) (tp_NewForConfig tp)"

definition topic_flags :: declarations where
  "topic_flags = [(''kafka-namespace'', FString ''kubeless'')]"

definition topicCreateCmd :: "('s, 'tls, 'conn) topic_env \<Rightarrow> string list \<Rightarrow> flags \<Rightarrow> 's cli \<Rightarrow> unit res \<times> 's cli" where
  "topicCreateCmd tp args fl st =
     bind_st (check (length args = 1) ''Need exactly one argument - topic name'' st) (\<lambda>_ st.
     bind_st (flag_string fl ''kafka-namespace'' st) (\<lambda>ctlNamespace st.
     bind_st (out_of_cluster_config tp st) (\<lambda>conf st.
     bind_st (topic_clientset tp st) (\<lambda>k8sClientSet st.
     fatal_err (createTopic tp conf k8sClientSet ctlNamespace (args ! 0) st)))))"

definition topicDeleteCmd :: "('s, 'tls, 'conn) topic_env \<Rightarrow> string list \<Rightarrow> flags \<Rightarrow> 's cli \<Rightarrow> unit res \<times> 's cli" where
  "topicDeleteCmd tp args fl st =
     bind_st (check (length args = 1) ''Need exactly one argument - topic name'' st) (\<lambda>_ st.
     bind_st (flag_string fl ''kafka-namespace'' st) (\<lambda>ctlNamespace st.
     bind_st (out_of_cluster_config tp st) (\<lambda>conf st.
     bind_st (topic_clientset tp st) (\<lambda>k8sClientSet st.
     fatal_err (deleteTopic tp conf k8sClientSet ctlNamespace (args ! 0) st)))))"

definition topicListCmd :: "('s, 'tls, 'conn) topic_env \<Rightarrow> flags \<Rightarrow> 's cli \<Rightarrow> unit res \<times> 's cli" where
  "topicListCmd tp fl st =
     bind_st (flag_string fl ''kafka-namespace'' st) (\<lambda>ctlNamespace st.
     bind_st (out_of_cluster_config tp st) (\<lambda>conf st.
     bind_st (topic_clientset tp st) (\<lambda>k8sClientSet st.
     fatal_err (listTopic tp conf k8sClientSet ctlNamespace st))))"

definition topicPublish_flags :: declarations where
  "topicPublish_flags = [(''data'', FString []), (''topic'', FString ''kubeless''), (''kafka-namespace'', FString ''kubeless'')]"

definition topicPublishCmd :: "('s, 'tls, 'conn) topic_env \<Rightarrow> flags \<Rightarrow> 's cli \<Rightarrow> unit res \<times> 's cli" where
  "topicPublishCmd tp fl st =
     bind_st (flag_string fl ''data'' st) (\<lambda>data st.
     bind_st (flag_string fl ''topic'' st) (\<lambda>topic st.
     bind_st (flag_string fl ''kafka-namespace'' st) (\<lambda>ctlNamespace st.
     bind_st (out_of_cluster_config tp st) (\<lambda>conf st.
     bind_st (topic_clientset tp st) (\<lambda>k8sClientSet st.
     fatal_err (publishTopic tp conf k8sClientSet ctlNamespace topic data st))))))"

section \<open>Laws\<close>

text \<open>
  What the code relies on: a pipe delivers what was written to it, in pieces that fit the
  buffer, and sends succeed; the wrappers of the client configuration add headers to a request
  and pass it on.
\<close>

definition pipe_laws :: "('s, 'tls, 'conn) topic_env \<Rightarrow> bool" where
  "pipe_laws tp \<longleftrightarrow>
     (\<forall>conn input. input_of (tp_stdin tp conn input) = input \<and>
        list_all (\<lambda>r. sr_SendErr r = None \<and> length (sr_Bytes r) \<le> 1024) (tp_stdin tp conn input))"

definition wrapper_laws :: "('s, 'tls, 'conn) topic_env \<Rightarrow> bool" where
  "wrapper_laws tp \<longleftrightarrow>
     (\<forall>conf rt rt' r. tp_HTTPWrappers tp conf rt = Inr rt' \<longrightarrow> (\<exists>hs. rt' r = rt (r\<lparr>hr_Header := hs\<rparr>)))"

lemma GetPodsByLabel_Ok_iff [res_simps]:
  "GetPodsByLabel c ns k v s = (Ok ps, s') \<longleftrightarrow> cl_list c ns (k @ ''='' @ v) s = (Inr ps, s')"
  by (auto simp: GetPodsByLabel_def split: prod.splits sum.splits)

lemma kafka_pod_Ok:
  assumes "kafka_pod k8sClientSet ns st = (Ok p, st')"
  shows "\<exists>ps. cl_list k8sClientSet ns ''kubeless=kafka'' (fst st) = (Inr (p # ps), fst st') \<and> snd st' = snd st"
  using assms by (auto simp: kafka_pod_def res_simps neq_Nil_conv split: if_splits)

text \<open>A connection that was opened for a URL, with the protocol of the exec resource.\<close>

definition connected :: "('s, 'tls, 'conn) topic_env \<Rightarrow> string \<Rightarrow> 'conn \<Rightarrow> bool" where
  "connected tp url conn \<longleftrightarrow>
     (\<exists>origin wsconf tls hs. wk_NewConfig (tp_websocket tp) url origin = Inr wsconf \<and>
        wk_DialConfig (tp_websocket tp)
          (wsconf\<lparr>ws_TlsConfig := tls, ws_Header := hs, ws_Protocol := [''channel.k8s.io'']\<rparr>) = Inr conn)"

lemma RoundTrip_Ok:
  assumes "RoundTrip (tp_websocket tp) tls cb r = Ok x"
  shows "\<exists>conn. connected tp (hr_URL r) conn \<and> x = cb conn"
proof -
  obtain origin wsconf conn where "wk_NewConfig (tp_websocket tp) (hr_URL r) origin = Inr wsconf"
    and "wk_DialConfig (tp_websocket tp)
      (wsconf\<lparr>ws_TlsConfig := tls, ws_Header := hr_Header r, ws_Protocol := [''channel.k8s.io'']\<rparr>) = Inr conn"
    and "x = cb conn"
    using assms by (auto simp: RoundTrip_def Let_def res_simps)
  then show ?thesis unfolding connected_def by blast
qed

text \<open>A command that succeeds ran on a connection to the URL of the pod, and its output was printed.\<close>

lemma exec_in_pod_Ok:
  assumes "exec_in_pod tp conf c input opts pod_name ns st = (Ok (), st')" and "wrapper_laws tp"
  shows "\<exists>req conn. Exec (tp_exec_resource tp) pod_name ns opts = Ok req \<and> connected tp (hr_URL req) conn \<and>
    xr_Error (run_on tp c input conn) = None \<and>
    st' = (fst st, snd st @ [Raw (concat (map snd (xr_Output (run_on tp c input conn))))])"
proof -
  obtain tls rt req x where rt: "tp_HTTPWrappers tp conf (RoundTrip (tp_websocket tp) tls (run_on tp c input)) = Inr rt"
    and req: "Exec (tp_exec_resource tp) pod_name ns opts = Ok req" and x: "rt req = Ok x"
    and out: "st' = (fst st, snd st @ [Raw (concat (map snd (xr_Output x)))])" "xr_Error x = None"
    using assms(1)
    by (auto simp: exec_in_pod_def ExecRoundTripper_def res_simps Println_def split: option.splits)
  obtain hs where "rt req = RoundTrip (tp_websocket tp) tls (run_on tp c input) (req\<lparr>hr_Header := hs\<rparr>)"
    using assms(2) rt unfolding wrapper_laws_def by blast
  with x have "RoundTrip (tp_websocket tp) tls (run_on tp c input) (req\<lparr>hr_Header := hs\<rparr>) = Ok x" by simp
  from RoundTrip_Ok [OF this] req out show ?thesis by auto
qed

lemma run_on_input:
  assumes "pipe_laws tp" and "cmd_Stdin c"
  shows "concat (map tl (xr_Frames (run_on tp c input conn))) = input \<and>
    list_all (\<lambda>fr. hd fr = stdinChannel \<and> fr \<noteq> [] \<and> length fr \<le> 1025) (xr_Frames (run_on tp c input conn))"
proof -
  have "xr_Frames (run_on tp c input conn) = fst (stdin_loop (tp_stdin tp conn input))"
    using assms(2) by (simp add: run_on_def RoundTripCallback_def copy_stdin_def split: prod.splits)
  with stdin_loop_frames [of "tp_stdin tp conn input"] assms(1) show ?thesis
    unfolding pipe_laws_def by (auto simp: list_all_iff)
qed


end
