(* ===== verification/TriggerCmd.thy ===== *)
theory TriggerCmd
  imports Flags Clients
begin

text \<open>
  What the commands of \<open>kubeless trigger\<close> have in common, \<open>cmd/kubeless/trigger\<close>: the five kinds
  of trigger are resources of other repositories, whose types appear here with the fields the
  sources use, and whose clients are parameters. A command that creates or updates a trigger
  first builds it, then prints it or submits it; the locale \<open>trigger_command\<close> states this contract,
  and every such command of the following theories is an instance of it.
\<close>

section \<open>Triggers\<close>

record label_selector =
  lb_MatchLabels :: gomap
  lb_MatchExpressions :: "string list"

record http_trigger =
  ht_Kind :: string
  ht_APIVersion :: string
  ht_Meta :: object_meta
  ht_FunctionName :: string
  ht_Path :: string
  ht_TLSAcme :: bool
  ht_CorsEnable :: bool
  ht_TLSSecret :: string
  ht_Gateway :: string
  ht_HostName :: string
  ht_BasicAuthSecret :: string

text \<open>Kafka and NATS triggers have the same fields.\<close>

record topic_trigger =
  tt_Kind :: string
  tt_APIVersion :: string
  tt_Meta :: object_meta
  tt_FunctionSelector :: label_selector
  tt_Topic :: string

record kinesis_trigger =
  kt_Kind :: string
  kt_APIVersion :: string
  kt_Meta :: object_meta
  kt_FunctionName :: string
  kt_Region :: string
  kt_Stream :: string
  kt_ShardID :: string
  kt_Secret :: string
  kt_Endpoint :: string

record ('s, 't) trigger_package =
  pk_client :: "gerror + ('s, 't) trigger_api"
  pk_fmt :: "'t marshallers"

record 's trigger_env =
  te_cli :: "'s cli_env"
  te_http :: "('s, http_trigger) trigger_package"
  te_kafka :: "('s, topic_trigger) trigger_package"
  te_nats :: "('s, topic_trigger) trigger_package"
  te_kinesis :: "('s, kinesis_trigger) trigger_package"
  te_cronjob :: "('s, cronjob_trigger) trigger_package"
  te_Secrets :: "rest_config \<Rightarrow> gerror + ('s, secret) client"
  te_load :: "string option \<Rightarrow> gerror + rest_config"
  te_GetLocalHostname :: "rest_config \<Rightarrow> string \<Rightarrow> gerror + string"
  te_ParseToLabelSelector :: "string \<Rightarrow> gerror + label_selector"
  te_FormatLabelSelector :: "label_selector \<Rightarrow> string"
  te_ParseRequestURI :: "string \<Rightarrow> gerror option"
  te_unmarshal_map :: "string \<Rightarrow> gerror + (string \<times> json) list option"

definition trigger_meta :: "string \<Rightarrow> string \<Rightarrow> object_meta" where
  "trigger_meta triggerName ns =
     zero_meta\<lparr>om_Name := triggerName, om_Namespace := ns, om_Labels := Some [(''created-by'', ''kubeless'')]\<rparr>"

section \<open>Steps the commands share\<close>

definition client_or_exit :: "gerror + 'c \<Rightarrow> 's cli \<Rightarrow> 'c res \<times> 's cli" where
  "client_or_exit c st = fatal_prefix ''Can not create out-of-cluster client: '' (lift_sum c, st)"

text \<open>The function of a trigger has to exist; \<open>shown\<close> is the name the message mentions.\<close>

definition require_function ::
  "('s, kfunction) client \<Rightarrow> string \<Rightarrow> string \<Rightarrow> string \<Rightarrow> 's cli \<Rightarrow> unit res \<times> 's cli" where
  "require_function kubelessClient functionName shown ns st =
     bind_st (fatal_prefix (''Unable to find Function '' @ shown @ '' in namespace '' @ ns @ ''. Error '')
                (on_server (GetFunctionCustomResource kubelessClient functionName ns) st)) (\<lambda>_ st. (Ok (), st))"

text \<open>The trigger an update starts from.\<close>

definition find_trigger :: "string \<Rightarrow> ('s, 't) trigger_api \<Rightarrow> string \<Rightarrow> string \<Rightarrow> 's cli \<Rightarrow> 't res \<times> 's cli" where
  "find_trigger what api triggerName ns st =
     fatal_prefix (''Unable to find '' @ what @ '' trigger '' @ triggerName @ '' in namespace '' @ ns @ ''. Error '')
       (case ta_Get api triggerName ns (fst st) of (r, s) \<Rightarrow> (lift_sum r, (s, snd st)))"

definition print_dry_run :: "'t marshallers \<Rightarrow> string \<Rightarrow> 't \<Rightarrow> 's cli \<Rightarrow> unit res \<times> 's cli" where
  "print_dry_run ma output t st = bind_st (fatal_err (DryRunFmt ma output t, st)) (\<lambda>res st. Println (Line res) st)"

definition failure_prefix :: "string \<Rightarrow> string \<Rightarrow> string \<Rightarrow> string" where
  "failure_prefix failed triggerName ns = failed @ triggerName @ '' in namespace '' @ ns @ ''. Error: ''"

definition submit_trigger ::
  "string \<Rightarrow> string \<Rightarrow> string \<Rightarrow> ('t \<Rightarrow> ('s, unit) api) \<Rightarrow> 't \<Rightarrow> 's cli \<Rightarrow> unit res \<times> 's cli" where
  "submit_trigger failed triggerName ns save t st =
     fatal_prefix (failure_prefix failed triggerName ns) (on_server (\<lambda>s. unit_result (save t s)) st)"

text \<open>
  The end of a command that writes a trigger: what was built is the trigger with the output
  format, and whether this is a dry run.
\<close>

definition finish_trigger ::
  "'t marshallers \<Rightarrow> ('t \<Rightarrow> 's cli \<Rightarrow> unit res \<times> 's cli) \<Rightarrow> (('t \<times> string) \<times> bool) res \<times> 's cli \<Rightarrow> unit res \<times> 's cli" where
  "finish_trigger ma save built =
     bind_st built (\<lambda>((t, output), dryrun) st. if dryrun then print_dry_run ma output t st else save t st)"

definition delete_trigger ::
  "'s cli_env \<Rightarrow> (gerror + ('s, 't) trigger_api) \<Rightarrow> string \<Rightarrow> string \<Rightarrow> string list \<Rightarrow> flags \<Rightarrow> 's cli \<Rightarrow> unit res \<times> 's cli" where
  "delete_trigger ce pk_cl usage failed args fl st =
     bind_st (check (length args = 1) (''Need exactly one argument - '' @ usage) st) (\<lambda>_ st.
     bind_st (flag_namespace ce fl st) (\<lambda>ns st.
     bind_st (client_or_exit pk_cl st) (\<lambda>api st.
     fatal_prefix (failure_prefix failed (args ! 0) ns) (on_server (\<lambda>s. unit_result (ta_Delete api (args ! 0) ns s)) st))))"

text \<open>The function \<open>doList\<close> of each package: a header and a row per trigger.\<close>

definition doList_triggers ::
  "('s, 't) trigger_api \<Rightarrow> string list \<Rightarrow> ('t \<Rightarrow> string list) \<Rightarrow> string \<Rightarrow> 's cli \<Rightarrow> unit res \<times> 's cli" where
  "doList_triggers api header row ns st =
     (case ta_List api ns (fst st) of
        (Inl e, s) \<Rightarrow> (Err e, (s, snd st))
      | (Inr triggers, s) \<Rightarrow> Println (Table (header # map row triggers)) (s, snd st))"

definition list_triggers ::
  "'s cli_env \<Rightarrow> (gerror + ('s, 't) trigger_api) \<Rightarrow> string list \<Rightarrow> ('t \<Rightarrow> string list) \<Rightarrow> flags \<Rightarrow> 's cli \<Rightarrow> unit res \<times> 's cli" where
  "list_triggers ce pk_cl header row fl st =
     bind_st (flag_namespace ce fl st) (\<lambda>ns st.
     bind_st (client_or_exit pk_cl st) (\<lambda>api st.
     fatal_err (doList_triggers api header row ns st)))"

definition namespace_flags :: declarations where
  "namespace_flags = [(''namespace'', FString [])]"

text \<open>A field keeps its value when the flag is empty.\<close>

definition or_keep :: "string \<Rightarrow> string \<Rightarrow> string" where
  "or_keep new old = (if new \<noteq> [] then new else old)"

text \<open>A request was sent that took the server from \<open>s1\<close> to \<open>s'\<close>, unless this was a dry run.\<close>

definition sent ::
  "gerror + bool \<Rightarrow> gerror + ('s, 't) trigger_api \<Rightarrow> (('s, 't) trigger_api \<Rightarrow> 't \<Rightarrow> ('s, unit) api) \<Rightarrow> 't \<Rightarrow> 's \<Rightarrow> 's \<Rightarrow> bool" where
  "sent dryrun client op t s1 s' \<longleftrightarrow>
     (if dryrun = Inr True then s' = s1 else \<exists>c. client = Inr c \<and> op c t s1 = (Inr (), s'))"

text \<open>The value of a flag, for statements about what a command made of it.\<close>

definition flag_text :: "flags \<Rightarrow> string \<Rightarrow> string" where
  "flag_text fl n = (case fl_GetString fl n of Inr v \<Rightarrow> v | Inl e \<Rightarrow> [])"

definition flag_on :: "flags \<Rightarrow> string \<Rightarrow> bool" where
  "flag_on fl n = (case fl_GetBool fl n of Inr b \<Rightarrow> b | Inl e \<Rightarrow> False)"

section \<open>Laws\<close>

lemma flag_text_read [simp]: "fl_GetString fl n = Inr v \<Longrightarrow> flag_text fl n = v"
  by (simp add: flag_text_def)

lemma flag_on_read [simp]: "fl_GetBool fl n = Inr b \<Longrightarrow> flag_on fl n = b"
  by (simp add: flag_on_def)

lemma trigger_meta_simps [simp]:
  "om_Name (trigger_meta n ns) = n" "om_Namespace (trigger_meta n ns) = ns"
  "hasDefaultLabel (om_Labels (trigger_meta n ns))"
  by (simp_all add: trigger_meta_def hasDefaultLabel_def gm_get_def gm_find_def)

lemma client_or_exit_Ok_iff [res_simps]: "client_or_exit c st = (Ok x, st') \<longleftrightarrow> c = Inr x \<and> st' = st"
  by (auto simp: client_or_exit_def fatal_prefix_def res_simps)

lemma GetFunctionCustomResource_Ok_iff [res_simps]:
  "GetFunctionCustomResource c n ns s = (Ok f, s') \<longleftrightarrow> cl_get c ns n s = (Inr f, s')"
  by (auto simp: GetFunctionCustomResource_def split: prod.splits sum.splits)

lemma require_function_Ok_iff [res_simps]:
  "require_function c n shown ns st = (Ok u, st') \<longleftrightarrow>
     (\<exists>f. cl_get c ns n (fst st) = (Inr f, fst st')) \<and> snd st' = snd st"
proof -
  have "require_function c n shown ns st = (Ok u, st') \<longleftrightarrow>
      (\<exists>f. on_server (GetFunctionCustomResource c n ns) st = (Ok f, st'))"
    by (cases st') (auto simp: require_function_def fatal_prefix_def fatal_err_Ok_iff bind_st_Ok_iff)
  then show ?thesis by (simp add: res_simps)
qed

lemma find_trigger_Ok_iff [res_simps]:
  "find_trigger what api n ns st = (Ok t, st') \<longleftrightarrow> ta_Get api n ns (fst st) = (Inr t, fst st') \<and> snd st' = snd st"
  by (cases "ta_Get api n ns (fst st)"; cases st') (auto simp: find_trigger_def fatal_prefix_def res_simps)

lemma print_dry_run_server [simp]: "fst (snd (print_dry_run ma output t st)) = fst st"
  by (cases "DryRunFmt ma output t") (simp_all add: print_dry_run_def Println_def)

lemma unit_result_Ok_iff [res_simps]: "unit_result r = (Ok u, s) \<longleftrightarrow> (\<exists>x. fst r = Inr x) \<and> snd r = s"
  by (auto simp: unit_result_def split: sum.splits)

lemma submit_trigger_Ok_iff [res_simps]:
  "submit_trigger failed n ns save t st = (Ok u, st') \<longleftrightarrow> save t (fst st) = (Inr (), fst st') \<and> snd st' = snd st"
  by (cases "save t (fst st)") (auto simp: submit_trigger_def fatal_prefix_def res_simps)

text \<open>
  A command that writes a trigger: it builds the trigger, with whether this is a dry run, and
  then either writes it or only prints. An error while building ends it.
\<close>

locale trigger_command =
  fixes run :: "'s cli \<Rightarrow> unit res \<times> 's cli"
    and build :: "'s cli \<Rightarrow> ('t \<times> bool) res \<times> 's cli"
    and save :: "'t \<Rightarrow> 's cli \<Rightarrow> unit res \<times> 's cli"
  assumes not_built: "build st = (r, st1) \<Longrightarrow> \<not> is_ok r \<Longrightarrow> \<not> is_ok (fst (run st)) \<and> snd (run st) = st1"
    and dry: "build st = (Ok (t, True), st1) \<Longrightarrow> fst (snd (run st)) = fst st1"
    and submitted: "build st = (Ok (t, False), st1) \<Longrightarrow> run st = save t st1"
begin

text \<open>A command that succeeds wrote what it built, or it was a dry run and wrote nothing.\<close>

lemma succeeds:
  assumes "run st = (Ok (), st')"
  obtains (dry_run) t st1 where "build st = (Ok (t, True), st1)" and "fst st' = fst st1"
    | (written) t st1 where "build st = (Ok (t, False), st1)" and "save t st1 = (Ok (), st')"
proof (cases "build st" rule: prod.exhaust)
  case (Pair r st1)
  then obtain t d where r: "r = Ok (t, d)"
    using not_built [OF Pair] assms by (cases r) auto
  note built = Pair [unfolded r]
  show thesis
  proof (cases d)
    case True
    with dry_run [of t st1] dry [of st t st1] assms built show thesis by simp
  next
    case False
    with written [of t st1] submitted [of st t st1] assms built show thesis by simp
  qed
qed

text \<open>Unless it is built for writing, nothing reaches the server after the reads.\<close>

lemma writes_only_built:
  assumes "\<And>t st1. build st \<noteq> (Ok (t, False), st1)"
  shows "fst (snd (run st)) = fst (snd (build st))"
proof (cases "build st" rule: prod.exhaust)
  case (Pair r st1)
  show ?thesis
  proof (cases r)
    case (Ok x)
    then obtain t where "build st = (Ok (t, True), st1)"
      using Pair assms [of "fst x" st1] by (cases x) (auto simp del: split_paired_All)
    then show ?thesis using dry [of st t st1] by simp
  qed (use not_built [OF Pair] Pair in simp_all)
qed

end

text \<open>
  The same with what is known of the trigger: \<open>described s s1 t\<close> relates it to the flags and to the
  reads that took the server from \<open>s\<close> to \<open>s1\<close>, and \<open>op\<close> is the request that writes it.
\<close>

locale trigger_writer = trigger_command run build "\<lambda>(t, _). submit t"
  for run :: "'s cli \<Rightarrow> unit res \<times> 's cli"
    and build :: "'s cli \<Rightarrow> (('t \<times> string) \<times> bool) res \<times> 's cli"
    and submit :: "'t \<Rightarrow> 's cli \<Rightarrow> unit res \<times> 's cli" +
  fixes described :: "'s \<Rightarrow> 's \<Rightarrow> 't \<Rightarrow> bool"
    and dryrun :: "gerror + bool"
    and client :: "gerror + ('s, 't) trigger_api"
    and op :: "('s, 't) trigger_api \<Rightarrow> 't \<Rightarrow> ('s, unit) api"
  assumes built: "build st = (Ok ((t, out), d), st1) \<Longrightarrow> described (fst st) (fst st1) t \<and> dryrun = Inr d"
    and submits: "submit t st = (Ok (), st') \<Longrightarrow> \<exists>c. client = Inr c \<and> op c t (fst st) = (Inr (), fst st')"
begin

text \<open>A command that succeeds sent one request, with the described trigger, or none if it was a dry run.\<close>

lemma sends_one:
  assumes "run st = (Ok (), st')"
  shows "\<exists>s1 t. described (fst st) s1 t \<and> sent dryrun client op t s1 (fst st')"
  using assms
proof (cases rule: succeeds)
  case (dry_run x st1)
  with built [of st "fst x" "snd x" True st1] show ?thesis by (auto simp: sent_def)
next
  case (written x st1)
  then have "submit (fst x) st1 = (Ok (), st')" by (simp add: split_beta)
  with built [of st "fst x" "snd x" False st1] submits [of "fst x" st1 st'] written(1) show ?thesis
    by (fastforce simp: sent_def)
qed

end

lemma finish_trigger_command: "trigger_command (\<lambda>st. finish_trigger ma save (build st)) build (\<lambda>(t, _). save t)"
proof
  fix st st1 :: "'a cli" and r
  assume "build st = (r, st1)" and "\<not> is_ok r"
  then show "\<not> is_ok (fst (finish_trigger ma save (build st))) \<and> snd (finish_trigger ma save (build st)) = st1"
    by (cases r) (simp_all add: finish_trigger_def)
qed (auto simp: finish_trigger_def)

end
