(* ===== verification/HttpTrigger.thy ===== *)
theory HttpTrigger
  imports TriggerCmd
begin

text \<open>
  The commands of \<open>kubeless trigger http\<close>, \<open>cmd/kubeless/trigger/http\<close>. Creating a trigger
  checks the gateway, the host name and the TLS options; updating one checks less, which the
  lemmas make precise.
\<close>

section \<open>create\<close>

definition createCmd_http_flags :: declarations where
  "createCmd_http_flags =
     [(''namespace'', FString []), (''function-name'', FString []), (''path'', FString []), (''hostname'', FString []),
      (''enableTLSAcme'', FBool False), (''gateway'', FString ''nginx''), (''basic-auth-secret'', FString []),
      (''tls-secret'', FString []), (''dryrun'', FBool False), (''output'', FString ''yaml''), (''cors-enable'', FBool False)]"

definition gateways :: "string list" where
  "gateways = [''nginx'', ''traefik'', ''kong'']"

text \<open>Without a host name, the address of the cluster serves as one for the nginx gateway.\<close>

definition http_hostname :: "'s trigger_env \<Rightarrow> string \<Rightarrow> string \<Rightarrow> string \<Rightarrow> 's cli \<Rightarrow> string res \<times> 's cli" where
  "http_hostname te functionName gateway hostName st =
     bind_st (if hostName = [] \<and> gateway = ''nginx'' then
                bind_st (fatal_err (BuildOutOfClusterConfig (ce_getenv (te_cli te)) (te_load te), st)) (\<lambda>config st.
                fatal_err (lift_sum (te_GetLocalHostname te config functionName), st))
              else (Ok hostName, st)) (\<lambda>hostName st.
     bind_st (check (hostName \<noteq> []) ''The --hostname flag is required'' st) (\<lambda>_ st. (Ok hostName, st)))"

definition http_create_build ::
  "'s trigger_env \<Rightarrow> string list \<Rightarrow> flags \<Rightarrow> 's cli \<Rightarrow> ((http_trigger \<times> string) \<times> bool) res \<times> 's cli" where
  "http_create_build te args fl st =
     bind_st (check (length args = 1) ''Need exactly one argument - http trigger name'' st) (\<lambda>_ st.
     bind_st (flag_namespace (te_cli te) fl st) (\<lambda>ns st.
     bind_st (flag_string fl ''path'' st) (\<lambda>path st.
     bind_st (flag_string fl ''function-name'' st) (\<lambda>functionName st.
     bind_st (flag_bool fl ''dryrun'' st) (\<lambda>dryrun st.
     bind_st (flag_string fl ''output'' st) (\<lambda>output st.
     bind_st (client_or_exit (ce_kubeless (te_cli te)) st) (\<lambda>kubelessClient st.
     bind_st (require_function kubelessClient functionName functionName ns st) (\<lambda>_ st.
     bind_st (flag_bool fl ''enableTLSAcme'' st) (\<lambda>enableTLSAcme st.
     bind_st (flag_bool fl ''cors-enable'' st) (\<lambda>corsEnabled st.
     bind_st (flag_string fl ''tls-secret'' st) (\<lambda>tlsSecret st.
     bind_st (check (\<not> (enableTLSAcme \<and> tlsSecret \<noteq> [])) ''Cannot specify both --enableTLSAcme and --tls-secret'' st) (\<lambda>_ st.
     bind_st (flag_string fl ''gateway'' st) (\<lambda>gateway st.
     bind_st (check (gateway \<in> set gateways) (''Unsupported gateway '' @ gateway) st) (\<lambda>_ st.
     bind_st (flag_string fl ''hostname'' st) (\<lambda>hostName st.
     bind_st (http_hostname te functionName gateway hostName st) (\<lambda>hostName st.
     bind_st (flag_string fl ''basic-auth-secret'' st) (\<lambda>basicAuthSecret st.
     (Ok ((\<lparr>ht_Kind = ''HTTPTrigger'', ht_APIVersion = ''kubeless.io/v1beta1'', ht_Meta = trigger_meta (args ! 0) ns,
            ht_FunctionName = functionName, ht_Path = path, ht_TLSAcme = enableTLSAcme, ht_CorsEnable = corsEnabled,
            ht_TLSSecret = tlsSecret, ht_Gateway = gateway, ht_HostName = hostName,
            ht_BasicAuthSecret = basicAuthSecret\<rparr>, output), dryrun), st))))))))))))))))))"

definition http_save :: "'s trigger_env \<Rightarrow> http_trigger \<Rightarrow> 's cli \<Rightarrow> unit res \<times> 's cli" where
  "http_save te t st =
     bind_st (client_or_exit (pk_client (te_http te)) st) (\<lambda>httpClient st.
     submit_trigger ''Failed to deploy HTTP trigger '' (om_Name (ht_Meta t)) (om_Namespace (ht_Meta t)) (ta_Create httpClient) t st)"

definition createCmd_http :: "'s trigger_env \<Rightarrow> string list \<Rightarrow> flags \<Rightarrow> 's cli \<Rightarrow> unit res \<times> 's cli" where
  "createCmd_http te args fl st = finish_trigger (pk_fmt (te_http te)) (http_save te) (http_create_build te args fl st)"

section \<open>update\<close>

definition updateCmd_http_flags :: declarations where
  "updateCmd_http_flags =
     [(''namespace'', FString []), (''function-name'', FString []), (''path'', FString []), (''hostname'', FString []),
      (''enableTLSAcme'', FBool False), (''gateway'', FString []), (''basic-auth-secret'', FString []),
      (''tls-secret'', FString []), (''dryrun'', FBool False), (''output'', FString ''yaml'')]"

definition http_update_build ::
  "'s trigger_env \<Rightarrow> string \<Rightarrow> string \<Rightarrow> ('s, kfunction) client \<Rightarrow> ('s, http_trigger) trigger_api \<Rightarrow> flags \<Rightarrow> 's cli \<Rightarrow>
   ((http_trigger \<times> string) \<times> bool) res \<times> 's cli" where
  "http_update_build te triggerName ns kubelessClient httpClient fl st =
     bind_st (find_trigger ''HTTP'' httpClient triggerName ns st) (\<lambda>t st.
     bind_st (flag_string fl ''function-name'' st) (\<lambda>functionName st.
     bind_st (if functionName \<noteq> [] then require_function kubelessClient functionName functionName ns st else (Ok (), st)) (\<lambda>_ st.
     bind_st (flag_string fl ''path'' st) (\<lambda>path st.
     bind_st (flag_string fl ''hostname'' st) (\<lambda>hostName st.
     bind_st (flag_bool fl ''enableTLSAcme'' st) (\<lambda>enableTLSAcme st.
     bind_st (flag_string fl ''tls-secret'' st) (\<lambda>tlsSecret st.
     bind_st (check (\<not> (enableTLSAcme \<and> tlsSecret \<noteq> [])) ''Cannot specify both --enableTLSAcme and --tls-secret'' st) (\<lambda>_ st.
     bind_st (flag_string fl ''gateway'' st) (\<lambda>gateway st.
     bind_st (flag_string fl ''basic-auth-secret'' st) (\<lambda>basicAuthSecret st.
     bind_st (flag_bool fl ''dryrun'' st) (\<lambda>dryrun st.
     bind_st (flag_string fl ''output'' st) (\<lambda>output st.
     (Ok ((t\<lparr>ht_FunctionName := or_keep functionName (ht_FunctionName t), ht_Path := or_keep path (ht_Path t),
             ht_HostName := or_keep hostName (ht_HostName t), ht_TLSAcme := enableTLSAcme,
             ht_TLSSecret := or_keep tlsSecret (ht_TLSSecret t), ht_Gateway := or_keep gateway (ht_Gateway t),
             ht_BasicAuthSecret := or_keep basicAuthSecret (ht_BasicAuthSecret t)\<rparr>, output), dryrun), st)))))))))))))"

definition updateCmd_http :: "'s trigger_env \<Rightarrow> string list \<Rightarrow> flags \<Rightarrow> 's cli \<Rightarrow> unit res \<times> 's cli" where
  "updateCmd_http te args fl st =
     bind_st (check (length args = 1) ''Need exactly one argument - http trigger name'' st) (\<lambda>_ st.
     bind_st (flag_namespace (te_cli te) fl st) (\<lambda>ns st.
     bind_st (client_or_exit (ce_kubeless (te_cli te)) st) (\<lambda>kubelessClient st.
     bind_st (client_or_exit (pk_client (te_http te)) st) (\<lambda>httpClient st.
     finish_trigger (pk_fmt (te_http te))
       (submit_trigger ''Failed to deploy HTTP trigger '' (args ! 0) ns (ta_Update httpClient))
       (http_update_build te (args ! 0) ns kubelessClient httpClient fl st)))))"

section \<open>delete and list\<close>

definition deleteCmd_http :: "'s trigger_env \<Rightarrow> string list \<Rightarrow> flags \<Rightarrow> 's cli \<Rightarrow> unit res \<times> 's cli" where
  "deleteCmd_http te =
     delete_trigger (te_cli te) (pk_client (te_http te)) ''Kafka trigger name'' ''Failed to delete HTTP trigger object ''"

definition listCmd_http :: "'s trigger_env \<Rightarrow> flags \<Rightarrow> 's cli \<Rightarrow> unit res \<times> 's cli" where
  "listCmd_http te =
     list_triggers (te_cli te) (pk_client (te_http te)) [''NAME'', ''NAMESPACE'', ''FUNCTION NAME'']
       (\<lambda>t. [om_Name (ht_Meta t), om_Namespace (ht_Meta t), ht_FunctionName t])"

section \<open>Laws\<close>

definition valid_http_trigger :: "http_trigger \<Rightarrow> bool" where
  "valid_http_trigger t \<longleftrightarrow>
     ht_Gateway t \<in> set gateways \<and> ht_HostName t \<noteq> [] \<and> \<not> (ht_TLSAcme t \<and> ht_TLSSecret t \<noteq> []) \<and>
     hasDefaultLabel (om_Labels (ht_Meta t))"

lemma http_hostname_Ok:
  "http_hostname te fn gw h st = (Ok h', st') \<Longrightarrow> st' = st \<and> h' \<noteq> [] \<and> (h \<noteq> [] \<longrightarrow> h' = h)"
  by (auto simp: http_hostname_def res_simps split: if_splits)

text \<open>The trigger \<open>t\<close> is what the flags describe, and its function was found, going from \<open>s\<close> to \<open>s1\<close>.\<close>

definition http_checked :: "'s trigger_env \<Rightarrow> string list \<Rightarrow> flags \<Rightarrow> 's \<Rightarrow> 's \<Rightarrow> http_trigger \<Rightarrow> bool" where
  "http_checked te args fl s s1 t \<longleftrightarrow>
     (\<exists>v k f. args = [om_Name (ht_Meta t)] \<and> fl_GetString fl ''namespace'' = Inr v \<and>
        om_Namespace (ht_Meta t) = namespace_of (te_cli te) v \<and> fl_GetString fl ''function-name'' = Inr (ht_FunctionName t) \<and>
        ce_kubeless (te_cli te) = Inr k \<and> cl_get k (om_Namespace (ht_Meta t)) (ht_FunctionName t) s = (Inr f, s1)) \<and>
     valid_http_trigger t"

lemma http_create_build_Ok:
  assumes "http_create_build te args fl st = (Ok ((t, out), dry), st1)"
  shows "http_checked te args fl (fst st) (fst st1) t \<and> fl_GetBool fl ''dryrun'' = Inr dry"
proof -
  obtain name where "args = [name]"
    using assms by (auto simp: http_create_build_def res_simps length_Suc_conv)
  with assms show ?thesis
    by (auto simp: http_create_build_def res_simps flag_simps valid_http_trigger_def http_checked_def dest!: http_hostname_Ok)
qed

interpretation http_create: trigger_writer "createCmd_http te args fl" "http_create_build te args fl" "http_save te"
  "http_checked te args fl" "fl_GetBool fl ''dryrun''" "pk_client (te_http te)" ta_Create for te args fl
proof (intro trigger_writer.intro trigger_writer_axioms.intro)
  show "trigger_command (createCmd_http te args fl) (http_create_build te args fl) (\<lambda>(t, _). http_save te t)"
    using finish_trigger_command [of "pk_fmt (te_http te)" "http_save te" "http_create_build te args fl"]
    by (simp add: createCmd_http_def [abs_def])
qed (auto dest!: http_create_build_Ok simp: http_save_def res_simps)


text \<open>What an update writes: the trigger the server returned, with the fields that were given.\<close>

definition http_updated :: "('s, http_trigger) trigger_api \<Rightarrow> string \<Rightarrow> string \<Rightarrow> flags \<Rightarrow> 's \<Rightarrow> 's \<Rightarrow> http_trigger \<Rightarrow> bool" where
  "http_updated c n ns fl s s1 t' \<longleftrightarrow>
     (\<exists>t s0. ta_Get c n ns s = (Inr t, s0) \<and> (flag_text fl ''function-name'' = [] \<longrightarrow> s1 = s0) \<and>
        t' = t\<lparr>ht_FunctionName := or_keep (flag_text fl ''function-name'') (ht_FunctionName t),
               ht_Path := or_keep (flag_text fl ''path'') (ht_Path t),
               ht_HostName := or_keep (flag_text fl ''hostname'') (ht_HostName t),
               ht_TLSAcme := flag_on fl ''enableTLSAcme'',
               ht_TLSSecret := or_keep (flag_text fl ''tls-secret'') (ht_TLSSecret t),
               ht_Gateway := or_keep (flag_text fl ''gateway'') (ht_Gateway t),
               ht_BasicAuthSecret := or_keep (flag_text fl ''basic-auth-secret'') (ht_BasicAuthSecret t)\<rparr>)"

lemma http_update_build_Ok:
  assumes "http_update_build te n ns k c fl st = (Ok ((t', out), dry), st1)"
  shows "http_updated c n ns fl (fst st) (fst st1) t' \<and> fl_GetBool fl ''dryrun'' = Inr dry"
  using assms unfolding http_updated_def
  by (auto simp: http_update_build_def res_simps flag_simps split: if_splits)

interpretation http_update: trigger_writer
  "\<lambda>st. finish_trigger (pk_fmt (te_http te)) (submit_trigger failed n ns (ta_Update c)) (http_update_build te n ns k c fl st)"
  "http_update_build te n ns k c fl" "submit_trigger failed n ns (ta_Update c)"
  "http_updated c n ns fl" "fl_GetBool fl ''dryrun''" "Inr c" ta_Update for te failed n ns k c fl
  by (intro trigger_writer.intro trigger_writer_axioms.intro finish_trigger_command)
     (auto dest!: http_update_build_Ok simp: res_simps)

text \<open>
  An update of an HTTP trigger that mentions no option still changes it: it writes the
  trigger the server returned with its automatic TLS certificate switched off, because that
  flag, unlike the others, is copied even when it was not given.
\<close>

theorem http_update_switches_off_tls:
  assumes "updateCmd_http te [n] fl st = (Ok (), st')" and fl: "flags_for updateCmd_http_flags {''namespace''} fl"
  shows "\<exists>v c t s1. fl_GetString fl ''namespace'' = Inr v \<and> pk_client (te_http te) = Inr c \<and>
    ta_Get c n (namespace_of (te_cli te) v) (fst st) = (Inr t, s1) \<and>
    ta_Update c (t\<lparr>ht_TLSAcme := False\<rparr>) s1 = (Inr (), fst st')"
proof -
  note default = flags_for_default [OF fl]
  have given: "fl_GetString fl ''function-name'' = Inr []" "fl_GetString fl ''path'' = Inr []"
    "fl_GetString fl ''hostname'' = Inr []" "fl_GetBool fl ''enableTLSAcme'' = Inr False"
    "fl_GetString fl ''tls-secret'' = Inr []" "fl_GetString fl ''gateway'' = Inr []"
    "fl_GetString fl ''basic-auth-secret'' = Inr []" "fl_GetBool fl ''dryrun'' = Inr False"
    by (intro default; simp add: updateCmd_http_flags_def)+
  obtain v k c where v: "fl_GetString fl ''namespace'' = Inr v" and c: "pk_client (te_http te) = Inr c"
    and run: "finish_trigger (pk_fmt (te_http te))
       (submit_trigger ''Failed to deploy HTTP trigger '' n (namespace_of (te_cli te) v) (ta_Update c))
       (http_update_build te n (namespace_of (te_cli te) v) k c fl st) = (Ok (), st')"
    using assms(1) by (auto simp: updateCmd_http_def res_simps flag_simps)
  from http_update.sends_one [OF run] given v c show ?thesis
    by (auto simp: http_updated_def or_keep_def flag_on_def sent_def)
qed

end
