(* ===== verification/CronJobTrigger.thy ===== *)
theory CronJobTrigger
  imports TriggerCmd
begin

text \<open>
  The commands of \<open>kubeless trigger cronjob\<close>, \<open>cmd/kubeless/trigger/cronjob\<close>, and the payload of a
  scheduled call, which comes from the command line or from a JSON file. The parser of cron
  schedules and the JSON decoder are parameters. The lemmas say which payload a trigger gets,
  also when it is not JSON, and what an update writes.
\<close>

section \<open>Payload\<close>

text \<open>\<open>filepath.Ext\<close>: from the last dot of the last element of the path.\<close>

definition Ext :: "string \<Rightarrow> string" where
  "Ext path =
     (let r = takeWhile (\<lambda>c. c \<noteq> CHR ''/'') (rev path) in
      if CHR ''.'' \<in> set r then ''.'' @ rev (takeWhile (\<lambda>c. c \<noteq> CHR ''.'') r) else [])"

definition getPayloadRawContent :: "'s world_io \<Rightarrow> string \<Rightarrow> 's \<Rightarrow> string res \<times> 's" where
  "getPayloadRawContent io file s =
     bind_st (GetContentType io file s) (\<lambda>contentType s.
     bind_st (ParseContent io file contentType s) (\<lambda>(content, _) s.
     (if Ext file \<noteq> ''.json'' then Err (Errorf (''Sorry, we can'' @ [CHR 0x27] @ ''t parse '' @ Ext file @ '' files yet''))
      else Ok content, s)))"

text \<open>A payload that cannot be decoded is not refused: the error itself becomes the payload.\<close>

definition parsePayloadContent :: "(string \<Rightarrow> gerror + (string \<times> json) list option) \<Rightarrow> string \<Rightarrow> payload" where
  "parsePayloadContent unmarshal raw =
     (case unmarshal raw of
        Inl e \<Rightarrow> ErrorPayload (Errorf (''Found an error during JSON parsing on your payload: '' @ err_text e))
      | Inr m \<Rightarrow> MapPayload m)"

definition parsePayload ::
  "'s world_io \<Rightarrow> (string \<Rightarrow> gerror + (string \<times> json) list option) \<Rightarrow> string \<Rightarrow> string \<Rightarrow> 's \<Rightarrow> payload res \<times> 's" where
  "parsePayload io unmarshal content file s =
     (if file \<noteq> [] then
        bind_st (getPayloadRawContent io file s) (\<lambda>content s. (Ok (parsePayloadContent unmarshal content), s))
      else (Ok (parsePayloadContent unmarshal content), s))"

section \<open>create\<close>

definition createCmd_cronjob_flags :: declarations where
  "createCmd_cronjob_flags =
     [(''namespace'', FString []), (''schedule'', FString []), (''function'', FString []), (''dryrun'', FBool False),
      (''output'', FString ''yaml''), (''payload'', FString []), (''payload-from-file'', FString [])]"

definition check_schedule :: "'s cli_env \<Rightarrow> string \<Rightarrow> 's cli \<Rightarrow> unit res \<times> 's cli" where
  "check_schedule ce schedule st =
     (case ce_ParseStandard ce schedule of
        Some e \<Rightarrow> fatal (''Invalid value for --schedule. '' @ err_text e) st
      | None \<Rightarrow> (Ok (), st))"

definition check_payload :: "string \<Rightarrow> string \<Rightarrow> 's cli \<Rightarrow> unit res \<times> 's cli" where
  "check_payload payload payloadFromFile st =
     check (\<not> (payload \<noteq> [] \<and> payloadFromFile \<noteq> []))
       (''You can'' @ [CHR 0x27] @ ''t provide both raw payload and a payload file'') st"

definition read_payload ::
  "'s trigger_env \<Rightarrow> string \<Rightarrow> string \<Rightarrow> string \<Rightarrow> string \<Rightarrow> 's cli \<Rightarrow> payload res \<times> 's cli" where
  "read_payload te functionName ns payload payloadFromFile st =
     fatal_prefix (''Unable to parse the payload of Function '' @ functionName @ '' in namespace '' @ ns @ ''. Error '')
       (on_server (parsePayload (ce_io (te_cli te)) (te_unmarshal_map te) payload payloadFromFile) st)"

text \<open>
  What create and update read before they look at the cluster: namespace, function, dry run,
  format, payload and payload file.
\<close>

definition cronjob_options ::
  "'s trigger_env \<Rightarrow> flags \<Rightarrow> 's cli \<Rightarrow> (string \<times> string \<times> bool \<times> string \<times> string \<times> string) res \<times> 's cli" where
  "cronjob_options te fl st =
     bind_st (flag_namespace (te_cli te) fl st) (\<lambda>ns st.
     bind_st (flag_string fl ''function'' st) (\<lambda>functionName st.
     bind_st (flag_bool fl ''dryrun'' st) (\<lambda>dryrun st.
     bind_st (flag_string fl ''output'' st) (\<lambda>output st.
     bind_st (flag_string fl ''payload'' st) (\<lambda>payload st.
     bind_st (flag_string fl ''payload-from-file'' st) (\<lambda>payloadFromFile st.
     bind_st (check_payload payload payloadFromFile st) (\<lambda>_ st.
     (Ok (ns, functionName, dryrun, output, payload, payloadFromFile), st))))))))"

definition cronjob_create_build ::
  "'s trigger_env \<Rightarrow> string list \<Rightarrow> flags \<Rightarrow> 's cli \<Rightarrow> ((cronjob_trigger \<times> string) \<times> bool) res \<times> 's cli" where
  "cronjob_create_build te args fl st =
     bind_st (check (length args = 1) ''Need exactly one argument - cronjob trigger name'' st) (\<lambda>_ st.
     bind_st (flag_string fl ''schedule'' st) (\<lambda>schedule st.
     bind_st (check_schedule (te_cli te) schedule st) (\<lambda>_ st.
     bind_st (cronjob_options te fl st) (\<lambda>(ns, functionName, dryrun, output, payload, payloadFromFile) st.
     bind_st (client_or_exit (ce_kubeless (te_cli te)) st) (\<lambda>kubelessClient st.
     bind_st (client_or_exit (pk_client (te_cronjob te)) st) (\<lambda>cronJobClient st.
     bind_st (require_function kubelessClient functionName functionName ns st) (\<lambda>_ st.
     bind_st (read_payload te functionName ns payload payloadFromFile st) (\<lambda>parsedPayload st.
     (Ok ((\<lparr>cj_Kind = ''CronJobTrigger'', cj_APIVersion = ''kubeless.io/v1beta1'', cj_Meta = trigger_meta (args ! 0) ns,
            cj_FunctionName = functionName, cj_Schedule = schedule, cj_Payload = parsedPayload\<rparr>, output), dryrun),
      st)))))))))"

text \<open>Writing, with the client and the namespace that were read while the trigger was built.\<close>

definition cronjob_save ::
  "'s trigger_env \<Rightarrow> string \<Rightarrow> (('s, cronjob_trigger) trigger_api \<Rightarrow> cronjob_trigger \<Rightarrow> ('s, unit) api) \<Rightarrow>
   string \<Rightarrow> flags \<Rightarrow> cronjob_trigger \<Rightarrow> 's cli \<Rightarrow> unit res \<times> 's cli" where
  "cronjob_save te failed save triggerName fl t st =
     bind_st (client_or_exit (pk_client (te_cronjob te)) st) (\<lambda>cronJobClient st.
     bind_st (flag_namespace (te_cli te) fl st) (\<lambda>ns st.
     submit_trigger failed triggerName ns (save cronJobClient) t st))"

definition createCmd_cronjob :: "'s trigger_env \<Rightarrow> string list \<Rightarrow> flags \<Rightarrow> 's cli \<Rightarrow> unit res \<times> 's cli" where
  "createCmd_cronjob te args fl st =
     finish_trigger (pk_fmt (te_cronjob te))
       (cronjob_save te ''Failed to create cronjob trigger object '' ta_Create (args ! 0) fl)
       (cronjob_create_build te args fl st)"

section \<open>update, delete and list\<close>

definition updateCmd_cronjob_flags :: declarations where
  "updateCmd_cronjob_flags =
     [(''namespace'', FString []), (''schedule'', FString []), (''function'', FString []), (''dryrun'', FBool False),
      (''output'', FString ''yaml''), (''payload'', FString []), (''payload-from-file'', FString [])]"

definition check_new_schedule :: "'s cli_env \<Rightarrow> string \<Rightarrow> 's cli \<Rightarrow> unit res \<times> 's cli" where
  "check_new_schedule ce schedule st = (if schedule \<noteq> [] then check_schedule ce schedule st else (Ok (), st))"

text \<open>The message about a missing function names the trigger.\<close>

definition cronjob_update_build ::
  "'s trigger_env \<Rightarrow> string list \<Rightarrow> flags \<Rightarrow> 's cli \<Rightarrow> ((cronjob_trigger \<times> string) \<times> bool) res \<times> 's cli" where
  "cronjob_update_build te args fl st =
     bind_st (check (length args = 1) ''Need exactly one argument - cronjob trigger name'' st) (\<lambda>_ st.
     bind_st (flag_string fl ''schedule'' st) (\<lambda>schedule st.
     bind_st (check_new_schedule (te_cli te) schedule st) (\<lambda>_ st.
     bind_st (cronjob_options te fl st) (\<lambda>(ns, functionName, dryrun, output, payload, payloadFromFile) st.
     bind_st (client_or_exit (ce_kubeless (te_cli te)) st) (\<lambda>kubelessClient st.
     bind_st (client_or_exit (pk_client (te_cronjob te)) st) (\<lambda>cronJobClient st.
     bind_st (require_function kubelessClient functionName (args ! 0) ns st) (\<lambda>_ st.
     bind_st (read_payload te functionName ns payload payloadFromFile st) (\<lambda>parsedPayload st.
     bind_st (find_trigger ''Cronjob'' cronJobClient (args ! 0) ns st) (\<lambda>t st.
     (Ok ((t\<lparr>cj_FunctionName := functionName, cj_Schedule := schedule, cj_Payload := parsedPayload\<rparr>, output), dryrun),
      st))))))))))"

definition updateCmd_cronjob :: "'s trigger_env \<Rightarrow> string list \<Rightarrow> flags \<Rightarrow> 's cli \<Rightarrow> unit res \<times> 's cli" where
  "updateCmd_cronjob te args fl st =
     finish_trigger (pk_fmt (te_cronjob te))
       (cronjob_save te ''Failed to update cronjob trigger object '' ta_Update (args ! 0) fl)
       (cronjob_update_build te args fl st)"

definition deleteCmd_cronjob :: "'s trigger_env \<Rightarrow> string list \<Rightarrow> flags \<Rightarrow> 's cli \<Rightarrow> unit res \<times> 's cli" where
  "deleteCmd_cronjob te args fl st =
     bind_st (check (length args = 1) ''Need exactly one argument - cronjob trigger name'' st) (\<lambda>_ st.
     bind_st (flag_namespace (te_cli te) fl st) (\<lambda>ns st.
     bind_st (fatal_err (lift_sum (pk_client (te_cronjob te)), st)) (\<lambda>api st.
     fatal_prefix (failure_prefix ''Failed to delete Cronjob trigger object '' (args ! 0) ns)
       (on_server (\<lambda>s. unit_result (ta_Delete api (args ! 0) ns s)) st))))"

definition listCmd_cronjob :: "'s trigger_env \<Rightarrow> flags \<Rightarrow> 's cli \<Rightarrow> unit res \<times> 's cli" where
  "listCmd_cronjob te =
     list_triggers (te_cli te) (pk_client (te_cronjob te)) [''NAME'', ''NAMESPACE'', ''SCHEDULE'', ''FUNCTION NAME'']
       (\<lambda>t. [om_Name (cj_Meta t), om_Namespace (cj_Meta t), cj_Schedule t, cj_FunctionName t])"

section \<open>Laws\<close>

lemma check_schedule_Ok_iff [res_simps]:
  "check_schedule ce sch st = (Ok u, st') \<longleftrightarrow> ce_ParseStandard ce sch = None \<and> st' = st"
  by (auto simp: check_schedule_def fatal_def split: option.splits)

lemma check_new_schedule_Ok_iff [res_simps]:
  "check_new_schedule ce sch st = (Ok u, st') \<longleftrightarrow> (sch = [] \<or> ce_ParseStandard ce sch = None) \<and> st' = st"
  by (auto simp: check_new_schedule_def res_simps)

lemma cronjob_options_Ok_iff [res_simps]:
  "cronjob_options te fl st = (Ok (ns, fn, dry, out, raw, file), st') \<longleftrightarrow>
     (\<exists>v. fl_GetString fl ''namespace'' = Inr v \<and> ns = namespace_of (te_cli te) v) \<and>
     fl_GetString fl ''function'' = Inr fn \<and> fl_GetBool fl ''dryrun'' = Inr dry \<and> fl_GetString fl ''output'' = Inr out \<and>
     fl_GetString fl ''payload'' = Inr raw \<and> fl_GetString fl ''payload-from-file'' = Inr file \<and>
     (raw = [] \<or> file = []) \<and> st' = st"
  by (auto simp: cronjob_options_def check_payload_def res_simps flag_simps)

lemma cronjob_save_Ok:
  assumes "cronjob_save te failed save n fl t st = (Ok (), st')"
  shows "\<exists>c. pk_client (te_cronjob te) = Inr c \<and> save c t (fst st) = (Inr (), fst st')"
  using assms by (auto simp: cronjob_save_def res_simps flag_simps)

lemma read_payload_Ok_iff [res_simps]:
  "read_payload te fn ns raw file st = (Ok p, st') \<longleftrightarrow>
     parsePayload (ce_io (te_cli te)) (te_unmarshal_map te) raw file (fst st) = (Ok p, fst st') \<and> snd st' = snd st"
  by (simp add: read_payload_def fatal_prefix_def res_simps)

text \<open>
  What is known of a trigger that was built: the flags, the function that was found, and the
  payload, which may be read from a file in the meantime.
\<close>

definition cronjob_checked :: "'s trigger_env \<Rightarrow> string list \<Rightarrow> flags \<Rightarrow> 's \<Rightarrow> 's \<Rightarrow> cronjob_trigger \<Rightarrow> bool" where
  "cronjob_checked te args fl s s1 t \<longleftrightarrow>
     (\<exists>k f s0. args = [om_Name (cj_Meta t)] \<and> om_Namespace (cj_Meta t) = namespace_of (te_cli te) (flag_text fl ''namespace'') \<and>
        cj_FunctionName t = flag_text fl ''function'' \<and> cj_Schedule t = flag_text fl ''schedule'' \<and>
        ce_ParseStandard (te_cli te) (cj_Schedule t) = None \<and>
        ce_kubeless (te_cli te) = Inr k \<and> cl_get k (om_Namespace (cj_Meta t)) (cj_FunctionName t) s = (Inr f, s0) \<and>
        parsePayload (ce_io (te_cli te)) (te_unmarshal_map te) (flag_text fl ''payload'') (flag_text fl ''payload-from-file'') s0
          = (Ok (cj_Payload t), s1))"

lemma cronjob_create_build_Ok:
  assumes "cronjob_create_build te args fl st = (Ok ((t, out), dry), st1)"
  shows "cronjob_checked te args fl (fst st) (fst st1) t \<and> fl_GetBool fl ''dryrun'' = Inr dry"
proof -
  obtain name where "args = [name]"
    using assms by (auto simp: cronjob_create_build_def res_simps length_Suc_conv)
  with assms show ?thesis
    by (auto simp: cronjob_create_build_def res_simps flag_simps cronjob_checked_def)
qed

interpretation cronjob_create: trigger_writer "createCmd_cronjob te args fl" "cronjob_create_build te args fl"
  "cronjob_save te ''Failed to create cronjob trigger object '' ta_Create (args ! 0) fl"
  "cronjob_checked te args fl" "fl_GetBool fl ''dryrun''" "pk_client (te_cronjob te)" ta_Create for te args fl
proof (intro trigger_writer.intro trigger_writer_axioms.intro)
  show "trigger_command (createCmd_cronjob te args fl) (cronjob_create_build te args fl)
      (\<lambda>(t, _). cronjob_save te ''Failed to create cronjob trigger object '' ta_Create (args ! 0) fl t)"
    using finish_trigger_command [of "pk_fmt (te_cronjob te)" _ "cronjob_create_build te args fl"]
    by (simp add: createCmd_cronjob_def [abs_def])
qed (auto dest!: cronjob_create_build_Ok cronjob_save_Ok)

lemma parsePayload_inline:
  "parsePayload io unmarshal raw [] s = (Ok p, s') \<longleftrightarrow> s' = s \<and>
     p = (case unmarshal raw of
        Inr m \<Rightarrow> MapPayload m
      | Inl e \<Rightarrow> ErrorPayload (Errorf (''Found an error during JSON parsing on your payload: '' @ err_text e)))"
  by (auto simp: parsePayload_def parsePayloadContent_def split: sum.splits)

text \<open>
  A cron job trigger that was created has a schedule the cron library accepts and a
  function that was found in its namespace. Its payload is not checked: a text on the command
  line that is not JSON, also the empty one, is stored as the error of decoding it.
\<close>

theorem cronjob_create_written:
  assumes "createCmd_cronjob te args fl st = (Ok (), st')" and "fl_GetBool fl ''dryrun'' = Inr False"
  shows "\<exists>c t s1. pk_client (te_cronjob te) = Inr c \<and> cronjob_checked te args fl (fst st) s1 t \<and>
    ta_Create c t s1 = (Inr (), fst st') \<and>
    (flag_text fl ''payload-from-file'' = [] \<longrightarrow>
       cj_Payload t = (case te_unmarshal_map te (flag_text fl ''payload'') of
           Inr m \<Rightarrow> MapPayload m
         | Inl e \<Rightarrow> ErrorPayload (Errorf (''Found an error during JSON parsing on your payload: '' @ err_text e))))"
proof -
  obtain c t s1 where "pk_client (te_cronjob te) = Inr c" and t: "cronjob_checked te args fl (fst st) s1 t"
    and "ta_Create c t s1 = (Inr (), fst st')"
    using cronjob_create.sends_one [OF assms(1)] assms(2) by (auto simp: sent_def)
  moreover from t have "flag_text fl ''payload-from-file'' = [] \<longrightarrow>
       cj_Payload t = (case te_unmarshal_map te (flag_text fl ''payload'') of
           Inr m \<Rightarrow> MapPayload m
         | Inl e \<Rightarrow> ErrorPayload (Errorf (''Found an error during JSON parsing on your payload: '' @ err_text e)))"
    by (auto simp: cronjob_checked_def parsePayload_inline)
  ultimately show ?thesis by blast
qed

text \<open>What an update writes: nothing is kept but the metadata.\<close>

definition cronjob_updated :: "'s trigger_env \<Rightarrow> string \<Rightarrow> flags \<Rightarrow> 's \<Rightarrow> 's \<Rightarrow> cronjob_trigger \<Rightarrow> bool" where
  "cronjob_updated te n fl s s1 t' \<longleftrightarrow>
     (\<exists>k f c t p s0 s2. let ns = namespace_of (te_cli te) (flag_text fl ''namespace'') in
        ce_kubeless (te_cli te) = Inr k \<and> cl_get k ns (flag_text fl ''function'') s = (Inr f, s0) \<and>
        parsePayload (ce_io (te_cli te)) (te_unmarshal_map te) (flag_text fl ''payload'') (flag_text fl ''payload-from-file'') s0
          = (Ok p, s2) \<and>
        pk_client (te_cronjob te) = Inr c \<and> ta_Get c n ns s2 = (Inr t, s1) \<and>
        t' = t\<lparr>cj_FunctionName := flag_text fl ''function'', cj_Schedule := flag_text fl ''schedule'', cj_Payload := p\<rparr>)"

lemma cronjob_update_build_Ok:
  assumes "cronjob_update_build te [n] fl st = (Ok ((t', out), dry), st1)"
  shows "cronjob_updated te n fl (fst st) (fst st1) t' \<and> fl_GetBool fl ''dryrun'' = Inr dry"
  using assms unfolding cronjob_updated_def Let_def
  by (auto simp: cronjob_update_build_def res_simps flag_simps)

interpretation cronjob_update: trigger_writer "updateCmd_cronjob te [n] fl" "cronjob_update_build te [n] fl"
  "cronjob_save te ''Failed to update cronjob trigger object '' ta_Update n fl"
  "cronjob_updated te n fl" "fl_GetBool fl ''dryrun''" "pk_client (te_cronjob te)" ta_Update for te n fl
proof (intro trigger_writer.intro trigger_writer_axioms.intro)
  show "trigger_command (updateCmd_cronjob te [n] fl) (cronjob_update_build te [n] fl)
      (\<lambda>(t, _). cronjob_save te ''Failed to update cronjob trigger object '' ta_Update n fl t)"
    using finish_trigger_command [of "pk_fmt (te_cronjob te)" _ "cronjob_update_build te [n] fl"]
    by (simp add: updateCmd_cronjob_def [abs_def])
qed (auto dest!: cronjob_update_build_Ok cronjob_save_Ok)

text \<open>
  Updating only the function of a cron job trigger destroys its schedule and its payload:
  the trigger that is written has an empty schedule, and the payload that the empty text gives.
\<close>

theorem cronjob_update_overwrites:
  assumes "updateCmd_cronjob te [n] fl st = (Ok (), st')"
    and fl: "flags_for updateCmd_cronjob_flags {''namespace'', ''function''} fl"
  shows "\<exists>c t s1 s2. pk_client (te_cronjob te) = Inr c \<and>
    ta_Get c n (namespace_of (te_cli te) (flag_text fl ''namespace'')) s1 = (Inr t, s2) \<and>
    ta_Update c (t\<lparr>cj_FunctionName := flag_text fl ''function'', cj_Schedule := [],
        cj_Payload := parsePayloadContent (te_unmarshal_map te) []\<rparr>) s2 = (Inr (), fst st')"
proof -
  note default = flags_for_default [OF fl]
  have "fl_GetString fl ''schedule'' = Inr []" "fl_GetString fl ''payload'' = Inr []"
    "fl_GetString fl ''payload-from-file'' = Inr []" "fl_GetBool fl ''dryrun'' = Inr False"
    by (intro default; simp add: updateCmd_cronjob_flags_def)+
  then obtain c t s1 s2 where "pk_client (te_cronjob te) = Inr c"
    and "ta_Get c n (namespace_of (te_cli te) (flag_text fl ''namespace'')) s1 = (Inr t, s2)"
    and "ta_Update c (t\<lparr>cj_FunctionName := flag_text fl ''function'', cj_Schedule := [],
        cj_Payload := parsePayloadContent (te_unmarshal_map te) []\<rparr>) s2 = (Inr (), fst st')"
    using cronjob_update.sends_one [OF assms(1)] by (auto simp: cronjob_updated_def Let_def parsePayload_def sent_def)
  then show ?thesis by blast
qed

end
