(* ===== verification/TopicTrigger.thy ===== *)
theory TopicTrigger
  imports TriggerCmd
begin

text \<open>
  The commands of \<open>kubeless trigger kafka\<close> and \<open>kubeless trigger nats\<close>, \<open>cmd/kubeless/trigger/kafka\<close>
  and \<open>cmd/kubeless/trigger/nats\<close>. Both kinds call the functions a label selector chooses when a
  message arrives on a topic. The parser and printer of label selectors and the NATS client
  are parameters. The lemmas say which selector a trigger gets and what an update keeps.
\<close>

section \<open>create\<close>

definition createCmd_topic_flags :: declarations where
  "createCmd_topic_flags =
     [(''namespace'', FString []), (''trigger-topic'', FString []), (''function-selector'', FString []),
      (''dryrun'', FBool False), (''output'', FString ''yaml'')]"

definition parse_selector :: "'s trigger_env \<Rightarrow> string \<Rightarrow> string \<Rightarrow> 's cli \<Rightarrow> label_selector res \<times> 's cli" where
  "parse_selector te invalid functionSelector st =
     fatal_prefix invalid (lift_sum (te_ParseToLabelSelector te functionSelector), st)"

text \<open>Only the labels of the selector are copied; expressions are not.\<close>

definition new_topic_trigger :: "string \<Rightarrow> string \<Rightarrow> string \<Rightarrow> label_selector \<Rightarrow> string \<Rightarrow> topic_trigger" where
  "new_topic_trigger kind triggerName ns labelSelector topic =
     \<lparr>tt_Kind = kind, tt_APIVersion = ''kubeless.io/v1beta1'', tt_Meta = trigger_meta triggerName ns,
      tt_FunctionSelector = \<lparr>lb_MatchLabels = lb_MatchLabels labelSelector, lb_MatchExpressions = []\<rparr>, tt_Topic = topic\<rparr>"

definition kafka_create_build ::
  "'s trigger_env \<Rightarrow> string list \<Rightarrow> flags \<Rightarrow> 's cli \<Rightarrow> ((topic_trigger \<times> string) \<times> bool) res \<times> 's cli" where
  "kafka_create_build te args fl st =
     bind_st (check (length args = 1) ''Need exactly one argument - kafka trigger name'' st) (\<lambda>_ st.
     bind_st (flag_namespace (te_cli te) fl st) (\<lambda>ns st.
     bind_st (flag_string fl ''trigger-topic'' st) (\<lambda>topic st.
     bind_st (flag_string fl ''function-selector'' st) (\<lambda>functionSelector st.
     bind_st (flag_bool fl ''dryrun'' st) (\<lambda>dryrun st.
     bind_st (flag_string fl ''output'' st) (\<lambda>output st.
     bind_st (parse_selector te ''Invalid lable selector specified '' functionSelector st) (\<lambda>labelSelector st.
     (Ok ((new_topic_trigger ''KafkaTrigger'' (args ! 0) ns labelSelector topic, output), dryrun), st))))))))"

definition topic_save ::
  "('s, topic_trigger) trigger_package \<Rightarrow> string \<Rightarrow> (('s, topic_trigger) trigger_api \<Rightarrow> topic_trigger \<Rightarrow> ('s, unit) api) \<Rightarrow>
   string \<Rightarrow> string \<Rightarrow> topic_trigger \<Rightarrow> 's cli \<Rightarrow> unit res \<times> 's cli" where
  "topic_save pk failed save triggerName ns t st =
     bind_st (client_or_exit (pk_client pk) st) (\<lambda>api st. submit_trigger failed triggerName ns (save api) t st)"

definition createCmd_kafka :: "'s trigger_env \<Rightarrow> string list \<Rightarrow> flags \<Rightarrow> 's cli \<Rightarrow> unit res \<times> 's cli" where
  "createCmd_kafka te args fl st =
     finish_trigger (pk_fmt (te_kafka te))
       (\<lambda>t. topic_save (te_kafka te) ''Failed to create Kafka trigger object '' ta_Create (args ! 0) (om_Namespace (tt_Meta t)) t)
       (kafka_create_build te args fl st)"

text \<open>The client for NATS is made before the trigger is put together.\<close>

definition nats_create_build ::
  "'s trigger_env \<Rightarrow> string list \<Rightarrow> flags \<Rightarrow> 's cli \<Rightarrow> ((topic_trigger \<times> string) \<times> bool) res \<times> 's cli" where
  "nats_create_build te args fl st =
     bind_st (check (length args = 1) ''Need exactly one argument - NATS trigger name'' st) (\<lambda>_ st.
     bind_st (flag_namespace (te_cli te) fl st) (\<lambda>ns st.
     bind_st (flag_string fl ''trigger-topic'' st) (\<lambda>topic st.
     bind_st (flag_string fl ''function-selector'' st) (\<lambda>functionSelector st.
     bind_st (flag_bool fl ''dryrun'' st) (\<lambda>dryrun st.
     bind_st (flag_string fl ''output'' st) (\<lambda>output st.
     bind_st (parse_selector te ''Invalid label selector specified '' functionSelector st) (\<lambda>labelSelector st.
     bind_st (client_or_exit (pk_client (te_nats te)) st) (\<lambda>natsClient st.
     (Ok ((new_topic_trigger ''NATSTrigger'' (args ! 0) ns labelSelector topic, output), dryrun), st)))))))))"

definition createCmd_nats :: "'s trigger_env \<Rightarrow> string list \<Rightarrow> flags \<Rightarrow> 's cli \<Rightarrow> unit res \<times> 's cli" where
  "createCmd_nats te args fl st =
     finish_trigger (pk_fmt (te_nats te))
       (\<lambda>t. topic_save (te_nats te) ''Failed to create NATS trigger object '' ta_Create (args ! 0) (om_Namespace (tt_Meta t)) t)
       (nats_create_build te args fl st)"

section \<open>update\<close>

definition set_topic :: "string \<Rightarrow> topic_trigger \<Rightarrow> topic_trigger" where
  "set_topic topic t = (if topic \<noteq> [] then t\<lparr>tt_Topic := topic\<rparr> else t)"

text \<open>The labels of the selector are replaced; expressions the trigger has are kept.\<close>

definition set_selector ::
  "'s trigger_env \<Rightarrow> string \<Rightarrow> string \<Rightarrow> topic_trigger \<Rightarrow> 's cli \<Rightarrow> topic_trigger res \<times> 's cli" where
  "set_selector te invalid functionSelector t st =
     (if functionSelector \<noteq> [] then
        bind_st (parse_selector te invalid functionSelector st) (\<lambda>labelSelector st.
        (Ok (t\<lparr>tt_FunctionSelector := (tt_FunctionSelector t)\<lparr>lb_MatchLabels := lb_MatchLabels labelSelector\<rparr>\<rparr>), st))
      else (Ok t, st))"

definition kafka_update_build ::
  "'s trigger_env \<Rightarrow> string \<Rightarrow> string \<Rightarrow> ('s, topic_trigger) trigger_api \<Rightarrow> flags \<Rightarrow> 's cli \<Rightarrow>
   ((topic_trigger \<times> string) \<times> bool) res \<times> 's cli" where
  "kafka_update_build te triggerName ns kafkaClient fl st =
     bind_st (find_trigger ''Kafka'' kafkaClient triggerName ns st) (\<lambda>t st.
     bind_st (flag_string fl ''trigger-topic'' st) (\<lambda>topic st.
     bind_st (flag_string fl ''function-selector'' st) (\<lambda>functionSelector st.
     bind_st (flag_bool fl ''dryrun'' st) (\<lambda>dryrun st.
     bind_st (flag_string fl ''output'' st) (\<lambda>output st.
     bind_st (set_selector te ''Invalid lable selector specified '' functionSelector (set_topic topic t) st) (\<lambda>t st.
     (Ok ((t, output), dryrun), st)))))))"

definition nats_update_build ::
  "'s trigger_env \<Rightarrow> string \<Rightarrow> string \<Rightarrow> ('s, topic_trigger) trigger_api \<Rightarrow> flags \<Rightarrow> 's cli \<Rightarrow>
   ((topic_trigger \<times> string) \<times> bool) res \<times> 's cli" where
  "nats_update_build te triggerName ns natsClient fl st =
     bind_st (find_trigger ''NATS'' natsClient triggerName ns st) (\<lambda>t st.
     bind_st (flag_string fl ''trigger-topic'' st) (\<lambda>topic st.
     bind_st (flag_string fl ''function-selector'' st) (\<lambda>functionSelector st.
     bind_st (set_selector te ''Invalid label selector specified '' functionSelector (set_topic topic t) st) (\<lambda>t st.
     bind_st (flag_bool fl ''dryrun'' st) (\<lambda>dryrun st.
     bind_st (flag_string fl ''output'' st) (\<lambda>output st.
     (Ok ((t, output), dryrun), st)))))))"

definition updateCmd_kafka :: "'s trigger_env \<Rightarrow> string list \<Rightarrow> flags \<Rightarrow> 's cli \<Rightarrow> unit res \<times> 's cli" where
  "updateCmd_kafka te args fl st =
     bind_st (check (length args = 1) ''Need exactly one argument - kafka trigger name'' st) (\<lambda>_ st.
     bind_st (flag_namespace (te_cli te) fl st) (\<lambda>ns st.
     bind_st (client_or_exit (pk_client (te_kafka te)) st) (\<lambda>kafkaClient st.
     finish_trigger (pk_fmt (te_kafka te))
       (submit_trigger ''Failed to update Kafka trigger object '' (args ! 0) ns (ta_Update kafkaClient))
       (kafka_update_build te (args ! 0) ns kafkaClient fl st))))"

definition updateCmd_nats :: "'s trigger_env \<Rightarrow> string list \<Rightarrow> flags \<Rightarrow> 's cli \<Rightarrow> unit res \<times> 's cli" where
  "updateCmd_nats te args fl st =
     bind_st (check (length args = 1) ''Need exactly one argument - NATS trigger name'' st) (\<lambda>_ st.
     bind_st (flag_namespace (te_cli te) fl st) (\<lambda>ns st.
     bind_st (client_or_exit (pk_client (te_nats te)) st) (\<lambda>natsClient st.
     finish_trigger (pk_fmt (te_nats te))
       (submit_trigger ''Failed to update NATS trigger object '' (args ! 0) ns (ta_Update natsClient))
       (nats_update_build te (args ! 0) ns natsClient fl st))))"

section \<open>delete, list and publish\<close>

definition deleteCmd_kafka :: "'s trigger_env \<Rightarrow> string list \<Rightarrow> flags \<Rightarrow> 's cli \<Rightarrow> unit res \<times> 's cli" where
  "deleteCmd_kafka te =
     delete_trigger (te_cli te) (pk_client (te_kafka te)) ''Kafka trigger name'' ''Failed to delete Kafka trigger object ''"

definition deleteCmd_nats :: "'s trigger_env \<Rightarrow> string list \<Rightarrow> flags \<Rightarrow> 's cli \<Rightarrow> unit res \<times> 's cli" where
  "deleteCmd_nats te =
     delete_trigger (te_cli te) (pk_client (te_nats te)) ''NATS trigger name'' ''Failed to delete NATS trigger object ''"

definition topic_header :: "string list" where
  "topic_header = [''NAME'', ''NAMESPACE'', ''TOPIC'', ''FUNCTION SELECTOR'']"

definition topic_trigger_row :: "'s trigger_env \<Rightarrow> topic_trigger \<Rightarrow> string list" where
  "topic_trigger_row te t =
     [om_Name (tt_Meta t), om_Namespace (tt_Meta t), tt_Topic t, te_FormatLabelSelector te (tt_FunctionSelector t)]"

definition listCmd_kafka :: "'s trigger_env \<Rightarrow> flags \<Rightarrow> 's cli \<Rightarrow> unit res \<times> 's cli" where
  "listCmd_kafka te = list_triggers (te_cli te) (pk_client (te_kafka te)) topic_header (topic_trigger_row te)"

definition listCmd_nats :: "'s trigger_env \<Rightarrow> flags \<Rightarrow> 's cli \<Rightarrow> unit res \<times> 's cli" where
  "listCmd_nats te = list_triggers (te_cli te) (pk_client (te_nats te)) topic_header (topic_trigger_row te)"

text \<open>
  The NATS client: a connection, and operations on it whose own errors the source drops, since
  it asks for the last error at the end.
\<close>

record ('s, 'conn) nats_client =
  nc_Connect :: "string \<Rightarrow> ('s, 'conn) api"
  nc_Publish :: "'conn \<Rightarrow> string \<Rightarrow> string \<Rightarrow> 's \<Rightarrow> 's"
  nc_Flush :: "'conn \<Rightarrow> 's \<Rightarrow> 's"
  nc_LastError :: "'conn \<Rightarrow> 's \<Rightarrow> gerror option"
  nc_Close :: "'conn \<Rightarrow> 's \<Rightarrow> 's"

definition publishTopic_nats ::
  "('s, 'conn) nats_client \<Rightarrow> string \<Rightarrow> string \<Rightarrow> string \<Rightarrow> 's cli \<Rightarrow> unit res \<times> 's cli" where
  "publishTopic_nats nc topic message url st =
     (case nc_Connect nc url (fst st) of
        (Inl e, s) \<Rightarrow> fatal (err_text e) (s, snd st)
      | (Inr conn, s) \<Rightarrow>
          (let s1 = nc_Flush nc conn (nc_Publish nc conn topic message s) in
           (case nc_LastError nc conn s1 of Some e \<Rightarrow> Err e | None \<Rightarrow> Ok (), (nc_Close nc conn s1, snd st))))"

definition publishCmd_nats_flags :: declarations where
  "publishCmd_nats_flags = [(''message'', FString []), (''topic'', FString ''kubeless''), (''url'', FString [])]"

definition publishCmd_nats :: "('s, 'conn) nats_client \<Rightarrow> flags \<Rightarrow> 's cli \<Rightarrow> unit res \<times> 's cli" where
  "publishCmd_nats nc fl st =
     bind_st (flag_string fl ''message'' st) (\<lambda>data st.
     bind_st (flag_string fl ''topic'' st) (\<lambda>topic st.
     bind_st (flag_string fl ''url'' st) (\<lambda>url st.
     fatal_prefix ''Failed to publish message to topic: '' (publishTopic_nats nc topic data url st))))"

section \<open>Laws\<close>

lemma parse_selector_Ok_iff [res_simps]:
  "parse_selector te invalid sel st = (Ok ls, st') \<longleftrightarrow> te_ParseToLabelSelector te sel = Inr ls \<and> st' = st"
  by (auto simp: parse_selector_def fatal_prefix_def res_simps)

text \<open>The trigger the flags describe; nothing is read from the server.\<close>

definition topic_described :: "'s trigger_env \<Rightarrow> string \<Rightarrow> string list \<Rightarrow> flags \<Rightarrow> 's \<Rightarrow> 's \<Rightarrow> topic_trigger \<Rightarrow> bool" where
  "topic_described te kind args fl s s1 t \<longleftrightarrow> s1 = s \<and>
     (\<exists>n ls. args = [n] \<and> te_ParseToLabelSelector te (flag_text fl ''function-selector'') = Inr ls \<and>
        t = new_topic_trigger kind n (namespace_of (te_cli te) (flag_text fl ''namespace'')) ls (flag_text fl ''trigger-topic''))"

lemma kafka_create_build_Ok:
  assumes "kafka_create_build te args fl st = (Ok ((t, out), dry), st1)"
  shows "topic_described te ''KafkaTrigger'' args fl (fst st) (fst st1) t \<and> fl_GetBool fl ''dryrun'' = Inr dry"
  using assms by (auto simp: kafka_create_build_def res_simps flag_simps topic_described_def length_Suc_conv)

lemma nats_create_build_Ok:
  assumes "nats_create_build te args fl st = (Ok ((t, out), dry), st1)"
  shows "topic_described te ''NATSTrigger'' args fl (fst st) (fst st1) t \<and> fl_GetBool fl ''dryrun'' = Inr dry"
  using assms by (auto simp: nats_create_build_def res_simps flag_simps topic_described_def length_Suc_conv)

lemma topic_save_Ok:
  assumes "topic_save pk failed save n ns t st = (Ok (), st')"
  shows "\<exists>c. pk_client pk = Inr c \<and> save c t (fst st) = (Inr (), fst st')"
  using assms by (auto simp: topic_save_def res_simps)

interpretation kafka_create: trigger_writer "createCmd_kafka te args fl" "kafka_create_build te args fl"
  "\<lambda>t. topic_save (te_kafka te) ''Failed to create Kafka trigger object '' ta_Create (args ! 0) (om_Namespace (tt_Meta t)) t"
  "topic_described te ''KafkaTrigger'' args fl" "fl_GetBool fl ''dryrun''" "pk_client (te_kafka te)" ta_Create for te args fl
  unfolding createCmd_kafka_def [abs_def]
  by (intro trigger_writer.intro trigger_writer_axioms.intro finish_trigger_command)
     (auto dest!: kafka_create_build_Ok topic_save_Ok)

interpretation nats_create: trigger_writer "createCmd_nats te args fl" "nats_create_build te args fl"
  "\<lambda>t. topic_save (te_nats te) ''Failed to create NATS trigger object '' ta_Create (args ! 0) (om_Namespace (tt_Meta t)) t"
  "topic_described te ''NATSTrigger'' args fl" "fl_GetBool fl ''dryrun''" "pk_client (te_nats te)" ta_Create for te args fl
  unfolding createCmd_nats_def [abs_def]
  by (intro trigger_writer.intro trigger_writer_axioms.intro finish_trigger_command)
     (auto dest!: nats_create_build_Ok topic_save_Ok)

text \<open>
  Creating a Kafka or NATS trigger sends exactly one request, with the trigger the flags
  describe, and a dry run sends none. The trigger selects functions by the labels of the
  selector only: expressions such as \<open>env in (a, b)\<close> are parsed and then dropped.
\<close>

theorem topic_create_written:
  assumes "cmd = createCmd_kafka te \<and> pk = te_kafka te \<and> kind = ''KafkaTrigger'' \<or>
      cmd = createCmd_nats te \<and> pk = te_nats te \<and> kind = ''NATSTrigger''"
    and "cmd args fl st = (Ok (), st')"
  shows "\<exists>t. topic_described te kind args fl (fst st) (fst st) t \<and> lb_MatchExpressions (tt_FunctionSelector t) = [] \<and>
    sent (fl_GetBool fl ''dryrun'') (pk_client pk) ta_Create t (fst st) (fst st')"
proof -
  have "\<exists>s1 t. topic_described te kind args fl (fst st) s1 t \<and>
    sent (fl_GetBool fl ''dryrun'') (pk_client pk) ta_Create t s1 (fst st')"
    using assms kafka_create.sends_one [of te args fl st st'] nats_create.sends_one [of te args fl st st'] by auto
  then show ?thesis
    by (auto simp: topic_described_def new_topic_trigger_def)
qed

text \<open>What an update writes: only what was given changes.\<close>

definition selector_updated :: "'s trigger_env \<Rightarrow> string \<Rightarrow> label_selector \<Rightarrow> label_selector \<Rightarrow> bool" where
  "selector_updated te sel old new \<longleftrightarrow> lb_MatchExpressions new = lb_MatchExpressions old \<and>
     (if sel = [] then lb_MatchLabels new = lb_MatchLabels old
      else \<exists>ls. te_ParseToLabelSelector te sel = Inr ls \<and> lb_MatchLabels new = lb_MatchLabels ls)"

definition topic_updated ::
  "'s trigger_env \<Rightarrow> ('s, topic_trigger) trigger_api \<Rightarrow> string \<Rightarrow> string \<Rightarrow> flags \<Rightarrow> 's \<Rightarrow> 's \<Rightarrow> topic_trigger \<Rightarrow> bool" where
  "topic_updated te c n ns fl s s1 t' \<longleftrightarrow>
     (\<exists>t. ta_Get c n ns s = (Inr t, s1) \<and> tt_Meta t' = tt_Meta t \<and> tt_Kind t' = tt_Kind t \<and>
        tt_APIVersion t' = tt_APIVersion t \<and> tt_Topic t' = or_keep (flag_text fl ''trigger-topic'') (tt_Topic t) \<and>
        selector_updated te (flag_text fl ''function-selector'') (tt_FunctionSelector t) (tt_FunctionSelector t'))"

lemma set_topic_simps [simp]:
  "tt_Meta (set_topic topic t) = tt_Meta t" "tt_Kind (set_topic topic t) = tt_Kind t"
  "tt_APIVersion (set_topic topic t) = tt_APIVersion t" "tt_FunctionSelector (set_topic topic t) = tt_FunctionSelector t"
  "tt_Topic (set_topic topic t) = or_keep topic (tt_Topic t)"
  by (simp_all add: set_topic_def or_keep_def)

lemma set_selector_Ok:
  assumes "set_selector te invalid sel (set_topic topic t) st = (Ok t', st')"
  shows "st' = st \<and> tt_Meta t' = tt_Meta t \<and> tt_Kind t' = tt_Kind t \<and> tt_APIVersion t' = tt_APIVersion t \<and>
    tt_Topic t' = or_keep topic (tt_Topic t) \<and> selector_updated te sel (tt_FunctionSelector t) (tt_FunctionSelector t')"
  using assms by (auto simp: set_selector_def selector_updated_def res_simps split: if_splits)

lemma kafka_update_build_Ok:
  assumes "kafka_update_build te n ns c fl st = (Ok ((t', out), dry), st1)"
  shows "topic_updated te c n ns fl (fst st) (fst st1) t' \<and> fl_GetBool fl ''dryrun'' = Inr dry"
  using assms
  by (auto simp: kafka_update_build_def res_simps flag_simps topic_updated_def dest!: set_selector_Ok)

lemma nats_update_build_Ok:
  assumes "nats_update_build te n ns c fl st = (Ok ((t', out), dry), st1)"
  shows "topic_updated te c n ns fl (fst st) (fst st1) t' \<and> fl_GetBool fl ''dryrun'' = Inr dry"
  using assms
  by (auto simp: nats_update_build_def res_simps flag_simps topic_updated_def dest!: set_selector_Ok)

interpretation kafka_update: trigger_writer
  "\<lambda>st. finish_trigger (pk_fmt (te_kafka te)) (submit_trigger failed n ns (ta_Update c)) (kafka_update_build te n ns c fl st)"
  "kafka_update_build te n ns c fl" "submit_trigger failed n ns (ta_Update c)"
  "topic_updated te c n ns fl" "fl_GetBool fl ''dryrun''" "Inr c" ta_Update for te failed n ns c fl
  by (intro trigger_writer.intro trigger_writer_axioms.intro finish_trigger_command)
     (auto dest!: kafka_update_build_Ok simp: res_simps)

interpretation nats_update: trigger_writer
  "\<lambda>st. finish_trigger (pk_fmt (te_nats te)) (submit_trigger failed n ns (ta_Update c)) (nats_update_build te n ns c fl st)"
  "nats_update_build te n ns c fl" "submit_trigger failed n ns (ta_Update c)"
  "topic_updated te c n ns fl" "fl_GetBool fl ''dryrun''" "Inr c" ta_Update for te failed n ns c fl
  by (intro trigger_writer.intro trigger_writer_axioms.intro finish_trigger_command)
     (auto dest!: nats_update_build_Ok simp: res_simps)

text \<open>
  Updating a Kafka or NATS trigger writes the trigger the server returned with only the
  given parts changed: an empty flag keeps the topic or the labels, and the expressions of the
  selector are always kept. A dry run only reads.
\<close>

theorem topic_update_keeps:
  assumes "cmd = updateCmd_kafka te \<and> pk = te_kafka te \<or> cmd = updateCmd_nats te \<and> pk = te_nats te"
    and "cmd [n] fl st = (Ok (), st')"
  shows "\<exists>c s1 t'. pk_client pk = Inr c \<and>
    topic_updated te c n (namespace_of (te_cli te) (flag_text fl ''namespace'')) fl (fst st) s1 t' \<and>
    sent (fl_GetBool fl ''dryrun'') (pk_client pk) ta_Update t' s1 (fst st')"
proof -
  let ?ns = "namespace_of (te_cli te) (flag_text fl ''namespace'')"
  from assms(1) show ?thesis
  proof
    assume k: "cmd = updateCmd_kafka te \<and> pk = te_kafka te"
    with assms(2) obtain c where "pk_client pk = Inr c"
      and run: "finish_trigger (pk_fmt (te_kafka te)) (submit_trigger ''Failed to update Kafka trigger object '' n ?ns (ta_Update c))
        (kafka_update_build te n ?ns c fl st) = (Ok (), st')"
      by (auto simp: updateCmd_kafka_def res_simps flag_simps)
    with kafka_update.sends_one [OF run] show ?thesis by auto
  next
    assume k: "cmd = updateCmd_nats te \<and> pk = te_nats te"
    with assms(2) obtain c where "pk_client pk = Inr c"
      and run: "finish_trigger (pk_fmt (te_nats te)) (submit_trigger ''Failed to update NATS trigger object '' n ?ns (ta_Update c))
        (nats_update_build te n ?ns c fl st) = (Ok (), st')"
      by (auto simp: updateCmd_nats_def res_simps flag_simps)
    with nats_update.sends_one [OF run] show ?thesis by auto
  qed
qed

end
