(* ===== verification/KinesisTrigger.thy ===== *)
theory KinesisTrigger
  imports TriggerCmd
begin

text \<open>
  The commands of \<open>kubeless trigger kinesis\<close>, \<open>cmd/kubeless/trigger/kinesis\<close>: triggers on AWS Kinesis
  streams, and the two commands that talk to AWS themselves. The AWS client and the URL parser
  are parameters. The lemmas say what has to exist before a trigger is created, that the
  update command can never succeed, and what is published.
\<close>

section \<open>create\<close>

definition createCmd_kinesis_flags :: declarations where
  "createCmd_kinesis_flags =
     [(''namespace'', FString []), (''stream'', FString []), (''aws-region'', FString []), (''shard-id'', FString []),
      (''function-name'', FString []), (''secret'', FString []), (''endpoint'', FString []), (''dryrun'', FBool False),
      (''output'', FString ''yaml'')]"

text \<open>An endpoint that is not a URL is a panic.\<close>

definition check_endpoint :: "'s trigger_env \<Rightarrow> string \<Rightarrow> 's cli \<Rightarrow> unit res \<times> 's cli" where
  "check_endpoint te endpointURL st =
     (case te_ParseRequestURI te endpointURL of Some e \<Rightarrow> Panic (Raised e) | None \<Rightarrow> Ok (), st)"

definition check_optional_endpoint :: "'s trigger_env \<Rightarrow> string \<Rightarrow> 's cli \<Rightarrow> unit res \<times> 's cli" where
  "check_optional_endpoint te endpointURL st = (if endpointURL \<noteq> [] then check_endpoint te endpointURL st else (Ok (), st))"

text \<open>The secrets of the cluster, through \<open>GetClientOutOfCluster\<close>.\<close>

definition secrets_client :: "'s trigger_env \<Rightarrow> 's cli \<Rightarrow> ('s, secret) client res \<times> 's cli" where
  "secrets_client te = GetClientOutOfCluster (ce_getenv (te_cli te)) (te_load te) (te_Secrets te)"

definition require_secret :: "'s trigger_env \<Rightarrow> string \<Rightarrow> string \<Rightarrow> 's cli \<Rightarrow> unit res \<times> 's cli" where
  "require_secret te ns secretName st =
     bind_st (secrets_client te st) (\<lambda>cli st.
     case cl_get cli ns secretName (fst st) of
       (Inl e, s) \<Rightarrow> fatal (err_text e) (s, snd st)
     | (Inr secret, s) \<Rightarrow> (Ok (), (s, snd st)))"

definition kinesis_create_build ::
  "'s trigger_env \<Rightarrow> string list \<Rightarrow> flags \<Rightarrow> 's cli \<Rightarrow> ((kinesis_trigger \<times> string) \<times> bool) res \<times> 's cli" where
  "kinesis_create_build te args fl st =
     bind_st (check (length args = 1) ''Need exactly one argument - Kinesis trigger name'' st) (\<lambda>_ st.
     bind_st (flag_namespace (te_cli te) fl st) (\<lambda>ns st.
     bind_st (flag_string fl ''function-name'' st) (\<lambda>functionName st.
     bind_st (client_or_exit (ce_kubeless (te_cli te)) st) (\<lambda>kubelessClient st.
     bind_st (require_function kubelessClient functionName functionName ns st) (\<lambda>_ st.
     bind_st (flag_string fl ''stream'' st) (\<lambda>streamName st.
     bind_st (flag_string fl ''aws-region'' st) (\<lambda>regionName st.
     bind_st (flag_string fl ''shard-id'' st) (\<lambda>shardID st.
     bind_st (flag_string fl ''secret'' st) (\<lambda>secretName st.
     bind_st (flag_string fl ''endpoint'' st) (\<lambda>endpointURL st.
     bind_st (check_optional_endpoint te endpointURL st) (\<lambda>_ st.
     bind_st (flag_bool fl ''dryrun'' st) (\<lambda>dryrun st.
     bind_st (flag_string fl ''output'' st) (\<lambda>output st.
     bind_st (require_secret te ns secretName st) (\<lambda>_ st.
     (Ok ((\<lparr>kt_Kind = ''KinesisTrigger'', kt_APIVersion = ''kubeless.io/v1beta1'', kt_Meta = trigger_meta (args ! 0) ns,
            kt_FunctionName = functionName, kt_Region = regionName, kt_Stream = streamName, kt_ShardID = shardID,
            kt_Secret = secretName, kt_Endpoint = endpointURL\<rparr>, output), dryrun), st)))))))))))))))"

definition kinesis_save :: "'s trigger_env \<Rightarrow> kinesis_trigger \<Rightarrow> 's cli \<Rightarrow> unit res \<times> 's cli" where
  "kinesis_save te t st =
     bind_st (client_or_exit (pk_client (te_kinesis te)) st) (\<lambda>kinesisClient st.
     submit_trigger ''Failed to create Kinesis trigger object '' (om_Name (kt_Meta t)) (om_Namespace (kt_Meta t))
       (ta_Create kinesisClient) t st)"

definition createCmd_kinesis :: "'s trigger_env \<Rightarrow> string list \<Rightarrow> flags \<Rightarrow> 's cli \<Rightarrow> unit res \<times> 's cli" where
  "createCmd_kinesis te args fl st =
     finish_trigger (pk_fmt (te_kinesis te)) (kinesis_save te) (kinesis_create_build te args fl st)"

section \<open>update\<close>

text \<open>The flags of update do not include the namespace that it reads first.\<close>

definition updateCmd_kinesis_flags :: declarations where
  "updateCmd_kinesis_flags =
     [(''stream'', FString []), (''aws-region'', FString []), (''shard-id'', FString []), (''function-name'', FString []),
      (''secret'', FString []), (''dryrun'', FBool False), (''output'', FString ''yaml'')]"

text \<open>A new function has to exist, but it is not put into the trigger.\<close>

definition kinesis_update_build ::
  "'s trigger_env \<Rightarrow> string \<Rightarrow> string \<Rightarrow> ('s, kfunction) client \<Rightarrow> ('s, kinesis_trigger) trigger_api \<Rightarrow> flags \<Rightarrow> 's cli \<Rightarrow>
   ((kinesis_trigger \<times> string) \<times> bool) res \<times> 's cli" where
  "kinesis_update_build te triggerName ns kubelessClient kinesisClient fl st =
     bind_st (find_trigger ''Kinesis'' kinesisClient triggerName ns st) (\<lambda>t st.
     bind_st (flag_string fl ''stream'' st) (\<lambda>streamName st.
     bind_st (flag_string fl ''aws-region'' st) (\<lambda>regionName st.
     bind_st (flag_string fl ''shard-id'' st) (\<lambda>shardID st.
     bind_st (flag_string fl ''secret'' st) (\<lambda>secretName st.
     bind_st (flag_string fl ''function-name'' st) (\<lambda>functionName st.
     bind_st (if functionName \<noteq> [] then require_function kubelessClient functionName functionName ns st else (Ok (), st)) (\<lambda>_ st.
     bind_st (flag_bool fl ''dryrun'' st) (\<lambda>dryrun st.
     bind_st (flag_string fl ''output'' st) (\<lambda>output st.
     (Ok ((t\<lparr>kt_Region := or_keep regionName (kt_Region t), kt_Secret := or_keep secretName (kt_Secret t),
             kt_ShardID := or_keep shardID (kt_ShardID t), kt_Stream := or_keep streamName (kt_Stream t)\<rparr>, output), dryrun),
      st))))))))))"

definition updateCmd_kinesis :: "'s trigger_env \<Rightarrow> string list \<Rightarrow> flags \<Rightarrow> 's cli \<Rightarrow> unit res \<times> 's cli" where
  "updateCmd_kinesis te args fl st =
     bind_st (check (length args = 1) ''Need exactly one argument - Kinesis trigger name'' st) (\<lambda>_ st.
     bind_st (flag_namespace (te_cli te) fl st) (\<lambda>ns st.
     bind_st (client_or_exit (ce_kubeless (te_cli te)) st) (\<lambda>kubelessClient st.
     bind_st (client_or_exit (pk_client (te_kinesis te)) st) (\<lambda>kinesisClient st.
     finish_trigger (pk_fmt (te_kinesis te))
       (submit_trigger ''Failed to update Kinesis trigger object '' (args ! 0) ns (ta_Update kinesisClient))
       (kinesis_update_build te (args ! 0) ns kubelessClient kinesisClient fl st)))))"

section \<open>delete and list\<close>

definition deleteCmd_kinesis :: "'s trigger_env \<Rightarrow> string list \<Rightarrow> flags \<Rightarrow> 's cli \<Rightarrow> unit res \<times> 's cli" where
  "deleteCmd_kinesis te =
     delete_trigger (te_cli te) (pk_client (te_kinesis te)) ''Kinesis trigger name'' ''Failed to delete Kinesis trigger object ''"

definition listCmd_kinesis :: "'s trigger_env \<Rightarrow> flags \<Rightarrow> 's cli \<Rightarrow> unit res \<times> 's cli" where
  "listCmd_kinesis te =
     list_triggers (te_cli te) (pk_client (te_kinesis te))
       [''NAME'', ''NAMESPACE'', ''REGION'', ''STREAM'', ''SHARD'', ''FUNCTION NAME'']
       (\<lambda>t. [om_Name (kt_Meta t), om_Namespace (kt_Meta t), kt_Region t, kt_Stream t, kt_ShardID t, kt_FunctionName t])"

section \<open>Streams of AWS\<close>

record aws_config =
  aw_Region :: string
  aw_Endpoint :: "string option"
  aw_AccessKey :: string
  aw_SecretKey :: string

text \<open>
  The AWS client. Putting records answers with the number of records that were not accepted.
\<close>

record 's kinesis_client =
  kc_PutRecords :: "aws_config \<Rightarrow> string \<Rightarrow> (string \<times> string) list \<Rightarrow> ('s, nat) api"
  kc_CreateStream :: "aws_config \<Rightarrow> int64 \<Rightarrow> string \<Rightarrow> ('s, unit) api"

definition session_config :: "string \<Rightarrow> string \<Rightarrow> string \<times> string \<Rightarrow> aws_config" where
  "session_config region endpointURL = (\<lambda>(key, secretKey).
     \<lparr>aw_Region = region, aw_Endpoint = (if endpointURL \<noteq> [] then Some endpointURL else None),
      aw_AccessKey = key, aw_SecretKey = secretKey\<rparr>)"

definition missing_key :: "string \<Rightarrow> string \<Rightarrow> gerror option \<Rightarrow> string" where
  "missing_key what secretName err =
     ''Error getting '' @ what @ '' from the secret: '' @ secretName @ '' necessary to connect to AWS Kinesis service. Error: '' @
     (case err of None \<Rightarrow> ''<nil>'' | Some e \<Rightarrow> err_text e)"

text \<open>
  The keys of the account. An error of reading the secret is only logged; the client then
  returns an empty secret, so that the keys are missing.
\<close>

definition aws_keys :: "'s trigger_env \<Rightarrow> string \<Rightarrow> string \<Rightarrow> 's cli \<Rightarrow> (string \<times> string) res \<times> 's cli" where
  "aws_keys te ns secretName st =
     bind_st (secrets_client te st) (\<lambda>cli st.
     case cl_get cli ns secretName (fst st) of
        (r, s) \<Rightarrow>
          (let secret_data = (case r of Inl e \<Rightarrow> [] | Inr secret \<Rightarrow> sec_Data secret);
               err = (case r of Inl e \<Rightarrow> Some e | Inr secret \<Rightarrow> None)
           in case map_of secret_data ''aws_access_key_id'' of
                None \<Rightarrow> fatal (missing_key ''aws_access_key_id'' secretName err) (s, snd st)
              | Some awsAccessKey \<Rightarrow>
                  (case map_of secret_data ''aws_secret_access_key'' of
                     None \<Rightarrow> fatal (missing_key ''aws_aaws_secret_access_keyccess_key_id'' secretName err) (s, snd st)
                   | Some awsSecretAccessKey \<Rightarrow> (Ok (awsAccessKey, awsSecretAccessKey), (s, snd st)))))"

definition publishCmd_kinesis_flags :: declarations where
  "publishCmd_kinesis_flags =
     [(''stream'', FString []), (''aws-region'', FString []), (''partition-key'', FString []), (''records'', FStrings []),
      (''endpoint'', FString []), (''secret'', FString []), (''namespace'', FString [])]"

text \<open>The call of the client; an error is a panic, the answer is dropped.\<close>

definition put_records ::
  "'s kinesis_client \<Rightarrow> aws_config \<Rightarrow> string \<Rightarrow> (string \<times> string) list \<Rightarrow> 's cli \<Rightarrow> unit res \<times> 's cli" where
  "put_records kc config streamName entries st =
     (case kc_PutRecords kc config streamName entries (fst st) of
        (Inl e, s) \<Rightarrow> (Panic (Raised (Errorf (''Failed to put to record in the stream. Error: '' @ err_text e))), (s, snd st))
      | (Inr failed, s) \<Rightarrow> (Ok (), (s, snd st)))"

definition publishCmd_kinesis :: "'s trigger_env \<Rightarrow> 's kinesis_client \<Rightarrow> flags \<Rightarrow> 's cli \<Rightarrow> unit res \<times> 's cli" where
  "publishCmd_kinesis te kc fl st =
     bind_st (flag_strings fl ''records'' st) (\<lambda>records st.
     bind_st (flag_string fl ''stream'' st) (\<lambda>streamName st.
     bind_st (flag_string fl ''aws-region'' st) (\<lambda>region st.
     bind_st (flag_string fl ''partition-key'' st) (\<lambda>key st.
     bind_st (flag_namespace (te_cli te) fl st) (\<lambda>ns st.
     bind_st (flag_string fl ''secret'' st) (\<lambda>secretName st.
     bind_st (aws_keys te ns secretName st) (\<lambda>keys st.
     bind_st (flag_string fl ''endpoint'' st) (\<lambda>endpointURL st.
     bind_st (check_optional_endpoint te endpointURL st) (\<lambda>_ st.
     put_records kc (session_config region endpointURL keys) streamName (map (\<lambda>record. (record, key)) records) st)))))))))"

definition createStreamCmd_flags :: declarations where
  "createStreamCmd_flags =
     [(''stream-name'', FString []), (''aws-region'', FString []), (''shard-count'', FInt64 1), (''endpoint'', FString []),
      (''secret'', FString []), (''namespace'', FString [])]"

text \<open>The endpoint is checked also when it is empty; the error of reading the name is dropped.\<close>

definition createStreamCmd :: "'s trigger_env \<Rightarrow> 's kinesis_client \<Rightarrow> flags \<Rightarrow> 's cli \<Rightarrow> unit res \<times> 's cli" where
  "createStreamCmd te kc fl st =
     bind_st (flag_string fl ''aws-region'' st) (\<lambda>regionName st.
     bind_st (flag_int64 fl ''shard-count'' st) (\<lambda>shardCount st.
     bind_st (flag_string fl ''endpoint'' st) (\<lambda>endpointURL st.
     bind_st (check_endpoint te endpointURL st) (\<lambda>_ st.
     bind_st (flag_namespace (te_cli te) fl st) (\<lambda>ns st.
     bind_st (flag_string fl ''secret'' st) (\<lambda>secretName st.
     bind_st (aws_keys te ns secretName st) (\<lambda>keys st.
     fatal_prefix ''Failed to create Kinesis stream. Error: ''
       (on_server (\<lambda>s. unit_result (kc_CreateStream kc (session_config regionName endpointURL keys) shardCount
          (flag_text fl ''stream-name'') s)) st))))))))"

section \<open>Laws\<close>

text \<open>The client of the secrets that the configuration gives.\<close>

definition secrets_of :: "'s trigger_env \<Rightarrow> gerror + ('s, secret) client" where
  "secrets_of te = (case te_load te (explicit_path (ce_getenv (te_cli te))) of Inl e \<Rightarrow> Inl e | Inr config \<Rightarrow> te_Secrets te config)"

lemma secrets_client_Ok_iff [res_simps]: "secrets_client te st = (Ok c, st') \<longleftrightarrow> secrets_of te = Inr c \<and> st' = st"
  by (auto simp: secrets_client_def GetClientOutOfCluster_def new_client_or_exit_def BuildOutOfClusterConfig_def
      secrets_of_def res_simps split: sum.splits)

lemma require_secret_Ok_iff [res_simps]:
  "require_secret te ns n st = (Ok u, st') \<longleftrightarrow>
     (\<exists>c x. secrets_of te = Inr c \<and> cl_get c ns n (fst st) = (Inr x, fst st')) \<and> snd st' = snd st"
proof -
  have "(case cl_get c ns n (fst st) of (Inl e, s) \<Rightarrow> fatal (err_text e) (s, snd st) | (Inr x, s) \<Rightarrow> (Ok (), (s, snd st))) =
      (Ok u, st') \<longleftrightarrow> (\<exists>x. cl_get c ns n (fst st) = (Inr x, fst st')) \<and> snd st' = snd st" for c :: "('a, secret) client"
    by (cases "cl_get c ns n (fst st)"; cases "fst (cl_get c ns n (fst st))"; cases st') auto
  then show ?thesis by (auto simp: require_secret_def res_simps)
qed

lemma check_endpoint_Ok_iff [res_simps]:
  "check_endpoint te e st = (Ok u, st') \<longleftrightarrow> te_ParseRequestURI te e = None \<and> st' = st"
  by (auto simp: check_endpoint_def split: option.splits)

lemma check_optional_endpoint_Ok_iff [res_simps]:
  "check_optional_endpoint te e st = (Ok u, st') \<longleftrightarrow> (e = [] \<or> te_ParseRequestURI te e = None) \<and> st' = st"
  by (auto simp: check_optional_endpoint_def res_simps)

lemma put_records_Ok_iff [res_simps]:
  "put_records kc config n es st = (Ok u, st') \<longleftrightarrow>
     (\<exists>failed. kc_PutRecords kc config n es (fst st) = (Inr failed, fst st')) \<and> snd st' = snd st"
  by (cases "kc_PutRecords kc config n es (fst st)"; cases "fst (kc_PutRecords kc config n es (fst st))"; cases st')
     (auto simp: put_records_def)

lemma aws_keys_Ok:
  assumes "aws_keys te ns n st = (Ok (key, secretKey), st')"
  shows "\<exists>c x. secrets_of te = Inr c \<and> cl_get c ns n (fst st) = (Inr x, fst st') \<and> snd st' = snd st \<and>
    map_of (sec_Data x) ''aws_access_key_id'' = Some key \<and> map_of (sec_Data x) ''aws_secret_access_key'' = Some secretKey"
proof -
  obtain c where c: "secrets_client te st = (Ok c, st)" "secrets_of te = Inr c"
    using assms by (auto simp: aws_keys_def res_simps)
  obtain r s where "cl_get c ns n (fst st) = (r, s)" by (metis surj_pair)
  with assms c show ?thesis
    by (cases r) (auto simp: aws_keys_def Let_def split: option.splits)
qed

text \<open>
  The trigger \<open>t\<close> is what the flags describe; its function and then its secret were found, going
  from \<open>s\<close> to \<open>s1\<close>, and its endpoint, if it has one, is a URL.
\<close>

definition kinesis_checked :: "'s trigger_env \<Rightarrow> string list \<Rightarrow> flags \<Rightarrow> 's \<Rightarrow> 's \<Rightarrow> kinesis_trigger \<Rightarrow> bool" where
  "kinesis_checked te args fl s s1 t \<longleftrightarrow>
     (\<exists>v k f s0 c x. args = [om_Name (kt_Meta t)] \<and> fl_GetString fl ''namespace'' = Inr v \<and>
        om_Namespace (kt_Meta t) = namespace_of (te_cli te) v \<and> ce_kubeless (te_cli te) = Inr k \<and>
        cl_get k (om_Namespace (kt_Meta t)) (kt_FunctionName t) s = (Inr f, s0) \<and>
        secrets_of te = Inr c \<and> cl_get c (om_Namespace (kt_Meta t)) (kt_Secret t) s0 = (Inr x, s1)) \<and>
     map (fl_GetString fl) [''function-name'', ''stream'', ''aws-region'', ''shard-id'', ''secret'', ''endpoint''] =
       map Inr [kt_FunctionName t, kt_Stream t, kt_Region t, kt_ShardID t, kt_Secret t, kt_Endpoint t] \<and>
     (kt_Endpoint t = [] \<or> te_ParseRequestURI te (kt_Endpoint t) = None) \<and>
     hasDefaultLabel (om_Labels (kt_Meta t))"

lemma kinesis_create_build_Ok:
  assumes "kinesis_create_build te args fl st = (Ok ((t, out), dry), st1)"
  shows "kinesis_checked te args fl (fst st) (fst st1) t \<and> fl_GetBool fl ''dryrun'' = Inr dry"
proof -
  obtain name where "args = [name]"
    using assms by (auto simp: kinesis_create_build_def res_simps length_Suc_conv)
  with assms show ?thesis
    by (auto simp: kinesis_create_build_def res_simps flag_simps kinesis_checked_def)
qed

interpretation kinesis_create: trigger_writer "createCmd_kinesis te args fl" "kinesis_create_build te args fl" "kinesis_save te"
  "kinesis_checked te args fl" "fl_GetBool fl ''dryrun''" "pk_client (te_kinesis te)" ta_Create for te args fl
proof (intro trigger_writer.intro trigger_writer_axioms.intro)
  show "trigger_command (createCmd_kinesis te args fl) (kinesis_create_build te args fl) (\<lambda>(t, _). kinesis_save te t)"
    using finish_trigger_command [of "pk_fmt (te_kinesis te)" "kinesis_save te" "kinesis_create_build te args fl"]
    by (simp add: createCmd_kinesis_def [abs_def])
qed (auto dest!: kinesis_create_build_Ok simp: kinesis_save_def res_simps)

text \<open>
  A Kinesis trigger reaches the server only after its function and its secret were found in
  its namespace, and its endpoint, unless empty, was accepted as a URL; it carries the values
  of the flags. A dry run sends nothing after these two lookups.
\<close>

theorem kinesis_create_written:
  assumes "createCmd_kinesis te args fl st = (Ok (), st')"
  shows "\<exists>s1 t. kinesis_checked te args fl (fst st) s1 t \<and>
    sent (fl_GetBool fl ''dryrun'') (pk_client (te_kinesis te)) ta_Create t s1 (fst st')"
  by (rule kinesis_create.sends_one [OF assms])

text \<open>
  C33: Updating a Kinesis trigger is impossible: whatever the arguments and the flags given on
  the command line, the command ends the process with an error and does nothing else, because
  it asks for the namespace flag, which it does not declare.
\<close>

theorem kinesis_update_exits:
  assumes "flags_for updateCmd_kinesis_flags chosen fl"
  shows "\<exists>msg. updateCmd_kinesis te args fl st = (Panic (Exit msg), st)"
proof -
  have "map_of updateCmd_kinesis_flags ''namespace'' = None"
    by (simp add: updateCmd_kinesis_flags_def)
  from flags_for_undeclared [OF assms this] show ?thesis
    by (auto simp: updateCmd_kinesis_def check_def fatal_def flag_namespace_def flag_string_def)
qed

text \<open>
  Publishing to a stream that succeeds sent one request, with the records of the command
  line in their order, each with the same partition key, under the keys of the secret. The
  number of records that the service did not accept makes no difference.
\<close>

theorem publishCmd_kinesis_sends:
  assumes "publishCmd_kinesis te kc fl st = (Ok (), st')"
  shows "\<exists>c x key secretKey s1 records failed.
    secrets_of te = Inr c \<and>
    cl_get c (namespace_of (te_cli te) (flag_text fl ''namespace'')) (flag_text fl ''secret'') (fst st) = (Inr x, s1) \<and>
    map_of (sec_Data x) ''aws_access_key_id'' = Some key \<and> map_of (sec_Data x) ''aws_secret_access_key'' = Some secretKey \<and>
    fl_GetStringArray fl ''records'' = Inr records \<and>
    kc_PutRecords kc (session_config (flag_text fl ''aws-region'') (flag_text fl ''endpoint'') (key, secretKey))
      (flag_text fl ''stream'') (map (\<lambda>record. (record, flag_text fl ''partition-key'')) records) s1 = (Inr failed, fst st')"
  using assms
  by (fastforce simp: publishCmd_kinesis_def res_simps flag_simps dest!: aws_keys_Ok)

end
