(* ===== verification/TriggerInstances.thy ===== *)
theory TriggerInstances
  imports CliInstances EndToEnd Autoscale Topic HttpTrigger CronJobTrigger TopicTrigger KinesisTrigger
begin

text \<open>
  Concrete runs of a deployment and of the commands for autoscaling, topics and triggers: every property of these
  theories that has hypotheses is applied to flags, a cluster and libraries that satisfy them.
\<close>

section \<open>Flags\<close>

lemma flags_for_given:
  assumes "map_of ds n = Some (FString v)" and "n \<in> chosen"
  shows "flags_for ds chosen (flags_of ((n, FString w) # ds))"
  using assms unfolding flags_for_def
  by (intro conjI) (auto simp: getter_for_def flags_of_def undeclared_def split: option.splits flag_value.splits)

lemma flags_of_read [simp]:
  "fl_GetString (flags_of fs) n = (case map_of fs n of Some (FString v) \<Rightarrow> Inr v | _ \<Rightarrow> Inl (undeclared n))"
  "fl_GetBool (flags_of fs) n = (case map_of fs n of Some (FBool v) \<Rightarrow> Inr v | _ \<Rightarrow> Inl (undeclared n))"
  "fl_GetInt32 (flags_of fs) n = (case map_of fs n of Some (FInt32 v) \<Rightarrow> Inr v | _ \<Rightarrow> Inl (undeclared n))"
  "fl_GetInt64 (flags_of fs) n = (case map_of fs n of Some (FInt64 v) \<Rightarrow> Inr v | _ \<Rightarrow> Inl (undeclared n))"
  "fl_GetStringArray (flags_of fs) n = (case map_of fs n of Some (FStrings v) \<Rightarrow> Inr v | _ \<Rightarrow> Inl (undeclared n))"
  by (simp_all add: flags_of_def)

section \<open>Autoscaling\<close>

definition cpu_flags :: flags where
  "cpu_flags = flags_of ([(''max'', FInt32 3), (''value'', FString ''70'')] @ autoscaleCreate_flags)"

lemmas command_defs = check_def fatal_def on_server_def fatal_prefix_def namespace_of_def Let_def flag_bool_def
  small_env_def give_def GetFunction_def UpdateFunctionCustomResource_def unit_result_def

lemma Parse70: "ParseInt ''70'' 32 = Inr 70"
  using ParseInt_Itoa [of 32 70] by (simp add: Itoa_def show_nat.simps digit_def)

lemma autoscaled: "autoscaleCreateCmd (small_env no_config) [''get''] cpu_flags ((), []) = (Ok (), ((), []))"
  by (simp add: autoscaleCreateCmd_def cpu_flags_def autoscaleCreate_flags_def find_function_def update_rule_def
      getHorizontalAutoscaleDefinition_def autoscale_metrics_def Parse70 command_defs)


definition scaled :: kfunction where
  "scaled = set_HPA (zero_hpa\<lparr>hpa_Meta := zero_meta\<lparr>om_Name := ''get''\<rparr>\<rparr>) running"

lemma unscaled:
  "autoscaleDeleteCmd ((small_env no_config)\<lparr>ce_kubeless := Inr (give scaled)\<rparr>) [''get''] (flags_of autoscaleDelete_flags) ((), [])
   = (Ok (), ((), []))"
  by (simp add: autoscaleDeleteCmd_def autoscaleDelete_flags_def find_function_def update_rule_def scaled_def command_defs)

theorem autoscale_delete_applied_witness:
  "UpdateFunctionCustomResource (give scaled) (set_HPA zero_hpa scaled) () = (Ok (), ())"
  using autoscale_delete_applied [OF unscaled] by (auto simp: give_def)

theorem autoscale_row_roundtrip_witness:
  "bind_res (getHorizontalAutoscaleDefinition (\<lambda>q. Inr q) ''get'' ''ns'' ''cpu'' 1 3 (Itoa 70) None) autoscale_row =
     Ok [''get'', ''ns'', ''get'', Itoa (sint (1 :: int32)), Itoa (sint (3 :: int32)), ''cpu'', Itoa 70]"
  by (rule autoscale_row_roundtrip) simp_all

definition monitored :: "unit controller" where
  "monitored = yes_controller\<lparr>fc_smclient := Some (give (new_service_monitor hello ''ns'' []))\<rparr>"

lemma qps_rule:
  "\<exists>h. getHorizontalAutoscaleDefinition (\<lambda>q. Inr q) ''get'' ''ns'' ''qps'' 1 3 ''5'' None = Ok h"
  by (simp add: getHorizontalAutoscaleDefinition_def autoscale_metrics_def)

theorem qps_rule_frozen_witness:
  "\<exists>h f'. ensure_autoscale monitored (set_HPA h hello) [] () = (Err (Errorf ''service monitor has already existed''), f', ())"
proof -
  obtain h where h: "getHorizontalAutoscaleDefinition (\<lambda>q. Inr q) ''get'' ''ns'' ''qps'' 1 3 ''5'' None = Ok h"
    using qps_rule by blast
  have "\<exists>f'. ensure_autoscale monitored (set_HPA h hello) [] () = (Err (Errorf ''service monitor has already existed''), f', ())"
    by (rule qps_rule_frozen [OF h, of _ "give (new_service_monitor hello ''ns'' [])" _ _ "new_service_monitor hello ''ns'' []"])
       (simp_all add: monitored_def give_def)
  then show ?thesis by blast
qed

section \<open>Deployment\<close>

lemma deployed_without_code:
  "\<exists>f st'. deploy_function (small_env no_config) [''get''] some_flags ((), []) = (Ok f, st') \<and> fs_Function (f_Spec f) = []"
  by (simp add: deploy_function_def deploy_runtime_check_def some_flags_def no_config_def described_spec_def
      default_function_def zero_function_def run_defs)

theorem deployed_service_reaches_pods_witness:
  "\<exists>(f :: kfunction) (d :: deployment). f_Name f = ''get'' \<and>
     selects (ss_Selector (svc_Spec (new_service (label_function f) []))) (pt_Labels (ds_Template (d_Spec d)))"
proof -
  obtain f st' where f: "deploy_function (small_env no_config) [''get''] some_flags ((), []) = (Ok f, st')"
    and code: "fs_Function (f_Spec f) = []"
    using deployed_without_code by blast
  have m: "merge_config yes_externals py_config (label_function f) = (Ok (), label_function f)"
    by (simp add: merge_config_def py_config_def gm_find_def)
  have "is_ok (fst (desired_deployment keep_runtimes no_env (labelled_function (label_function f)) [] py_lr [] [] []))"
    using code by (simp add: desired_deployment_ok_iff dpm_runtime_def labelled_function_def label_function_def)
  then obtain d l' where d: "desired_deployment keep_runtimes no_env (labelled_function (label_function f)) [] py_lr [] [] [] = (Ok d, l')"
    by (metis is_ok_iff prod.collapse)
  from deployed_service_reaches_pods [OF f m d] have
    "selects (ss_Selector (svc_Spec (new_service (label_function f) []))) (pt_Labels (ds_Template (d_Spec d)))"
    by (simp add: some_flags_def default_flags_def)
  moreover have "f_Name f = ''get''"
    using f by (auto simp: deploy_function_def res_simps Let_def getFunctionDescription_Ok_iff function_args_of_def)
  ultimately show ?thesis by blast
qed

section \<open>Topics\<close>

text \<open>A pipe that is read byte by byte, and a producer that answers on both streams.\<close>

definition byte_rounds :: "string \<Rightarrow> stdin_round list" where
  "byte_rounds input =
     map (\<lambda>c. \<lparr>sr_Bytes = [c], sr_ReadErr = None, sr_SendErr = None\<rparr>) input @
     [\<lparr>sr_Bytes = [], sr_ReadErr = Some EOF, sr_SendErr = None\<rparr>]"

definition kafka_env :: "(unit, unit, unit) topic_env" where
  "kafka_env =
     \<lparr>tp_cli = small_env no_config, tp_load = (\<lambda>p. Inr \<lparr>rc_Host = ''h'', rc_BearerToken = []\<rparr>),
      tp_NewForConfig = (\<lambda>c. Inr (give \<lparr>pod_Name = ''p'', pod_Ready = [True]\<rparr>)), tp_TLSConfigFor = (\<lambda>c. Inr ()),
      tp_HTTPWrappers = (\<lambda>c rt. Inr (\<lambda>r. rt (r\<lparr>hr_Header := [(''Authorization'', [''t''])]\<rparr>))),
      tp_websocket =
        \<lparr>wk_NewConfig = (\<lambda>u o'. Inr \<lparr>ws_URL = u, ws_Origin = o', ws_TlsConfig = (), ws_Header = [], ws_Protocol = []\<rparr>),
         wk_DialConfig = (\<lambda>c. Inr ())\<rparr>,
      tp_exec_resource = (\<lambda>ns p opts. \<lparr>xu_Scheme = ''https'', xu_Rest = ns @ ''/'' @ p\<rparr>),
      tp_stdin_first = (\<lambda>conn. True), tp_stdin = (\<lambda>conn. byte_rounds),
      tp_receipts = (\<lambda>conn. [Message (stdoutChannel # ''a'') None, Message (stderrChannel # ''b'') None, Broken EOF])\<rparr>"

lemma byte_rounds_laws:
  "input_of (byte_rounds input) = input"
  "list_all (\<lambda>r. sr_SendErr r = None \<and> length (sr_Bytes r) \<le> 1024) (byte_rounds input)"
  unfolding byte_rounds_def by (induction input) (simp_all add: round_error_def)

lemma kafka_laws: "pipe_laws kafka_env" "wrapper_laws kafka_env"
  by (auto simp: pipe_laws_def wrapper_laws_def kafka_env_def byte_rounds_laws)

lemma kafka_run:
  "run_on kafka_env \<lparr>cmd_Stdin = True, cmd_Stdout = True, cmd_Stderr = True\<rparr> (''x'' @ [CHR 0x0A]) () =
     \<lparr>xr_StatusCode = 200, xr_Error = None, xr_Frames = [[stdinChannel, CHR ''x''], [stdinChannel, CHR 0x0A], [stdinChannel]],
      xr_Output = [(stdoutChannel, ''a''), (stderrChannel, ''b'')]\<rparr>"
  by (simp add: run_on_def RoundTripCallback_def copy_stdin_def byte_rounds_def round_error_def sent_frames_def
      first_error_def kafka_env_def)

definition one_pod :: "(unit, pod) client" where
  "one_pod = give \<lparr>pod_Name = ''p'', pod_Ready = [True]\<rparr>"

lemma kafka_pod_found: "kafka_pod one_pod ns st = (Ok \<lparr>pod_Name = ''p'', pod_Ready = [True]\<rparr>, st)"
  by (cases st) (simp add: kafka_pod_def one_pod_def GetPodsByLabel_def give_def on_server_def)

lemma published:
  "publishTopic kafka_env \<lparr>rc_Host = ''h'', rc_BearerToken = []\<rparr> one_pod ''ns'' ''t'' ''x'' ((), []) = (Ok (), ((), [Raw ''ab'']))"
proof -
  have "ExecRoundTripper (tp_TLSConfigFor kafka_env) (tp_HTTPWrappers kafka_env) (tp_websocket kafka_env) conf cb =
      Ok (\<lambda>r. Ok (cb ()))" for conf cb
    by (simp add: ExecRoundTripper_def RoundTrip_def kafka_env_def Let_def)
  moreover have "\<exists>req. Exec (tp_exec_resource kafka_env) ''p'' ''ns'' (publish_options ''t'') = Ok req"
    by (simp add: Exec_def kafka_env_def Let_def)
  ultimately show ?thesis
    using kafka_run by (auto simp: publishTopic_def kafka_pod_found exec_in_pod_def Println_def)
qed


section \<open>Triggers\<close>

definition keep :: "'t \<Rightarrow> (unit, 't) trigger_api" where
  "keep t = \<lparr>ta_Create = (\<lambda>t' s. (Inr (), s)), ta_Update = (\<lambda>t' s. (Inr (), s)), ta_Delete = (\<lambda>n ns s. (Inr (), s)),
     ta_Get = (\<lambda>n ns s. (Inr t, s)), ta_List = (\<lambda>ns s. (Inr [t], s))\<rparr>"

definition package :: "'t \<Rightarrow> (unit, 't) trigger_package" where
  "package t = \<lparr>pk_client = Inr (keep t), pk_fmt = \<lparr>ma_json = (\<lambda>f. Inr ''j''), ma_yaml = (\<lambda>f. Inr ''y'')\<rparr>\<rparr>"

definition some_http :: http_trigger where
  "some_http = \<lparr>ht_Kind = ''HTTPTrigger'', ht_APIVersion = ''kubeless.io/v1beta1'', ht_Meta = trigger_meta ''t'' ''default'',
     ht_FunctionName = ''get'', ht_Path = [], ht_TLSAcme = True, ht_CorsEnable = False, ht_TLSSecret = [],
     ht_Gateway = ''nginx'', ht_HostName = ''a.b'', ht_BasicAuthSecret = []\<rparr>"

definition some_topic :: topic_trigger where
  "some_topic = \<lparr>tt_Kind = ''KafkaTrigger'', tt_APIVersion = ''kubeless.io/v1beta1'', tt_Meta = trigger_meta ''t'' ''default'',
     tt_FunctionSelector = \<lparr>lb_MatchLabels = Some [(''a'', ''b'')], lb_MatchExpressions = [''c'']\<rparr>, tt_Topic = ''news''\<rparr>"

definition some_kinesis :: kinesis_trigger where
  "some_kinesis = \<lparr>kt_Kind = ''KinesisTrigger'', kt_APIVersion = ''kubeless.io/v1beta1'', kt_Meta = trigger_meta ''t'' ''default'',
     kt_FunctionName = ''get'', kt_Region = ''r'', kt_Stream = ''s'', kt_ShardID = ''0'', kt_Secret = ''x'', kt_Endpoint = []\<rparr>"

definition some_cronjob :: cronjob_trigger where
  "some_cronjob = \<lparr>cj_Kind = ''CronJobTrigger'', cj_APIVersion = ''kubeless.io/v1beta1'', cj_Meta = trigger_meta ''t'' ''default'',
     cj_FunctionName = ''get'', cj_Schedule = ''@daily'', cj_Payload = MapPayload None\<rparr>"

definition aws_secret :: secret where
  "aws_secret = \<lparr>sec_Name = ''x'', sec_Data = [(''aws_access_key_id'', ''k''), (''aws_secret_access_key'', ''p'')]\<rparr>"

definition some_triggers :: "unit trigger_env" where
  "some_triggers =
     \<lparr>te_cli = small_env no_config, te_http = package some_http, te_kafka = package some_topic, te_nats = package some_topic,
      te_kinesis = package some_kinesis, te_cronjob = package some_cronjob, te_Secrets = (\<lambda>c. Inr (give aws_secret)),
      te_load = (\<lambda>p. Inr \<lparr>rc_Host = ''h'', rc_BearerToken = []\<rparr>), te_GetLocalHostname = (\<lambda>c f. Inr (f @ ''.local'')),
      te_ParseToLabelSelector = (\<lambda>s. Inr \<lparr>lb_MatchLabels = Some [(s, ''1'')], lb_MatchExpressions = [''d'']\<rparr>),
      te_FormatLabelSelector = (\<lambda>l. ''l''), te_ParseRequestURI = (\<lambda>u. if u = [] then Some (Errorf ''empty url'') else None),
      te_unmarshal_map = (\<lambda>s. if s = [] then Inl (Errorf ''unexpected end'') else Inr (Some []))\<rparr>"

lemmas trigger_defs = command_defs finish_trigger_def submit_trigger_def client_or_exit_def require_function_def
  find_trigger_def GetFunctionCustomResource_def package_def keep_def some_triggers_def

lemma http_created:
  "createCmd_http some_triggers [''t''] (flags_of ((''function-name'', FString ''get'') # createCmd_http_flags)) ((), []) =
     (Ok (), ((), []))"
  by (simp add: createCmd_http_def http_create_build_def http_save_def http_hostname_def BuildOutOfClusterConfig_def
      gateways_def createCmd_http_flags_def trigger_defs)


lemma http_updated: "updateCmd_http some_triggers [''t''] (flags_of updateCmd_http_flags) ((), []) = (Ok (), ((), []))"
  by (simp add: updateCmd_http_def http_update_build_def updateCmd_http_flags_def trigger_defs)

theorem http_update_switches_off_tls_witness:
  "\<exists>c t. pk_client (te_http some_triggers) = Inr c \<and> ta_Get c ''t'' ''default'' () = (Inr t, ()) \<and> ht_TLSAcme t \<and>
     ta_Update c (t\<lparr>ht_TLSAcme := False\<rparr>) () = (Inr (), ())"
proof -
  have "flags_for updateCmd_http_flags {''namespace''} (flags_of ((''namespace'', FString []) # updateCmd_http_flags))"
    by (rule flags_for_given) (simp_all add: updateCmd_http_flags_def)
  then have "flags_for updateCmd_http_flags {''namespace''} (flags_of updateCmd_http_flags)"
    by (simp add: updateCmd_http_flags_def flags_of_def)
  from http_update_switches_off_tls [OF http_updated this] show ?thesis
    by (auto simp: some_triggers_def package_def keep_def some_http_def)
qed

lemma cronjob_created:
  "createCmd_cronjob some_triggers [''t''] (flags_of ([(''schedule'', FString ''@daily''), (''function'', FString ''get'')] @
     createCmd_cronjob_flags)) ((), []) = (Ok (), ((), []))"
  by (simp add: createCmd_cronjob_def cronjob_create_build_def cronjob_save_def cronjob_options_def check_schedule_def
      check_payload_def read_payload_def parsePayload_def createCmd_cronjob_flags_def trigger_defs)

theorem cronjob_create_written_witness:
  "\<exists>c t. pk_client (te_cronjob some_triggers) = Inr c \<and> ta_Create c t () = (Inr (), ()) \<and>
     cj_Payload t = ErrorPayload (Errorf (''Found an error during JSON parsing on your payload: '' @ err_text (Errorf ''unexpected end'')))"
  using cronjob_create_written [OF cronjob_created]
  by (auto simp: createCmd_cronjob_flags_def flag_text_def some_triggers_def)

lemma cronjob_updated:
  "updateCmd_cronjob some_triggers [''t''] (flags_of ((''function'', FString ''get'') # updateCmd_cronjob_flags)) ((), []) =
     (Ok (), ((), []))"
  by (simp add: updateCmd_cronjob_def cronjob_update_build_def cronjob_save_def cronjob_options_def check_new_schedule_def
      check_payload_def read_payload_def parsePayload_def updateCmd_cronjob_flags_def trigger_defs)

theorem cronjob_update_overwrites_witness:
  "\<exists>c t. pk_client (te_cronjob some_triggers) = Inr c \<and> ta_Get c ''t'' ''default'' () = (Inr t, ()) \<and> cj_Schedule t = ''@daily'' \<and>
     ta_Update c (t\<lparr>cj_FunctionName := ''get'', cj_Schedule := [],
       cj_Payload := parsePayloadContent (te_unmarshal_map some_triggers) []\<rparr>) () = (Inr (), ())"
proof -
  have "flags_for updateCmd_cronjob_flags {''namespace'', ''function''} (flags_of ((''function'', FString ''get'') # updateCmd_cronjob_flags))"
    by (rule flags_for_given) (simp_all add: updateCmd_cronjob_flags_def)
  from cronjob_update_overwrites [OF cronjob_updated this] show ?thesis
    by (auto simp: some_triggers_def package_def keep_def some_cronjob_def)
qed

lemma kafka_created:
  "createCmd_kafka some_triggers [''t''] (flags_of createCmd_topic_flags) ((), []) = (Ok (), ((), []))"
  by (simp add: createCmd_kafka_def kafka_create_build_def parse_selector_def topic_save_def createCmd_topic_flags_def trigger_defs)

theorem topic_create_written_witness:
  "\<exists>t. topic_described some_triggers ''KafkaTrigger'' [''t''] (flags_of createCmd_topic_flags) () () t \<and>
     lb_MatchExpressions (tt_FunctionSelector t) = []"
  using topic_create_written [of "createCmd_kafka some_triggers" some_triggers "te_kafka some_triggers" "''KafkaTrigger''", OF _ kafka_created]
  by auto

lemma nats_updated:
  "updateCmd_nats some_triggers [''t''] (flags_of ((''function-selector'', FString ''x'') # createCmd_topic_flags)) ((), []) =
     (Ok (), ((), []))"
  by (simp add: updateCmd_nats_def nats_update_build_def set_selector_def parse_selector_def createCmd_topic_flags_def trigger_defs)

theorem topic_update_keeps_witness:
  "\<exists>c s1 t'. pk_client (te_nats some_triggers) = Inr c \<and> topic_updated some_triggers c ''t'' ''default''
     (flags_of ((''function-selector'', FString ''x'') # createCmd_topic_flags)) () s1 t'"
  using topic_update_keeps [of "updateCmd_nats some_triggers" some_triggers "te_nats some_triggers", OF _ nats_updated]
  by (auto simp: createCmd_topic_flags_def flag_text_def some_triggers_def small_env_def namespace_of_def)

lemmas kinesis_defs = secrets_client_def GetClientOutOfCluster_def new_client_or_exit_def BuildOutOfClusterConfig_def
  check_optional_endpoint_def

lemma kinesis_created:
  "createCmd_kinesis some_triggers [''t''] (flags_of createCmd_kinesis_flags) ((), []) = (Ok (), ((), []))"
  by (simp add: createCmd_kinesis_def kinesis_create_build_def kinesis_save_def createCmd_kinesis_flags_def require_secret_def
      kinesis_defs trigger_defs)

theorem kinesis_create_written_witness:
  "\<exists>s1 t. kinesis_checked some_triggers [''t''] (flags_of createCmd_kinesis_flags) () s1 t"
  using kinesis_create_written [OF kinesis_created] by auto

theorem kinesis_update_exits_witness:
  "\<exists>msg. updateCmd_kinesis some_triggers [''t''] (flags_of updateCmd_kinesis_flags) ((), []) = (Panic (Exit msg), ((), []))"
  by (rule kinesis_update_exits [OF flags_for_flags_of])

definition lossy_stream :: "unit kinesis_client" where
  "lossy_stream = \<lparr>kc_PutRecords = (\<lambda>c n es s. (Inr (length es), s)), kc_CreateStream = (\<lambda>c n name s. (Inr (), s))\<rparr>"

lemma kinesis_published:
  "publishCmd_kinesis some_triggers lossy_stream (flags_of ((''records'', FStrings [''a'', ''b'']) # publishCmd_kinesis_flags))
     ((), []) = (Ok (), ((), []))"
  by (simp add: publishCmd_kinesis_def publishCmd_kinesis_flags_def aws_keys_def aws_secret_def put_records_def lossy_stream_def
      kinesis_defs trigger_defs)

theorem publishCmd_kinesis_sends_witness:
  "\<exists>config. kc_PutRecords lossy_stream config [] [(''a'', []), (''b'', [])] () = (Inr 2, ())"
  using publishCmd_kinesis_sends [OF kinesis_published]
  by (auto simp: publishCmd_kinesis_flags_def flag_text_def lossy_stream_def)

end
