(* ===== verification/FunctionClient.thy ===== *)
theory FunctionClient
  imports K8sUtil Clients
begin

text \<open>
  The generated client of the Function resource: \<open>function.go\<close> and \<open>kubeless_client.go\<close> of
  \<open>pkg/client/clientset/versioned/typed/kubeless/v1beta1\<close>, and \<open>clientset.go\<close> above them. A
  method builds one request and decodes its answer; the REST client that sends it is a
  parameter, a record with one call for each way the code ends a request, and so are the
  constructors of the client library.
\<close>

section \<open>Requests\<close>

record get_options =
  go_ResourceVersion :: string

record list_options =
  lo_LabelSelector :: string
  lo_FieldSelector :: string
  lo_Watch :: bool
  lo_ResourceVersion :: string
  lo_TimeoutSeconds :: "int64 option"

record delete_options =
  do_GracePeriodSeconds :: "int64 option"
  do_PropagationPolicy :: "string option"

definition zero_get_options :: get_options where
  "zero_get_options = \<lparr>go_ResourceVersion = []\<rparr>"

definition zero_list_options :: list_options where
  "zero_list_options = \<lparr>lo_LabelSelector = [], lo_FieldSelector = [], lo_Watch = False,
     lo_ResourceVersion = [], lo_TimeoutSeconds = None\<rparr>"

definition zero_delete_options :: delete_options where
  "zero_delete_options = \<lparr>do_GracePeriodSeconds = None, do_PropagationPolicy = None\<rparr>"

datatype rest_verb = GET | POST | PUT | DELETE | PATCH string

datatype rest_params = GetParams get_options | ListParams list_options

datatype rest_body = FunctionBody kfunction | OptionsBody "delete_options option" | PatchBody string

record api_request =
  ar_Verb :: rest_verb
  ar_Namespace :: string
  ar_Resource :: string
  ar_Name :: "string option"
  ar_SubResource :: "string list"
  ar_Params :: "rest_params option"
  ar_Body :: "rest_body option"

definition request :: "rest_verb \<Rightarrow> api_request" where
  "request v = \<lparr>ar_Verb = v, ar_Namespace = [], ar_Resource = [], ar_Name = None, ar_SubResource = [],
     ar_Params = None, ar_Body = None\<rparr>"

record function_list =
  fl_ResourceVersion :: string
  fl_Items :: "kfunction list"

definition zero_function_list :: function_list where
  "zero_function_list = \<lparr>fl_ResourceVersion = [], fl_Items = []\<rparr>"

text \<open>
  A request ends in one of four ways: its answer is decoded into a function or into a list,
  which are filled as far as the decoder came also when there is an error, only the error is
  looked at, or the answer is watched.
\<close>

record ('s, 'w) rest_interface =
  ri_IntoFunction :: "api_request \<Rightarrow> 's \<Rightarrow> (kfunction \<times> gerror option) \<times> 's"
  ri_IntoList :: "api_request \<Rightarrow> 's \<Rightarrow> (function_list \<times> gerror option) \<times> 's"
  ri_Error :: "api_request \<Rightarrow> 's \<Rightarrow> gerror option \<times> 's"
  ri_Watch :: "api_request \<Rightarrow> 's \<Rightarrow> ('w option \<times> gerror option) \<times> 's"

section \<open>FunctionInterface\<close>

text \<open>A Go result of a pointer and an error, each of which may be nil; a call may panic.\<close>

type_synonym 'a ptr_result = "('a option \<times> gerror option) res"

record ('s, 'w) function_interface =
  fi_Create :: "kfunction \<Rightarrow> 's \<Rightarrow> kfunction ptr_result \<times> 's"
  fi_Update :: "kfunction \<Rightarrow> 's \<Rightarrow> kfunction ptr_result \<times> 's"
  fi_Delete :: "string \<Rightarrow> delete_options option \<Rightarrow> 's \<Rightarrow> gerror option res \<times> 's"
  fi_DeleteCollection :: "delete_options option \<Rightarrow> list_options \<Rightarrow> 's \<Rightarrow> gerror option res \<times> 's"
  fi_Get :: "string \<Rightarrow> get_options \<Rightarrow> 's \<Rightarrow> kfunction ptr_result \<times> 's"
  fi_List :: "list_options \<Rightarrow> 's \<Rightarrow> function_list ptr_result \<times> 's"
  fi_Watch :: "list_options \<Rightarrow> 's \<Rightarrow> 'w ptr_result \<times> 's"
  fi_Patch :: "string \<Rightarrow> string \<Rightarrow> string \<Rightarrow> string list \<Rightarrow> 's \<Rightarrow> kfunction ptr_result \<times> 's"

section \<open>The typed client\<close>

record ('s, 'w) functions_client =
  fn_client :: "('s, 'w) rest_interface option"
  fn_ns :: string

record ('s, 'w) KubelessV1beta1Client =
  kc_restClient :: "('s, 'w) rest_interface option"

definition RESTClient :: "('s, 'w) KubelessV1beta1Client option \<Rightarrow> ('s, 'w) rest_interface option" where
  "RESTClient c = (case c of None \<Rightarrow> None | Some k \<Rightarrow> kc_restClient k)"

definition newFunctions :: "('s, 'w) KubelessV1beta1Client option \<Rightarrow> string \<Rightarrow> ('s, 'w) functions_client" where
  "newFunctions c namespace = \<lparr>fn_client = RESTClient c, fn_ns = namespace\<rparr>"

text \<open>A method of a nil interface panics.\<close>

definition send ::
  "('s, 'w) functions_client \<Rightarrow> (('s, 'w) rest_interface \<Rightarrow> api_request \<Rightarrow> 's \<Rightarrow> 'a \<times> 's) \<Rightarrow> api_request \<Rightarrow> 's \<Rightarrow> 'a res \<times> 's" where
  "send c finish rq s =
     (case fn_client c of
        None \<Rightarrow> (Panic NilDereference, s)
      | Some ri \<Rightarrow> (case finish ri rq s of (x, s') \<Rightarrow> (Ok x, s')))"

text \<open>The result of a method that decodes: the pointer to its own variable and the error.\<close>

definition result_ptr :: "('a \<times> gerror option) res \<times> 's \<Rightarrow> 'a ptr_result \<times> 's" where
  "result_ptr r = (map_res (\<lambda>(x, e). (Some x, e)) (fst r), snd r)"

definition functions_Get :: "('s, 'w) functions_client \<Rightarrow> string \<Rightarrow> get_options \<Rightarrow> 's \<Rightarrow> kfunction ptr_result \<times> 's" where
  "functions_Get c name options s =
     result_ptr (send c ri_IntoFunction
       ((request GET)\<lparr>ar_Namespace := fn_ns c, ar_Resource := ''functions'', ar_Name := Some name,
          ar_Params := Some (GetParams options)\<rparr>) s)"

definition functions_List :: "('s, 'w) functions_client \<Rightarrow> list_options \<Rightarrow> 's \<Rightarrow> function_list ptr_result \<times> 's" where
  "functions_List c opts s =
     result_ptr (send c ri_IntoList
       ((request GET)\<lparr>ar_Namespace := fn_ns c, ar_Resource := ''functions'',
          ar_Params := Some (ListParams opts)\<rparr>) s)"

definition functions_Watch :: "('s, 'w) functions_client \<Rightarrow> list_options \<Rightarrow> 's \<Rightarrow> 'w ptr_result \<times> 's" where
  "functions_Watch c opts s =
     (let opts = opts\<lparr>lo_Watch := True\<rparr> in
      send c ri_Watch
        ((request GET)\<lparr>ar_Namespace := fn_ns c, ar_Resource := ''functions'',
           ar_Params := Some (ListParams opts)\<rparr>) s)"

definition functions_Create :: "('s, 'w) functions_client \<Rightarrow> kfunction \<Rightarrow> 's \<Rightarrow> kfunction ptr_result \<times> 's" where
  "functions_Create c f s =
     result_ptr (send c ri_IntoFunction
       ((request POST)\<lparr>ar_Namespace := fn_ns c, ar_Resource := ''functions'', ar_Body := Some (FunctionBody f)\<rparr>) s)"

definition functions_Update :: "('s, 'w) functions_client \<Rightarrow> kfunction \<Rightarrow> 's \<Rightarrow> kfunction ptr_result \<times> 's" where
  "functions_Update c f s =
     result_ptr (send c ri_IntoFunction
       ((request PUT)\<lparr>ar_Namespace := fn_ns c, ar_Resource := ''functions'', ar_Name := Some (f_Name f),
          ar_Body := Some (FunctionBody f)\<rparr>) s)"

definition functions_Delete ::
  "('s, 'w) functions_client \<Rightarrow> string \<Rightarrow> delete_options option \<Rightarrow> 's \<Rightarrow> gerror option res \<times> 's" where
  "functions_Delete c name options s =
     send c ri_Error
       ((request DELETE)\<lparr>ar_Namespace := fn_ns c, ar_Resource := ''functions'', ar_Name := Some name,
          ar_Body := Some (OptionsBody options)\<rparr>) s"

definition functions_DeleteCollection ::
  "('s, 'w) functions_client \<Rightarrow> delete_options option \<Rightarrow> list_options \<Rightarrow> 's \<Rightarrow> gerror option res \<times> 's" where
  "functions_DeleteCollection c options listOptions s =
     send c ri_Error
       ((request DELETE)\<lparr>ar_Namespace := fn_ns c, ar_Resource := ''functions'',
          ar_Params := Some (ListParams listOptions), ar_Body := Some (OptionsBody options)\<rparr>) s"

definition functions_Patch ::
  "('s, 'w) functions_client \<Rightarrow> string \<Rightarrow> string \<Rightarrow> string \<Rightarrow> string list \<Rightarrow> 's \<Rightarrow> kfunction ptr_result \<times> 's" where
  "functions_Patch c name pt data subresources s =
     result_ptr (send c ri_IntoFunction
       ((request (PATCH pt))\<lparr>ar_Namespace := fn_ns c, ar_Resource := ''functions'', ar_SubResource := subresources,
          ar_Name := Some name, ar_Body := Some (PatchBody data)\<rparr>) s)"

definition functions_interface :: "('s, 'w) functions_client \<Rightarrow> ('s, 'w) function_interface" where
  "functions_interface c =
     \<lparr>fi_Create = functions_Create c, fi_Update = functions_Update c, fi_Delete = functions_Delete c,
      fi_DeleteCollection = functions_DeleteCollection c, fi_Get = functions_Get c, fi_List = functions_List c,
      fi_Watch = functions_Watch c, fi_Patch = functions_Patch c\<rparr>"

definition KubelessV1beta1Client_Functions ::
  "('s, 'w) KubelessV1beta1Client option \<Rightarrow> string \<Rightarrow> ('s, 'w) function_interface" where
  "KubelessV1beta1Client_Functions c namespace = functions_interface (newFunctions c namespace)"

section \<open>Clients from a configuration\<close>

record group_version =
  gv_Group :: string
  gv_Version :: string

definition SchemeGroupVersion :: group_version where
  "SchemeGroupVersion = \<lparr>gv_Group = ''kubeless.io'', gv_Version = ''v1beta1''\<rparr>"

text \<open>The qualified names of \<open>register.go\<close>: a group with a kind or a resource.\<close>

definition Kind :: "string \<Rightarrow> string \<times> string" where
  "Kind kind = (gv_Group SchemeGroupVersion, kind)"

definition Resource :: "string \<Rightarrow> string \<times> string" where
  "Resource resource = (gv_Group SchemeGroupVersion, resource)"

text \<open>
  The remaining fields of a client configuration; the queries per second are only compared
  with zero and passed on, like the burst and a rate limiter.
\<close>

record 'l client_config = rest_config +
  cc_GroupVersion :: "group_version option"
  cc_APIPath :: string
  cc_NegotiatedSerializer :: "string option"
  cc_UserAgent :: string
  cc_QPS :: int
  cc_Burst :: int
  cc_RateLimiter :: "'l option"

definition setConfigDefaults :: "string \<Rightarrow> 'l client_config \<Rightarrow> gerror option \<times> 'l client_config" where
  "setConfigDefaults DefaultKubernetesUserAgent config =
     (let config = config\<lparr>cc_GroupVersion := Some SchemeGroupVersion, cc_APIPath := ''/apis'',
                          cc_NegotiatedSerializer := Some ''DirectCodecFactory''\<rparr>;
          config = (if cc_UserAgent config = [] then config\<lparr>cc_UserAgent := DefaultKubernetesUserAgent\<rparr> else config) in
      (None, config))"

definition KubelessV1beta1Client_NewForConfig ::
  "string \<Rightarrow> ('l client_config \<Rightarrow> gerror + ('s, 'w) rest_interface) \<Rightarrow> 'l client_config \<Rightarrow>
   ('s, 'w) KubelessV1beta1Client option \<times> gerror option" where
  "KubelessV1beta1Client_NewForConfig agent RESTClientFor c =
     (case setConfigDefaults agent c of
        (Some e, config) \<Rightarrow> (None, Some e)
      | (None, config) \<Rightarrow>
          (case RESTClientFor config of
             Inl e \<Rightarrow> (None, Some e)
           | Inr client \<Rightarrow> (Some \<lparr>kc_restClient = Some client\<rparr>, None)))"

definition KubelessV1beta1Client_NewForConfigOrDie ::
  "string \<Rightarrow> ('l client_config \<Rightarrow> gerror + ('s, 'w) rest_interface) \<Rightarrow> 'l client_config \<Rightarrow>
   ('s, 'w) KubelessV1beta1Client option res" where
  "KubelessV1beta1Client_NewForConfigOrDie agent RESTClientFor c =
     (case KubelessV1beta1Client_NewForConfig agent RESTClientFor c of
        (client, Some e) \<Rightarrow> Panic (Raised e)
      | (client, None) \<Rightarrow> Ok client)"

definition KubelessV1beta1Client_New :: "('s, 'w) rest_interface option \<Rightarrow> ('s, 'w) KubelessV1beta1Client option" where
  "KubelessV1beta1Client_New c = Some \<lparr>kc_restClient = c\<rparr>"

record ('s, 'w, 'd) versioned_clientset =
  vc_DiscoveryClient :: "'d option"
  vc_kubelessV1beta1 :: "('s, 'w) KubelessV1beta1Client option"

text \<open>What the clientset needs of the client libraries.\<close>

record ('s, 'w, 'd, 'l) client_lib =
  cb_UserAgent :: string
  cb_RESTClientFor :: "'l client_config \<Rightarrow> gerror + ('s, 'w) rest_interface"
  cb_NewTokenBucketRateLimiter :: "int \<Rightarrow> int \<Rightarrow> 'l"
  cb_NewDiscoveryClientForConfig :: "'l client_config \<Rightarrow> gerror + 'd"
  cb_NewDiscoveryClient :: "('s, 'w) rest_interface option \<Rightarrow> 'd"

definition Clientset_NewForConfig ::
  "('s, 'w, 'd, 'l) client_lib \<Rightarrow> 'l client_config \<Rightarrow> gerror + ('s, 'w, 'd) versioned_clientset" where
  "Clientset_NewForConfig lib c =
     (let config =
        (if cc_RateLimiter c = None \<and> cc_QPS c > 0
         then c\<lparr>cc_RateLimiter := Some (cb_NewTokenBucketRateLimiter lib (cc_QPS c) (cc_Burst c))\<rparr> else c) in
      case KubelessV1beta1Client_NewForConfig (cb_UserAgent lib) (cb_RESTClientFor lib) config of
        (k, Some e) \<Rightarrow> Inl e
      | (k, None) \<Rightarrow>
          (case cb_NewDiscoveryClientForConfig lib config of
             Inl e \<Rightarrow> Inl e
           | Inr d \<Rightarrow> Inr \<lparr>vc_DiscoveryClient = Some d, vc_kubelessV1beta1 = k\<rparr>))"

definition Clientset_NewForConfigOrDie ::
  "('s, 'w, 'd, 'l) client_lib \<Rightarrow> 'l client_config \<Rightarrow> ('s, 'w, 'd) versioned_clientset res" where
  "Clientset_NewForConfigOrDie lib c =
     bind_res (KubelessV1beta1Client_NewForConfigOrDie (cb_UserAgent lib) (cb_RESTClientFor lib) c) (\<lambda>k.
     case cb_NewDiscoveryClientForConfig lib c of
       Inl e \<Rightarrow> Panic (Raised e)
     | Inr d \<Rightarrow> Ok \<lparr>vc_DiscoveryClient = Some d, vc_kubelessV1beta1 = k\<rparr>)"

definition Clientset_New ::
  "('s, 'w, 'd, 'l) client_lib \<Rightarrow> ('s, 'w) rest_interface option \<Rightarrow> ('s, 'w, 'd) versioned_clientset" where
  "Clientset_New lib c =
     \<lparr>vc_DiscoveryClient = Some (cb_NewDiscoveryClient lib c), vc_kubelessV1beta1 = KubelessV1beta1Client_New c\<rparr>"

definition Clientset_Discovery :: "('s, 'w, 'd) versioned_clientset option \<Rightarrow> 'd option" where
  "Clientset_Discovery c = (case c of None \<Rightarrow> None | Some cs \<Rightarrow> vc_DiscoveryClient cs)"

definition Clientset_KubelessV1beta1 :: "('s, 'w, 'd) versioned_clientset \<Rightarrow> ('s, 'w) KubelessV1beta1Client option" where
  "Clientset_KubelessV1beta1 c = vc_kubelessV1beta1 c"

definition Clientset_Kubeless :: "('s, 'w, 'd) versioned_clientset \<Rightarrow> ('s, 'w) KubelessV1beta1Client option" where
  "Clientset_Kubeless c = vc_kubelessV1beta1 c"

end
