(* ===== verification/FunctionStore.thy ===== *)
theory FunctionStore
  imports FunctionClient Controller
begin

text \<open>
  What the API server promises for the requests of the generated client, as an abstract store
  of functions: creation fails for a name in use, an update must carry the resource version of
  the stored object, a deletion only marks an object that still has finalizers, and the last
  finalizer that goes takes a marked object with it. The client refines that store on every
  sequence of operations; the finalizer of the controller therefore keeps a function in the
  store until the controller removes it.
\<close>

section \<open>Sequences of operations\<close>

fun run_ops :: "('op \<Rightarrow> 's \<Rightarrow> 'a \<times> 's) \<Rightarrow> 'op list \<Rightarrow> 's \<Rightarrow> 'a list \<times> 's" where
  "run_ops step [] s = ([], s)"
| "run_ops step (op # ops) s =
     (case step op s of (a, s1) \<Rightarrow> (case run_ops step ops s1 of (as, s2) \<Rightarrow> (a # as, s2)))"

text \<open>A concrete step that answers like an abstract one and commutes with the abstraction.\<close>

locale step_refinement =
  fixes cstep :: "'op \<Rightarrow> 's \<Rightarrow> 'a \<times> 's"
    and astep :: "'op \<Rightarrow> 't \<Rightarrow> 'a \<times> 't"
    and abs :: "'s \<Rightarrow> 't"
    and ok :: "'op \<Rightarrow> bool"
  assumes step: "ok op \<Longrightarrow> map_prod id abs (cstep op s) = astep op (abs s)"
begin

lemma step_eqs:
  assumes "ok op"
  shows "fst (cstep op s) = fst (astep op (abs s)) \<and> abs (snd (cstep op s)) = snd (astep op (abs s))"
  using arg_cong [OF step [OF assms, of s], of fst] arg_cong [OF step [OF assms, of s], of snd] by simp

lemma run_refines: "list_all ok ops \<Longrightarrow> map_prod id abs (run_ops cstep ops s) = run_ops astep ops (abs s)"
proof (induction ops arbitrary: s)
  case (Cons op ops)
  then show ?case
    using step_eqs [of op s] Cons.IH [of "snd (cstep op s)"]
    by (cases "cstep op s"; cases "run_ops cstep ops (snd (cstep op s))"; cases "astep op (abs s)")
       (auto simp flip: id_def split: prod.splits)
qed simp

end

lemma run_invariant:
  assumes "\<And>op s. ok op \<Longrightarrow> P s \<Longrightarrow> P (snd (step op s))"
  shows "list_all ok ops \<Longrightarrow> P s \<Longrightarrow> P (snd (run_ops step ops s))"
proof (induction ops arbitrary: s)
  case (Cons op ops)
  then show ?case
    using assms [of op s] Cons.IH [of "snd (step op s)"]
    by (auto split: prod.splits) (metis snd_conv)
qed simp

section \<open>The store of the API server\<close>

datatype store_op =
    GetOp string string
  | CreateOp string kfunction
  | UpdateOp string kfunction
  | DeleteOp string string

datatype store_answer = Stored kfunction | Deleted | Missing | Exists | Refused | Crashed

text \<open>
  What the server makes of an object it accepts: a new object, a stored object and its new
  version, and an object that is marked for deletion.
\<close>

record server_rules =
  sr_valid :: "kfunction \<Rightarrow> bool"
  sr_admit :: "string \<Rightarrow> kfunction \<Rightarrow> kfunction"
  sr_revise :: "kfunction \<Rightarrow> kfunction \<Rightarrow> kfunction"
  sr_mark :: "kfunction \<Rightarrow> kfunction"

definition same_content :: "kfunction \<Rightarrow> kfunction \<Rightarrow> bool" where
  "same_content f g \<longleftrightarrow> f_Spec f = f_Spec g \<and> om_Name (f_Meta f) = om_Name (f_Meta g) \<and>
     om_Labels (f_Meta f) = om_Labels (f_Meta g) \<and> om_Annotations (f_Meta f) = om_Annotations (f_Meta g) \<and>
     om_OwnerReferences (f_Meta f) = om_OwnerReferences (f_Meta g) \<and>
     om_Finalizers (f_Meta f) = om_Finalizers (f_Meta g)"

text \<open>
  The server keeps what the client owns of an object and sets what is its own: the namespace
  and the resource version, and the deletion timestamp, which a client cannot change.
\<close>

definition server_laws :: "server_rules \<Rightarrow> bool" where
  "server_laws ru \<longleftrightarrow>
     (\<forall>ns f g.
        same_content (sr_admit ru ns f) f \<and> f_Namespace (sr_admit ru ns f) = ns \<and>
        om_DeletionTimestamp (f_Meta (sr_admit ru ns f)) = None \<and>
        same_content (sr_revise ru g f) f \<and> f_Namespace (sr_revise ru g f) = f_Namespace g \<and>
        om_DeletionTimestamp (f_Meta (sr_revise ru g f)) = om_DeletionTimestamp (f_Meta g) \<and>
        same_content (sr_mark ru g) g \<and> f_Namespace (sr_mark ru g) = f_Namespace g \<and>
        om_DeletionTimestamp (f_Meta (sr_mark ru g)) \<noteq> None)"

abbreviation marked :: "kfunction \<Rightarrow> bool" where
  "marked f \<equiv> om_DeletionTimestamp (f_Meta f) \<noteq> None"

abbreviation f_Version :: "kfunction \<Rightarrow> string" where
  "f_Version f \<equiv> om_ResourceVersion (f_Meta f)"

abbreviation f_Finalizers :: "kfunction \<Rightarrow> string list" where
  "f_Finalizers f \<equiv> om_Finalizers (f_Meta f)"

fun api_step :: "server_rules \<Rightarrow> store_op \<Rightarrow> kfunction store \<Rightarrow> store_answer \<times> kfunction store" where
  "api_step ru (GetOp ns n) st = (case st ns n of None \<Rightarrow> Missing | Some f \<Rightarrow> Stored f, st)"
| "api_step ru (CreateOp ns f) st =
     (case st ns (f_Name f) of
        Some g \<Rightarrow> (Exists, st)
      | None \<Rightarrow> (Stored (sr_admit ru ns f), put_obj st ns (f_Name f) (sr_admit ru ns f)))"
| "api_step ru (UpdateOp ns f) st =
     (case st ns (f_Name f) of
        None \<Rightarrow> (Missing, st)
      | Some g \<Rightarrow>
          if f_Version f \<noteq> f_Version g then (Refused, st)
          else
            let h = sr_revise ru g f in
            (Stored h, if marked h \<and> f_Finalizers h = [] then del_obj st ns (f_Name f) else put_obj st ns (f_Name f) h))"
| "api_step ru (DeleteOp ns n) st =
     (case st ns n of
        None \<Rightarrow> (Missing, st)
      | Some g \<Rightarrow> (Deleted, if f_Finalizers g = [] then del_obj st ns n else put_obj st ns n (sr_mark ru g)))"

text \<open>
  The requests the server is asked to serve: names are not empty, an object names its own
  namespace or none, a new object carries no version, and the server finds nothing wrong.
\<close>

fun valid_op :: "server_rules \<Rightarrow> store_op \<Rightarrow> bool" where
  "valid_op ru (GetOp ns n) \<longleftrightarrow> ns \<noteq> [] \<and> n \<noteq> []"
| "valid_op ru (CreateOp ns f) \<longleftrightarrow>
     ns \<noteq> [] \<and> f_Name f \<noteq> [] \<and> (f_Namespace f = [] \<or> f_Namespace f = ns) \<and> f_Version f = [] \<and> sr_valid ru f"
| "valid_op ru (UpdateOp ns f) \<longleftrightarrow>
     ns \<noteq> [] \<and> f_Name f \<noteq> [] \<and> (f_Namespace f = [] \<or> f_Namespace f = ns) \<and> sr_valid ru f"
| "valid_op ru (DeleteOp ns n) \<longleftrightarrow> ns \<noteq> [] \<and> n \<noteq> []"

section \<open>The requests of the API conventions\<close>

fun api_request_of :: "store_op \<Rightarrow> api_request" where
  "api_request_of (GetOp ns n) =
     \<lparr>ar_Verb = GET, ar_Namespace = ns, ar_Resource = ''functions'', ar_Name = Some n, ar_SubResource = [],
      ar_Params = Some (GetParams zero_get_options), ar_Body = None\<rparr>"
| "api_request_of (CreateOp ns f) =
     \<lparr>ar_Verb = POST, ar_Namespace = ns, ar_Resource = ''functions'', ar_Name = None, ar_SubResource = [],
      ar_Params = None, ar_Body = Some (FunctionBody f)\<rparr>"
| "api_request_of (UpdateOp ns f) =
     \<lparr>ar_Verb = PUT, ar_Namespace = ns, ar_Resource = ''functions'', ar_Name = Some (f_Name f), ar_SubResource = [],
      ar_Params = None, ar_Body = Some (FunctionBody f)\<rparr>"
| "api_request_of (DeleteOp ns n) =
     \<lparr>ar_Verb = DELETE, ar_Namespace = ns, ar_Resource = ''functions'', ar_Name = Some n, ar_SubResource = [],
      ar_Params = None, ar_Body = Some (OptionsBody (Some zero_delete_options))\<rparr>"

definition error_answer :: "gerror \<Rightarrow> store_answer" where
  "error_answer e = (if IsNotFound e then Missing else if IsAlreadyExists e then Exists else Refused)"

definition function_answer :: "kfunction \<times> gerror option \<Rightarrow> store_answer" where
  "function_answer r = (case snd r of None \<Rightarrow> Stored (fst r) | Some e \<Rightarrow> error_answer e)"

definition delete_answer :: "gerror option \<Rightarrow> store_answer" where
  "delete_answer r = (case r of None \<Rightarrow> Deleted | Some e \<Rightarrow> error_answer e)"

text \<open>
  The documented exchange for an operation, and a server that serves it by the rules of the
  store; \<open>look\<close> observes the functions it holds.
\<close>

definition rest_exchange :: "('s, 'w) rest_interface \<Rightarrow> store_op \<Rightarrow> 's \<Rightarrow> store_answer \<times> 's" where
  "rest_exchange ri op s =
     (case op of
        DeleteOp ns n \<Rightarrow> map_prod delete_answer id (ri_Error ri (api_request_of op) s)
      | _ \<Rightarrow> map_prod function_answer id (ri_IntoFunction ri (api_request_of op) s))"

definition rest_implements ::
  "('s, 'w) rest_interface \<Rightarrow> server_rules \<Rightarrow> ('s \<Rightarrow> kfunction store) \<Rightarrow> bool" where
  "rest_implements ri ru look \<longleftrightarrow>
     (\<forall>s op. valid_op ru op \<longrightarrow> map_prod id look (rest_exchange ri op s) = api_step ru op (look s))"

section \<open>The operations through the client\<close>

definition ptr_answer :: "kfunction ptr_result \<Rightarrow> store_answer" where
  "ptr_answer r =
     (case r of
        Ok (p, Some e) \<Rightarrow> error_answer e
      | Ok (Some f, None) \<Rightarrow> Stored f
      | _ \<Rightarrow> Crashed)"

definition err_answer :: "gerror option res \<Rightarrow> store_answer" where
  "err_answer r = (case r of Ok e \<Rightarrow> delete_answer e | _ \<Rightarrow> Crashed)"

fun perform :: "(string \<Rightarrow> ('s, 'w) function_interface) \<Rightarrow> store_op \<Rightarrow> 's \<Rightarrow> store_answer \<times> 's" where
  "perform fi (GetOp ns n) s = map_prod ptr_answer id (fi_Get (fi ns) n zero_get_options s)"
| "perform fi (CreateOp ns f) s = map_prod ptr_answer id (fi_Create (fi ns) f s)"
| "perform fi (UpdateOp ns f) s = map_prod ptr_answer id (fi_Update (fi ns) f s)"
| "perform fi (DeleteOp ns n) s = map_prod err_answer id (fi_Delete (fi ns) n (Some zero_delete_options) s)"

text \<open>The client of a REST interface, as the constructors of the clientset make it.\<close>

abbreviation typed_functions :: "('s, 'w) rest_interface \<Rightarrow> string \<Rightarrow> ('s, 'w) function_interface" where
  "typed_functions ri \<equiv> KubelessV1beta1Client_Functions (KubelessV1beta1Client_New (Some ri))"

lemmas typed_defs = KubelessV1beta1Client_Functions_def KubelessV1beta1Client_New_def functions_interface_def
  newFunctions_def RESTClient_def send_def result_ptr_def request_def
  functions_Get_def functions_Create_def functions_Update_def functions_Delete_def

lemma perform_typed: "perform (typed_functions ri) op s = rest_exchange ri op s"
  by (cases op)
     (auto simp: rest_exchange_def typed_defs ptr_answer_def err_answer_def function_answer_def split: prod.splits option.splits)

interpretation typed: step_refinement "perform (typed_functions ri)" "api_step ru" look
  "\<lambda>op. rest_implements ri ru look \<and> valid_op ru op" for ri ru look
  by unfold_locales (auto simp: rest_implements_def perform_typed)


section \<open>What a finalizer protects\<close>

definition keeps_finalizer :: "string \<Rightarrow> string \<Rightarrow> string \<Rightarrow> store_op \<Rightarrow> bool" where
  "keeps_finalizer ns n fin op =
     (case op of UpdateOp ns' f \<Rightarrow> ns' = ns \<and> f_Name f = n \<longrightarrow> FunctionObjHasFinalizer f fin | _ \<Rightarrow> True)"

definition held :: "string \<Rightarrow> string \<Rightarrow> string \<Rightarrow> kfunction store \<Rightarrow> bool" where
  "held ns n fin st \<longleftrightarrow> (\<exists>f. st ns n = Some f \<and> FunctionObjHasFinalizer f fin)"

text \<open>What the server keeps of an object, as rewrite rules.\<close>

lemma server_keeps:
  assumes "server_laws ru"
  shows "f_Finalizers (sr_admit ru ns f) = f_Finalizers f" "f_Finalizers (sr_revise ru g f) = f_Finalizers f"
    "f_Finalizers (sr_mark ru g) = f_Finalizers g" "f_Spec (sr_admit ru ns f) = f_Spec f"
    "f_Spec (sr_revise ru g f) = f_Spec f" "f_Spec (sr_mark ru g) = f_Spec g"
    "f_Name (sr_admit ru ns f) = f_Name f" "f_Name (sr_revise ru g f) = f_Name f" "f_Name (sr_mark ru g) = f_Name g"
    "f_Namespace (sr_admit ru ns f) = ns" "f_Namespace (sr_revise ru g f) = f_Namespace g"
    "f_Namespace (sr_mark ru g) = f_Namespace g"
    "om_DeletionTimestamp (f_Meta (sr_admit ru ns f)) = None" "marked (sr_mark ru g)"
    "om_DeletionTimestamp (f_Meta (sr_revise ru g f)) = om_DeletionTimestamp (f_Meta g)"
  using assms by (auto simp: server_laws_def same_content_def)

lemma api_step_holds:
  assumes "server_laws ru" and "keeps_finalizer ns n fin op" and "held ns n fin st"
  shows "held ns n fin (snd (api_step ru op st))"
  using assms(2,3)
  by (cases op)
     (auto simp: held_def keeps_finalizer_def has_finalizer_iff server_keeps [OF assms(1)] Let_def split: option.splits)


section \<open>The client of the utilities\<close>

text \<open>
  The calls of \<open>pkg/utils/k8sutil.go\<close> and of the commands on \<open>Functions(ns)\<close>: the options they
  pass, and the pointer they use when there is no error. A nil pointer without an error, which
  the typed client never returns, is read as an error.
\<close>

definition ptr_sum :: "'a ptr_result \<Rightarrow> gerror + 'a" where
  "ptr_sum r = (case r of Ok (p, Some e) \<Rightarrow> Inl e | Ok (Some x, None) \<Rightarrow> Inr x | _ \<Rightarrow> Inl (Errorf ''nil pointer''))"

definition err_sum :: "gerror option res \<Rightarrow> gerror + unit" where
  "err_sum r = (case r of Ok None \<Rightarrow> Inr () | Ok (Some e) \<Rightarrow> Inl e | _ \<Rightarrow> Inl (Errorf ''nil pointer''))"

definition function_client ::
  "(kfunction \<Rightarrow> gerror + string) \<Rightarrow> (string \<Rightarrow> ('s, 'w) function_interface) \<Rightarrow> ('s, kfunction) client" where
  "function_client json fi =
     \<lparr>cl_get = (\<lambda>ns n s. map_prod ptr_sum id (fi_Get (fi ns) n zero_get_options s)),
      cl_list = (\<lambda>ns sel s.
        map_prod (map_sum id fl_Items \<circ> ptr_sum) id (fi_List (fi ns) (zero_list_options\<lparr>lo_LabelSelector := sel\<rparr>) s)),
      cl_create = (\<lambda>ns f s. map_prod ptr_sum id (fi_Create (fi ns) f s)),
      cl_update = (\<lambda>ns f s. map_prod ptr_sum id (fi_Update (fi ns) f s)),
      cl_patch = (\<lambda>ns n f s. case json f of
         Inl e \<Rightarrow> (Inl e, s)
       | Inr data \<Rightarrow> map_prod ptr_sum id (fi_Patch (fi ns) n ''application/merge-patch+json'' data [] s)),
      cl_delete = (\<lambda>ns n s. map_prod err_sum id (fi_Delete (fi ns) n (Some zero_delete_options) s)),
      cl_delete_collection = (\<lambda>ns sel s.
        map_prod err_sum id (fi_DeleteCollection (fi ns) (Some zero_delete_options) (zero_list_options\<lparr>lo_LabelSelector := sel\<rparr>) s))\<rparr>"

text \<open>Each call of the client by the answer of the operation it performs.\<close>

lemma ptr_answer_Stored: "ptr_answer r = Stored f \<longleftrightarrow> ptr_sum r = Inr f"
  by (auto simp: ptr_answer_def ptr_sum_def error_answer_def split: res.splits prod.splits option.splits)

lemma ptr_answer_Missing: "ptr_answer r = Missing \<longleftrightarrow> (\<exists>e. ptr_sum r = Inl e \<and> IsNotFound e)"
  by (auto simp: ptr_answer_def ptr_sum_def error_answer_def split: res.splits prod.splits option.splits)

lemma ptr_answer_Refused: "ptr_answer r = Refused \<Longrightarrow> \<exists>e. ptr_sum r = Inl e"
  by (auto simp: ptr_answer_def ptr_sum_def error_answer_def split: res.splits prod.splits option.splits)

lemma err_answer_Deleted: "err_answer r = Deleted \<longleftrightarrow> err_sum r = Inr ()"
  by (auto simp: err_answer_def err_sum_def delete_answer_def error_answer_def split: res.splits option.splits)

lemma function_client_calls:
  "cl_get (function_client json fi) ns n s = (Inr f, s') \<longleftrightarrow> perform fi (GetOp ns n) s = (Stored f, s')"
  "cl_create (function_client json fi) ns x s = (Inr f, s') \<longleftrightarrow> perform fi (CreateOp ns x) s = (Stored f, s')"
  "cl_update (function_client json fi) ns x s = (Inr f, s') \<longleftrightarrow> perform fi (UpdateOp ns x) s = (Stored f, s')"
  "cl_delete (function_client json fi) ns n s = (Inr (), s') \<longleftrightarrow> perform fi (DeleteOp ns n) s = (Deleted, s')"
  by (auto simp: function_client_def ptr_answer_Stored err_answer_Deleted map_prod_def split_beta prod_eq_iff)

text \<open>One operation of the typed client on a server that implements the store.\<close>

lemma typed_step:
  assumes "rest_implements ri ru look" and "valid_op ru op" and "api_step ru op (look s) = (a, st)"
  shows "\<exists>s'. perform (typed_functions ri) op s = (a, s') \<and> look s' = st"
  using typed.step_eqs [of ri ru look op s] assms by (metis fst_conv prod.collapse snd_conv)

text \<open>The utilities on such a server.\<close>

lemma typed_update:
  assumes "rest_implements ri ru look" and "valid_op ru (UpdateOp (f_Namespace x) x)"
    and "api_step ru (UpdateOp (f_Namespace x) x) (look s) = (Stored h, st)"
  shows "\<exists>s'. UpdateFunctionCustomResource (function_client json (typed_functions ri)) x s = (Ok (), s') \<and> look s' = st"
  using typed_step [OF assms]
  by (auto simp: UpdateFunctionCustomResource_def unit_result_def simp del: perform.simps
      dest!: function_client_calls(3) [where json = json, THEN iffD2])

lemma typed_delete:
  assumes "rest_implements ri ru look" and "valid_op ru (DeleteOp ns n)"
    and "api_step ru (DeleteOp ns n) (look s) = (Deleted, st)"
  shows "\<exists>s'. DeleteFunctionCustomResource (function_client json (typed_functions ri)) n ns s = (Ok (), s') \<and> look s' = st"
  using typed_step [OF assms]
  by (auto simp: DeleteFunctionCustomResource_def unit_result_def simp del: perform.simps
      dest!: function_client_calls(4) [where json = json, THEN iffD2])

lemma typed_get:
  assumes "rest_implements ri ru look" and "ns \<noteq> []" and "n \<noteq> []" and "look s ns n = Some f"
  shows "\<exists>s'. GetFunctionCustomResource (function_client json (typed_functions ri)) n ns s = (Ok f, s') \<and> look s' = look s"
  using typed_step [OF assms(1), of "GetOp ns n" s "Stored f" "look s"] assms(2-)
  by (auto simp: GetFunctionCustomResource_def simp del: perform.simps
      dest!: function_client_calls(1) [where json = json, THEN iffD2])

lemma typed_get_missing:
  assumes "rest_implements ri ru look" and "ns \<noteq> []" and "n \<noteq> []" and "look s ns n = None"
  shows "\<exists>e s'. GetFunctionCustomResource (function_client json (typed_functions ri)) n ns s = (Err e, s') \<and> IsNotFound e"
  using typed_step [OF assms(1), of "GetOp ns n" s Missing "look s"] assms(2-)
  by (auto simp: GetFunctionCustomResource_def function_client_def ptr_answer_Missing map_prod_def split_beta prod_eq_iff)

lemma set_Finalizers_keeps [simp]:
  "f_Name (set_Finalizers fs f) = f_Name f" "f_Namespace (set_Finalizers fs f) = f_Namespace f"
  "f_Spec (set_Finalizers fs f) = f_Spec f" "f_Version (set_Finalizers fs f) = f_Version f"
  "f_Finalizers (set_Finalizers fs f) = fs" "f_Meta (set_Finalizers fs f) = (f_Meta f)\<lparr>om_Finalizers := fs\<rparr>"
  by (simp_all add: set_Finalizers_def)

text \<open>
  C8: The life of a function with the finalizer of the controller: adding the finalizer to a
  stored function succeeds; deleting the function then succeeds but the function can still be
  read, marked and with its specification unchanged; removing the finalizer from what was
  read succeeds and only then the function is gone.
\<close>

theorem finalizer_lifecycle:
  assumes impl: "rest_implements ri ru look" and laws: "server_laws ru"
    and st: "look s ns n = Some f" "f_Name f = n" "f_Namespace f = ns" "ns \<noteq> []" "n \<noteq> []"
      "f_Finalizers f = []" "\<not> marked f"
    and ok: "\<forall>g. f_Name g = n \<and> f_Spec g = f_Spec f \<longrightarrow> sr_valid ru g"
  shows "\<exists>s1 s2 s3 s4 s5 g e.
    FunctionObjAddFinalizer (function_client json (typed_functions ri)) f functionFinalizer s = (Ok (), s1) \<and>
    DeleteFunctionCustomResource (function_client json (typed_functions ri)) n ns s1 = (Ok (), s2) \<and>
    GetFunctionCustomResource (function_client json (typed_functions ri)) n ns s2 = (Ok g, s3) \<and>
    marked g \<and> f_Spec g = f_Spec f \<and> f_Finalizers g = [functionFinalizer] \<and>
    FunctionObjRemoveFinalizer (function_client json (typed_functions ri)) g functionFinalizer s3 = (Ok (), s4) \<and>
    GetFunctionCustomResource (function_client json (typed_functions ri)) n ns s4 = (Err e, s5) \<and> IsNotFound e"
proof -
  let ?c = "function_client json (typed_functions ri)"
  let ?f = "set_Finalizers [functionFinalizer] f"
  let ?g = "sr_mark ru (sr_revise ru f ?f)"
  let ?g' = "without_finalizer ?g functionFinalizer"
  note keeps = server_keeps [OF laws] without_finalizer_def Let_def
  have "\<exists>s1. UpdateFunctionCustomResource ?c ?f s = (Ok (), s1) \<and> look s1 = put_obj (look s) ns n (sr_revise ru f ?f)"
    by (rule typed_update [OF impl, where h = "sr_revise ru f ?f"]) (use st ok in \<open>auto simp: keeps\<close>)
  then obtain s1 where s1: "FunctionObjAddFinalizer ?c f functionFinalizer s = (Ok (), s1)"
    "look s1 = put_obj (look s) ns n (sr_revise ru f ?f)"
    using st by (auto simp: FunctionObjAddFinalizer_def)
  have "\<exists>s2. DeleteFunctionCustomResource ?c n ns s1 = (Ok (), s2) \<and> look s2 = put_obj (look s1) ns n ?g"
    by (rule typed_delete [OF impl]) (use st s1(2) in \<open>auto simp: keeps\<close>)
  then obtain s2 where s2: "DeleteFunctionCustomResource ?c n ns s1 = (Ok (), s2)" "look s2 = put_obj (look s1) ns n ?g"
    by blast
  obtain s3 where s3: "GetFunctionCustomResource ?c n ns s2 = (Ok ?g, s3)" "look s3 = look s2"
    using typed_get [OF impl st(4,5), of s2 ?g json] s2(2) by auto
  have "\<exists>s4. UpdateFunctionCustomResource ?c ?g' s3 = (Ok (), s4) \<and> look s4 = del_obj (look s3) ns n"
    by (rule typed_update [OF impl, where h = "sr_revise ru ?g ?g'"]) (use st ok s2(2) s3(2) in \<open>auto simp: keeps\<close>)
  then obtain s4 where s4: "FunctionObjRemoveFinalizer ?c ?g functionFinalizer s3 = (Ok (), s4)"
    "look s4 ns n = None"
    by (auto simp: FunctionObjRemoveFinalizer_def)
  obtain e s5 where "GetFunctionCustomResource ?c n ns s4 = (Err e, s5)" "IsNotFound e"
    using typed_get_missing [OF impl st(4,5) s4(2), of json] by blast
  moreover have "marked ?g \<and> f_Spec ?g = f_Spec f \<and> f_Finalizers ?g = [functionFinalizer]"
    by (simp add: keeps)
  ultimately show ?thesis using s1(1) s2(1) s3(1) s4(1) by blast
qed

end
