(* ===== verification/FakeClient.thy ===== *)
theory FakeClient
  imports FunctionStore
begin

text \<open>
  The generated fake client that the tests of the program run against: \<open>fake_function.go\<close>,
  \<open>fake_kubeless_client.go\<close> and \<open>clientset_generated.go\<close>. A method records an action with the
  test library and takes the object out of its reaction; the library (\<open>testing.Fake\<close>, the
  object tracker, label selectors) is a parameter. The lemmas say when a test against the
  fake client says something about the real one.
\<close>

section \<open>Actions\<close>

record group_version_resource =
  gvr_Group :: string
  gvr_Version :: string
  gvr_Resource :: string

record group_version_kind =
  gvk_Group :: string
  gvk_Version :: string
  gvk_Kind :: string

definition functionsResource :: group_version_resource where
  "functionsResource = \<lparr>gvr_Group = ''kubeless.io'', gvr_Version = ''v1beta1'', gvr_Resource = ''functions''\<rparr>"

definition functionsKind :: group_version_kind where
  "functionsKind = \<lparr>gvk_Group = ''kubeless.io'', gvk_Version = ''v1beta1'', gvk_Kind = ''Function''\<rparr>"

datatype runtime_object = FunctionObj kfunction | FunctionListObj function_list | OtherObj string

datatype fake_action =
    GetAction group_version_resource string string
  | ListAction group_version_resource group_version_kind string list_options
  | WatchAction group_version_resource string list_options
  | CreateAction group_version_resource string kfunction
  | UpdateAction group_version_resource string kfunction
  | DeleteAction group_version_resource string string
  | DeleteCollectionAction group_version_resource string list_options
  | PatchAction group_version_resource string string string "string list"

record ('s, 'w) testing_fake =
  tf_Invokes :: "fake_action \<Rightarrow> runtime_object \<Rightarrow> 's \<Rightarrow> (runtime_object option \<times> gerror option) \<times> 's"
  tf_InvokesWatch :: "fake_action \<Rightarrow> 's \<Rightarrow> ('w option \<times> gerror option) \<times> 's"

text \<open>
  Label selectors: the one that list options carry, if any, whether it matches a set of
  labels, and the one that matches all.
\<close>

record 'l label_lib =
  ll_ExtractFromListOptions :: "list_options \<Rightarrow> 'l option"
  ll_Matches :: "'l \<Rightarrow> gomap \<Rightarrow> bool"
  ll_Everything :: 'l

section \<open>FakeFunctions\<close>

record ('s, 'w) FakeFunctions =
  ff_Fake :: "('s, 'w) testing_fake"
  ff_ns :: string

text \<open>The nil test and the type assertion behind every method that returns a function.\<close>

definition function_of_object :: "runtime_object option \<times> gerror option \<Rightarrow> kfunction ptr_result" where
  "function_of_object r =
     (case fst r of
        None \<Rightarrow> Ok (None, snd r)
      | Some (FunctionObj f) \<Rightarrow> Ok (Some f, snd r)
      | Some _ \<Rightarrow> Panic TypeAssertion)"

definition FakeFunctions_Get ::
  "('s, 'w) FakeFunctions \<Rightarrow> string \<Rightarrow> get_options \<Rightarrow> 's \<Rightarrow> kfunction ptr_result \<times> 's" where
  "FakeFunctions_Get c name options s =
     map_prod function_of_object id
       (tf_Invokes (ff_Fake c) (GetAction functionsResource (ff_ns c) name) (FunctionObj zero_function) s)"

definition FakeFunctions_List ::
  "'l label_lib \<Rightarrow> ('s, 'w) FakeFunctions \<Rightarrow> list_options \<Rightarrow> 's \<Rightarrow> function_list ptr_result \<times> 's" where
  "FakeFunctions_List lib c opts s =
     (case tf_Invokes (ff_Fake c) (ListAction functionsResource functionsKind (ff_ns c) opts)
             (FunctionListObj zero_function_list) s of
        ((None, err), s1) \<Rightarrow> (Ok (None, err), s1)
      | ((Some obj, err), s1) \<Rightarrow>
          (let label = (case ll_ExtractFromListOptions lib opts of None \<Rightarrow> ll_Everything lib | Some l \<Rightarrow> l) in
           case obj of
             FunctionListObj l \<Rightarrow>
               (Ok (Some (zero_function_list
                      \<lparr>fl_Items := filter (\<lambda>item. ll_Matches lib label (f_Labels item)) (fl_Items l)\<rparr>), err), s1)
           | _ \<Rightarrow> (Panic TypeAssertion, s1)))"

definition FakeFunctions_Watch ::
  "('s, 'w) FakeFunctions \<Rightarrow> list_options \<Rightarrow> 's \<Rightarrow> 'w ptr_result \<times> 's" where
  "FakeFunctions_Watch c opts s =
     map_prod Ok id (tf_InvokesWatch (ff_Fake c) (WatchAction functionsResource (ff_ns c) opts) s)"

definition FakeFunctions_Create :: "('s, 'w) FakeFunctions \<Rightarrow> kfunction \<Rightarrow> 's \<Rightarrow> kfunction ptr_result \<times> 's" where
  "FakeFunctions_Create c f s =
     map_prod function_of_object id
       (tf_Invokes (ff_Fake c) (CreateAction functionsResource (ff_ns c) f) (FunctionObj zero_function) s)"

definition FakeFunctions_Update :: "('s, 'w) FakeFunctions \<Rightarrow> kfunction \<Rightarrow> 's \<Rightarrow> kfunction ptr_result \<times> 's" where
  "FakeFunctions_Update c f s =
     map_prod function_of_object id
       (tf_Invokes (ff_Fake c) (UpdateAction functionsResource (ff_ns c) f) (FunctionObj zero_function) s)"

definition FakeFunctions_Delete ::
  "('s, 'w) FakeFunctions \<Rightarrow> string \<Rightarrow> delete_options option \<Rightarrow> 's \<Rightarrow> gerror option res \<times> 's" where
  "FakeFunctions_Delete c name options s =
     map_prod (Ok \<circ> snd) id
       (tf_Invokes (ff_Fake c) (DeleteAction functionsResource (ff_ns c) name) (FunctionObj zero_function) s)"

definition FakeFunctions_DeleteCollection ::
  "('s, 'w) FakeFunctions \<Rightarrow> delete_options option \<Rightarrow> list_options \<Rightarrow> 's \<Rightarrow> gerror option res \<times> 's" where
  "FakeFunctions_DeleteCollection c options listOptions s =
     map_prod (Ok \<circ> snd) id
       (tf_Invokes (ff_Fake c) (DeleteCollectionAction functionsResource (ff_ns c) listOptions)
          (FunctionListObj zero_function_list) s)"

definition FakeFunctions_Patch ::
  "('s, 'w) FakeFunctions \<Rightarrow> string \<Rightarrow> string \<Rightarrow> string \<Rightarrow> string list \<Rightarrow> 's \<Rightarrow> kfunction ptr_result \<times> 's" where
  "FakeFunctions_Patch c name pt data subresources s =
     map_prod function_of_object id
       (tf_Invokes (ff_Fake c) (PatchAction functionsResource (ff_ns c) name data subresources)
          (FunctionObj zero_function) s)"

definition FakeFunctions_interface ::
  "'l label_lib \<Rightarrow> ('s, 'w) FakeFunctions \<Rightarrow> ('s, 'w) function_interface" where
  "FakeFunctions_interface lib c =
     \<lparr>fi_Create = FakeFunctions_Create c, fi_Update = FakeFunctions_Update c, fi_Delete = FakeFunctions_Delete c,
      fi_DeleteCollection = FakeFunctions_DeleteCollection c, fi_Get = FakeFunctions_Get c,
      fi_List = FakeFunctions_List lib c, fi_Watch = FakeFunctions_Watch c, fi_Patch = FakeFunctions_Patch c\<rparr>"

section \<open>The fake clientset\<close>

definition FakeKubelessV1beta1_Functions ::
  "'l label_lib \<Rightarrow> ('s, 'w) testing_fake \<Rightarrow> string \<Rightarrow> ('s, 'w) function_interface" where
  "FakeKubelessV1beta1_Functions lib c namespace = FakeFunctions_interface lib \<lparr>ff_Fake = c, ff_ns = namespace\<rparr>"

text \<open>A nil pointer behind an interface that is not nil.\<close>

definition FakeKubelessV1beta1_RESTClient :: "('s, 'w) rest_interface option option" where
  "FakeKubelessV1beta1_RESTClient = Some None"

text \<open>
  The reactors of a fake by the verbs and resources they match, appended in order, and a
  clientset: its own fake and the fake that its discovery client was given.
\<close>

record ('r, 'v) fake_reactors =
  fr_ReactionChain :: "(string \<times> string \<times> 'r) list"
  fr_WatchReactionChain :: "(string \<times> 'v) list"

record ('r, 'v) fake_clientset =
  fcs_Fake :: "('r, 'v) fake_reactors"
  fcs_discovery :: "('r, 'v) fake_reactors"

fun add_all :: "(runtime_object \<Rightarrow> 't \<Rightarrow> gerror + 't) \<Rightarrow> runtime_object list \<Rightarrow> 't \<Rightarrow> 't res" where
  "add_all Add [] o' = Ok o'"
| "add_all Add (obj # objs) o' =
     (case Add obj o' of Inl e \<Rightarrow> Panic (Raised e) | Inr o1 \<Rightarrow> add_all Add objs o1)"

definition NewSimpleClientset ::
  "(runtime_object \<Rightarrow> 't \<Rightarrow> gerror + 't) \<Rightarrow> ('t \<Rightarrow> 'r) \<Rightarrow> 'v \<Rightarrow> 't \<Rightarrow> runtime_object list \<Rightarrow> ('r, 'v) fake_clientset res" where
  "NewSimpleClientset Add ObjectReaction watch_reactor NewObjectTracker objects =
     bind_res (add_all Add objects NewObjectTracker) (\<lambda>o'.
     let fakePtr = \<lparr>fr_ReactionChain = [], fr_WatchReactionChain = []\<rparr>;
         fakePtr = fakePtr\<lparr>fr_ReactionChain := fr_ReactionChain fakePtr @ [(''*'', ''*'', ObjectReaction o')]\<rparr>;
         fakePtr = fakePtr\<lparr>fr_WatchReactionChain := fr_WatchReactionChain fakePtr @ [(''*'', watch_reactor)]\<rparr> in
     Ok \<lparr>fcs_Fake = fakePtr, fcs_discovery = fakePtr\<rparr>)"

definition FakeClientset_Discovery :: "('r, 'v) fake_clientset \<Rightarrow> ('r, 'v) fake_reactors" where
  "FakeClientset_Discovery c = fcs_discovery c"

definition FakeClientset_KubelessV1beta1 :: "('r, 'v) fake_clientset \<Rightarrow> ('r, 'v) fake_reactors" where
  "FakeClientset_KubelessV1beta1 c = fcs_Fake c"

definition FakeClientset_Kubeless :: "('r, 'v) fake_clientset \<Rightarrow> ('r, 'v) fake_reactors" where
  "FakeClientset_Kubeless c = fcs_Fake c"

section \<open>The object tracker\<close>

text \<open>
  The tracker processes creations, updates and deletions as they are; it only places an object
  in a namespace.
\<close>

fun tracker_step ::
  "(string \<Rightarrow> kfunction \<Rightarrow> kfunction) \<Rightarrow> store_op \<Rightarrow> kfunction store \<Rightarrow> store_answer \<times> kfunction store" where
  "tracker_step place (GetOp ns n) st = (case st ns n of None \<Rightarrow> Missing | Some f \<Rightarrow> Stored f, st)"
| "tracker_step place (CreateOp ns f) st =
     (case st ns (f_Name f) of
        Some g \<Rightarrow> (Exists, st)
      | None \<Rightarrow> (Stored (place ns f), put_obj st ns (f_Name f) (place ns f)))"
| "tracker_step place (UpdateOp ns f) st =
     (case st ns (f_Name f) of
        None \<Rightarrow> (Missing, st)
      | Some g \<Rightarrow> (Stored (place ns f), put_obj st ns (f_Name f) (place ns f)))"
| "tracker_step place (DeleteOp ns n) st =
     (case st ns n of None \<Rightarrow> (Missing, st) | Some g \<Rightarrow> (Deleted, del_obj st ns n))"

definition tracker_laws :: "(string \<Rightarrow> kfunction \<Rightarrow> kfunction) \<Rightarrow> bool" where
  "tracker_laws place \<longleftrightarrow> (\<forall>ns f. same_content (place ns f) f)"

fun action_of :: "store_op \<Rightarrow> fake_action" where
  "action_of (GetOp ns n) = GetAction functionsResource ns n"
| "action_of (CreateOp ns f) = CreateAction functionsResource ns f"
| "action_of (UpdateOp ns f) = UpdateAction functionsResource ns f"
| "action_of (DeleteOp ns n) = DeleteAction functionsResource ns n"

definition reaction_answer :: "store_op \<Rightarrow> runtime_object option \<times> gerror option \<Rightarrow> store_answer" where
  "reaction_answer op r =
     (case (op, r) of
        (DeleteOp ns n, _, e) \<Rightarrow> delete_answer e
      | (_, None, Some e) \<Rightarrow> error_answer e
      | (_, Some (FunctionObj f), None) \<Rightarrow> Stored f
      | _ \<Rightarrow> Crashed)"

definition fake_implements ::
  "('s, 'w) testing_fake \<Rightarrow> (string \<Rightarrow> kfunction \<Rightarrow> kfunction) \<Rightarrow> ('s \<Rightarrow> kfunction store) \<Rightarrow> bool" where
  "fake_implements fk place look \<longleftrightarrow>
     (\<forall>s op. map_prod (reaction_answer op) look (tf_Invokes fk (action_of op) (FunctionObj zero_function) s) =
        tracker_step place op (look s))"

lemma tracker_step_not_Crashed: "fst (tracker_step place op st) \<noteq> Crashed"
  by (cases op) (auto split: option.splits)

lemmas fake_defs = FakeKubelessV1beta1_Functions_def FakeFunctions_interface_def FakeFunctions_Get_def
  FakeFunctions_Create_def FakeFunctions_Update_def FakeFunctions_Delete_def

lemma perform_fake:
  assumes "fake_implements fk place look"
  shows "map_prod id look (perform (FakeKubelessV1beta1_Functions lib fk) op s) = tracker_step place op (look s)"
proof -
  obtain obj err s' where i: "tf_Invokes fk (action_of op) (FunctionObj zero_function) s = ((obj, err), s')"
    by (metis prod.collapse)
  have t: "tracker_step place op (look s) = (reaction_answer op (obj, err), look s')"
    using assms unfolding fake_implements_def by (metis i map_prod_simp)
  then have "reaction_answer op (obj, err) \<noteq> Crashed"
    using tracker_step_not_Crashed [of place op "look s"] by simp
  with i show ?thesis
    unfolding t
    by (cases op)
       (auto simp: fake_defs function_of_object_def reaction_answer_def ptr_answer_def err_answer_def
          split: option.splits runtime_object.splits)
qed

interpretation fake: step_refinement "perform (FakeKubelessV1beta1_Functions lib fk)" "tracker_step place" look
  "\<lambda>op. fake_implements fk place look" for lib fk place look
  by unfold_locales (rule perform_fake)

section \<open>Agreement with the real client\<close>

definition same_answer :: "store_answer \<Rightarrow> store_answer \<Rightarrow> bool" where
  "same_answer a b = (case (a, b) of (Stored f, Stored g) \<Rightarrow> same_content f g | _ \<Rightarrow> a = b)"

text \<open>Two stores with the same functions, none of which has a finalizer or is being deleted.\<close>

definition alike :: "kfunction store \<Rightarrow> kfunction store \<Rightarrow> bool" where
  "alike st st' \<longleftrightarrow>
     (\<forall>ns n. rel_option same_content (st ns n) (st' ns n) \<and>
        (\<forall>f. st ns n = Some f \<longrightarrow> f_Finalizers f = [] \<and> \<not> marked f))"

fun plain_op :: "store_op \<Rightarrow> bool" where
  "plain_op (CreateOp ns f) \<longleftrightarrow> f_Finalizers f = []"
| "plain_op (UpdateOp ns f) \<longleftrightarrow> f_Finalizers f = []"
| "plain_op _ \<longleftrightarrow> True"

lemma same_content_trans: "same_content f g \<Longrightarrow> same_content h g \<Longrightarrow> same_content f h"
  by (simp add: same_content_def)

lemma alike_cases:
  assumes "alike st st'"
  obtains "st ns n = None" "st' ns n = None"
  | f g where "st ns n = Some f" "st' ns n = Some g" "same_content f g" "f_Finalizers f = []" "\<not> marked f"
  using assms unfolding alike_def by (metis option.rel_cases)

lemma alike_put:
  assumes "alike st st'" and "same_content f g" and "f_Finalizers f = []" and "\<not> marked f"
  shows "alike (put_obj st ns n f) (put_obj st' ns n g)"
  using assms by (auto simp: alike_def)

lemma alike_del: "alike st st' \<Longrightarrow> alike (del_obj st ns n) (del_obj st' ns n)"
  by (auto simp: alike_def)

lemma server_content:
  assumes "server_laws ru" and "tracker_laws place"
  shows "same_content (sr_admit ru ns f) (place ns' f)" "same_content (sr_revise ru g f) (place ns' f)"
  using assms unfolding server_laws_def tracker_laws_def by (meson same_content_trans)+

lemma stores_agree:
  assumes "server_laws ru" and "tracker_laws place" and "plain_op op" and "alike st st'"
    and "fst (api_step ru op st) \<noteq> Refused"
  shows "same_answer (fst (api_step ru op st)) (fst (tracker_step place op st')) \<and>
    alike (snd (api_step ru op st)) (snd (tracker_step place op st'))"
proof (cases op)
  case (GetOp ns n)
  show ?thesis using assms(4) by (rule alike_cases [of st st' ns n]) (simp_all add: GetOp same_answer_def assms(4))
next
  case (CreateOp ns f)
  show ?thesis
    using assms(4)
    by (rule alike_cases [of st st' ns "f_Name f"])
       (use assms(3) in \<open>simp_all add: CreateOp same_answer_def assms(4) alike_put server_content [OF assms(1,2)]
          server_keeps [OF assms(1)]\<close>)
next
  case (UpdateOp ns f)
  show ?thesis
    using assms(4)
    by (rule alike_cases [of st st' ns "f_Name f"])
       (use assms(3,5) in \<open>auto simp: UpdateOp same_answer_def assms(4) alike_put server_content [OF assms(1,2)]
          server_keeps [OF assms(1)] Let_def split: if_splits\<close>)
next
  case (DeleteOp ns n)
  show ?thesis
    using assms(4)
    by (rule alike_cases [of st st' ns n]) (simp_all add: DeleteOp same_answer_def assms(4) alike_del)
qed

lemma runs_agree:
  assumes "server_laws ru" and "tracker_laws place"
  shows "list_all plain_op ops \<Longrightarrow> alike st st' \<Longrightarrow> Refused \<notin> set (fst (run_ops (api_step ru) ops st)) \<Longrightarrow>
    list_all2 same_answer (fst (run_ops (api_step ru) ops st)) (fst (run_ops (tracker_step place) ops st')) \<and>
    alike (snd (run_ops (api_step ru) ops st)) (snd (run_ops (tracker_step place) ops st'))"
proof (induction ops arbitrary: st st')
  case (Cons op ops)
  then have "plain_op op" "list_all plain_op ops" "fst (api_step ru op st) \<noteq> Refused"
    "Refused \<notin> set (fst (run_ops (api_step ru) ops (snd (api_step ru op st))))"
    by (auto simp: split_beta)
  moreover from this have "same_answer (fst (api_step ru op st)) (fst (tracker_step place op st')) \<and>
      alike (snd (api_step ru op st)) (snd (tracker_step place op st'))"
    by (intro stores_agree [OF assms] Cons.prems(2))
  ultimately show ?case
    using Cons.IH [of "snd (api_step ru op st)" "snd (tracker_step place op st')"] by (simp add: split_beta)
qed simp


text \<open>
  Where the two differ: an update with an old version, and the deletion of a function that
  still has a finalizer, which the fake client removes at once.
\<close>

lemma fake_differs:
  assumes "st ns (f_Name f) = Some g"
  shows "f_Version f \<noteq> f_Version g \<Longrightarrow>
      fst (api_step ru (UpdateOp ns f) st) = Refused \<and> fst (tracker_step place (UpdateOp ns f) st) = Stored (place ns f)"
    and "f_Finalizers g \<noteq> [] \<Longrightarrow>
      snd (api_step ru (DeleteOp ns (f_Name f)) st) ns (f_Name f) = Some (sr_mark ru g) \<and>
      snd (tracker_step place (DeleteOp ns (f_Name f)) st) ns (f_Name f) = None"
  using assms by simp_all

section \<open>Listing\<close>

text \<open>
  The selector of the options is applied by the client; without one everything is kept. The
  version of the list the reaction gave is dropped.
\<close>

lemma FakeFunctions_List_selects:
  assumes "FakeFunctions_List lib c opts s = (Ok (Some l, err), s')"
  shows "\<exists>l0. fst (fst (tf_Invokes (ff_Fake c) (ListAction functionsResource functionsKind (ff_ns c) opts)
        (FunctionListObj zero_function_list) s)) = Some (FunctionListObj l0) \<and>
      subseq (fl_Items l) (fl_Items l0) \<and> fl_ResourceVersion l = [] \<and>
      (\<forall>sel. ll_ExtractFromListOptions lib opts = Some sel \<longrightarrow>
         set (fl_Items l) = {f \<in> set (fl_Items l0). ll_Matches lib sel (f_Labels f)})"
  using assms
  by (auto simp: FakeFunctions_List_def zero_function_list_def Let_def subseq_filter_left
      split: prod.splits option.splits runtime_object.splits)

text \<open>A clientset is made from all its objects, or the tracker refused one and the constructor panics.\<close>

lemma NewSimpleClientset_total:
  "(\<exists>c. NewSimpleClientset Add rx w t objects = Ok c) \<or> (\<exists>e. NewSimpleClientset Add rx w t objects = Panic (Raised e))"
proof -
  have "(\<exists>t'. add_all Add objects t = Ok t') \<or> (\<exists>e. add_all Add objects t = Panic (Raised e))"
    by (induction objects arbitrary: t) (auto split: sum.splits)
  then show ?thesis by (auto simp: NewSimpleClientset_def Let_def)
qed

end
