(* ===== verification/Informers.thy ===== *)
theory Informers
  imports FakeClient "HOL-Library.Multiset"
begin

text \<open>
  The generated informers and listers of the Function resource: \<open>factory.go\<close>, \<open>generic.go\<close>,
  \<open>kubeless/interface.go\<close> and \<open>kubeless/v1beta1\<close> under \<open>pkg/client/informers/externalversions\<close>,
  and \<open>pkg/client/listers/kubeless/v1beta1/function.go\<close>. The factory is a state machine: its
  methods hold the lock of the factory, so a concurrent use is a sequence of their steps, and
  a start walks a map, so its order is any enumeration of the map. An informer is the record
  of what the cache library makes it from; the library's index is a parameter.
\<close>

section \<open>Informers\<close>

type_synonym tweak = "list_options \<Rightarrow> list_options"

record ('s, 'w) shared_informer =
  si_ListFunc :: "list_options \<Rightarrow> 's \<Rightarrow> function_list ptr_result \<times> 's"
  si_WatchFunc :: "list_options \<Rightarrow> 's \<Rightarrow> 'w ptr_result \<times> 's"
  si_objType :: string
  si_resyncPeriod :: int64
  si_indexers :: "string list"

definition apply_tweak :: "tweak option \<Rightarrow> list_options \<Rightarrow> list_options" where
  "apply_tweak tweakListOptions options = (case tweakListOptions of None \<Rightarrow> options | Some t \<Rightarrow> t options)"

text \<open>\<open>reflect.TypeOf(&Function{})\<close>.\<close>

definition functionType :: string where
  "functionType = ''*v1beta1.Function''"

definition NewFilteredFunctionInformer ::
  "(string \<Rightarrow> ('s, 'w) function_interface) \<Rightarrow> string \<Rightarrow> int64 \<Rightarrow> string list \<Rightarrow> tweak option \<Rightarrow> ('s, 'w) shared_informer" where
  "NewFilteredFunctionInformer client namespace resyncPeriod indexers tweakListOptions =
     \<lparr>si_ListFunc = (\<lambda>options. fi_List (client namespace) (apply_tweak tweakListOptions options)),
      si_WatchFunc = (\<lambda>options. fi_Watch (client namespace) (apply_tweak tweakListOptions options)),
      si_objType = functionType, si_resyncPeriod = resyncPeriod, si_indexers = indexers\<rparr>"

definition NewFunctionInformer ::
  "(string \<Rightarrow> ('s, 'w) function_interface) \<Rightarrow> string \<Rightarrow> int64 \<Rightarrow> string list \<Rightarrow> ('s, 'w) shared_informer" where
  "NewFunctionInformer client namespace resyncPeriod indexers =
     NewFilteredFunctionInformer client namespace resyncPeriod indexers None"

section \<open>The factory\<close>

text \<open>
  The maps of the factory from types to informers and to whether they were started. The type
  of an informer is left open.
\<close>

record ('c, 'i) sharedInformerFactory =
  sf_client :: 'c
  sf_namespace :: string
  sf_tweakListOptions :: "tweak option"
  sf_defaultResync :: int64
  sf_informers :: "(string \<times> 'i) list"
  sf_startedInformers :: "string \<Rightarrow> bool"

definition NewFilteredSharedInformerFactory ::
  "'c \<Rightarrow> int64 \<Rightarrow> string \<Rightarrow> tweak option \<Rightarrow> ('c, 'i) sharedInformerFactory" where
  "NewFilteredSharedInformerFactory client defaultResync namespace tweakListOptions =
     \<lparr>sf_client = client, sf_namespace = namespace, sf_tweakListOptions = tweakListOptions,
      sf_defaultResync = defaultResync, sf_informers = [], sf_startedInformers = (\<lambda>t. False)\<rparr>"

definition NewSharedInformerFactory :: "'c \<Rightarrow> int64 \<Rightarrow> ('c, 'i) sharedInformerFactory" where
  "NewSharedInformerFactory client defaultResync = NewFilteredSharedInformerFactory client defaultResync [] None"

text \<open>
  The loop of \<open>Start\<close> over an enumeration of the map; the informers whose \<open>Run\<close> was launched
  are returned in the order of the launches.
\<close>

fun start_loop ::
  "(string \<times> 'i) list \<Rightarrow> ('c, 'i) sharedInformerFactory \<Rightarrow> (string \<times> 'i) list \<times> ('c, 'i) sharedInformerFactory" where
  "start_loop [] f = ([], f)"
| "start_loop ((t, i) # order) f =
     (if \<not> sf_startedInformers f t
      then (case start_loop order (f\<lparr>sf_startedInformers := (sf_startedInformers f)(t := True)\<rparr>) of
              (runs, f') \<Rightarrow> ((t, i) # runs, f'))
      else start_loop order f)"

definition enumerates :: "(string \<times> 'i) list \<Rightarrow> ('c, 'i) sharedInformerFactory \<Rightarrow> bool" where
  "enumerates order f \<longleftrightarrow> mset order = mset (sf_informers f)"

definition Start ::
  "(string \<times> 'i) list \<Rightarrow> ('c, 'i) sharedInformerFactory \<Rightarrow> (string \<times> 'i) list \<times> ('c, 'i) sharedInformerFactory" where
  "Start order f = start_loop order f"

definition InformerFor ::
  "string \<Rightarrow> ('c \<Rightarrow> int64 \<Rightarrow> 'i) \<Rightarrow> ('c, 'i) sharedInformerFactory \<Rightarrow> 'i \<times> ('c, 'i) sharedInformerFactory" where
  "InformerFor informerType newFunc f =
     (case map_of (sf_informers f) informerType of
        Some informer \<Rightarrow> (informer, f)
      | None \<Rightarrow>
          (let informer = newFunc (sf_client f) (sf_defaultResync f) in
           (informer, f\<lparr>sf_informers := sf_informers f @ [(informerType, informer)]\<rparr>)))"

text \<open>
  The snapshot under the lock, and the wait for each informer of it; whether an informer
  reports that it has synced before the stop channel is closed is a parameter.
\<close>

definition started_informers :: "('c, 'i) sharedInformerFactory \<Rightarrow> (string \<times> 'i) list" where
  "started_informers f = filter (\<lambda>(t, i). sf_startedInformers f t) (sf_informers f)"

definition factory_WaitForCacheSync :: "('i \<Rightarrow> bool) \<Rightarrow> ('c, 'i) sharedInformerFactory \<Rightarrow> (string \<times> bool) list" where
  "factory_WaitForCacheSync synced f = map (\<lambda>(t, i). (t, synced i)) (started_informers f)"

section \<open>The way from the factory to an informer\<close>

record informer_scope =
  is_namespace :: string
  is_tweakListOptions :: "tweak option"

text \<open>The three structs hold the factory beside a scope: \<open>group\<close>, \<open>version\<close>, \<open>functionInformer\<close>.\<close>

definition kubeless_New :: "string \<Rightarrow> tweak option \<Rightarrow> informer_scope" where
  "kubeless_New namespace tweakListOptions = \<lparr>is_namespace = namespace, is_tweakListOptions = tweakListOptions\<rparr>"

definition v1beta1_New :: "string \<Rightarrow> tweak option \<Rightarrow> informer_scope" where
  "v1beta1_New namespace tweakListOptions = \<lparr>is_namespace = namespace, is_tweakListOptions = tweakListOptions\<rparr>"

definition factory_Kubeless :: "('c, 'i) sharedInformerFactory \<Rightarrow> informer_scope" where
  "factory_Kubeless f = kubeless_New (sf_namespace f) (sf_tweakListOptions f)"

definition group_V1beta1 :: "informer_scope \<Rightarrow> informer_scope" where
  "group_V1beta1 g = v1beta1_New (is_namespace g) (is_tweakListOptions g)"

definition version_Functions :: "informer_scope \<Rightarrow> informer_scope" where
  "version_Functions v = \<lparr>is_namespace = is_namespace v, is_tweakListOptions = is_tweakListOptions v\<rparr>"

type_synonym ('s, 'w) function_factory =
  "(string \<Rightarrow> ('s, 'w) function_interface, ('s, 'w) shared_informer) sharedInformerFactory"

definition defaultInformer ::
  "informer_scope \<Rightarrow> (string \<Rightarrow> ('s, 'w) function_interface) \<Rightarrow> int64 \<Rightarrow> ('s, 'w) shared_informer" where
  "defaultInformer f client resyncPeriod =
     NewFilteredFunctionInformer client (is_namespace f) resyncPeriod [''namespace''] (is_tweakListOptions f)"

definition functionInformer_Informer ::
  "informer_scope \<Rightarrow> ('s, 'w) function_factory \<Rightarrow> ('s, 'w) shared_informer \<times> ('s, 'w) function_factory" where
  "functionInformer_Informer f factory = InformerFor functionType (defaultInformer f) factory"

record 'i genericInformer =
  gi_informer :: 'i
  gi_resource :: "string \<times> string"

definition ForResource ::
  "(group_version_resource \<Rightarrow> string) \<Rightarrow> group_version_resource \<Rightarrow> ('s, 'w) function_factory \<Rightarrow>
   ('s, 'w) shared_informer genericInformer res \<times> ('s, 'w) function_factory" where
  "ForResource show_gvr resource f =
     (if resource = \<lparr>gvr_Group = gv_Group SchemeGroupVersion, gvr_Version = gv_Version SchemeGroupVersion,
                     gvr_Resource = ''functions''\<rparr>
      then (case functionInformer_Informer (version_Functions (group_V1beta1 (factory_Kubeless f))) f of
              (i, f') \<Rightarrow> (Ok \<lparr>gi_informer = i, gi_resource = (gvr_Group resource, gvr_Resource resource)\<rparr>, f'))
      else (Err (Errorf (''no informer found for '' @ show_gvr resource)), f))"

section \<open>Listers\<close>

text \<open>
  The index of an informer: what is stored under a key, and what the two list functions of the
  cache library hand to their callback, with their error.
\<close>

record 'l cache_indexer =
  ix_GetByKey :: "string \<Rightarrow> (runtime_object option) \<times> gerror option"
  ix_ListAll :: "'l \<Rightarrow> runtime_object list \<times> gerror option"
  ix_ListAllByNamespace :: "string \<Rightarrow> 'l \<Rightarrow> runtime_object list \<times> gerror option"

text \<open>The callback appends what it gets; the type assertion panics on anything but a function.\<close>

fun append_functions :: "runtime_object list \<Rightarrow> kfunction list \<Rightarrow> kfunction list res" where
  "append_functions [] ret = Ok ret"
| "append_functions (FunctionObj f # ms) ret = append_functions ms (ret @ [f])"
| "append_functions (m # ms) ret = Panic TypeAssertion"

definition functionLister_List :: "'l cache_indexer \<Rightarrow> 'l \<Rightarrow> (kfunction list \<times> gerror option) res" where
  "functionLister_List ix selector =
     (case ix_ListAll ix selector of (ms, err) \<Rightarrow> map_res (\<lambda>ret. (ret, err)) (append_functions ms []))"

record 'l functionNamespaceLister =
  nl_indexer :: "'l cache_indexer"
  nl_namespace :: string

definition functionLister_Functions :: "'l cache_indexer \<Rightarrow> string \<Rightarrow> 'l functionNamespaceLister" where
  "functionLister_Functions ix namespace = \<lparr>nl_indexer = ix, nl_namespace = namespace\<rparr>"

definition functionNamespaceLister_List ::
  "'l functionNamespaceLister \<Rightarrow> 'l \<Rightarrow> (kfunction list \<times> gerror option) res" where
  "functionNamespaceLister_List s selector =
     (case ix_ListAllByNamespace (nl_indexer s) (nl_namespace s) selector of
        (ms, err) \<Rightarrow> map_res (\<lambda>ret. (ret, err)) (append_functions ms []))"

text \<open>\<open>NewNotFound\<close> of the API errors for a resource and a name.\<close>

definition NewNotFound :: "string \<times> string \<Rightarrow> string \<Rightarrow> gerror" where
  "NewNotFound resource name =
     StatusError NotFound (snd resource @ ''.'' @ fst resource @ '' '' @ [CHR 0x22] @ name @ [CHR 0x22] @ '' not found'')"

definition functionNamespaceLister_Get :: "'l functionNamespaceLister \<Rightarrow> string \<Rightarrow> kfunction res" where
  "functionNamespaceLister_Get s name =
     (case ix_GetByKey (nl_indexer s) (nl_namespace s @ ''/'' @ name) of
        (obj, Some err) \<Rightarrow> Err err
      | (None, None) \<Rightarrow> Err (NewNotFound (Resource ''function'') name)
      | (Some (FunctionObj f), None) \<Rightarrow> Ok f
      | (Some m, None) \<Rightarrow> Panic TypeAssertion)"

section \<open>The factory as a state machine\<close>

text \<open>
  A state is the factory with the runs launched so far. Any goroutine may ask for an informer
  or start the factory at any time.
\<close>

inductive factory_step ::
  "('c, 'i) sharedInformerFactory \<times> (string \<times> 'i) list \<Rightarrow> ('c, 'i) sharedInformerFactory \<times> (string \<times> 'i) list \<Rightarrow> bool" where
  step_start: "enumerates order f \<Longrightarrow> factory_step (f, runs) (snd (Start order f), runs @ fst (Start order f))"
| step_informer: "factory_step (f, runs) (snd (InformerFor t newFunc f), runs)"

inductive_cases factory_stepE: "factory_step st st'"

definition factory_ok :: "('c, 'i) sharedInformerFactory \<times> (string \<times> 'i) list \<Rightarrow> bool" where
  "factory_ok = (\<lambda>(f, runs). distinct (map fst (sf_informers f)) \<and> distinct (map fst runs) \<and>
     set runs \<subseteq> set (sf_informers f) \<and> (\<forall>t. sf_startedInformers f t \<longleftrightarrow> t \<in> fst ` set runs))"

lemma start_loop_eq:
  assumes "distinct (map fst order)"
  shows "start_loop order f =
    (filter (\<lambda>(t, i). \<not> sf_startedInformers f t) order,
     f\<lparr>sf_startedInformers := (\<lambda>t. sf_startedInformers f t \<or> t \<in> fst ` set order)\<rparr>)"
  using assms
proof (induction order f rule: start_loop.induct)
  case (2 t i order f)
  have "filter (\<lambda>(t', i). \<not> ((sf_startedInformers f)(t := True)) t') order = filter (\<lambda>(t', i). \<not> sf_startedInformers f t') order"
    using 2(3) by (intro filter_cong) force+
  moreover have "(\<lambda>t'. ((sf_startedInformers f)(t := True)) t' \<or> t' \<in> fst ` set order) =
      (\<lambda>t'. sf_startedInformers f t' \<or> t' \<in> fst ` set ((t, i) # order))"
    by (auto simp: fun_eq_iff)
  moreover have "(\<lambda>t'. sf_startedInformers f t' \<or> t' \<in> fst ` set order) =
      (\<lambda>t'. sf_startedInformers f t' \<or> t' \<in> fst ` set ((t, i) # order))" if "sf_startedInformers f t"
    using that by (auto simp: fun_eq_iff)
  ultimately show ?case using 2 by (cases "sf_startedInformers f t") simp_all
qed simp

lemma enumerates_facts:
  assumes "enumerates order f"
  shows "set order = set (sf_informers f)" "distinct (map fst order) = distinct (map fst (sf_informers f))"
  using assms unfolding enumerates_def
  by (metis set_mset_mset) (metis distinct_card mset_map assms enumerates_def mset_eq_imp_distinct_iff)

lemma InformerFor_cases:
  obtains i where "map_of (sf_informers f) t = Some i" "InformerFor t newFunc f = (i, f)"
  | "t \<notin> fst ` set (sf_informers f)"
    "InformerFor t newFunc f = (newFunc (sf_client f) (sf_defaultResync f),
       f\<lparr>sf_informers := sf_informers f @ [(t, newFunc (sf_client f) (sf_defaultResync f))]\<rparr>)"
  by (cases "map_of (sf_informers f) t") (auto simp: InformerFor_def Let_def map_of_eq_None_iff)

lemma factory_step_ok: "factory_step st st' \<Longrightarrow> factory_ok st \<Longrightarrow> factory_ok st'"
proof (induction rule: factory_step.induct)
  case (step_start order f runs)
  define fresh where "fresh = filter (\<lambda>(t, i). \<not> sf_startedInformers f t) order"
  have ok: "distinct (map fst (sf_informers f))" "distinct (map fst runs)" "set runs \<subseteq> set (sf_informers f)"
      "sf_startedInformers f t \<longleftrightarrow> t \<in> fst ` set runs" for t
    using step_start(2) by (simp_all add: factory_ok_def)
  have order: "set order = set (sf_informers f)" "distinct (map fst order)"
    using enumerates_facts [OF step_start(1)] ok(1) by simp_all
  have "fst ` set fresh = fst ` set order - fst ` set runs"
    by (force simp: fresh_def ok(4))
  moreover have "distinct (map fst fresh)" and "set fresh \<subseteq> set order"
    using order(2) by (simp_all add: fresh_def distinct_map_filter)
  ultimately have "factory_ok (f\<lparr>sf_startedInformers := (\<lambda>t. sf_startedInformers f t \<or> t \<in> fst ` set order)\<rparr>, runs @ fresh)"
    using ok order(1) by (simp add: factory_ok_def image_Un)
  then show ?case by (simp add: Start_def start_loop_eq [OF order(2)] fresh_def)
next
  case (step_informer f runs t newFunc)
  then show ?case
    by (cases rule: InformerFor_cases [of f t newFunc]) (auto simp: factory_ok_def)
qed

lemma factory_reachable_ok:
  assumes "factory_step\<^sup>*\<^sup>* (NewFilteredSharedInformerFactory client resync ns tweak, []) st"
  shows "factory_ok st"
  using assms
proof (induction rule: rtranclp_induct)
  case base
  show ?case by (simp add: factory_ok_def NewFilteredSharedInformerFactory_def)
qed (rule factory_step_ok)

text \<open>An informer that was handed out stays the informer of its type.\<close>

lemma factory_step_keeps:
  assumes "factory_step st st'" and "map_of (sf_informers (fst st)) t = Some i" and "factory_ok st"
  shows "map_of (sf_informers (fst st')) t = Some i"
  using assms
proof (induction rule: factory_step.induct)
  case (step_start order f runs)
  then show ?case
    using enumerates_facts [of order f] by (auto simp: factory_ok_def Start_def start_loop_eq)
next
  case (step_informer f runs t' newFunc)
  then show ?case
    by (cases rule: InformerFor_cases [of f t' newFunc]) (auto simp: map_add_def)
qed

lemma factory_steps_keep:
  assumes "factory_step\<^sup>*\<^sup>* st st'" and "map_of (sf_informers (fst st)) t = Some i" and "factory_ok st"
  shows "map_of (sf_informers (fst st')) t = Some i \<and> factory_ok st'"
  using assms by (induction rule: rtranclp_induct) (auto intro: factory_step_keeps factory_step_ok)

text \<open>
  C13: However the goroutines that share an informer factory interleave, an informer is run at
  most once, only informers that were asked for are run, the one that runs for a type is the
  one every caller gets for that type, before and after, and the factory's record of started
  informers is exact.
\<close>

theorem informers_run_once:
  assumes "factory_step\<^sup>*\<^sup>* (NewFilteredSharedInformerFactory client resync ns tweak, []) (f, runs)"
    and "factory_step\<^sup>*\<^sup>* (f, runs) (f', runs')"
  shows "distinct (map fst runs') \<and> (\<forall>t. sf_startedInformers f' t \<longleftrightarrow> t \<in> fst ` set runs') \<and>
    (\<forall>t i. (t, i) \<in> set runs' \<longrightarrow> fst (InformerFor t newFunc f') = i) \<and>
    (\<forall>t newFunc'. fst (InformerFor t newFunc' (snd (InformerFor t newFunc f))) = fst (InformerFor t newFunc f)) \<and>
    (\<forall>t i. map_of (sf_informers f) t = Some i \<longrightarrow> fst (InformerFor t newFunc f') = i)"
proof -
  have ok: "factory_ok (f, runs)" "factory_ok (f', runs')"
    using factory_reachable_ok [OF assms(1)] factory_reachable_ok [OF rtranclp_trans [OF assms]] by auto
  have "fst (InformerFor t newFunc f') = i" if "(t, i) \<in> set runs'" for t i
    using that ok(2) map_of_is_SomeI [of "sf_informers f'" t i]
    by (auto simp: factory_ok_def InformerFor_def)
  moreover have "fst (InformerFor t newFunc' (snd (InformerFor t newFunc f))) = fst (InformerFor t newFunc f)" for t newFunc'
    by (cases rule: InformerFor_cases [of f t newFunc])
       (auto simp: InformerFor_def map_add_def split: option.splits)
  moreover have "fst (InformerFor t newFunc f') = i" if "map_of (sf_informers f) t = Some i" for t i
    using factory_steps_keep [OF assms(2), of t i] that ok(1) by (simp add: InformerFor_def)
  ultimately show ?thesis using ok(2) by (simp add: factory_ok_def)
qed

text \<open>After a start every informer that was asked for is running.\<close>

lemma Start_complete:
  assumes "factory_ok (f, runs)" and "enumerates order f"
  shows "set (runs @ fst (Start order f)) = set (sf_informers f)"
proof -
  have o: "set order = set (sf_informers f)" "distinct (map fst order)" "distinct (map fst (sf_informers f))"
    using enumerates_facts [OF assms(2)] assms(1) by (auto simp: factory_ok_def)
  have "(t, i) \<in> set runs" if mem: "(t, i) \<in> set (sf_informers f)" and started: "sf_startedInformers f t" for t i
  proof -
    obtain j where "(t, j) \<in> set runs" using assms(1) started by (auto simp: factory_ok_def)
    moreover from this have "j = i"
      using assms(1) mem o(3) by (auto simp: factory_ok_def dest: eq_key_imp_eq_value)
    ultimately show ?thesis by simp
  qed
  then show ?thesis
    using assms(1) o by (auto simp: Start_def start_loop_eq factory_ok_def)
qed

section \<open>What listers return\<close>

text \<open>
  The keys of the cache, as \<open>MetaNamespaceKeyFunc\<close> documents them, and an index that holds the
  functions of a map under their keys.
\<close>

definition cache_key :: "kfunction \<Rightarrow> string" where
  "cache_key f = (if f_Namespace f = [] then f_Name f else f_Namespace f @ ''/'' @ f_Name f)"

definition indexer_laws :: "'l cache_indexer \<Rightarrow> ('l \<Rightarrow> gomap \<Rightarrow> bool) \<Rightarrow> kfunction list \<Rightarrow> bool" where
  "indexer_laws ix matches cached \<longleftrightarrow>
     distinct (map cache_key cached) \<and>
     (\<forall>k. ix_GetByKey ix k = (map_option FunctionObj (find (\<lambda>f. cache_key f = k) cached), None)) \<and>
     (\<forall>sel. ix_ListAll ix sel = (map FunctionObj (filter (\<lambda>f. matches sel (f_Labels f)) cached), None)) \<and>
     (\<forall>ns sel. ns \<noteq> [] \<longrightarrow> ix_ListAllByNamespace ix ns sel =
        (map FunctionObj (filter (\<lambda>f. f_Namespace f = ns \<and> matches sel (f_Labels f)) cached), None))"

lemma append_functions_map [simp]: "append_functions (map FunctionObj fs) ret = Ok (ret @ fs)"
  by (induction fs arbitrary: ret) auto

lemma slash_split:
  assumes "ns @ ''/'' @ n = ns' @ ''/'' @ n'" and "CHR ''/'' \<notin> set ns" and "CHR ''/'' \<notin> set ns'"
  shows "ns = ns' \<and> n = n'"
proof -
  have "takeWhile (\<lambda>c. c \<noteq> CHR ''/'') (ms @ ''/'' @ m) = ms" if "CHR ''/'' \<notin> set ms" for ms m
    using that by (subst takeWhile_append2) auto
  then have "ns = ns'" using assms by metis
  with assms(1) show ?thesis by simp
qed

lemma find_cached:
  assumes "indexer_laws ix matches cached" and "\<forall>f \<in> set cached. f_Namespace f \<noteq> [] \<and> CHR ''/'' \<notin> set (f_Namespace f)"
    and "CHR ''/'' \<notin> set ns"
  shows "find (\<lambda>g. cache_key g = ns @ ''/'' @ n) cached = Some f \<longleftrightarrow> f \<in> set cached \<and> f_Namespace f = ns \<and> f_Name f = n"
proof -
  have key: "cache_key f = ns @ ''/'' @ n \<longleftrightarrow> f_Namespace f = ns \<and> f_Name f = n" if "f \<in> set cached" for f
    using that assms(2,3) slash_split [of "f_Namespace f" "f_Name f" ns n] by (auto simp: cache_key_def)
  show ?thesis
  proof
    assume "find (\<lambda>g. cache_key g = ns @ ''/'' @ n) cached = Some f"
    then have "f \<in> set cached" "cache_key f = ns @ ''/'' @ n" by (auto simp: find_Some_iff)
    then show "f \<in> set cached \<and> f_Namespace f = ns \<and> f_Name f = n" using key by blast
  next
    assume f: "f \<in> set cached \<and> f_Namespace f = ns \<and> f_Name f = n"
    then obtain g where g: "find (\<lambda>g. cache_key g = ns @ ''/'' @ n) cached = Some g"
      using key by (cases "find (\<lambda>g. cache_key g = ns @ ''/'' @ n) cached") (auto simp: find_None_iff)
    then have "g \<in> set cached" "cache_key g = ns @ ''/'' @ n" by (auto simp: find_Some_iff)
    moreover have "cache_key f = ns @ ''/'' @ n" using f key by blast
    moreover have "inj_on cache_key (set cached)" using assms(1) by (simp add: indexer_laws_def distinct_map)
    ultimately have "g = f" using f by (metis inj_onD)
    with g show "find (\<lambda>g. cache_key g = ns @ ''/'' @ n) cached = Some f" by simp
  qed
qed

text \<open>
  C28: A lister answers from the cache of its informer: in a namespace, what can be listed is
  what can be got by its name, with the selector of the caller applied, and a name that is
  not in the cache is reported as not found.
\<close>

theorem lister_consistent:
  assumes "indexer_laws ix matches cached" and "\<forall>f \<in> set cached. f_Namespace f \<noteq> [] \<and> CHR ''/'' \<notin> set (f_Namespace f)"
    and "ns \<noteq> []" and "CHR ''/'' \<notin> set ns"
  shows "\<exists>fs. functionNamespaceLister_List (functionLister_Functions ix ns) sel = Ok (fs, None) \<and>
    (\<forall>f. f \<in> set fs \<longleftrightarrow>
       functionNamespaceLister_Get (functionLister_Functions ix ns) (f_Name f) = Ok f \<and> matches sel (f_Labels f)) \<and>
    (\<forall>n. (\<forall>f \<in> set cached. f_Namespace f = ns \<longrightarrow> f_Name f \<noteq> n) \<longrightarrow>
       (\<exists>e. functionNamespaceLister_Get (functionLister_Functions ix ns) n = Err e \<and> IsNotFound e))"
proof -
  have get: "ix_GetByKey ix k = (map_option FunctionObj (find (\<lambda>f. cache_key f = k) cached), None)" for k
    using assms(1) by (simp add: indexer_laws_def)
  note found = find_cached [OF assms(1,2,4)]
  have ok: "functionNamespaceLister_Get (functionLister_Functions ix ns) n = Ok f \<longleftrightarrow>
      f \<in> set cached \<and> f_Namespace f = ns \<and> f_Name f = n" for f n
    unfolding found [symmetric]
    by (auto simp: functionNamespaceLister_Get_def functionLister_Functions_def get split: option.splits)
  have nf: "\<exists>e. functionNamespaceLister_Get (functionLister_Functions ix ns) n = Err e \<and> IsNotFound e"
    if "\<forall>f \<in> set cached. f_Namespace f = ns \<longrightarrow> f_Name f \<noteq> n" for n
    using that found [of n]
    by (cases "find (\<lambda>g. cache_key g = ns @ ''/'' @ n) cached")
       (auto simp: functionNamespaceLister_Get_def functionLister_Functions_def get NewNotFound_def)
  have ls: "functionNamespaceLister_List (functionLister_Functions ix ns) sel =
      Ok (filter (\<lambda>f. f_Namespace f = ns \<and> matches sel (f_Labels f)) cached, None)"
    using assms(1,3) by (simp add: indexer_laws_def functionNamespaceLister_List_def functionLister_Functions_def)
  show ?thesis unfolding ls using nf by (auto simp: ok)
qed

end
