(* ===== verification/Startup.thy ===== *)
theory Startup
  imports Informers ControllerLaws Proxy
begin

text \<open>
  How the programs are put together: the controller process (\<open>cmd/function-controller\<close>, the
  constructor and \<open>Run\<close> of \<open>pkg/controller/function_controller.go\<close>) from a cluster
  configuration to its worker, and the process of the function proxy (\<open>pkg/function-proxy\<close>)
  with its routes and the function it starts. The lemmas say which namespace the controller
  watches, and what ends it.
\<close>

section \<open>The controller process\<close>

text \<open>
  What the process gets from its surroundings: environment, files, the configuration of the
  cluster, and the constructors of the client libraries.
\<close>

record ('s, 'w, 'd) cluster_env =
  ke_getenv :: "string \<Rightarrow> string"
  ke_io :: "'s world_io"
  ke_InClusterConfig :: "gerror + rest_config"
  ke_versioned_New :: "rest_config \<Rightarrow> gerror + ('s, 'w, 'd) versioned_clientset"
  ke_kubernetes_New :: "rest_config \<Rightarrow> gerror + 's clientset"
  ke_apiextensions_New :: "rest_config \<Rightarrow> gerror + (string \<Rightarrow> ('s, object_meta) api)"
  ke_monitoring_New :: "rest_config \<Rightarrow> gerror + ('s, service_monitor) client"
  ke_yaml :: yaml_runtimes
  ke_json :: "kfunction \<Rightarrow> gerror + string"

abbreviation ke_config :: "('s, 'w, 'd) cluster_env \<Rightarrow> 's \<Rightarrow> rest_config res \<times> 's" where
  "ke_config ke \<equiv> GetInClusterConfig (ke_getenv ke) (ke_io ke) (ke_InClusterConfig ke)"

definition clientset_Functions :: "('s, 'w, 'd) versioned_clientset \<Rightarrow> string \<Rightarrow> ('s, 'w) function_interface" where
  "clientset_Functions cs = KubelessV1beta1Client_Functions (Clientset_KubelessV1beta1 cs)"

text \<open>The Kubernetes clients with the function client beside them, as the controller uses them.\<close>

definition controller_clients ::
  "(kfunction \<Rightarrow> gerror + string) \<Rightarrow> 's clientset \<Rightarrow> ('s, 'w, 'd) versioned_clientset \<Rightarrow> 's clientset" where
  "controller_clients json kube cs = kube\<lparr>Functions := function_client json (clientset_Functions cs)\<rparr>"

text \<open>
  \<open>NewFunctionController\<close> with the steps before the controller is built: the configuration is
  read from the cluster and the informer watches the namespace named there.
\<close>

definition NewFunctionController_in_cluster ::
  "('s, 'w, 'd) cluster_env \<Rightarrow> 's clientset \<Rightarrow> ('s, 'w, 'd) versioned_clientset \<Rightarrow> ('s, service_monitor) client \<Rightarrow> 's \<Rightarrow>
   ('s controller \<times> langruntimes \<times> ('s, 'w) shared_informer) res \<times> 's" where
  "NewFunctionController_in_cluster ke kube cs smclient s =
     bind_st (GetAPIExtensionsClientInCluster (ke_getenv ke) (ke_io ke) (ke_InClusterConfig ke) (ke_apiextensions_New ke) s) (\<lambda>get_crd s.
     bind_st (fatal_prefix ''Unable to read the configmap: ''
                (GetKubelessConfig (ke_getenv ke) get_crd (ConfigMaps kube) s)) (\<lambda>config s.
     let informer = NewFunctionInformer (clientset_Functions cs) (gm_get (cm_Data config) ''functions-namespace'') 0 [] in
     (map_res (\<lambda>(c, lr). (c, lr, informer))
        (NewFunctionController (ke_yaml ke) (controller_clients (ke_json ke) kube cs) (Some smclient) config), s)))"

definition controller_rootCmd ::
  "('s, 'w, 'd) cluster_env \<Rightarrow> 's \<Rightarrow> ('s controller \<times> langruntimes \<times> ('s, 'w) shared_informer) res \<times> 's" where
  "controller_rootCmd ke s =
     bind_st (fatal_prefix ''Cannot get kubeless client: ''
                (GetFunctionClientInCluster (ke_getenv ke) (ke_io ke) (ke_InClusterConfig ke) (ke_versioned_New ke) s)) (\<lambda>kubelessClient s.
     bind_st (GetClient (ke_getenv ke) (ke_io ke) (ke_InClusterConfig ke) (ke_kubernetes_New ke) s) (\<lambda>kubeCli s.
     bind_st (fatal_prefix ''Cannot get REST client: '' (ke_config ke s)) (\<lambda>restCfg s.
     bind_st (fatal_err (lift_sum (ke_monitoring_New ke restCfg), s)) (\<lambda>smclient s.
     NewFunctionController_in_cluster ke kubeCli kubelessClient smclient s))))"

section \<open>Run\<close>

text \<open>
  \<open>wait.Until\<close> calls its function again after it returned until the stop channel is closed:
  \<open>rounds\<close> calls are made. A call that does not return is None.
\<close>

fun wait_Until :: "('w \<Rightarrow> (unit res \<times> 'w) option) \<Rightarrow> nat \<Rightarrow> 'w \<Rightarrow> (unit res \<times> 'w) option" where
  "wait_Until f 0 w = Some (Ok (), w)"
| "wait_Until f (Suc rounds) w =
     (case f w of Some (Ok _, w') \<Rightarrow> wait_Until f rounds w' | r \<Rightarrow> r)"

text \<open>
  \<open>synced\<close> is what waiting for the cache of the informer gave. The deferred shutdown of the
  queue is the last thing that happens, also after a panic.
\<close>

definition Run ::
  "'q queue_ops \<Rightarrow> ('q \<Rightarrow> 'q) \<Rightarrow> 's externals \<Rightarrow> 's controller \<Rightarrow> bool \<Rightarrow> nat \<Rightarrow> 's ctl_state \<times> 'q \<Rightarrow>
   (unit res \<times> 's ctl_state \<times> 'q) option" where
  "Run q ShutDown ex c synced rounds w =
     map_option (\<lambda>(r, st, qs). (r, st, ShutDown qs))
       (if \<not> synced then Some (Ok (), w) else wait_Until (runWorker q ex c) rounds w)"

text \<open>A queue in use: it does not report a shutdown before it was shut down.\<close>

definition open_laws :: "'q queue_ops \<Rightarrow> ('q \<Rightarrow> bool) \<Rightarrow> bool" where
  "open_laws q is_open \<longleftrightarrow>
     (\<forall>k qs. is_open qs \<longrightarrow>
        \<not> snd (fst (q_Get q qs)) \<and> is_open (snd (q_Get q qs)) \<and> is_open (q_Add q k qs) \<and> is_open (q_Done q k qs) \<and>
        is_open (q_Forget q k qs) \<and> is_open (q_AddRateLimited q k qs))"

lemma processNextItem_open:
  assumes "open_laws q is_open" and "is_open (snd w)" and "processNextItem q ex c w = (r, w')"
  shows "is_open (snd w') \<and> (r = Ok True \<or> (\<exists>p. r = Panic p))"
proof -
  obtain st qs where w: "w = (st, qs)" by (cases w)
  obtain key quit qs1 where g: "q_Get q qs = ((key, quit), qs1)" by (metis prod.collapse)
  have o: "\<not> quit" "is_open qs1" using assms(1,2) g w unfolding open_laws_def by (metis fst_conv snd_conv)+
  have "is_open (q_Done q key (requeue q x key qs1))" for x
    using assms(1) o(2) by (auto simp: open_laws_def requeue_def split: res.split)
  with assms(3) o(1) show ?thesis
    by (auto simp: w g processNextItem_def split: prod.splits res.splits)
qed

lemma runWorker_open:
  assumes "runWorker q ex c w = Some y"
  shows "open_laws q is_open \<longrightarrow> is_open (snd w) \<longrightarrow> (\<exists>p. fst y = Panic p)"
proof (rule runWorker.raw_induct [where P = "\<lambda>q ex c w y. open_laws q is_open \<longrightarrow> is_open (snd w) \<longrightarrow> (\<exists>p. fst y = Panic p)",
      OF _ assms], intro impI)
  fix rec :: "'b queue_ops \<Rightarrow> 'a externals \<Rightarrow> 'a controller \<Rightarrow> 'a ctl_state \<times> 'b \<Rightarrow> (unit res \<times> 'a ctl_state \<times> 'b) option"
    and q ex c w y
  assume ih: "\<And>q ex c w y. rec q ex c w = Some y \<Longrightarrow> open_laws q is_open \<longrightarrow> is_open (snd w) \<longrightarrow> (\<exists>p. fst y = Panic p)"
    and y: "(case processNextItem q ex c w of (Ok b, w') \<Rightarrow> if b then rec q ex c w' else Some (Ok (), w')
        | (Err e, w') \<Rightarrow> Some (Err e, w') | (Panic p, w') \<Rightarrow> Some (Panic p, w')) = Some y"
    and laws: "open_laws q is_open" "is_open (snd w)"
  obtain r w' where p: "processNextItem q ex c w = (r, w')" by (cases "processNextItem q ex c w")
  then have "is_open (snd w')" "r = Ok True \<or> (\<exists>p. r = Panic p)"
    using processNextItem_open [OF laws] by auto
  then show "\<exists>p. fst y = Panic p"
    using y ih [of q ex c w' y] laws(1) unfolding p by auto
qed


section \<open>What the controller watches\<close>

lemma clientset_Functions_typed:
  assumes "Clientset_NewForConfig lib config = Inr cs"
  obtains ri where "clientset_Functions cs = typed_functions ri"
  using assms
  by (auto simp: Clientset_NewForConfig_def KubelessV1beta1Client_NewForConfig_def setConfigDefaults_def Let_def
      clientset_Functions_def Clientset_KubelessV1beta1_def KubelessV1beta1Client_New_def
      split: if_splits prod.splits option.splits sum.splits)

text \<open>
  C29: When the controller process starts, the requests of its informer are the list and the
  watch of the functions in the namespace its configuration names, with the options unchanged
  but for the watch, and the updates of the controller go through the same client.
\<close>

theorem controller_watches_namespace:
  assumes "controller_rootCmd ke s = (Ok (c, lr, informer), s')"
    and "\<forall>cfg cs. ke_versioned_New ke cfg = Inr cs \<longrightarrow> (\<exists>lib config. Clientset_NewForConfig lib config = Inr cs)"
  shows "\<exists>ri. Functions (fc_clientset c) = function_client (ke_json ke) (typed_functions ri) \<and>
    (\<forall>options t. si_ListFunc informer options t =
       (case ri_IntoList ri ((request GET)\<lparr>ar_Namespace := gm_get (cm_Data (fc_config c)) ''functions-namespace'',
          ar_Resource := ''functions'', ar_Params := Some (ListParams options)\<rparr>) t of
        ((l, e), t') \<Rightarrow> (Ok (Some l, e), t'))) \<and>
    (\<forall>options t. si_WatchFunc informer options t =
       (case ri_Watch ri ((request GET)\<lparr>ar_Namespace := gm_get (cm_Data (fc_config c)) ''functions-namespace'',
          ar_Resource := ''functions'', ar_Params := Some (ListParams (options\<lparr>lo_Watch := True\<rparr>))\<rparr>) t of
        (r, t') \<Rightarrow> (Ok r, t')))"
proof -
  obtain cs cfg kube sm config s1 s2 where
    cs: "ke_versioned_New ke cfg = Inr cs" and
    new: "NewFunctionController (ke_yaml ke) (controller_clients (ke_json ke) kube cs) (Some sm) config = Ok (c, lr)" and
    inf: "informer = NewFunctionInformer (clientset_Functions cs) (gm_get (cm_Data config) ''functions-namespace'') 0 []"
    using assms(1)
    by (auto simp: controller_rootCmd_def NewFunctionController_in_cluster_def GetFunctionClientInCluster_def
        fatal_prefix_def res_simps Let_def)
  obtain ri where ri: "clientset_Functions cs = typed_functions ri"
    using assms(2) cs clientset_Functions_typed by metis
  have "fc_config c = config" "Functions (fc_clientset c) = function_client (ke_json ke) (typed_functions ri)"
    using new ri by (auto simp: NewFunctionController_def controller_clients_def map_res_Ok_iff)
  then show ?thesis
    by (intro exI [of _ ri])
       (auto simp: inf ri NewFunctionInformer_def NewFilteredFunctionInformer_def apply_tweak_def typed_defs
          functions_List_def functions_Watch_def split: prod.splits)
qed

section \<open>The process of the function proxy\<close>

text \<open>
  The proxy starts the function as a shell command; when it ends with an error the process of
  the proxy ends, too.
\<close>

definition startNativeDaemon :: "(string \<Rightarrow> string) \<Rightarrow> (string \<Rightarrow> string list \<Rightarrow> gerror option) \<Rightarrow> unit res" where
  "startNativeDaemon getenv run =
     (let args = getenv ''FUNC_PROCESS'' in
      case run ''/bin/sh'' [''-c'', args] of
        None \<Rightarrow> Ok ()
      | Some err \<Rightarrow> Panic (Exit (''Unable to run '' @ args @ ''. Received '' @ err_text err)))"

text \<open>
  The routes of the server. A pattern that ends in a slash matches every path below it, others
  match one path, and the longest pattern wins.
\<close>

datatype proxy_route = FunctionRoute | HealthRoute | MetricsRoute

definition proxy_routes :: "(string \<times> proxy_route) list" where
  "proxy_routes = [(''/'', FunctionRoute), (''/healthz'', HealthRoute), (''/metrics'', MetricsRoute)]"

definition pattern_matches :: "string \<Rightarrow> string \<Rightarrow> bool" where
  "pattern_matches pattern path \<longleftrightarrow> (if has_suffix pattern ''/'' then prefix pattern path else pattern = path)"

fun longest_match :: "(string \<times> 'h) list \<Rightarrow> string \<Rightarrow> (string \<times> 'h) option" where
  "longest_match [] path = None"
| "longest_match ((p, h) # routes) path =
     (case longest_match routes path of
        None \<Rightarrow> if pattern_matches p path then Some (p, h) else None
      | Some (p', h') \<Rightarrow> if pattern_matches p path \<and> length p' < length p then Some (p, h) else Some (p', h'))"

lemma proxy_route_of_path:
  "map_option snd (longest_match proxy_routes (CHR ''/'' # path)) =
     Some (if path = ''healthz'' then HealthRoute else if path = ''metrics'' then MetricsRoute else FunctionRoute)"
  by (simp add: proxy_routes_def pattern_matches_def has_suffix_def suffix_to_prefix)

end
