(* ===== verification/RunCommand.thy ===== *)
theory RunCommand
  imports LayerBuilder
begin

text \<open>
  \<open>runCommand\<close> of \<open>pkg/function-image-builder/image_builder.go\<close>: it starts a process, copies its
  standard output line by line until that ends, then its standard error, and then waits for
  the process. The process and the code that reads run side by side over two pipes that hold a
  bounded number of bytes, so the call is a state machine. The process writes a given sequence
  of bytes, blocks while a pipe is full, and its streams end when it exits. The scanner stops
  early at a line that is longer than its buffer. A process that could not be started, whose
  error the code ignores, is not covered.
\<close>

section \<open>The state machine\<close>

datatype std_stream = StdOut | StdErr

datatype scan_phase = ScanOut | ScanErr | Waiting | Returned

record command_state =
  cs_todo :: "(std_stream \<times> char) list"
  cs_exited :: bool
  cs_out :: string
  cs_err :: string
  cs_line :: nat
  cs_phase :: scan_phase
  cs_outText :: string
  cs_errText :: string

definition command_start :: "(std_stream \<times> char) list \<Rightarrow> command_state" where
  "command_start bytes = \<lparr>cs_todo = bytes, cs_exited = False, cs_out = [], cs_err = [], cs_line = 0,
     cs_phase = ScanOut, cs_outText = [], cs_errText = []\<rparr>"

text \<open>The length of the line the scanner is in after another byte.\<close>

definition next_line :: "nat \<Rightarrow> char \<Rightarrow> nat" where
  "next_line n c = (if c = CHR 0x0A then 0 else Suc n)"

inductive command_step :: "nat \<Rightarrow> nat \<Rightarrow> command_state \<Rightarrow> command_state \<Rightarrow> bool" for cap maxToken where
  write_out: "cs_todo s = (StdOut, c) # bs \<Longrightarrow> length (cs_out s) < cap \<Longrightarrow>
    command_step cap maxToken s (s\<lparr>cs_todo := bs, cs_out := cs_out s @ [c]\<rparr>)"
| write_err: "cs_todo s = (StdErr, c) # bs \<Longrightarrow> length (cs_err s) < cap \<Longrightarrow>
    command_step cap maxToken s (s\<lparr>cs_todo := bs, cs_err := cs_err s @ [c]\<rparr>)"
| process_exit: "cs_todo s = [] \<Longrightarrow> \<not> cs_exited s \<Longrightarrow> command_step cap maxToken s (s\<lparr>cs_exited := True\<rparr>)"
| scan_out: "cs_phase s = ScanOut \<Longrightarrow> cs_out s = c # cs \<Longrightarrow> cs_line s < maxToken \<Longrightarrow>
    command_step cap maxToken s
      (s\<lparr>cs_out := cs, cs_outText := cs_outText s @ [c], cs_line := next_line (cs_line s) c\<rparr>)"
| scan_out_end: "cs_phase s = ScanOut \<Longrightarrow> cs_exited s \<and> cs_out s = [] \<or> cs_line s \<ge> maxToken \<Longrightarrow>
    command_step cap maxToken s (s\<lparr>cs_phase := ScanErr, cs_line := 0\<rparr>)"
| scan_err: "cs_phase s = ScanErr \<Longrightarrow> cs_err s = c # cs \<Longrightarrow> cs_line s < maxToken \<Longrightarrow>
    command_step cap maxToken s
      (s\<lparr>cs_err := cs, cs_errText := cs_errText s @ [c], cs_line := next_line (cs_line s) c\<rparr>)"
| scan_err_end: "cs_phase s = ScanErr \<Longrightarrow> cs_exited s \<and> cs_err s = [] \<or> cs_line s \<ge> maxToken \<Longrightarrow>
    command_step cap maxToken s (s\<lparr>cs_phase := Waiting, cs_line := 0\<rparr>)"
| wait_end: "cs_phase s = Waiting \<Longrightarrow> cs_exited s \<Longrightarrow> command_step cap maxToken s (s\<lparr>cs_phase := Returned\<rparr>)"

inductive_cases command_stepE: "command_step cap maxToken s s'"

section \<open>Every run ends\<close>

fun phase_rank :: "scan_phase \<Rightarrow> nat" where
  "phase_rank ScanOut = 3"
| "phase_rank ScanErr = 2"
| "phase_rank Waiting = 1"
| "phase_rank Returned = 0"

definition command_size :: "command_state \<Rightarrow> nat" where
  "command_size s = 2 * length (cs_todo s) + length (cs_out s) + length (cs_err s) +
     (if cs_exited s then 0 else 1) + phase_rank (cs_phase s)"

lemma command_step_size: "command_step cap maxToken s s' \<Longrightarrow> command_size s' < command_size s"
  by (induction rule: command_step.induct) (auto simp: command_size_def)

section \<open>What a run can reach\<close>

abbreviation bytes_of :: "std_stream \<Rightarrow> (std_stream \<times> char) list \<Rightarrow> string" where
  "bytes_of k bs \<equiv> map snd (filter (\<lambda>(k', c). k' = k) bs)"

text \<open>No line of a text, the first one after \<open>n\<close> bytes of it, fills the buffer of the scanner.\<close>

fun fits :: "nat \<Rightarrow> nat \<Rightarrow> string \<Rightarrow> bool" where
  "fits maxToken n [] \<longleftrightarrow> n < maxToken"
| "fits maxToken n (c # cs) \<longleftrightarrow> n < maxToken \<and> fits maxToken (next_line n c) cs"

lemma fits_less: "fits maxToken n cs \<Longrightarrow> n < maxToken"
  by (cases cs) auto

text \<open>
  While the lines fit, the bytes of each stream are where the order of the code says: the
  error stream is not touched before the output has ended, which is when the process has
  exited.
\<close>

definition command_ok :: "nat \<Rightarrow> nat \<Rightarrow> (std_stream \<times> char) list \<Rightarrow> command_state \<Rightarrow> bool" where
  "command_ok cap maxToken bytes s \<longleftrightarrow>
     cs_outText s @ cs_out s @ bytes_of StdOut (cs_todo s) = bytes_of StdOut bytes \<and>
     cs_errText s @ cs_err s @ bytes_of StdErr (cs_todo s) = bytes_of StdErr bytes \<and>
     (cs_exited s \<longrightarrow> cs_todo s = []) \<and> length (cs_err s) \<le> cap \<and>
     (case cs_phase s of
        ScanOut \<Rightarrow> cs_errText s = [] \<and> fits maxToken (cs_line s) (cs_out s @ bytes_of StdOut (cs_todo s))
      | ScanErr \<Rightarrow> cs_exited s \<and> cs_out s = [] \<and> fits maxToken (cs_line s) (cs_err s)
      | _ \<Rightarrow> cs_exited s \<and> cs_out s = [] \<and> cs_err s = [])"

lemma command_ok_start:
  "fits maxToken 0 (bytes_of StdOut bytes) \<Longrightarrow> command_ok cap maxToken bytes (command_start bytes)"
  by (simp add: command_ok_def command_start_def)

lemma command_ok_step:
  assumes "fits maxToken 0 (bytes_of StdErr bytes)"
  shows "command_step cap maxToken s s' \<Longrightarrow> command_ok cap maxToken bytes s \<Longrightarrow> command_ok cap maxToken bytes s'"
proof (induction rule: command_step.induct)
  case (scan_out_end s)
  then show ?case using assms by (auto simp: command_ok_def dest: fits_less)
next
  case (scan_err_end s)
  then show ?case by (auto simp: command_ok_def dest: fits_less)
qed (auto simp: command_ok_def split: scan_phase.splits)

lemma command_reachable_ok:
  assumes "(command_step cap maxToken)\<^sup>*\<^sup>* (command_start bytes) s"
    and "fits maxToken 0 (bytes_of StdOut bytes)" and "fits maxToken 0 (bytes_of StdErr bytes)"
  shows "command_ok cap maxToken bytes s"
  using assms(1)
  by (induction rule: rtranclp_induct) (auto intro: command_ok_start command_ok_step assms(2,3))

text \<open>A state from which nothing can happen, with an error stream that fits its pipe.\<close>

lemma command_progress:
  assumes "command_ok cap maxToken bytes s" and "0 < cap" and "length (bytes_of StdErr bytes) \<le> cap"
    and "\<nexists>s'. command_step cap maxToken s s'"
  shows "cs_phase s = Returned"
proof -
  note stuck = assms(4)
  have exit: "cs_exited s" if "cs_out s = []" "cs_errText s = []"
  proof (cases "cs_todo s")
    case Nil
    then show ?thesis using stuck process_exit by blast
  next
    case (Cons b bs)
    obtain k c where b: "b = (k, c)" by (cases b)
    have "length (cs_err s) + length (bytes_of StdErr (cs_todo s)) \<le> cap"
      using assms(1,3) that(2) by (simp add: command_ok_def) (metis length_append length_map)
    then have "\<exists>s'. command_step cap maxToken s s'"
      using Cons b that(1) assms(2) write_out [of s c bs cap maxToken] write_err [of s c bs cap maxToken]
      by (cases k) auto
    then show ?thesis using stuck by blast
  qed
  show ?thesis
  proof (cases "cs_phase s")
    case ScanOut
    have "cs_line s < maxToken" "cs_errText s = []"
      using ScanOut assms(1) by (auto simp: command_ok_def dest: fits_less)
    then show ?thesis using ScanOut stuck exit scan_out scan_out_end by (metis neq_Nil_conv)
  next
    case ScanErr
    have "cs_line s < maxToken" "cs_exited s"
      using ScanErr assms(1) by (auto simp: command_ok_def dest: fits_less)
    then show ?thesis using ScanErr stuck scan_err scan_err_end by (metis neq_Nil_conv)
  next
    case Waiting
    then show ?thesis using assms(1) stuck wait_end by (auto simp: command_ok_def)
  qed simp
qed


definition blocked :: "nat \<Rightarrow> nat \<Rightarrow> (std_stream \<times> char) list \<Rightarrow> command_state \<Rightarrow> bool" where
  "blocked cap maxToken bytes s \<longleftrightarrow> cs_phase s = ScanOut \<and> \<not> cs_exited s \<and> command_ok cap maxToken bytes s"

lemma blocked_step:
  assumes "cap < length (bytes_of StdErr bytes)"
  shows "command_step cap maxToken s s' \<Longrightarrow> blocked cap maxToken bytes s \<Longrightarrow> blocked cap maxToken bytes s'"
proof (induction rule: command_step.induct)
  case (process_exit s)
  then have "cs_err s = bytes_of StdErr bytes" "length (cs_err s) \<le> cap" by (auto simp: blocked_def command_ok_def)
  then show ?case using assms by simp
next
  case (scan_out_end s)
  then show ?case by (auto simp: blocked_def command_ok_def dest: fits_less)
qed (auto simp: blocked_def command_ok_def)

text \<open>
  C11: A command that writes more to its error stream than a pipe holds is never finished: the
  code reads that stream only after the output has ended, and the process blocks before.
\<close>

theorem runCommand_deadlocks:
  assumes "fits maxToken 0 (bytes_of StdOut bytes)" and "cap < length (bytes_of StdErr bytes)"
    and "(command_step cap maxToken)\<^sup>*\<^sup>* (command_start bytes) s"
  shows "cs_phase s = ScanOut \<and> \<not> cs_exited s"
proof -
  have "blocked cap maxToken bytes s"
    using assms(3)
  proof (induction rule: rtranclp_induct)
    case base
    show ?case using command_ok_start [OF assms(1)] by (simp add: blocked_def command_start_def)
  qed (rule blocked_step [OF assms(2)])
  then show ?thesis by (simp add: blocked_def)
qed

end
