(* ===== verification/FunctionFlags.thy ===== *)
theory FunctionFlags
  imports Flags
begin

text \<open>
  The flags that the function commands declare in their \<open>init\<close> functions under
  \<open>cmd/kubeless/function\<close>, and the reading of the flags of deploy and update by name and type.
  The lemmas connect them: every flag that is read was declared with the type it is read
  with, and what a command sees of flags that were not given is \<open>default_flags\<close>.
\<close>

section \<open>Declarations\<close>

definition deployCmd_flags :: declarations where
  "deployCmd_flags =
     [(''runtime'', FString []), (''handler'', FString []), (''from-file'', FString []), (''label'', FStrings []),
      (''secrets'', FStrings []), (''env'', FStrings []), (''node-selectors'', FStrings []),
      (''service-account'', FString []), (''namespace'', FString []), (''dependencies'', FString []),
      (''schedule'', FString []), (''memory'', FString []), (''cpu'', FString []), (''runtime-image'', FString []),
      (''image-pull-policy'', FString ''Always''), (''timeout'', FString ''180''), (''output'', FString ''yaml''),
      (''headless'', FBool False), (''dryrun'', FBool False), (''port'', FInt32 8080), (''servicePort'', FInt32 0)]"

definition updateCmd_flags :: declarations where
  "updateCmd_flags =
     [(''runtime'', FString []), (''handler'', FString []), (''from-file'', FString []), (''memory'', FString []),
      (''cpu'', FString []), (''label'', FStrings []), (''secrets'', FStrings []), (''env'', FStrings []),
      (''node-selectors'', FStrings []), (''service-account'', FString []), (''namespace'', FString []),
      (''dependencies'', FString []), (''runtime-image'', FString []), (''image-pull-policy'', FString ''Always''),
      (''timeout'', FString ''180''), (''headless'', FBool False), (''port'', FInt32 8080), (''servicePort'', FInt32 0),
      (''dryrun'', FBool False), (''output'', FString ''yaml'')]"

definition callCmd_flags :: declarations where
  "callCmd_flags = [(''data'', FString []), (''namespace'', FString [])]"

definition listCmd_flags :: declarations where
  "listCmd_flags = [(''out'', FString []), (''namespace'', FString [])]"

definition logsCmd_flags :: declarations where
  "logsCmd_flags = [(''follow'', FBool False), (''namespace'', FString [])]"

definition describeCmd_flags :: declarations where
  "describeCmd_flags = [(''out'', FString []), (''namespace'', FString [])]"

definition topCmd_flags :: declarations where
  "topCmd_flags = [(''namespace'', FString []), (''function'', FString []), (''out'', FString [])]"

definition deleteCmd_flags :: declarations where
  "deleteCmd_flags = [(''namespace'', FString [])]"

section \<open>Reading\<close>

text \<open>
  The flags of deploy in the order they are read; an error ends the process. The checks that
  the command makes in between are in \<open>deploy_function\<close>.
\<close>

definition read_deploy_flags :: "flags \<Rightarrow> 's cli \<Rightarrow> deploy_flags res \<times> 's cli" where
  "read_deploy_flags fl st =
     bind_st (flag_string fl ''runtime'' st) (\<lambda>runtime st.
     bind_st (flag_string fl ''schedule'' st) (\<lambda>schedule st.
     bind_st (flag_strings fl ''label'' st) (\<lambda>labels st.
     bind_st (flag_strings fl ''env'' st) (\<lambda>envs st.
     bind_st (flag_string fl ''handler'' st) (\<lambda>handler st.
     bind_st (flag_string fl ''from-file'' st) (\<lambda>file st.
     bind_st (flag_string fl ''namespace'' st) (\<lambda>ns st.
     bind_st (flag_string fl ''dependencies'' st) (\<lambda>deps st.
     bind_st (flag_strings fl ''secrets'' st) (\<lambda>secrets st.
     bind_st (flag_string fl ''service-account'' st) (\<lambda>serviceAccount st.
     bind_st (flag_string fl ''runtime-image'' st) (\<lambda>runtimeImage st.
     bind_st (flag_string fl ''image-pull-policy'' st) (\<lambda>imagePullPolicy st.
     bind_st (flag_string fl ''memory'' st) (\<lambda>mem st.
     bind_st (flag_string fl ''cpu'' st) (\<lambda>cpu st.
     bind_st (flag_string fl ''timeout'' st) (\<lambda>timeout st.
     bind_st (flag_string fl ''output'' st) (\<lambda>out st.
     bind_st (flag_bool fl ''headless'' st) (\<lambda>headless st.
     bind_st (flag_bool fl ''dryrun'' st) (\<lambda>dryrun st.
     bind_st (flag_int32 fl ''port'' st) (\<lambda>port st.
     bind_st (flag_int32 fl ''servicePort'' st) (\<lambda>servicePort st.
     bind_st (flag_strings fl ''node-selectors'' st) (\<lambda>nodeSelectors st.
     (Ok \<lparr>df_runtime = runtime, df_handler = handler, df_from_file = file, df_label = labels, df_secrets = secrets,
          df_env = envs, df_node_selectors = nodeSelectors, df_service_account = serviceAccount, df_namespace = ns,
          df_dependencies = deps, df_schedule = schedule, df_memory = mem, df_cpu = cpu, df_runtime_image = runtimeImage,
          df_image_pull_policy = imagePullPolicy, df_timeout = timeout, df_output = out, df_headless = headless,
          df_dryrun = dryrun, df_port = port, df_servicePort = servicePort\<rparr>, st))))))))))))))))))))))"

text \<open>Update has no schedule.\<close>

definition read_update_flags :: "flags \<Rightarrow> 's cli \<Rightarrow> deploy_flags res \<times> 's cli" where
  "read_update_flags fl st =
     bind_st (flag_string fl ''namespace'' st) (\<lambda>ns st.
     bind_st (flag_string fl ''handler'' st) (\<lambda>handler st.
     bind_st (flag_string fl ''from-file'' st) (\<lambda>file st.
     bind_st (flag_strings fl ''secrets'' st) (\<lambda>secrets st.
     bind_st (flag_string fl ''service-account'' st) (\<lambda>serviceAccount st.
     bind_st (flag_string fl ''runtime'' st) (\<lambda>runtime st.
     bind_st (flag_strings fl ''label'' st) (\<lambda>labels st.
     bind_st (flag_strings fl ''env'' st) (\<lambda>envs st.
     bind_st (flag_string fl ''runtime-image'' st) (\<lambda>runtimeImage st.
     bind_st (flag_string fl ''image-pull-policy'' st) (\<lambda>imagePullPolicy st.
     bind_st (flag_string fl ''memory'' st) (\<lambda>mem st.
     bind_st (flag_string fl ''cpu'' st) (\<lambda>cpu st.
     bind_st (flag_string fl ''timeout'' st) (\<lambda>timeout st.
     bind_st (flag_string fl ''dependencies'' st) (\<lambda>deps st.
     bind_st (flag_bool fl ''headless'' st) (\<lambda>headless st.
     bind_st (flag_int32 fl ''port'' st) (\<lambda>port st.
     bind_st (flag_int32 fl ''servicePort'' st) (\<lambda>servicePort st.
     bind_st (flag_string fl ''output'' st) (\<lambda>out st.
     bind_st (flag_bool fl ''dryrun'' st) (\<lambda>dryrun st.
     bind_st (flag_strings fl ''node-selectors'' st) (\<lambda>nodeSelectors st.
     (Ok \<lparr>df_runtime = runtime, df_handler = handler, df_from_file = file, df_label = labels, df_secrets = secrets,
          df_env = envs, df_node_selectors = nodeSelectors, df_service_account = serviceAccount, df_namespace = ns,
          df_dependencies = deps, df_schedule = [], df_memory = mem, df_cpu = cpu, df_runtime_image = runtimeImage,
          df_image_pull_policy = imagePullPolicy, df_timeout = timeout, df_output = out, df_headless = headless,
          df_dryrun = dryrun, df_port = port, df_servicePort = servicePort\<rparr>, st)))))))))))))))))))))"

section \<open>Declared flags can be read\<close>

lemma flags_for_read:
  assumes "flags_for ds chosen fl"
  shows "map_of ds n = Some (FString d) \<Longrightarrow> \<exists>v. fl_GetString fl n = Inr v \<and> (n \<notin> chosen \<longrightarrow> v = d)"
    and "map_of ds n = Some (FBool b) \<Longrightarrow> \<exists>v. fl_GetBool fl n = Inr v \<and> (n \<notin> chosen \<longrightarrow> v = b)"
    and "map_of ds n = Some (FInt32 i) \<Longrightarrow> \<exists>v. fl_GetInt32 fl n = Inr v \<and> (n \<notin> chosen \<longrightarrow> v = i)"
    and "map_of ds n = Some (FStrings l) \<Longrightarrow> \<exists>v. fl_GetStringArray fl n = Inr v \<and> (n \<notin> chosen \<longrightarrow> v = l)"
  using assms unfolding flags_for_def getter_for_def by (auto dest!: spec [of _ n])

text \<open>A flag that is declared can be read, and reading goes on.\<close>

lemma read_declared:
  assumes "flags_for ds chosen fl"
  shows "map_of ds n = Some (FString d) \<Longrightarrow> (\<And>v. n \<notin> chosen \<longrightarrow> v = d \<Longrightarrow> \<exists>df. k v st = (Ok df, st) \<and> Q df) \<Longrightarrow>
      \<exists>df. bind_st (flag_string fl n st) k = (Ok df, st) \<and> Q df"
    and "map_of ds n = Some (FBool b) \<Longrightarrow> (\<And>v. n \<notin> chosen \<longrightarrow> v = b \<Longrightarrow> \<exists>df. k' v st = (Ok df, st) \<and> Q df) \<Longrightarrow>
      \<exists>df. bind_st (flag_bool fl n st) k' = (Ok df, st) \<and> Q df"
    and "map_of ds n = Some (FInt32 i) \<Longrightarrow> (\<And>v. n \<notin> chosen \<longrightarrow> v = i \<Longrightarrow> \<exists>df. k'' v st = (Ok df, st) \<and> Q df) \<Longrightarrow>
      \<exists>df. bind_st (flag_int32 fl n st) k'' = (Ok df, st) \<and> Q df"
    and "map_of ds n = Some (FStrings l) \<Longrightarrow> (\<And>v. n \<notin> chosen \<longrightarrow> v = l \<Longrightarrow> \<exists>df. h v st = (Ok df, st) \<and> Q df) \<Longrightarrow>
      \<exists>df. bind_st (flag_strings fl n st) h = (Ok df, st) \<and> Q df"
  using flags_for_read [OF assms, of n] by fastforce+

text \<open>
  Every flag that deploy and update read was declared with the type they read it with, so
  reading the flags never ends the command; when no flag was given, both work with the
  declared defaults, among them the port 8080, the timeout of 180 seconds and the pull policy
  \<open>Always\<close>.
\<close>

theorem function_flags_declared:
  assumes "flags_for deployCmd_flags chosen fl" and "flags_for updateCmd_flags chosen' fl'"
  shows "(\<exists>df. read_deploy_flags fl st = (Ok df, st) \<and> (chosen = {} \<longrightarrow> df = default_flags)) \<and>
    (\<exists>df. read_update_flags fl' st = (Ok df, st) \<and> (chosen' = {} \<longrightarrow> df = default_flags))"
proof
  show "\<exists>df. read_deploy_flags fl st = (Ok df, st) \<and> (chosen = {} \<longrightarrow> df = default_flags)"
    unfolding read_deploy_flags_def
    by (rule read_declared(1,3,4) [OF assms(1)] read_declared(2) [OF assms(1), where b = False], simp add: deployCmd_flags_def)+ (simp add: default_flags_def)
next
  show "\<exists>df. read_update_flags fl' st = (Ok df, st) \<and> (chosen' = {} \<longrightarrow> df = default_flags)"
    unfolding read_update_flags_def
    by (rule read_declared(1,3,4) [OF assms(2)] read_declared(2) [OF assms(2), where b = False], simp add: updateCmd_flags_def)+ (simp add: default_flags_def)
qed

end
