(* ===== verification/DeepCopy.thy ===== *)
theory DeepCopy
  imports KubeTypes
begin

text \<open>
  The generated deep copies of \<open>pkg/apis/kubeless/v1beta1/zz_generated.deepcopy.go\<close>. What matters
  of a deep copy is what it does not share, so functions are modelled here with the memory
  they refer to: a field of a Kubernetes type is its value and the address of the memory behind
  its maps, slices and pointers, and a list holds addresses of functions. Memory is allocated
  upwards from the next free address. The deep copies of the Kubernetes types are parameters:
  they keep the value and refer to memory that was allocated for the copy.
\<close>

section \<open>Memory\<close>

record 'a part =
  p_val :: 'a
  p_ref :: nat

record spec_struct =
  sp_Strings :: "string list"
  sp_Deployment :: "deployment part"
  sp_ServiceSpec :: "service_spec part"
  sp_HPA :: "hpa part"

record function_struct =
  fu_TypeMeta :: "string \<times> string"
  fu_ObjectMeta :: "object_meta part"
  fu_Spec :: spec_struct

record list_struct =
  ls_TypeMeta :: "string \<times> string"
  ls_ListMeta :: string
  ls_Items :: "(nat \<times> nat option list) option"

record memory =
  me_heap :: "nat \<Rightarrow> function_struct option"
  me_next :: nat

type_synonym 'a copier = "'a part \<Rightarrow> nat \<Rightarrow> 'a part \<times> nat"

record copiers =
  co_ObjectMeta :: "object_meta copier"
  co_Deployment :: "deployment copier"
  co_ServiceSpec :: "service_spec copier"
  co_HPA :: "hpa copier"

section \<open>Copies\<close>

definition FunctionSpec_DeepCopyInto :: "copiers \<Rightarrow> spec_struct \<Rightarrow> nat \<Rightarrow> spec_struct \<times> nat" where
  "FunctionSpec_DeepCopyInto co inp n =
     (let out = inp;
          (d, n) = co_Deployment co (sp_Deployment inp) n; out = out\<lparr>sp_Deployment := d\<rparr>;
          (v, n) = co_ServiceSpec co (sp_ServiceSpec inp) n; out = out\<lparr>sp_ServiceSpec := v\<rparr>;
          (h, n) = co_HPA co (sp_HPA inp) n; out = out\<lparr>sp_HPA := h\<rparr>
      in (out, n))"

definition FunctionSpec_DeepCopy :: "copiers \<Rightarrow> spec_struct option \<Rightarrow> nat \<Rightarrow> spec_struct option \<times> nat" where
  "FunctionSpec_DeepCopy co inp n =
     (case inp of None \<Rightarrow> (None, n) | Some s \<Rightarrow> (case FunctionSpec_DeepCopyInto co s n of (out, n') \<Rightarrow> (Some out, n')))"

definition Function_DeepCopyInto :: "copiers \<Rightarrow> function_struct \<Rightarrow> nat \<Rightarrow> function_struct \<times> nat" where
  "Function_DeepCopyInto co inp n =
     (let out = inp;
          out = out\<lparr>fu_TypeMeta := fu_TypeMeta inp\<rparr>;
          (m, n) = co_ObjectMeta co (fu_ObjectMeta inp) n; out = out\<lparr>fu_ObjectMeta := m\<rparr>;
          (s, n) = FunctionSpec_DeepCopyInto co (fu_Spec inp) n; out = out\<lparr>fu_Spec := s\<rparr>
      in (out, n))"

text \<open>A new function: its address, and the copy written there.\<close>

definition new_copy :: "copiers \<Rightarrow> function_struct \<Rightarrow> memory \<Rightarrow> nat \<times> memory" where
  "new_copy co f me =
     (let a = me_next me; (out, n) = Function_DeepCopyInto co f (Suc a)
      in (a, \<lparr>me_heap = (me_heap me)(a \<mapsto> out), me_next = n\<rparr>))"

text \<open>A nil pointer is copied to nil; an address without a function does not occur.\<close>

definition Function_DeepCopy :: "copiers \<Rightarrow> nat option \<Rightarrow> memory \<Rightarrow> nat option res \<times> memory" where
  "Function_DeepCopy co inp me =
     (case inp of
        None \<Rightarrow> (Ok None, me)
      | Some a \<Rightarrow>
          (case me_heap me a of
             None \<Rightarrow> (Panic NilDereference, me)
           | Some f \<Rightarrow> (case new_copy co f me of (b, me') \<Rightarrow> (Ok (Some b), me'))))"

fun copy_items :: "copiers \<Rightarrow> nat option list \<Rightarrow> memory \<Rightarrow> nat option list res \<times> memory" where
  "copy_items co [] me = (Ok [], me)"
| "copy_items co (p # ps) me =
     bind_st (Function_DeepCopy co p me) (\<lambda>q me.
     bind_st (copy_items co ps me) (\<lambda>qs me. (Ok (q # qs), me)))"

definition FunctionList_DeepCopyInto :: "copiers \<Rightarrow> list_struct \<Rightarrow> memory \<Rightarrow> list_struct res \<times> memory" where
  "FunctionList_DeepCopyInto co inp me =
     (let out = inp; out = out\<lparr>ls_TypeMeta := ls_TypeMeta inp\<rparr>; out = out\<lparr>ls_ListMeta := ls_ListMeta inp\<rparr> in
      case ls_Items inp of
        None \<Rightarrow> (Ok out, me)
      | Some (a, items) \<Rightarrow>
          (let b = me_next me; me = me\<lparr>me_next := Suc b\<rparr> in
           bind_st (copy_items co items me) (\<lambda>items' me. (Ok (out\<lparr>ls_Items := Some (b, items')\<rparr>), me))))"

definition FunctionList_DeepCopy :: "copiers \<Rightarrow> list_struct option \<Rightarrow> memory \<Rightarrow> list_struct option res \<times> memory" where
  "FunctionList_DeepCopy co inp me =
     (case inp of
        None \<Rightarrow> (Ok None, me)
      | Some l \<Rightarrow> bind_st (FunctionList_DeepCopyInto co l me) (\<lambda>out me. (Ok (Some out), me)))"

text \<open>The same behind the interface of runtime objects: a nil pointer becomes a nil interface.\<close>

definition Function_DeepCopyObject :: "copiers \<Rightarrow> nat option \<Rightarrow> memory \<Rightarrow> nat option res \<times> memory" where
  "Function_DeepCopyObject co inp me =
     bind_st (Function_DeepCopy co inp me) (\<lambda>c me. case c of Some a \<Rightarrow> (Ok (Some a), me) | None \<Rightarrow> (Ok None, me))"

definition FunctionList_DeepCopyObject :: "copiers \<Rightarrow> list_struct option \<Rightarrow> memory \<Rightarrow> list_struct option res \<times> memory" where
  "FunctionList_DeepCopyObject co inp me =
     bind_st (FunctionList_DeepCopy co inp me) (\<lambda>c me. case c of Some l \<Rightarrow> (Ok (Some l), me) | None \<Rightarrow> (Ok None, me))"

section \<open>Nothing is shared\<close>

definition copier_law :: "'a copier \<Rightarrow> bool" where
  "copier_law cp \<longleftrightarrow> (\<forall>p n. p_val (fst (cp p n)) = p_val p \<and> n \<le> p_ref (fst (cp p n)) \<and> p_ref (fst (cp p n)) < snd (cp p n))"

definition copiers_laws :: "copiers \<Rightarrow> bool" where
  "copiers_laws co \<longleftrightarrow> copier_law (co_ObjectMeta co) \<and> copier_law (co_Deployment co) \<and>
     copier_law (co_ServiceSpec co) \<and> copier_law (co_HPA co)"

text \<open>The same function, apart from the memory it refers to.\<close>

definition same_spec :: "spec_struct \<Rightarrow> spec_struct \<Rightarrow> bool" where
  "same_spec s t \<longleftrightarrow> sp_Strings s = sp_Strings t \<and> p_val (sp_Deployment s) = p_val (sp_Deployment t) \<and>
     p_val (sp_ServiceSpec s) = p_val (sp_ServiceSpec t) \<and> p_val (sp_HPA s) = p_val (sp_HPA t)"

definition same_function :: "function_struct \<Rightarrow> function_struct \<Rightarrow> bool" where
  "same_function f g \<longleftrightarrow> fu_TypeMeta f = fu_TypeMeta g \<and> p_val (fu_ObjectMeta f) = p_val (fu_ObjectMeta g) \<and>
     same_spec (fu_Spec f) (fu_Spec g)"

definition spec_refs :: "spec_struct \<Rightarrow> nat list" where
  "spec_refs s = [p_ref (sp_Deployment s), p_ref (sp_ServiceSpec s), p_ref (sp_HPA s)]"

definition function_refs :: "function_struct \<Rightarrow> nat list" where
  "function_refs f = p_ref (fu_ObjectMeta f) # spec_refs (fu_Spec f)"

text \<open>Memory that was allocated between two moments.\<close>

abbreviation between :: "nat \<Rightarrow> nat \<Rightarrow> nat list \<Rightarrow> bool" where
  "between n n' rs \<equiv> distinct rs \<and> (\<forall>r \<in> set rs. n \<le> r \<and> r < n')"

lemma between_append: "between n n1 rs \<Longrightarrow> between n1 n2 qs \<Longrightarrow> n \<le> n1 \<Longrightarrow> n1 \<le> n2 \<Longrightarrow> between n n2 (rs @ qs)"
  by force

lemma copier_lawE:
  assumes "copier_law cp" and "cp p n = (q, n')"
  shows "p_val q = p_val p \<and> n \<le> p_ref q \<and> p_ref q < n'"
  using assms unfolding copier_law_def by (metis fst_conv snd_conv)

lemma FunctionSpec_DeepCopyInto_fresh:
  assumes "copiers_laws co" and "FunctionSpec_DeepCopyInto co s n = (t, n')"
  shows "same_spec t s \<and> between n n' (spec_refs t) \<and> n < n'"
proof -
  obtain d n1 v n2 h n3 where c: "co_Deployment co (sp_Deployment s) n = (d, n1)" "co_ServiceSpec co (sp_ServiceSpec s) n1 = (v, n2)"
      "co_HPA co (sp_HPA s) n2 = (h, n3)"
    by (metis prod.collapse)
  have "copier_law (co_Deployment co)" "copier_law (co_ServiceSpec co)" "copier_law (co_HPA co)"
    using assms(1) by (simp_all add: copiers_laws_def)
  with c show ?thesis
    using assms(2) copier_lawE [of "co_Deployment co"] copier_lawE [of "co_ServiceSpec co"] copier_lawE [of "co_HPA co"]
    by (fastforce simp: FunctionSpec_DeepCopyInto_def Let_def same_spec_def spec_refs_def)
qed

lemma Function_DeepCopyInto_fresh:
  assumes "copiers_laws co" and "Function_DeepCopyInto co f n = (g, n')"
  shows "same_function g f \<and> between n n' (function_refs g) \<and> n < n'"
proof -
  obtain m n1 s n2 where c: "co_ObjectMeta co (fu_ObjectMeta f) n = (m, n1)" "FunctionSpec_DeepCopyInto co (fu_Spec f) n1 = (s, n2)"
    by (metis prod.collapse)
  have "copier_law (co_ObjectMeta co)" using assms(1) by (simp add: copiers_laws_def)
  note m = copier_lawE [OF this c(1)] and s = FunctionSpec_DeepCopyInto_fresh [OF assms(1) c(2)]
  have "between n n2 ([p_ref m] @ spec_refs s)"
    using m s by (intro between_append [of _ _ n1]) auto
  then show ?thesis
    using assms(2) m s by (simp add: Function_DeepCopyInto_def c Let_def) (auto simp: same_function_def function_refs_def)
qed

definition allocated :: "memory \<Rightarrow> bool" where
  "allocated me \<longleftrightarrow> (\<forall>a f. me_heap me a = Some f \<longrightarrow> a < me_next me)"

definition extends :: "memory \<Rightarrow> memory \<Rightarrow> bool" where
  "extends me me' \<longleftrightarrow> me_next me \<le> me_next me' \<and> (\<forall>a < me_next me. me_heap me' a = me_heap me a) \<and> allocated me'"

text \<open>What an item of a list refers to, and a copy of an item.\<close>

definition item_refs :: "memory \<Rightarrow> nat option \<Rightarrow> nat list" where
  "item_refs me q = (case q of None \<Rightarrow> [] | Some b \<Rightarrow> b # (case me_heap me b of None \<Rightarrow> [] | Some g \<Rightarrow> function_refs g))"

definition copied :: "memory \<Rightarrow> memory \<Rightarrow> nat option \<Rightarrow> nat option \<Rightarrow> bool" where
  "copied me me' p q =
     (case (p, q) of
        (None, None) \<Rightarrow> True
      | (Some a, Some b) \<Rightarrow>
          (\<exists>f g. me_heap me a = Some f \<and> me_heap me' b = Some g \<and> same_function g f)
      | _ \<Rightarrow> False)"

lemma extends_trans: "extends me me' \<Longrightarrow> extends me' me'' \<Longrightarrow> extends me me''"
  by (auto simp: extends_def)

lemma Function_DeepCopy_fresh:
  assumes "copiers_laws co" and "allocated me" and "\<forall>a. p = Some a \<longrightarrow> me_heap me a \<noteq> None"
  shows "\<exists>q me'. Function_DeepCopy co p me = (Ok q, me') \<and> extends me me' \<and> copied me me' p q \<and>
    between (me_next me) (me_next me') (item_refs me' q)"
proof (cases p)
  case None
  then show ?thesis using assms(2) by (simp add: Function_DeepCopy_def extends_def copied_def item_refs_def)
next
  case (Some a)
  then obtain f where f: "me_heap me a = Some f" using assms(3) by auto
  obtain g n where g: "Function_DeepCopyInto co f (Suc (me_next me)) = (g, n)" by (metis prod.collapse)
  note fresh = Function_DeepCopyInto_fresh [OF assms(1) g]
  have "Function_DeepCopy co p me = (Ok (Some (me_next me)), \<lparr>me_heap = (me_heap me)(me_next me \<mapsto> g), me_next = n\<rparr>)"
    by (simp add: Function_DeepCopy_def Some f new_copy_def g Let_def)
  then show ?thesis
    using fresh assms(2) f by (auto simp: extends_def allocated_def copied_def item_refs_def Some dest: Suc_leD)
qed

lemma copied_later: "copied me me' p q \<Longrightarrow> allocated me' \<Longrightarrow> extends me' me'' \<Longrightarrow> copied me me'' p q"
  by (auto simp: copied_def extends_def allocated_def split: option.splits)

lemma copied_earlier:
  "copied me1 me' p q \<Longrightarrow> extends me me1 \<Longrightarrow> allocated me \<Longrightarrow> \<forall>a. p = Some a \<longrightarrow> me_heap me a \<noteq> None \<Longrightarrow> copied me me' p q"
  by (auto simp: copied_def extends_def allocated_def split: option.splits)

lemma item_refs_later:
  "copied me me' p q \<Longrightarrow> allocated me' \<Longrightarrow> extends me' me'' \<Longrightarrow> item_refs me'' q = item_refs me' q"
  by (auto simp: item_refs_def copied_def extends_def allocated_def split: option.splits)

lemma copy_items_fresh:
  assumes "copiers_laws co"
  shows "allocated me \<Longrightarrow> \<forall>a. Some a \<in> set ps \<longrightarrow> me_heap me a \<noteq> None \<Longrightarrow>
    \<exists>qs me'. copy_items co ps me = (Ok qs, me') \<and> extends me me' \<and> list_all2 (copied me me') ps qs \<and>
      between (me_next me) (me_next me') (concat (map (item_refs me') qs))"
proof (induction ps arbitrary: me)
  case Nil
  then show ?case by (simp add: extends_def)
next
  case (Cons p ps)
  obtain q me1 where q: "Function_DeepCopy co p me = (Ok q, me1)" "extends me me1" "copied me me1 p q"
      "between (me_next me) (me_next me1) (item_refs me1 q)"
    using Function_DeepCopy_fresh [OF assms Cons.prems(1), of p] Cons.prems(2) by auto
  have a1: "allocated me1" using q(2) by (simp add: extends_def)
  have "me_heap me1 a \<noteq> None" if "Some a \<in> set ps" for a
    using that Cons.prems q(2) by (auto simp: extends_def allocated_def)
  then obtain qs me' where qs: "copy_items co ps me1 = (Ok qs, me')" "extends me1 me'" "list_all2 (copied me1 me') ps qs"
      "between (me_next me1) (me_next me') (concat (map (item_refs me') qs))"
    using Cons.IH [OF a1] by blast
  have "list_all2 (copied me me') ps qs"
    using qs(3)
    by (rule list.rel_mono_strong) (use Cons.prems q(2) copied_earlier in fastforce)
  moreover have "copied me me' p q" using q(3) a1 qs(2) by (rule copied_later)
  moreover have "between (me_next me) (me_next me') (item_refs me' q @ concat (map (item_refs me') qs))"
    using between_append [of "item_refs me1 q" "me_next me" "me_next me1" "concat (map (item_refs me') qs)" "me_next me'"]
      q(2,4) qs(2,4) item_refs_later [OF q(3) a1 qs(2)] by (simp add: extends_def)
  ultimately show ?case
    using q(1) qs(1) extends_trans [OF q(2) qs(2)] by (auto simp del: distinct_append)
qed

text \<open>
  C14: A deep copy of a list of functions has the same functions in the same places, nil where
  the list has nil, and shares no memory with anything that was there before: the array, the
  functions and everything they refer to are new and pairwise different, and the memory that
  was there is unchanged.
\<close>

theorem FunctionList_DeepCopy_fresh:
  assumes "copiers_laws co" and "allocated me" and "ls_Items l = Some (a, ps)"
    and "\<forall>b. Some b \<in> set ps \<longrightarrow> me_heap me b \<noteq> None"
  shows "\<exists>a' qs me'. FunctionList_DeepCopy co (Some l) me = (Ok (Some (l\<lparr>ls_Items := Some (a', qs)\<rparr>)), me') \<and>
    list_all2 (copied me me') ps qs \<and> (\<forall>b < me_next me. me_heap me' b = me_heap me b) \<and>
    between (me_next me) (me_next me') (a' # concat (map (item_refs me') qs))"
proof -
  let ?me = "me\<lparr>me_next := Suc (me_next me)\<rparr>"
  have "allocated ?me" using assms(2) by (auto simp: allocated_def intro: less_SucI)
  then obtain qs me' where qs: "copy_items co ps ?me = (Ok qs, me')" "extends ?me me'" "list_all2 (copied ?me me') ps qs"
      "between (Suc (me_next me)) (me_next me') (concat (map (item_refs me') qs))"
    using copy_items_fresh [OF assms(1), of ?me ps] assms(4) by auto
  have "copied ?me me' = copied me me'" by (auto simp: copied_def fun_eq_iff split: option.splits)
  moreover have "between (me_next me) (me_next me') ([me_next me] @ concat (map (item_refs me') qs))"
    using qs(2,4) by (intro between_append [of _ _ "Suc (me_next me)"]) (auto simp: extends_def)
  moreover have "FunctionList_DeepCopy co (Some l) me = (Ok (Some (l\<lparr>ls_Items := Some (me_next me, qs)\<rparr>)), me')"
    using qs(1) by (simp add: FunctionList_DeepCopy_def FunctionList_DeepCopyInto_def assms(3) Let_def)
  ultimately show ?thesis using qs(2,3) by (auto simp: extends_def less_SucI)
qed

end
