(* ===== verification/Converge.thy ===== *)
theory Converge
  imports Ensure
begin

text \<open>
  What repeated reconciliation makes of the service of a function on a server that stores
  objects: the ports, labels and owner become those of the function, and the rest of a service
  that existed stays as it was.
\<close>

context ensure_object
begin

text \<open>Ensuring an object on a store: created when it is missing, overwritten when it is ours.\<close>

lemma ensured_on_store:
  assumes "ready"
    and "stored s = None \<or> (\<exists>x. stored s = Some x \<and> hasDefaultLabel (om_Labels (meta x)))"
    and create_fresh: "stored s = None \<Longrightarrow> fst (create s) = Inr new \<and> stored (snd (create s)) = Some new"
    and create_taken: "stored s \<noteq> None \<Longrightarrow> (\<exists>e. fst (create s) = Inl e \<and> IsAlreadyExists e) \<and> stored (snd (create s)) = stored s"
    and get: "\<And>s x. stored s = Some x \<Longrightarrow> fst (get s) = Inr x" "\<And>s. stored (snd (get s)) = stored s"
    and overwrite: "\<And>s' x. stored s = Some x \<Longrightarrow> stored s' = Some x \<Longrightarrow>
      fst (overwrite x s') = Inr (revised x) \<and> stored (snd (overwrite x s')) = Some (revised x)"
  shows "fst (ensure s) = Ok () \<and>
    stored (snd (ensure s)) = Some (case stored s of None \<Rightarrow> new | Some x \<Rightarrow> revised x)"
proof (cases "stored s")
  case None
  then obtain s1 where "create s = (Inr new, s1)" "stored s1 = Some new"
    using create_fresh by (metis prod.collapse)
  then show ?thesis using created [OF assms(1)] None by simp
next
  case (Some x)
  then show ?thesis
    using owned_object_overwritten [where stored = stored and s = s and x = x and y = "revised x", OF assms(1)]
      assms(2) create_taken get overwrite by simp
qed

end

text \<open>What the stored service of a function has to look like, and what the server keeps of it.\<close>

definition service_for :: "kfunction \<Rightarrow> owner_reference list \<Rightarrow> service \<Rightarrow> bool" where
  "service_for f ors svc \<longleftrightarrow>
     ss_Ports (svc_Spec svc) = ss_Ports (serviceSpec (labelled_function f)) \<and> om_OwnerReferences (svc_Meta svc) = ors \<and>
     om_Labels (svc_Meta svc) = addDefaultLabel (f_Labels f) \<and> om_Name (svc_Meta svc) = f_Name f"

definition keeps_service :: "(string \<Rightarrow> service \<Rightarrow> service) \<Rightarrow> bool" where
  "keeps_service norm \<longleftrightarrow>
     (\<forall>ns svc. ss_Ports (svc_Spec (norm ns svc)) = ss_Ports (svc_Spec svc) \<and>
        ss_Selector (svc_Spec (norm ns svc)) = ss_Selector (svc_Spec svc) \<and>
        om_Name (svc_Meta (norm ns svc)) = om_Name (svc_Meta svc) \<and> om_Labels (svc_Meta (norm ns svc)) = om_Labels (svc_Meta svc) \<and>
        om_OwnerReferences (svc_Meta (norm ns svc)) = om_OwnerReferences (svc_Meta svc))"


end
