(* ===== verification/ClientInstances.thy ===== *)
theory ClientInstances
  imports Instances Startup RunCommand FunctionFlags DeepCopy Converge
begin

text \<open>
  Concrete instances for the generated clients, informers and listers, and for the programs
  that are built from them: a server and a tracker kept in memory that satisfy the laws stated
  of them, and one application of each property.
\<close>

section \<open>A server in memory\<close>

definition mem_rules :: server_rules where
  "mem_rules =
     \<lparr>sr_valid = (\<lambda>f. True),
      sr_admit = (\<lambda>ns f. f\<lparr>f_Meta := (f_Meta f)\<lparr>om_Namespace := ns, om_ResourceVersion := ''1'', om_DeletionTimestamp := None\<rparr>\<rparr>),
      sr_revise = (\<lambda>g f. f\<lparr>f_Meta := (f_Meta f)\<lparr>om_Namespace := f_Namespace g, om_ResourceVersion := CHR ''1'' # f_Version g,
         om_DeletionTimestamp := om_DeletionTimestamp (f_Meta g)\<rparr>\<rparr>),
      sr_mark = (\<lambda>g. g\<lparr>f_Meta := (f_Meta g)\<lparr>om_DeletionTimestamp := Some (TimePtr 0 0)\<rparr>\<rparr>)\<rparr>"

lemma mem_rules_laws: "server_laws mem_rules"
  by (simp add: server_laws_def same_content_def mem_rules_def)

definition op_of_request :: "api_request \<Rightarrow> store_op option" where
  "op_of_request rq =
     (case (ar_Verb rq, ar_Name rq, ar_Body rq) of
        (GET, Some n, None) \<Rightarrow> Some (GetOp (ar_Namespace rq) n)
      | (POST, None, Some (FunctionBody f)) \<Rightarrow> Some (CreateOp (ar_Namespace rq) f)
      | (PUT, Some n, Some (FunctionBody f)) \<Rightarrow> if n = f_Name f then Some (UpdateOp (ar_Namespace rq) f) else None
      | (DELETE, Some n, _) \<Rightarrow> Some (DeleteOp (ar_Namespace rq) n)
      | _ \<Rightarrow> None)"

definition serve :: "server_rules \<Rightarrow> api_request \<Rightarrow> kfunction store \<Rightarrow> store_answer \<times> kfunction store" where
  "serve ru rq st = (case op_of_request rq of None \<Rightarrow> (Refused, st) | Some op \<Rightarrow> api_step ru op st)"

definition answer_error :: "store_answer \<Rightarrow> gerror option" where
  "answer_error a =
     (case a of Missing \<Rightarrow> Some not_found | Exists \<Rightarrow> Some already_exists | Refused \<Rightarrow> Some (Errorf ''refused'') | _ \<Rightarrow> None)"

definition answer_function :: "store_answer \<Rightarrow> kfunction \<times> gerror option" where
  "answer_function a = (case a of Stored f \<Rightarrow> f | _ \<Rightarrow> zero_function, answer_error a)"

definition mem_rest :: "(kfunction store, unit) rest_interface" where
  "mem_rest =
     \<lparr>ri_IntoFunction = (\<lambda>rq st. map_prod answer_function id (serve mem_rules rq st)),
      ri_IntoList = (\<lambda>rq st. ((zero_function_list, None), st)),
      ri_Error = (\<lambda>rq st. map_prod answer_error id (serve mem_rules rq st)),
      ri_Watch = (\<lambda>rq st. ((Some (), None), st))\<rparr>"

lemma op_of_request_of: "op_of_request (api_request_of op) = Some op"
  by (cases op) (auto simp: op_of_request_def)

lemma answer_round:
  assumes "fst (api_step ru op st) = a"
  shows "case op of DeleteOp ns n \<Rightarrow> delete_answer (answer_error a) = a | _ \<Rightarrow> function_answer (answer_function a) = a"
proof -
  have "function_answer (answer_function a) = a" if "a = Missing \<or> a = Exists \<or> a = Refused \<or> (\<exists>f. a = Stored f)"
    using that by (auto simp: function_answer_def answer_function_def answer_error_def error_answer_def not_found_def already_exists_def)
  moreover have "delete_answer (answer_error a) = a" if "a = Missing \<or> a = Deleted"
    using that by (auto simp: delete_answer_def answer_error_def error_answer_def not_found_def)
  ultimately show ?thesis
    using assms by (cases op) (auto simp: Let_def split: option.splits if_splits)
qed

lemma mem_rest_implements: "rest_implements mem_rest mem_rules id"
  unfolding rest_implements_def
proof (intro allI impI)
  fix s :: "kfunction store" and op
  show "map_prod id id (rest_exchange mem_rest op s) = api_step mem_rules op (id s)"
    using answer_round [of mem_rules op s]
    by (cases op; cases "api_step mem_rules op s")
       (auto simp: rest_exchange_def mem_rest_def serve_def op_of_request_of simp del: api_step.simps api_request_of.simps)
qed

definition stored_hello :: kfunction where
  "stored_hello = sr_admit mem_rules ''ns'' hello"

definition one_function :: "kfunction store" where
  "one_function = put_obj (\<lambda>ns n. None) ''ns'' ''get'' stored_hello"

lemmas mem_defs = stored_hello_def one_function_def mem_rules_def hello_def zero_function_def zero_meta_def

text \<open>Creating the function twice, reading and deleting it.\<close>

definition some_ops :: "store_op list" where
  "some_ops = [CreateOp ''ns'' hello, CreateOp ''ns'' hello, GetOp ''ns'' ''get'', DeleteOp ''ns'' ''get'', GetOp ''ns'' ''get'']"

lemma some_ops_valid: "list_all (valid_op mem_rules) some_ops" "list_all plain_op some_ops"
  by (simp_all add: some_ops_def mem_defs)

lemma some_ops_answers:
  "fst (run_ops (api_step mem_rules) some_ops (\<lambda>ns n. None)) = [Stored stored_hello, Exists, Stored stored_hello, Deleted, Missing]"
  by (simp add: some_ops_def put_obj_def del_obj_def mem_defs)


section \<open>Finalizers\<close>

definition held_hello :: kfunction where
  "held_hello = set_Finalizers [functionFinalizer] stored_hello"

definition held_store :: "kfunction store" where
  "held_store = put_obj (\<lambda>ns n. None) ''ns'' ''get'' held_hello"


definition to_json :: "kfunction \<Rightarrow> gerror + string" where
  "to_json f = Inr (f_Name f)"

theorem finalizer_lifecycle_witness:
  "\<exists>s1 s2 s3 s4 s5 g e.
    FunctionObjAddFinalizer (function_client to_json (typed_functions mem_rest)) stored_hello functionFinalizer one_function = (Ok (), s1) \<and>
    DeleteFunctionCustomResource (function_client to_json (typed_functions mem_rest)) ''get'' ''ns'' s1 = (Ok (), s2) \<and>
    GetFunctionCustomResource (function_client to_json (typed_functions mem_rest)) ''get'' ''ns'' s2 = (Ok g, s3) \<and>
    marked g \<and> f_Spec g = f_Spec stored_hello \<and> f_Finalizers g = [functionFinalizer] \<and>
    FunctionObjRemoveFinalizer (function_client to_json (typed_functions mem_rest)) g functionFinalizer s3 = (Ok (), s4) \<and>
    GetFunctionCustomResource (function_client to_json (typed_functions mem_rest)) ''get'' ''ns'' s4 = (Err e, s5) \<and> IsNotFound e"
  by (rule finalizer_lifecycle [OF mem_rest_implements mem_rules_laws]) (simp_all add: mem_defs)

section \<open>A tracker in memory\<close>

definition keep_object :: "string \<Rightarrow> kfunction \<Rightarrow> kfunction" where
  "keep_object ns f = f"

fun op_of_action :: "fake_action \<Rightarrow> store_op option" where
  "op_of_action (GetAction r ns n) = Some (GetOp ns n)"
| "op_of_action (CreateAction r ns f) = Some (CreateOp ns f)"
| "op_of_action (UpdateAction r ns f) = Some (UpdateOp ns f)"
| "op_of_action (DeleteAction r ns n) = Some (DeleteOp ns n)"
| "op_of_action _ = None"

definition answer_object :: "store_answer \<Rightarrow> runtime_object option \<times> gerror option" where
  "answer_object a = (case a of Stored f \<Rightarrow> Some (FunctionObj f) | _ \<Rightarrow> None, answer_error a)"

definition mem_fake :: "(kfunction store, unit) testing_fake" where
  "mem_fake =
     \<lparr>tf_Invokes = (\<lambda>action d st. case op_of_action action of
         None \<Rightarrow> ((None, Some not_found), st)
       | Some op \<Rightarrow> map_prod answer_object id (tracker_step keep_object op st)),
      tf_InvokesWatch = (\<lambda>action st. ((Some (), None), st))\<rparr>"

lemma mem_fake_implements: "fake_implements mem_fake keep_object id"
  unfolding fake_implements_def
proof (intro allI)
  fix s :: "kfunction store" and op
  have "op_of_action (action_of op) = Some op" by (cases op) auto
  then show "map_prod (reaction_answer op) id (tf_Invokes mem_fake (action_of op) (FunctionObj zero_function) s) =
      tracker_step keep_object op (id s)"
    by (cases op)
       (auto simp: mem_fake_def reaction_answer_def answer_object_def answer_error_def delete_answer_def error_answer_def
          not_found_def already_exists_def split: option.splits)
qed

lemma keep_object_laws: "tracker_laws keep_object"
  by (simp add: tracker_laws_def keep_object_def same_content_def)

definition no_labels :: "unit label_lib" where
  "no_labels = \<lparr>ll_ExtractFromListOptions = (\<lambda>o'. None), ll_Matches = (\<lambda>l ls. True), ll_Everything = ()\<rparr>"


section \<open>Informers and listers\<close>

definition new_factory :: "(unit, nat) sharedInformerFactory" where
  "new_factory = NewFilteredSharedInformerFactory () 0 ''ns'' None"

definition asked_factory :: "(unit, nat) sharedInformerFactory" where
  "asked_factory = snd (InformerFor ''t'' (\<lambda>c r. 7) new_factory)"

definition started_factory :: "(unit, nat) sharedInformerFactory" where
  "started_factory = snd (Start [(''t'', 7)] asked_factory)"

lemmas factory_defs = new_factory_def asked_factory_def started_factory_def NewFilteredSharedInformerFactory_def
  InformerFor_def Start_def

lemma factory_run:
  "factory_step\<^sup>*\<^sup>* (NewFilteredSharedInformerFactory () 0 ''ns'' None, []) (asked_factory, [])"
  "factory_step\<^sup>*\<^sup>* (asked_factory, []) (started_factory, [(''t'', 7)])"
proof -
  show "factory_step\<^sup>*\<^sup>* (NewFilteredSharedInformerFactory () 0 ''ns'' None, []) (asked_factory, [])"
    unfolding asked_factory_def new_factory_def by (intro r_into_rtranclp step_informer)
  have "enumerates [(''t'', 7)] asked_factory" by (simp add: enumerates_def factory_defs)
  from step_start [OF this, of "[]"] show "factory_step\<^sup>*\<^sup>* (asked_factory, []) (started_factory, [(''t'', 7)])"
    by (simp add: factory_defs r_into_rtranclp)
qed

theorem informers_run_once_witness:
  "fst (InformerFor ''t'' (\<lambda>c r. 9) started_factory) = 7 \<and> sf_startedInformers started_factory ''t''"
  using informers_run_once [OF factory_run, of "\<lambda>c r. 9"] by simp

definition one_index :: "unit cache_indexer" where
  "one_index =
     \<lparr>ix_GetByKey = (\<lambda>k. (map_option FunctionObj (find (\<lambda>f. cache_key f = k) [hello]), None)),
      ix_ListAll = (\<lambda>sel. (map FunctionObj [hello], None)),
      ix_ListAllByNamespace = (\<lambda>ns sel. (map FunctionObj (filter (\<lambda>f. f_Namespace f = ns) [hello]), None))\<rparr>"

theorem lister_consistent_witness:
  "\<exists>fs. functionNamespaceLister_List (functionLister_Functions one_index ''ns'') () = Ok (fs, None) \<and>
    (\<forall>f. f \<in> set fs \<longleftrightarrow> functionNamespaceLister_Get (functionLister_Functions one_index ''ns'') (f_Name f) = Ok f)"
proof -
  have "indexer_laws one_index (\<lambda>sel ls. True) [hello]"
    by (simp add: indexer_laws_def one_index_def)
  from lister_consistent [OF this, of "''ns''" "()"] show ?thesis by (auto simp: hello_def zero_meta_def)
qed

section \<open>Services\<close>

definition svc_server :: "service store clientset" where
  "svc_server =
     \<lparr>ConfigMaps = mem_client (\<lambda>cm. om_Name (cm_Meta cm)) (\<lambda>st ns n. None) (\<lambda>st s. s),
       Services = mem_client (\<lambda>v. om_Name (svc_Meta v)) (\<lambda>st. st) (\<lambda>st s. st),
       Deployments = mem_client (\<lambda>d. om_Name (d_Meta d)) (\<lambda>st ns n. None) (\<lambda>st s. s),
       Jobs = mem_client (\<lambda>j. om_Name (j_Meta j)) (\<lambda>st ns n. None) (\<lambda>st s. s),
       Secrets = mem_client sec_Name (\<lambda>st ns n. None) (\<lambda>st s. s),
       HPAs = mem_client (\<lambda>h. om_Name (hpa_Meta h)) (\<lambda>st ns n. None) (\<lambda>st s. s),
       Functions = mem_client f_Name (\<lambda>st ns n. None) (\<lambda>st s. s)\<rparr>"

definition old_service :: service where
  "old_service = \<lparr>svc_Meta = zero_meta\<lparr>om_Name := ''get'', om_Labels := Some [(''created-by'', ''kubeless'')]\<rparr>,
     svc_Spec = zero_service_spec\<lparr>ss_Selector := Some [(''old'', ''label'')]\<rparr>\<rparr>"


section \<open>Deep copies\<close>

definition next_copier :: "'a copier" where
  "next_copier p n = (p\<lparr>p_ref := n\<rparr>, Suc n)"

definition next_copiers :: copiers where
  "next_copiers = \<lparr>co_ObjectMeta = next_copier, co_Deployment = next_copier, co_ServiceSpec = next_copier, co_HPA = next_copier\<rparr>"

definition hello_struct :: function_struct where
  "hello_struct = \<lparr>fu_TypeMeta = ([], []), fu_ObjectMeta = \<lparr>p_val = f_Meta hello, p_ref = 1\<rparr>,
     fu_Spec = \<lparr>sp_Strings = [''m.h''], sp_Deployment = \<lparr>p_val = zero_deployment, p_ref = 2\<rparr>,
       sp_ServiceSpec = \<lparr>p_val = zero_service_spec, p_ref = 3\<rparr>, sp_HPA = \<lparr>p_val = zero_hpa, p_ref = 4\<rparr>\<rparr>\<rparr>"

definition hello_list :: list_struct where
  "hello_list = \<lparr>ls_TypeMeta = ([], []), ls_ListMeta = [], ls_Items = Some (5, [Some 0, None])\<rparr>"

definition hello_memory :: memory where
  "hello_memory = \<lparr>me_heap = [0 \<mapsto> hello_struct], me_next = 6\<rparr>"

theorem FunctionList_DeepCopy_fresh_witness:
  "\<exists>a' qs me'. FunctionList_DeepCopy next_copiers (Some hello_list) hello_memory =
      (Ok (Some (hello_list\<lparr>ls_Items := Some (a', qs)\<rparr>)), me') \<and> list_all2 (copied hello_memory me') [Some 0, None] qs \<and> 6 \<le> a'"
proof -
  have "copiers_laws next_copiers" "allocated hello_memory"
    by (simp_all add: copiers_laws_def copier_law_def next_copiers_def next_copier_def allocated_def hello_memory_def)
  from FunctionList_DeepCopy_fresh [OF this, of hello_list 5 "[Some 0, None]"]
  have "\<exists>a' qs me'. FunctionList_DeepCopy next_copiers (Some hello_list) hello_memory =
      (Ok (Some (hello_list\<lparr>ls_Items := Some (a', qs)\<rparr>)), me') \<and> list_all2 (copied hello_memory me') [Some 0, None] qs \<and>
      me_next hello_memory \<le> a'"
    by (fastforce simp: hello_list_def hello_memory_def)
  then show ?thesis by (simp add: hello_memory_def)
qed

section \<open>Commands\<close>

lemma command_ends:
  assumes "wfp (\<lambda>s' s. command_step cap maxToken s s')"
  shows "\<exists>s. (command_step cap maxToken)\<^sup>*\<^sup>* s0 s \<and> (\<nexists>s'. command_step cap maxToken s s')"
  using assms
proof (induction s0 rule: wfp_induct_rule)
  case (less s0)
  then show ?case by (cases "\<exists>s'. command_step cap maxToken s0 s'") (meson converse_rtranclp_into_rtranclp, blast)
qed


theorem runCommand_deadlocks_witness:
  "cs_phase ((command_start [(StdErr, CHR ''a''), (StdErr, CHR ''b'')])\<lparr>cs_todo := [(StdErr, CHR ''b'')], cs_err := ''a''\<rparr>) = ScanOut \<and>
   (\<nexists>s'. command_step 1 8 ((command_start [(StdErr, CHR ''a''), (StdErr, CHR ''b'')])\<lparr>cs_todo := [(StdErr, CHR ''b'')], cs_err := ''a''\<rparr>) s')"
proof
  let ?s = "command_start [(StdErr, CHR ''a''), (StdErr, CHR ''b'')]"
  let ?s' = "?s\<lparr>cs_todo := [(StdErr, CHR ''b'')], cs_err := ''a''\<rparr>"
  have "command_step 1 8 ?s ?s'"
    using write_err [of ?s "CHR ''a''" "[(StdErr, CHR ''b'')]" 1 8] by (simp add: command_start_def)
  then show "cs_phase ?s' = ScanOut"
    using runCommand_deadlocks [of 8 "[(StdErr, CHR ''a''), (StdErr, CHR ''b'')]" 1 ?s'] by (simp add: r_into_rtranclp)
  show "\<nexists>s'. command_step 1 8 ?s' s'"
    by (auto simp: command_start_def elim!: command_stepE)
qed

theorem function_flags_declared_witness:
  "\<exists>df. read_deploy_flags (flags_of deployCmd_flags) ((), []) = (Ok df, ((), [])) \<and> df_port df = 8080"
  using function_flags_declared [OF flags_for_flags_of flags_for_flags_of, of "((), [])"]
  by (auto simp: default_flags_def)

section \<open>The controller process\<close>

definition busy_queue :: "unit queue_ops" where
  "busy_queue = \<lparr>q_Get = (\<lambda>qs. ((''a/b/c'', False), ())), q_Add = (\<lambda>k qs. ()), q_Done = (\<lambda>k qs. ()), q_Forget = (\<lambda>k qs. ()),
     q_AddRateLimited = (\<lambda>k qs. ()), q_NumRequeues = (\<lambda>k qs. 0)\<rparr>"


definition silent_rest :: "(unit, unit) rest_interface" where
  "silent_rest = \<lparr>ri_IntoFunction = (\<lambda>rq s. ((zero_function, Some not_found), s)),
     ri_IntoList = (\<lambda>rq s. ((zero_function_list\<lparr>fl_ResourceVersion := ar_Namespace rq\<rparr>, None), s)),
     ri_Error = (\<lambda>rq s. (Some not_found, s)), ri_Watch = (\<lambda>rq s. ((Some (), None), s))\<rparr>"

definition silent_lib :: "(unit, unit, unit, unit) client_lib" where
  "silent_lib = \<lparr>cb_UserAgent = ''kubeless'', cb_RESTClientFor = (\<lambda>config. Inr silent_rest),
     cb_NewTokenBucketRateLimiter = (\<lambda>qps burst. ()), cb_NewDiscoveryClientForConfig = (\<lambda>config. Inr ()),
     cb_NewDiscoveryClient = (\<lambda>ri. ())\<rparr>"

definition silent_config :: "unit client_config" where
  "silent_config = \<lparr>rc_Host = ''host'', rc_BearerToken = [], cc_GroupVersion = None, cc_APIPath = [], cc_NegotiatedSerializer = None,
     cc_UserAgent = [], cc_QPS = 5, cc_Burst = 10, cc_RateLimiter = None\<rparr>"

definition one_cluster :: "(unit, unit, unit) cluster_env" where
  "one_cluster =
     \<lparr>ke_getenv = no_env,
      ke_io = \<lparr>io_ReadFile = (\<lambda>f s. (Inl not_found, s)), io_ParseURL = Inr, io_HttpGet = (\<lambda>u s. (Inl not_found, s))\<rparr>,
      ke_InClusterConfig = Inr \<lparr>rc_Host = ''host'', rc_BearerToken = []\<rparr>,
      ke_versioned_New = (\<lambda>config. Clientset_NewForConfig silent_lib silent_config),
      ke_kubernetes_New = (\<lambda>config. Inr (yes_server\<lparr>ConfigMaps :=
         taken_client \<lparr>cm_Meta = zero_meta, cm_Data = Some [(''functions-namespace'', ''lambda'')]\<rparr>\<rparr>)),
      ke_apiextensions_New = (\<lambda>config. Inr (\<lambda>name s. (Inr zero_meta, s))),
      ke_monitoring_New = (\<lambda>config. Inr yes_client), ke_yaml = keep_runtimes, ke_json = to_json\<rparr>"

lemmas cluster_defs = controller_rootCmd_def NewFunctionController_in_cluster_def GetFunctionClientInCluster_def GetClient_def
  GetAPIExtensionsClientInCluster_def new_client_or_exit_def fatal_prefix_def GetInClusterConfig_def GetKubelessConfig_def
  getConfigLocation_def GetAnnotationsFromCRD_def config_setting_def NewFunctionController_def ReadConfigMap_def New_def
  one_cluster_def silent_lib_def silent_config_def Clientset_NewForConfig_def KubelessV1beta1Client_NewForConfig_def
  setConfigDefaults_def no_env_def yes_server_def taken_client_def yes_client_def zero_meta_def gm_find_def Let_def

lemma one_cluster_starts:
  "\<exists>c lr informer. controller_rootCmd one_cluster () = (Ok (c, lr, informer), ()) \<and>
     cm_Data (fc_config c) = Some [(''functions-namespace'', ''lambda'')]"
  by (simp add: cluster_defs)

theorem controller_watches_namespace_witness:
  "\<exists>c lr informer (ri :: (unit, unit) rest_interface). controller_rootCmd one_cluster () = (Ok (c, lr, informer), ()) \<and>
     (\<forall>options t. si_ListFunc informer options t =
       (case ri_IntoList ri ((request GET)\<lparr>ar_Namespace := ''lambda'', ar_Resource := ''functions'',
          ar_Params := Some (ListParams options)\<rparr>) t of ((l, e), t') \<Rightarrow> (Ok (Some l, e), t')))"
proof -
  obtain c lr informer where c: "controller_rootCmd one_cluster () = (Ok (c, lr, informer), ())"
      "cm_Data (fc_config c) = Some [(''functions-namespace'', ''lambda'')]"
    using one_cluster_starts by blast
  have "\<forall>cfg cs. ke_versioned_New one_cluster cfg = Inr cs \<longrightarrow>
      (\<exists>lib config. Clientset_NewForConfig (lib :: (unit, unit, unit, unit) client_lib) config = Inr cs)"
    by (auto simp: one_cluster_def)
  from controller_watches_namespace [OF c(1) this] c show ?thesis
    by (simp add: gm_get_def gm_find_def) blast
qed

end
