(* ===== verification/Spec2Isabelle.thy ===== *)
theory Spec2Isabelle
  imports TriggerInstances ClientInstances
begin

text \<open>
  A verification of kubeless, a framework that runs functions on Kubernetes.

  \<^bold>\<open>The program.\<close> A user describes a function on the command line
  (\<open>cmd/kubeless/function\<close>); the client turns the options and the file into a Function custom
  resource and stores it in the API server. The function controller (\<open>pkg/controller\<close>) watches
  these resources. For each it makes the server hold a config map with the code, a service and
  a deployment, whose pod fetches, verifies, unpacks, installs and compiles the code in init
  containers (\<open>pkg/utils\<close>, with the images named by \<open>pkg/langruntime\<close>); when an image registry is
  configured, a job builds an image instead (\<open>pkg/registry\<close> asks whether it exists, and
  \<open>pkg/function-image-builder\<close> is what the job runs). A compiled function answers requests behind
  \<open>pkg/function-proxy\<close>. A finalizer keeps a deleted Function until its objects are gone. Further
  commands put autoscaling rules into a function (\<open>cmd/kubeless/autoscale\<close>), run the tools of Kafka in
  its pod (\<open>cmd/kubeless/topic\<close>) and manage the triggers that call a function (\<open>cmd/kubeless/trigger\<close>),
  whose controllers live in other repositories. Client and controller reach their resources
  through generated code (\<open>pkg/client\<close>, the deep copies of \<open>pkg/apis\<close>): a typed client, a fake of it for tests,
  shared informers and listers.

  \<^bold>\<open>How code is translated.\<close> Every definition keeps the name of the function it translates; a
  long function has one definition per stage, which its main definition composes in the order of
  the source. A Go result is \<open>'a res\<close>: \<open>Ok\<close>, \<open>Err\<close> or \<open>Panic\<close>, so that an index out of range, a nil
  pointer or a fatal log entry is a value. Structs are records, nil maps differ from empty ones,
  sized integers are words where the width can be observed. The API server is a record of
  typed clients over a state of any type: a theorem quantifies over all servers, and each call may
  be answered in any way. Where a theorem needs a server that stores objects, \<open>store_laws\<close>
  says so and a server in memory satisfies it; for functions, \<open>rest_implements\<close> says it of the requests
  themselves, with resource versions, finalizers and deletion marks. Third-party code (YAML and JSON codecs, the merge
  library, HTTP, websockets, the informer, the work queue, Prometheus' parser, the quantity
  parser) is a parameter; SHA-256, UTF-8, base64, hexadecimal, paths, splitting and number
  formatting are executable definitions.

  \<^bold>\<open>The theories.\<close>
  \<^item> \<open>Prelude\<close>, \<open>GoLib\<close>, \<open>Sha256\<close>: results, Go maps, operations over a state, the standard
    library. The locale \<open>step_invariant\<close> gives invariants of step relations; the controller and the
    proxy interpret it.
  \<^item> \<open>KubeTypes\<close>: \<open>pkg/apis/kubeless/v1beta1/function.go\<close>, the Kubernetes objects and the typed clients.
    \<open>ApiLaws\<close>: the laws of a store and the log of calls.
  \<^item> \<open>Langruntime\<close>: \<open>pkg/langruntime/langruntime.go\<close>. Its locale \<open>runtime_registry\<close> states what the other
    components use of it. In a well-formed configuration every valid runtime resolves.
  \<^item> \<open>Provision\<close>, \<open>PodSpec\<close>, \<open>Ensure\<close>: \<open>pkg/utils/kubelessutil.go\<close> up to \<open>GetOwnerReference\<close>. The
    prepare command is the rendering of a list of steps that unpacks nothing before it was
    verified; the containers of a pod, their order and their volumes; the locale \<open>ensure_object\<close>
    is the contract of the three functions that create an object or update one that carries the
    label of kubeless, interpreted for config maps, services and deployments. \<open>Converge\<close> extends it:
    what repeated reconciliation makes of a service, and what it leaves out of date.
  \<^item> \<open>K8sUtil\<close>: \<open>pkg/utils/k8sutil.go\<close>: resources, finalizers, autoscaling rules, merging deployments.
  \<^item> \<open>Registry\<close>: \<open>pkg/registry/registry.go\<close>, with its regular expressions as leftmost greedy matches.
  \<^item> \<open>Controller\<close>, \<open>ControllerLaws\<close>, \<open>Worker\<close>: \<open>pkg/controller/function_controller.go\<close>. The step relation
    \<open>ctl_step\<close> interleaves events, the worker and arbitrary changes by others. Only objects with the
    label of kubeless are overwritten, finalizers go last, retries are bounded, a successful
    reconciliation wrote all objects, a deletion leaves none, and the queue is drained.
  \<^item> \<open>Content\<close>: the rest of \<open>pkg/utils/kubelessutil.go\<close>: content types, encodings and checksums, followed
    from the file of the user to the prepare command of the pod.
  \<^item> \<open>FunctionDesc\<close>, \<open>FunctionCmd\<close>, \<open>FunctionList\<close>: \<open>cmd/kubeless/function\<close> and \<open>pkg/utils/metrics.go\<close>: the
    description of a function, every subcommand, tables and metrics. What deploy sends is
    well formed, a dry run changes nothing, update keeps what it is not told to change, top ends
    and prints sorted rows.
  \<^item> \<open>LayerBuilder\<close>: \<open>pkg/function-image-builder\<close>. The directory stays a content-addressed image, and a
    failure leaves the old one.
  \<^item> \<open>Proxy\<close>: \<open>pkg/function-proxy\<close> as a step relation over concurrent requests, whose metrics are the
    numbers of requests.
  \<^item> \<open>Exec\<close>: \<open>pkg/utils/exec.go\<close>, the streams of a remote command and the connection they use.
  \<^item> \<open>Clients\<close>: the constructors of API clients of \<open>pkg/utils/k8sutil.go\<close>, and \<open>cmd/kubeless/getserverconfig\<close>.
    \<open>Flags\<close>: how a command reads its flags; \<open>flags_for\<close> is what the flag library documents.
  \<^item> \<open>Autoscale\<close>: \<open>cmd/kubeless/autoscale\<close>. A rule is followed from the flags to what the controller
    writes, and its removal to the deletion.
  \<^item> \<open>Topic\<close>: \<open>cmd/kubeless/topic\<close> on top of \<open>Exec\<close>. A published message arrives unchanged.
  \<^item> \<open>TriggerCmd\<close>, \<open>HttpTrigger\<close>, \<open>CronJobTrigger\<close>, \<open>TopicTrigger\<close>, \<open>KinesisTrigger\<close>: \<open>cmd/kubeless/trigger\<close>. The
    locale \<open>trigger_command\<close> is the contract of a command that builds a trigger and then prints or
    submits it, and \<open>trigger_writer\<close> extends it by what is known of the trigger; every command that
    creates a trigger and every update that can succeed is an instance, from which the properties
    follow: what was checked before a trigger is written, and that a dry run writes nothing.
  \<^item> \<open>EndToEnd\<close>: the deploy command and the controller together: when the service of a deployed function
    finds its pods.
  \<^item> \<open>FunctionClient\<close>: \<open>pkg/client/clientset/versioned\<close>: the typed client as the requests it sends, and its
    constructors. \<open>FunctionStore\<close>: the store the API server promises; the locale \<open>step_refinement\<close> lifts a
    refinement of single operations to sequences, and its interpretation for the typed client
    shows that the client refines the store. A finalizer keeps a function until it is removed.
  \<^item> \<open>FakeClient\<close>: the fake client, which refines a tracker without versions and finalizers (the second
    interpretation of \<open>step_refinement\<close>) and agrees with the real client where these do not matter.
  \<^item> \<open>Informers\<close>: \<open>pkg/client/informers\<close> and \<open>pkg/client/listers\<close>. The factory is the step relation \<open>factory_step\<close>
    of its locked methods; each informer is run once. Listers answer from the cache.
  \<^item> \<open>DeepCopy\<close>: \<open>zz_generated.deepcopy.go\<close> over a memory of addresses; a copy shares nothing.
  \<^item> \<open>RunCommand\<close>: \<open>runCommand\<close> of the image builder as the step relation \<open>command_step\<close> of a process, two
    bounded pipes and the code that reads them one after the other. It returns when the error
    stream fits its pipe and blocks forever when it does not.
  \<^item> \<open>FunctionFlags\<close>: the flags that the function commands declare and read.
  \<^item> \<open>Startup\<close>: \<open>cmd/function-controller\<close>, \<open>Run\<close> of the controller, and the routes of the proxy: which namespace
    is watched through which client, and what ends the controller.
  \<^item> \<open>Instances\<close>, \<open>CliInstances\<close>, \<open>TriggerInstances\<close>, \<open>ClientInstances\<close>: every property with a hypothesis, applied to sample data.

  \<^bold>\<open>Loops and bounds.\<close> Loops over data are structural recursions. \<open>runWorker\<close> runs until the queue
  shuts down and is a \<open>partial_function\<close>; \<open>Worker.work\<close> runs its body a given number of times, and six
  times the number of waiting keys is shown to be enough, since \<open>maxRetries\<close> is five. \<open>Startup.Run\<close> has no value when the worker does not return, which is shown to
  be the case without a panic. Every run of \<open>command_step\<close> ends, by a measure. The select loop
  of \<open>doTop\<close> and the goroutines of \<open>Exec\<close> and \<open>Proxy\<close> take the order of their events as an argument or as the
  choice of a step, so that the statements hold for every order.

  \<^bold>\<open>Not modelled.\<close> The cobra command trees, shell completion, the version command and the registration
  of types in a scheme, which only wire libraries together; the sample configuration of
  \<open>langruntimetestutils.go\<close>; the type declarations of \<open>pkg/functions/params.go\<close>, which only functions of users
  take as arguments. Log messages are not part of the
  state, except where a command has no other output. The types of triggers, their clients, the
  AWS and NATS clients and the parsers of label selectors, URLs and schedules come from other
  repositories and are parameters.
\<close>

end
